(* ===== verification/Engine_Prelude.thy ===== *)
theory Engine_Prelude
  imports Main
begin

text \<open>
  Shared vocabulary of the development: results as sums (the left side is the error or the
  panic), sequential execution of a list of fallible steps, in-place modification of the first
  matching element of a vector, and the three list combinators every differ of the repository
  is written with (created, deleted and paired elements of two lists). The collection
  \<open>res_simps\<close> carries the equations of the result type, \<open>diff_simps\<close> those of the differs.
\<close>

named_theorems res_simps \<open>equations of the result combinators\<close>
named_theorems diff_simps \<open>equations of the push functions of the differs\<close>

section \<open>Results\<close>

type_synonym ('e, 'a) res = "'e + 'a"

definition bind_res :: "('e, 'a) res \<Rightarrow> ('a \<Rightarrow> ('e, 'b) res) \<Rightarrow> ('e, 'b) res" where
  "bind_res m f = (case m of Inl e \<Rightarrow> Inl e | Inr a \<Rightarrow> f a)"

definition map_res :: "('a \<Rightarrow> 'b) \<Rightarrow> ('e, 'a) res \<Rightarrow> ('e, 'b) res" where
  "map_res f m = bind_res m (\<lambda>a. Inr (f a))"

definition ok_or :: "'e \<Rightarrow> 'a option \<Rightarrow> ('e, 'a) res" where
  "ok_or e x = (case x of None \<Rightarrow> Inl e | Some a \<Rightarrow> Inr a)"

fun run_steps :: "('x \<Rightarrow> 's \<Rightarrow> ('e, 's) res) \<Rightarrow> 'x list \<Rightarrow> 's \<Rightarrow> ('e, 's) res" where
  "run_steps f [] s = Inr s"
| "run_steps f (x # xs) s = bind_res (f x s) (run_steps f xs)"

fun collect_res :: "('x \<Rightarrow> ('e, 'a) res) \<Rightarrow> 'x list \<Rightarrow> ('e, 'a list) res" where
  "collect_res f [] = Inr []"
| "collect_res f (x # xs) = bind_res (f x) (\<lambda>a. map_res ((#) a) (collect_res f xs))"

lemma bind_res_Inl [simp, res_simps]: "bind_res (Inl e) f = Inl e"
  by (simp add: bind_res_def)

lemma bind_res_Inr [simp, res_simps]: "bind_res (Inr a) f = f a"
  by (simp add: bind_res_def)

lemma map_res_Inl [simp, res_simps]: "map_res f (Inl e) = Inl e"
  by (simp add: map_res_def)

lemma map_res_Inr [simp, res_simps]: "map_res f (Inr a) = Inr (f a)"
  by (simp add: map_res_def)

lemma ok_or_None [simp, res_simps]: "ok_or e None = Inl e"
  by (simp add: ok_or_def)

lemma ok_or_Some [simp, res_simps]: "ok_or e (Some a) = Inr a"
  by (simp add: ok_or_def)

lemma bind_res_eq_Inr: "bind_res m f = Inr b \<longleftrightarrow> (\<exists>a. m = Inr a \<and> f a = Inr b)"
  by (cases m) auto

lemma map_res_eq_Inr: "map_res f m = Inr b \<longleftrightarrow> (\<exists>a. m = Inr a \<and> b = f a)"
  by (cases m) auto

lemma bind_res_assoc: "bind_res (bind_res m f) g = bind_res m (\<lambda>a. bind_res (f a) g)"
  by (cases m) auto

lemma map_res_comp: "map_res g (map_res f m) = map_res (\<lambda>a. g (f a)) m"
  by (cases m) auto

lemma bind_res_map_res: "bind_res (map_res f m) g = bind_res m (\<lambda>a. g (f a))"
  by (cases m) auto

lemma run_steps_append:
  "run_steps f (xs @ ys) s = bind_res (run_steps f xs s) (run_steps f ys)"
  by (induction xs arbitrary: s) (auto simp: bind_res_def split: sum.splits)

lemma run_steps_concat:
  "run_steps f (concat xss) s = run_steps (run_steps f) xss s"
  by (induction xss arbitrary: s) (auto simp: run_steps_append bind_res_def split: sum.splits)

lemma run_steps_concat_map:
  "run_steps f (concat (map g xs)) s = run_steps (\<lambda>x. run_steps f (g x)) xs s"
  by (induction xs arbitrary: s) (auto simp: run_steps_append bind_res_def split: sum.splits)

lemma run_steps_map: "run_steps f (map g xs) s = run_steps (\<lambda>x. f (g x)) xs s"
  by (induction xs arbitrary: s) (auto simp: bind_res_def split: sum.splits)

lemma run_steps_folds:
  "run_steps f (xs @ ys) = (\<lambda>s. bind_res (run_steps f xs s) (run_steps f ys))"
  "run_steps f (concat (map h zs)) = run_steps (\<lambda>x. run_steps f (h x)) zs"
  "run_steps f (map g us) = run_steps (\<lambda>x. f (g x)) us"
  by (simp_all add: fun_eq_iff run_steps_append run_steps_concat_map run_steps_map)

lemma run_steps_single [simp]: "run_steps f [x] s = f x s"
  by (cases "f x s") auto

lemma run_steps_cong:
  assumes "\<And>x s. x \<in> set xs \<Longrightarrow> f x s = g x s"
  shows "run_steps f xs s = run_steps g xs s"
  using assms by (induction xs arbitrary: s) (auto simp: bind_res_def split: sum.splits)

text \<open>
  Pushing onto a mutable vector: when every iteration of a loop appends a list that does not
  depend on the vector, the loop appends the concatenation.
\<close>

lemma run_steps_push:
  assumes "\<And>x st. x \<in> set xs \<Longrightarrow> push x st = Inr (st @ out x)"
  shows "run_steps push xs st = Inr (st @ concat (map out xs))"
  using assms by (induction xs arbitrary: st) auto

lemma collect_res_Inr:
  assumes "\<And>x. x \<in> set xs \<Longrightarrow> f x = Inr (g x)"
  shows "collect_res f xs = Inr (map g xs)"
  using assms by (induction xs) auto

text \<open>
  Running steps under a focus: when every step acts on a state \<open>C x\<close> as a smaller step acts on
  the part \<open>x\<close>, and the smaller steps keep \<open>I\<close>, a whole run acts on the part alone.
\<close>

lemma run_steps_focus:
  assumes "\<And>st y. st \<in> set sts \<Longrightarrow> I y \<Longrightarrow> big st (C y) = map_res C (small st y)"
    and "\<And>st y y'. st \<in> set sts \<Longrightarrow> I y \<Longrightarrow> small st y = Inr y' \<Longrightarrow> I y'"
    and "I x"
  shows "run_steps big sts (C x) = map_res C (run_steps small sts x)"
  using assms
proof (induction sts arbitrary: x)
  case Nil
  then show ?case by simp
next
  case (Cons st sts)
  have step: "big st (C x) = map_res C (small st x)"
    using Cons.prems by simp
  show ?case
  proof (cases "small st x")
    case (Inl e)
    with step show ?thesis by simp
  next
    case (Inr y)
    with Cons.prems(2) [of st x y] Cons.prems(3) have "I y" by simp
    then have "run_steps big sts (C y) = map_res C (run_steps small sts y)"
      using Cons.IH [of y] Cons.prems(1,2) by (meson list.set_intros(2))
    with Inr step show ?thesis by simp
  qed
qed

lemma run_steps_invariant:
  assumes "\<And>st y y'. st \<in> set sts \<Longrightarrow> I y \<Longrightarrow> f st y = Inr y' \<Longrightarrow> I y'"
    and "I x" and "run_steps f sts x = Inr x'"
  shows "I x'"
  using assms by (induction sts arbitrary: x) (auto simp: bind_res_eq_Inr)

lemma run_steps_total:
  assumes "\<And>x s. x \<in> set xs \<Longrightarrow> \<exists>s'. f x s = Inr s'"
  shows "\<exists>s'. run_steps f xs s = Inr s'"
  using assms
proof (induction xs arbitrary: s)
  case (Cons x xs)
  then obtain s' where "f x s = Inr s'" by (meson list.set_intros)
  with Cons show ?case by simp
qed simp

lemma collect_res_total:
  assumes "\<And>x. x \<in> set xs \<Longrightarrow> \<exists>y. f x = Inr y"
  shows "\<exists>ys. collect_res f xs = Inr ys"
  using assms by (induction xs) force+

section \<open>Modifying the first matching element of a vector\<close>

text \<open>
  \<open>iter_mut().find(P)\<close> followed by a mutation through the reference: the error \<open>e\<close> is what the
  caller makes of \<open>None\<close>.
\<close>

fun modify_first :: "'e \<Rightarrow> ('a \<Rightarrow> bool) \<Rightarrow> ('a \<Rightarrow> ('e, 'a) res) \<Rightarrow> 'a list \<Rightarrow> ('e, 'a list) res" where
  "modify_first e P f [] = Inl e"
| "modify_first e P f (x # xs) =
     (if P x then map_res (\<lambda>x'. x' # xs) (f x)
      else map_res ((#) x) (modify_first e P f xs))"

lemma modify_first_skip:
  "(\<And>a. a \<in> set pre \<Longrightarrow> \<not> P a) \<Longrightarrow>
   modify_first e P f (pre @ xs) = map_res ((@) pre) (modify_first e P f xs)"
proof (induction pre)
  case Nil
  then show ?case by (cases "modify_first e P f xs") auto
next
  case (Cons a pre)
  then show ?case by (cases "modify_first e P f xs") auto
qed

lemma modify_first_split:
  assumes "\<And>a. a \<in> set pre \<Longrightarrow> \<not> P a" and "P x"
  shows "modify_first e P f (pre @ x # post) = map_res (\<lambda>x'. pre @ x' # post) (f x)"
  using assms by (simp add: modify_first_skip map_res_comp)

lemma modify_first_absent:
  "(\<And>a. a \<in> set xs \<Longrightarrow> \<not> P a) \<Longrightarrow> modify_first e P f xs = Inl e"
  by (induction xs) auto

lemma modify_first_Inr:
  assumes "modify_first e P f xs = Inr xs'"
  obtains pre x x' post where "xs = pre @ x # post" and "xs' = pre @ x' # post"
    and "P x" and "f x = Inr x'" and "\<And>a. a \<in> set pre \<Longrightarrow> \<not> P a"
proof -
  have "\<exists>pre x x' post. xs = pre @ x # post \<and> xs' = pre @ x' # post \<and> P x \<and> f x = Inr x'
      \<and> (\<forall>a \<in> set pre. \<not> P a)"
    using assms
  proof (induction xs arbitrary: xs')
    case Nil
    then show ?case by simp
  next
    case (Cons y ys)
    show ?case
    proof (cases "P y")
      case True
      with Cons.prems obtain y' where "f y = Inr y'" "xs' = y' # ys"
        by (auto simp: map_res_eq_Inr)
      with True show ?thesis by (intro exI [of _ "[]"]) auto
    next
      case False
      with Cons.prems obtain zs where zs: "modify_first e P f ys = Inr zs" "xs' = y # zs"
        by (auto simp: map_res_eq_Inr)
      with Cons.IH obtain pre x x' post where "ys = pre @ x # post" "zs = pre @ x' # post"
        "P x" "f x = Inr x'" "\<forall>a \<in> set pre. \<not> P a"
        by blast
      with False zs show ?thesis by (intro exI [of _ "y # pre"]) auto
    qed
  qed
  with that show thesis by blast
qed

section \<open>Created, deleted and paired elements\<close>

text \<open>
  The iterators of the differs: \<open>created\<close> filters \<open>next\<close> by \<open>previous.find(..).is_none()\<close>,
  \<open>deleted\<close> filters \<open>previous\<close> likewise, \<open>pairs\<close> is \<open>filter_map\<close> over \<open>previous\<close> with the first
  match in \<open>next\<close>.
\<close>

definition diff_created :: "('p \<Rightarrow> 'n \<Rightarrow> bool) \<Rightarrow> 'p list \<Rightarrow> 'n list \<Rightarrow> 'n list" where
  "diff_created mtch prev nxt = filter (\<lambda>n. find (\<lambda>p. mtch p n) prev = None) nxt"

definition diff_deleted :: "('p \<Rightarrow> 'n \<Rightarrow> bool) \<Rightarrow> 'p list \<Rightarrow> 'n list \<Rightarrow> 'p list" where
  "diff_deleted mtch prev nxt = filter (\<lambda>p. find (\<lambda>n. mtch p n) nxt = None) prev"

definition diff_pairs :: "('p \<Rightarrow> 'n \<Rightarrow> bool) \<Rightarrow> 'p list \<Rightarrow> 'n list \<Rightarrow> ('p \<times> 'n) list" where
  "diff_pairs mtch prev nxt =
     List.map_filter (\<lambda>p. map_option (\<lambda>n. (p, n)) (find (\<lambda>n. mtch p n) nxt)) prev"

definition diff_value :: "'a \<Rightarrow> 'a \<Rightarrow> 'a option" where
  "diff_value current updated = (if current = updated then None else Some updated)"

lemma diff_value_None [simp]: "diff_value a b = None \<longleftrightarrow> a = b"
  by (simp add: diff_value_def)

lemma diff_value_same [simp]: "diff_value a a = None"
  by (simp add: diff_value_def)

lemma find_None_iff_ball: "find P xs = None \<longleftrightarrow> (\<forall>x \<in> set xs. \<not> P x)"
  by (auto simp: find_None_iff)

lemma in_map_filter: "y \<in> set (List.map_filter f xs) \<longleftrightarrow> (\<exists>x \<in> set xs. f x = Some y)"
  by (force simp: List.map_filter_def)

lemma set_diff_created:
  "set (diff_created mtch prev nxt) = {n \<in> set nxt. \<forall>p \<in> set prev. \<not> mtch p n}"
  by (auto simp: diff_created_def find_None_iff)

lemma set_diff_deleted:
  "set (diff_deleted mtch prev nxt) = {p \<in> set prev. \<forall>n \<in> set nxt. \<not> mtch p n}"
  by (auto simp: diff_deleted_def find_None_iff)

lemma diff_pairs_Cons [simp]:
  "diff_pairs mtch (p # ps) nxt =
     (case find (mtch p) nxt of None \<Rightarrow> [] | Some n \<Rightarrow> [(p, n)]) @ diff_pairs mtch ps nxt"
  by (simp add: diff_pairs_def List.map_filter_def split: option.split)

lemma diff_pairs_Nil [simp]: "diff_pairs mtch [] nxt = []"
  by (simp add: diff_pairs_def List.map_filter_def)

lemma find_SomeD: "find P xs = Some x \<Longrightarrow> x \<in> set xs \<and> P x"
  by (auto simp: find_Some_iff)

lemma diff_pairsD:
  "(p, n) \<in> set (diff_pairs mtch prev nxt) \<Longrightarrow> p \<in> set prev \<and> n \<in> set nxt \<and> mtch p n"
  by (induction prev) (auto dest: find_SomeD [OF sym] split: option.splits)

end
