(* ===== verification/Schema_Ast.thy ===== *)
theory Schema_Ast
  imports Engine_Prelude
begin

text \<open>
  The abstract syntax of a Prisma schema (\<open>libs/datamodel/core/src/ast\<close>): one record per struct
  and one datatype per enum of the crate, the lookups of \<open>SchemaAst\<close>, their \<open>_mut\<close> variants as
  in-place modifications of the first matching entry, and the rendering of expressions
  (\<open>renderer/mod.rs\<close>), where \<open>None\<close> is the panic of \<open>unimplemented!\<close> on a value of type \<open>Any\<close>.
\<close>

section \<open>Nodes\<close>

record span =
  span_start :: nat
  span_end :: nat

definition span_empty :: span where
  "span_empty = \<lparr>span_start = 0, span_end = 0\<rparr>"

definition lift_span :: "span \<Rightarrow> nat \<Rightarrow> span" where
  "lift_span s offset = \<lparr>span_start = offset + span_start s, span_end = offset + span_end s\<rparr>"

record ident =
  id_name :: string
  id_span :: span

definition new_ident :: "string \<Rightarrow> ident" where
  "new_ident name = \<lparr>id_name = name, id_span = span_empty\<rparr>"

record comment_node =
  comment_text :: string

datatype expression =
    NumericValue string span
  | BooleanValue string span
  | StringValue string span
  | AnyValue string span
  | ConstantValue string span
  | FunctionValue string "expression list" span
  | ArrayValue "expression list" span

record argument =
  arg_ident :: ident
  arg_value :: expression
  arg_span :: span

record directive =
  dir_ident :: ident
  dir_arguments :: "argument list"
  dir_span :: span

datatype field_arity = ArityRequired | ArityOptional | ArityList

record ast_field =
  fld_type :: ident
  fld_ident :: ident
  fld_arity :: field_arity
  fld_default_value :: "expression option"
  fld_directives :: "directive list"
  fld_documentation :: "comment_node option"
  fld_span :: span
  fld_is_commented_out :: bool

record ast_model =
  mdl_ident :: ident
  mdl_fields :: "ast_field list"
  mdl_directives :: "directive list"
  mdl_documentation :: "comment_node option"
  mdl_span :: span
  mdl_commented_out :: bool

record enum_value =
  val_ident :: ident
  val_directives :: "directive list"
  val_documentation :: "comment_node option"
  val_span :: span
  val_commented_out :: bool

record ast_enum =
  enm_ident :: ident
  enm_values :: "enum_value list"
  enm_directives :: "directive list"
  enm_documentation :: "comment_node option"
  enm_span :: span

record source_config =
  src_ident :: ident
  src_properties :: "argument list"
  src_documentation :: "comment_node option"
  src_span :: span

record generator_config =
  gen_ident :: ident
  gen_properties :: "argument list"
  gen_documentation :: "comment_node option"
  gen_span :: span

datatype top_level =
    TopEnum ast_enum
  | TopModel ast_model
  | TopSource source_config
  | TopGenerator generator_config
  | TopType ast_field

record schema_ast =
  tops :: "top_level list"

definition schema_empty :: schema_ast where
  "schema_empty = \<lparr>tops = []\<rparr>"

abbreviation arg_name :: "argument \<Rightarrow> string" where "arg_name a \<equiv> id_name (arg_ident a)"
abbreviation dir_name :: "directive \<Rightarrow> string" where "dir_name d \<equiv> id_name (dir_ident d)"
abbreviation fld_name :: "ast_field \<Rightarrow> string" where "fld_name f \<equiv> id_name (fld_ident f)"
abbreviation mdl_name :: "ast_model \<Rightarrow> string" where "mdl_name m \<equiv> id_name (mdl_ident m)"
abbreviation val_name :: "enum_value \<Rightarrow> string" where "val_name v \<equiv> id_name (val_ident v)"
abbreviation enm_name :: "ast_enum \<Rightarrow> string" where "enm_name e \<equiv> id_name (enm_ident e)"
abbreviation src_name :: "source_config \<Rightarrow> string" where "src_name s \<equiv> id_name (src_ident s)"
abbreviation gen_name :: "generator_config \<Rightarrow> string" where "gen_name g \<equiv> id_name (gen_ident g)"

section \<open>Top-level entries\<close>

fun top_identifier :: "top_level \<Rightarrow> ident" where
  "top_identifier (TopEnum x) = enm_ident x"
| "top_identifier (TopModel x) = mdl_ident x"
| "top_identifier (TopSource x) = src_ident x"
| "top_identifier (TopGenerator x) = gen_ident x"
| "top_identifier (TopType x) = fld_ident x"

fun top_get_type :: "top_level \<Rightarrow> string" where
  "top_get_type (TopEnum _) = ''enum''"
| "top_get_type (TopModel _) = ''model''"
| "top_get_type (TopSource _) = ''source''"
| "top_get_type (TopGenerator _) = ''generator''"
| "top_get_type (TopType _) = ''type''"

fun top_name :: "top_level \<Rightarrow> string" where
  "top_name (TopEnum x) = enm_name x"
| "top_name (TopModel x) = mdl_name x"
| "top_name (TopSource x) = src_name x"
| "top_name (TopGenerator x) = gen_name x"
| "top_name (TopType x) = fld_name x"

fun as_model :: "top_level \<Rightarrow> ast_model option" where
  "as_model (TopModel m) = Some m"
| "as_model _ = None"

fun as_enum :: "top_level \<Rightarrow> ast_enum option" where
  "as_enum (TopEnum e) = Some e"
| "as_enum _ = None"

fun as_type_alias :: "top_level \<Rightarrow> ast_field option" where
  "as_type_alias (TopType f) = Some f"
| "as_type_alias _ = None"

fun as_source :: "top_level \<Rightarrow> source_config option" where
  "as_source (TopSource s) = Some s"
| "as_source _ = None"

fun as_generator :: "top_level \<Rightarrow> generator_config option" where
  "as_generator (TopGenerator g) = Some g"
| "as_generator _ = None"

section \<open>Lookups of the schema\<close>

definition schema_types :: "schema_ast \<Rightarrow> ast_field list" where
  "schema_types s = List.map_filter as_type_alias (tops s)"

definition schema_enums :: "schema_ast \<Rightarrow> ast_enum list" where
  "schema_enums s = List.map_filter as_enum (tops s)"

definition schema_models :: "schema_ast \<Rightarrow> ast_model list" where
  "schema_models s = List.map_filter as_model (tops s)"

definition schema_sources :: "schema_ast \<Rightarrow> source_config list" where
  "schema_sources s = List.map_filter as_source (tops s)"

definition schema_generators :: "schema_ast \<Rightarrow> generator_config list" where
  "schema_generators s = List.map_filter as_generator (tops s)"

definition find_source :: "schema_ast \<Rightarrow> string \<Rightarrow> source_config option" where
  "find_source s source = find (\<lambda>x. src_name x = source) (schema_sources s)"

definition find_model :: "schema_ast \<Rightarrow> string \<Rightarrow> ast_model option" where
  "find_model s model = find (\<lambda>m. mdl_name m = model) (schema_models s)"

definition find_type_alias :: "schema_ast \<Rightarrow> string \<Rightarrow> ast_field option" where
  "find_type_alias s type_name = find (\<lambda>t. fld_name t = type_name) (schema_types s)"

definition find_enum :: "schema_ast \<Rightarrow> string \<Rightarrow> ast_enum option" where
  "find_enum s enum_name = find (\<lambda>e. enm_name e = enum_name) (schema_enums s)"

definition find_field :: "schema_ast \<Rightarrow> string \<Rightarrow> string \<Rightarrow> ast_field option" where
  "find_field s model field =
     (case find_model s model of
        None \<Rightarrow> None
      | Some m \<Rightarrow> find (\<lambda>f. fld_name f = field) (mdl_fields m))"

text \<open>
  The mutable lookups \<open>find_source_mut\<close>, \<open>find_model_mut\<close>, \<open>find_type_alias_mut\<close>,
  \<open>find_enum_mut\<close> and \<open>find_field_mut\<close> return a reference into the schema. Each is modelled with
  the mutation \<open>f\<close> its caller performs through the reference, and the error \<open>e\<close> its caller
  raises when the lookup is \<open>None\<close>.
\<close>

fun top_is_source :: "string \<Rightarrow> top_level \<Rightarrow> bool" where
  "top_is_source source (TopSource x) = (src_name x = source)"
| "top_is_source source _ = False"

fun top_is_model :: "string \<Rightarrow> top_level \<Rightarrow> bool" where
  "top_is_model name (TopModel x) = (mdl_name x = name)"
| "top_is_model name _ = False"

fun top_is_type :: "string \<Rightarrow> top_level \<Rightarrow> bool" where
  "top_is_type name (TopType x) = (fld_name x = name)"
| "top_is_type name _ = False"

fun top_is_enum :: "string \<Rightarrow> top_level \<Rightarrow> bool" where
  "top_is_enum name (TopEnum x) = (enm_name x = name)"
| "top_is_enum name _ = False"

fun on_source :: "(source_config \<Rightarrow> ('e, source_config) res) \<Rightarrow> top_level \<Rightarrow> ('e, top_level) res" where
  "on_source f (TopSource x) = map_res TopSource (f x)"
| "on_source f t = Inr t"

fun on_model :: "(ast_model \<Rightarrow> ('e, ast_model) res) \<Rightarrow> top_level \<Rightarrow> ('e, top_level) res" where
  "on_model f (TopModel x) = map_res TopModel (f x)"
| "on_model f t = Inr t"

fun on_type :: "(ast_field \<Rightarrow> ('e, ast_field) res) \<Rightarrow> top_level \<Rightarrow> ('e, top_level) res" where
  "on_type f (TopType x) = map_res TopType (f x)"
| "on_type f t = Inr t"

fun on_enum :: "(ast_enum \<Rightarrow> ('e, ast_enum) res) \<Rightarrow> top_level \<Rightarrow> ('e, top_level) res" where
  "on_enum f (TopEnum x) = map_res TopEnum (f x)"
| "on_enum f t = Inr t"

definition find_source_mut ::
  "'e \<Rightarrow> string \<Rightarrow> (source_config \<Rightarrow> ('e, source_config) res) \<Rightarrow> schema_ast \<Rightarrow> ('e, schema_ast) res" where
  "find_source_mut e source f s =
     map_res (\<lambda>ts. s\<lparr>tops := ts\<rparr>) (modify_first e (top_is_source source) (on_source f) (tops s))"

definition find_model_mut ::
  "'e \<Rightarrow> string \<Rightarrow> (ast_model \<Rightarrow> ('e, ast_model) res) \<Rightarrow> schema_ast \<Rightarrow> ('e, schema_ast) res" where
  "find_model_mut e model_name f s =
     map_res (\<lambda>ts. s\<lparr>tops := ts\<rparr>) (modify_first e (top_is_model model_name) (on_model f) (tops s))"

definition find_type_alias_mut ::
  "'e \<Rightarrow> string \<Rightarrow> (ast_field \<Rightarrow> ('e, ast_field) res) \<Rightarrow> schema_ast \<Rightarrow> ('e, schema_ast) res" where
  "find_type_alias_mut e type_name f s =
     map_res (\<lambda>ts. s\<lparr>tops := ts\<rparr>) (modify_first e (top_is_type type_name) (on_type f) (tops s))"

definition find_enum_mut ::
  "'e \<Rightarrow> string \<Rightarrow> (ast_enum \<Rightarrow> ('e, ast_enum) res) \<Rightarrow> schema_ast \<Rightarrow> ('e, schema_ast) res" where
  "find_enum_mut e enum_name f s =
     map_res (\<lambda>ts. s\<lparr>tops := ts\<rparr>) (modify_first e (top_is_enum enum_name) (on_enum f) (tops s))"

definition find_field_mut ::
  "'e \<Rightarrow> string \<Rightarrow> string \<Rightarrow> (ast_field \<Rightarrow> ('e, ast_field) res) \<Rightarrow> schema_ast \<Rightarrow> ('e, schema_ast) res" where
  "find_field_mut e model field f s =
     find_model_mut e model
       (\<lambda>m. map_res (\<lambda>fs. m\<lparr>mdl_fields := fs\<rparr>)
              (modify_first e (\<lambda>model_field. fld_name model_field = field) f (mdl_fields m))) s"

section \<open>Rendering of expressions\<close>

definition replace_char :: "char \<Rightarrow> string \<Rightarrow> string \<Rightarrow> string" where
  "replace_char c by_str s = concat (map (\<lambda>x. if x = c then by_str else [x]) s)"

abbreviation backslash :: char where "backslash \<equiv> CHR 0x5C"
abbreviation dquote :: char where "dquote \<equiv> CHR 0x22"
abbreviation newline :: char where "newline \<equiv> CHR 0x0A"

definition render_str :: "string \<Rightarrow> string" where
  "render_str param =
     [dquote]
     @ replace_char newline [backslash, CHR ''n'']
         (replace_char dquote [backslash, dquote]
           (replace_char backslash [backslash, backslash] param))
     @ [dquote]"

text \<open>The loop over \<open>enumerate\<close> writes the separator before every element but the first.\<close>

fun join_with :: "string \<Rightarrow> string list \<Rightarrow> string" where
  "join_with sep [] = []"
| "join_with sep [x] = x"
| "join_with sep (x # y # ys) = x @ sep @ join_with sep (y # ys)"

fun collect_opt :: "'a option list \<Rightarrow> 'a list option" where
  "collect_opt [] = Some []"
| "collect_opt (None # xs) = None"
| "collect_opt (Some x # xs) = map_option ((#) x) (collect_opt xs)"

fun render_value :: "expression \<Rightarrow> string option" where
  "render_value (ArrayValue vals _) =
     map_option (\<lambda>vs. ''['' @ join_with '', '' vs @ '']'') (collect_opt (map render_value vals))"
| "render_value (BooleanValue v _) = Some v"
| "render_value (ConstantValue v _) = Some v"
| "render_value (NumericValue v _) = Some v"
| "render_value (StringValue v _) = Some (render_str v)"
| "render_value (FunctionValue name args _) =
     map_option (\<lambda>vs. name @ ''('' @ join_with '', '' vs @ '')'') (collect_opt (map render_value args))"
| "render_value (AnyValue _ _) = None"

fun with_lifted_span :: "nat \<Rightarrow> expression \<Rightarrow> expression" where
  "with_lifted_span offset (NumericValue v s) = NumericValue v (lift_span s offset)"
| "with_lifted_span offset (BooleanValue v s) = BooleanValue v (lift_span s offset)"
| "with_lifted_span offset (StringValue v s) = StringValue v (lift_span s offset)"
| "with_lifted_span offset (ConstantValue v s) = ConstantValue v (lift_span s offset)"
| "with_lifted_span offset (FunctionValue v a s) =
     FunctionValue v (map (with_lifted_span offset) a) (lift_span s offset)"
| "with_lifted_span offset (ArrayValue v s) =
     ArrayValue (map (with_lifted_span offset) v) (lift_span s offset)"
| "with_lifted_span offset (AnyValue v s) = AnyValue v (lift_span s offset)"

section \<open>Facts about the lookups\<close>

lemma find_map_filter:
  "find P (List.map_filter f xs) =
     (case find (\<lambda>x. \<exists>y. f x = Some y \<and> P y) xs of None \<Rightarrow> None | Some x \<Rightarrow> f x)"
  by (induction xs) (auto simp: List.map_filter_def split: option.splits)

lemma with_lifted_span_render [simp]: "render_value (with_lifted_span k e) = render_value e"
  by (induction e) (auto simp: comp_def cong: map_cong)

fun mentions_any :: "expression \<Rightarrow> bool" where
  "mentions_any (AnyValue _ _) = True"
| "mentions_any (FunctionValue _ args _) = list_ex mentions_any args"
| "mentions_any (ArrayValue vals _) = list_ex mentions_any vals"
| "mentions_any _ = False"

lemma collect_opt_None: "collect_opt xs = None \<longleftrightarrow> None \<in> set xs"
  by (induction xs rule: collect_opt.induct) auto

lemma render_value_None: "render_value e = None \<longleftrightarrow> mentions_any e"
  by (induction e) (auto simp: collect_opt_None list_ex_iff image_iff eq_commute [of None])

end
