(* ===== verification/Migration_Steps.thy ===== *)
theory Migration_Steps
  imports Schema_Ast
begin

text \<open>
  Datamodel migration steps (\<open>migration-connector/src/steps.rs\<close>): one record per step struct,
  the locations of directives and arguments, and the conversions between AST arguments and step
  arguments. \<open>from_ast_expression\<close> renders an expression, so it panics where the renderer does;
  \<open>to_ast_expression\<close> parses the text again and unwraps, with the generated parser a parameter
  \<open>parse\<close> (\<open>None\<close> is a parse error).
\<close>

section \<open>Arity\<close>

datatype step_arity = Required | Optional | List

fun arity_from_ast :: "field_arity \<Rightarrow> step_arity" where
  "arity_from_ast ArityRequired = Required"
| "arity_from_ast ArityOptional = Optional"
| "arity_from_ast ArityList = List"

fun arity_into_ast :: "step_arity \<Rightarrow> field_arity" where
  "arity_into_ast Required = ArityRequired"
| "arity_into_ast Optional = ArityOptional"
| "arity_into_ast List = ArityList"

lemma arity_into_from [simp]: "arity_into_ast (arity_from_ast a) = a"
  by (cases a) auto

section \<open>Expressions of steps\<close>

datatype migration_expression = MigrationExpression string

datatype panic = RenderUnimplemented | ParseUnwrap | ContainerUnwrap

type_synonym expr_parser = "string \<Rightarrow> expression option"

definition to_ast_expression :: "expr_parser \<Rightarrow> migration_expression \<Rightarrow> (panic, expression) res" where
  "to_ast_expression parse me =
     (case me of MigrationExpression s \<Rightarrow> ok_or ParseUnwrap (parse s))"

definition from_ast_expression :: "expression \<Rightarrow> (panic, migration_expression) res" where
  "from_ast_expression e = map_res MigrationExpression (ok_or RenderUnimplemented (render_value e))"

record step_argument =
  sa_name :: string
  sa_value :: migration_expression

definition matches_ast_argument :: "step_argument \<Rightarrow> argument \<Rightarrow> (panic, bool) res" where
  "matches_ast_argument self a =
     (if sa_name self = arg_name a
      then map_res (\<lambda>v. sa_value self = v) (from_ast_expression (arg_value a))
      else Inr False)"

definition step_argument_from :: "argument \<Rightarrow> (panic, step_argument) res" where
  "step_argument_from a =
     map_res (\<lambda>v. \<lparr>sa_name = arg_name a, sa_value = v\<rparr>) (from_ast_expression (arg_value a))"

definition step_argument_into :: "expr_parser \<Rightarrow> step_argument \<Rightarrow> (panic, argument) res" where
  "step_argument_into parse a =
     map_res (\<lambda>v. \<lparr>arg_ident = new_ident (sa_name a), arg_value = v, arg_span = span_empty\<rparr>)
       (to_ast_expression parse (sa_value a))"

section \<open>Locations\<close>

datatype directive_path =
    PathField string string
  | PathModel string "step_argument list option"
  | PathEnum string
  | PathEnumValue string string
  | PathTypeAlias string

fun set_arguments :: "directive_path \<Rightarrow> step_argument list \<Rightarrow> directive_path" where
  "set_arguments (PathModel model _) args = PathModel model (Some args)"
| "set_arguments p args = p"

fun path_arguments :: "directive_path \<Rightarrow> step_argument list option" where
  "path_arguments (PathModel model args) = args"
| "path_arguments _ = None"

record directive_location =
  dl_path :: directive_path
  dl_directive :: string

datatype argument_location =
    ArgDirective directive_location
  | ArgSource string

text \<open>\<open>find(..).is_some()\<close> and \<open>all(..)\<close> with a predicate that may panic: the first panic wins.\<close>

fun find_res :: "('a \<Rightarrow> ('e, bool) res) \<Rightarrow> 'a list \<Rightarrow> ('e, bool) res" where
  "find_res P [] = Inr False"
| "find_res P (x # xs) = bind_res (P x) (\<lambda>b. if b then Inr True else find_res P xs)"

fun all_res :: "('a \<Rightarrow> ('e, bool) res) \<Rightarrow> 'a list \<Rightarrow> ('e, bool) res" where
  "all_res P [] = Inr True"
| "all_res P (x # xs) = bind_res (P x) (\<lambda>b. if b then all_res P xs else Inr False)"

definition matches_ast_directive :: "directive_location \<Rightarrow> directive \<Rightarrow> (panic, bool) res" where
  "matches_ast_directive self d =
     (if dl_directive self \<noteq> dir_name d then Inr False
      else case dl_path self of
        PathModel _ (Some args) \<Rightarrow>
          if length (dir_arguments d) \<noteq> length args then Inr False
          else all_res (\<lambda>directive_argument.
                 find_res (\<lambda>self_argument. matches_ast_argument self_argument directive_argument) args)
               (dir_arguments d)
      | _ \<Rightarrow> Inr True)"

section \<open>Steps\<close>

record update_model =
  um_model :: string
  um_new_name :: "string option"

definition um_is_any_option_set :: "update_model \<Rightarrow> bool" where
  "um_is_any_option_set u \<longleftrightarrow> um_new_name u \<noteq> None"

record create_field =
  cf_model :: string
  cf_field :: string
  cf_tpe :: string
  cf_arity :: step_arity

record update_field =
  uf_model :: string
  uf_field :: string
  uf_new_name :: "string option"
  uf_tpe :: "string option"
  uf_arity :: "step_arity option"

definition uf_is_any_option_set :: "update_field \<Rightarrow> bool" where
  "uf_is_any_option_set u \<longleftrightarrow> uf_new_name u \<noteq> None \<or> uf_tpe u \<noteq> None \<or> uf_arity u \<noteq> None"

record delete_field =
  df_model :: string
  df_field :: string

record create_enum =
  ce_enum :: string
  ce_values :: "string list"

record update_enum =
  ue_enum :: string
  ue_new_name :: "string option"
  ue_created_values :: "string list"
  ue_deleted_values :: "string list"

definition ue_is_any_option_set :: "update_enum \<Rightarrow> bool" where
  "ue_is_any_option_set u \<longleftrightarrow>
     ue_new_name u \<noteq> None \<or> length (ue_created_values u) > 0 \<or> length (ue_deleted_values u) > 0"

record create_argument =
  ca_location :: argument_location
  ca_argument :: string
  ca_value :: migration_expression

record delete_argument =
  da_location :: argument_location
  da_argument :: string

record update_argument =
  ua_location :: argument_location
  ua_argument :: string
  ua_new_value :: migration_expression

record create_type_alias =
  ct_type_alias :: string
  ct_type :: string
  ct_arity :: step_arity

record update_type_alias =
  ut_type_alias :: string
  ut_type :: "string option"

definition ut_is_any_option_set :: "update_type_alias \<Rightarrow> bool" where
  "ut_is_any_option_set u \<longleftrightarrow> ut_type u \<noteq> None"

text \<open>
  The steps whose struct has a single field (the name of the entity, or the location) carry that
  field directly.
\<close>

datatype migration_step =
    CreateModel string
  | UpdateModel update_model
  | DeleteModel string
  | CreateDirective directive_location
  | DeleteDirective directive_location
  | CreateArgument create_argument
  | UpdateArgument update_argument
  | DeleteArgument delete_argument
  | CreateField create_field
  | DeleteField delete_field
  | UpdateField update_field
  | CreateEnum create_enum
  | UpdateEnum update_enum
  | DeleteEnum string
  | CreateTypeAlias create_type_alias
  | UpdateTypeAlias update_type_alias
  | DeleteTypeAlias string
  | CreateSource string
  | DeleteSource string

section \<open>Facts about conversions\<close>

lemma find_res_Inr:
  assumes "\<And>x. x \<in> set xs \<Longrightarrow> P x = Inr (Q x)"
  shows "find_res P xs = Inr (\<exists>x \<in> set xs. Q x)"
  using assms by (induction xs) auto

lemma all_res_Inr:
  assumes "\<And>x. x \<in> set xs \<Longrightarrow> P x = Inr (Q x)"
  shows "all_res P xs = Inr (\<forall>x \<in> set xs. Q x)"
  using assms by (induction xs) auto

end
