(* ===== verification/Datamodel_Calculator.thy ===== *)
theory Datamodel_Calculator
  imports Migration_Steps
begin

text \<open>
  The datamodel calculator (\<open>migration-engine/core/src/migration/datamodel_calculator.rs\<close>):
  applies migration steps to a schema. The schema is threaded through the steps; the first error
  aborts the run, as \<open>?\<close> does, and the half-modified clone is dropped. Every message of
  \<open>format_err!\<close> is a constructor of \<open>calculator_error\<close>; \<open>CalcPanic\<close> stands for the unwraps.
\<close>

section \<open>Errors\<close>

datatype calculator_error =
    SourceAlreadyExists string
  | SourceDoesNotExist string
  | EnumAlreadyExists string
  | UpdatedEnumDoesNotExist string
  | DeletedEnumDoesNotExist string
  | FieldAlreadyExists string string
  | CreateFieldOnUnknownModel string
  | ModelAlreadyExists string
  | UpdatedModelDoesNotExist string
  | DeletedModelDoesNotExist string
  | UpdatedFieldModelDoesNotExist string
  | UpdatedFieldDoesNotExist string string
  | DeletedFieldModelDoesNotExist string
  | DeletedFieldDoesNotExist string string
  | CreateDirectiveOnAbsentTarget directive_location
  | DeleteDirectiveOnAbsentTarget directive_location
  | TypeAlreadyExists string
  | UpdateTypeAliasOnUnknownType string
  | DeletedTypeDoesNotExist string
  | CalcPanic panic

fun or_panic :: "(panic, 'a) res \<Rightarrow> (calculator_error, 'a) res" where
  "or_panic (Inl p) = Inl (CalcPanic p)"
| "or_panic (Inr a) = Inr a"

type_synonym 'a calc = "(calculator_error, 'a) res"

section \<open>Locating directives and arguments\<close>

text \<open>
  \<open>find_directives_mut\<close>, \<open>find_directive_mut\<close> and \<open>find_argument_container\<close> return references;
  as with the lookups of the schema, \<open>g\<close> is what the caller does with the reference and \<open>e\<close> what
  it makes of \<open>None\<close>.
\<close>

definition find_directives_mut ::
  "'e \<Rightarrow> directive_path \<Rightarrow> (directive list \<Rightarrow> ('e, directive list) res) \<Rightarrow> schema_ast \<Rightarrow> ('e, schema_ast) res" where
  "find_directives_mut e location g s =
     (case location of
        PathField model field \<Rightarrow>
          find_field_mut e model field
            (\<lambda>f. map_res (\<lambda>ds. f\<lparr>fld_directives := ds\<rparr>) (g (fld_directives f))) s
      | PathModel model _ \<Rightarrow>
          find_model_mut e model
            (\<lambda>m. map_res (\<lambda>ds. m\<lparr>mdl_directives := ds\<rparr>) (g (mdl_directives m))) s
      | PathEnum enm \<Rightarrow>
          find_enum_mut e enm
            (\<lambda>x. map_res (\<lambda>ds. x\<lparr>enm_directives := ds\<rparr>) (g (enm_directives x))) s
      | PathEnumValue enm value \<Rightarrow>
          find_enum_mut e enm
            (\<lambda>x. map_res (\<lambda>vs. x\<lparr>enm_values := vs\<rparr>)
                   (modify_first e (\<lambda>value_struct. val_name value_struct = value)
                      (\<lambda>v. map_res (\<lambda>ds. v\<lparr>val_directives := ds\<rparr>) (g (val_directives v)))
                      (enm_values x))) s
      | PathTypeAlias type_alias \<Rightarrow>
          find_type_alias_mut e type_alias
            (\<lambda>t. map_res (\<lambda>ds. t\<lparr>fld_directives := ds\<rparr>) (g (fld_directives t))) s)"

definition find_directive_mut ::
  "'e \<Rightarrow> directive_location \<Rightarrow> (directive \<Rightarrow> ('e, directive) res) \<Rightarrow> schema_ast \<Rightarrow> ('e, schema_ast) res" where
  "find_directive_mut e locator g s =
     find_directives_mut e (dl_path locator)
       (modify_first e (\<lambda>d. dir_name d = dl_directive locator) g) s"

definition find_argument_container ::
  "'e \<Rightarrow> argument_location \<Rightarrow> (argument list \<Rightarrow> ('e, argument list) res) \<Rightarrow> schema_ast \<Rightarrow> ('e, schema_ast) res" where
  "find_argument_container e locator g s =
     (case locator of
        ArgSource source \<Rightarrow>
          find_source_mut e source
            (\<lambda>sc. map_res (\<lambda>as. sc\<lparr>src_properties := as\<rparr>) (g (src_properties sc))) s
      | ArgDirective directive_location \<Rightarrow>
          find_directive_mut e directive_location
            (\<lambda>d. map_res (\<lambda>as. d\<lparr>dir_arguments := as\<rparr>) (g (dir_arguments d))) s)"

section \<open>Sources\<close>

definition apply_create_source :: "schema_ast \<Rightarrow> string \<Rightarrow> schema_ast calc" where
  "apply_create_source datamodel name =
     (case find_source datamodel name of
        Some _ \<Rightarrow> Inl (SourceAlreadyExists name)
      | None \<Rightarrow>
          Inr (datamodel\<lparr>tops := tops datamodel @
                [TopSource \<lparr>src_ident = new_ident name, src_properties = [],
                            src_documentation = None, src_span = span_empty\<rparr>]\<rparr>))"

text \<open>The existence check consults the models, as the source does.\<close>

definition apply_delete_source :: "schema_ast \<Rightarrow> string \<Rightarrow> schema_ast calc" where
  "apply_delete_source datamodel source =
     bind_res (ok_or (SourceDoesNotExist source) (find_model datamodel source))
       (\<lambda>_. Inr (datamodel\<lparr>tops := filter (\<lambda>top. case top of TopSource x \<Rightarrow> src_name x \<noteq> source | _ \<Rightarrow> True)
                              (tops datamodel)\<rparr>))"

section \<open>Enums\<close>

definition new_enum_value :: "string \<Rightarrow> enum_value" where
  "new_enum_value value_name =
     \<lparr>val_ident = new_ident value_name, val_directives = [], val_documentation = None,
      val_span = span_empty, val_commented_out = False\<rparr>"

definition apply_create_enum :: "schema_ast \<Rightarrow> create_enum \<Rightarrow> schema_ast calc" where
  "apply_create_enum datamodel step =
     (case find_enum datamodel (ce_enum step) of
        Some _ \<Rightarrow> Inl (EnumAlreadyExists (ce_enum step))
      | None \<Rightarrow>
          Inr (datamodel\<lparr>tops := tops datamodel @
                [TopEnum \<lparr>enm_ident = new_ident (ce_enum step),
                          enm_values = map new_enum_value (ce_values step),
                          enm_directives = [], enm_documentation = None, enm_span = span_empty\<rparr>]\<rparr>))"

definition apply_enum_update :: "ast_enum \<Rightarrow> 't option \<Rightarrow> (ast_enum \<Rightarrow> 't \<Rightarrow> ast_enum) \<Rightarrow> ast_enum" where
  "apply_enum_update enm upd apply_fn = (case upd of None \<Rightarrow> enm | Some u \<Rightarrow> apply_fn enm u)"

definition update_enum_name :: "ast_enum \<Rightarrow> string \<Rightarrow> ast_enum" where
  "update_enum_name enm new_name = enm\<lparr>enm_ident := new_ident new_name\<rparr>"

definition add_enum_values :: "ast_enum \<Rightarrow> string list \<Rightarrow> ast_enum" where
  "add_enum_values enm added_values =
     enm\<lparr>enm_values := enm_values enm @ map new_enum_value added_values\<rparr>"

definition remove_enum_values :: "ast_enum \<Rightarrow> string list \<Rightarrow> ast_enum" where
  "remove_enum_values enm removed_values =
     enm\<lparr>enm_values := filter (\<lambda>v. find (\<lambda>removed_value. removed_value = val_name v) removed_values = None)
                          (enm_values enm)\<rparr>"

definition apply_update_enum :: "schema_ast \<Rightarrow> update_enum \<Rightarrow> schema_ast calc" where
  "apply_update_enum datamodel step =
     find_enum_mut (UpdatedEnumDoesNotExist (ue_enum step)) (ue_enum step)
       (\<lambda>enm. let enm1 = apply_enum_update enm (ue_new_name step) update_enum_name;
                  enm2 = add_enum_values enm1 (ue_created_values step)
               in Inr (remove_enum_values enm2 (ue_deleted_values step)))
       datamodel"

definition apply_delete_enum :: "schema_ast \<Rightarrow> string \<Rightarrow> schema_ast calc" where
  "apply_delete_enum datamodel enm =
     bind_res (ok_or (DeletedEnumDoesNotExist enm) (find_enum datamodel enm))
       (\<lambda>_. Inr (datamodel\<lparr>tops := filter (\<lambda>top. case top of TopEnum x \<Rightarrow> enm_name x \<noteq> enm | _ \<Rightarrow> True)
                              (tops datamodel)\<rparr>))"

section \<open>Models and fields\<close>

definition apply_create_field :: "schema_ast \<Rightarrow> create_field \<Rightarrow> schema_ast calc" where
  "apply_create_field datamodel step =
     (case find_field datamodel (cf_model step) (cf_field step) of
        Some _ \<Rightarrow> Inl (FieldAlreadyExists (cf_field step) (cf_model step))
      | None \<Rightarrow>
          find_model_mut (CreateFieldOnUnknownModel (cf_model step)) (cf_model step)
            (\<lambda>model. Inr (model\<lparr>mdl_fields := mdl_fields model @
               [\<lparr>fld_type = new_ident (cf_tpe step), fld_ident = new_ident (cf_field step),
                 fld_arity = arity_into_ast (cf_arity step), fld_default_value = None,
                 fld_directives = [], fld_documentation = None, fld_span = span_empty,
                 fld_is_commented_out = False\<rparr>]\<rparr>))
            datamodel)"

definition apply_create_model :: "schema_ast \<Rightarrow> string \<Rightarrow> schema_ast calc" where
  "apply_create_model datamodel model =
     (case find_model datamodel model of
        Some _ \<Rightarrow> Inl (ModelAlreadyExists model)
      | None \<Rightarrow>
          Inr (datamodel\<lparr>tops := tops datamodel @
                [TopModel \<lparr>mdl_ident = new_ident model, mdl_fields = [], mdl_directives = [],
                           mdl_documentation = None, mdl_span = span_empty,
                           mdl_commented_out = False\<rparr>]\<rparr>))"

definition apply_model_update :: "ast_model \<Rightarrow> 't option \<Rightarrow> (ast_model \<Rightarrow> 't \<Rightarrow> ast_model) \<Rightarrow> ast_model" where
  "apply_model_update model upd apply_fn = (case upd of None \<Rightarrow> model | Some u \<Rightarrow> apply_fn model u)"

definition update_model_name :: "ast_model \<Rightarrow> string \<Rightarrow> ast_model" where
  "update_model_name model new_name = model\<lparr>mdl_ident := new_ident new_name\<rparr>"

definition apply_update_model :: "schema_ast \<Rightarrow> update_model \<Rightarrow> schema_ast calc" where
  "apply_update_model datamodel step =
     find_model_mut (UpdatedModelDoesNotExist (um_model step)) (um_model step)
       (\<lambda>model. Inr (apply_model_update model (um_new_name step) update_model_name)) datamodel"

definition apply_delete_model :: "schema_ast \<Rightarrow> string \<Rightarrow> schema_ast calc" where
  "apply_delete_model datamodel model =
     bind_res (ok_or (DeletedModelDoesNotExist model) (find_model datamodel model))
       (\<lambda>_. Inr (datamodel\<lparr>tops := filter (\<lambda>top. case top of TopModel x \<Rightarrow> mdl_name x \<noteq> model | _ \<Rightarrow> True)
                              (tops datamodel)\<rparr>))"

definition apply_field_update :: "ast_field \<Rightarrow> 't option \<Rightarrow> (ast_field \<Rightarrow> 't \<Rightarrow> ast_field) \<Rightarrow> ast_field" where
  "apply_field_update field upd apply_fn = (case upd of None \<Rightarrow> field | Some u \<Rightarrow> apply_fn field u)"

definition update_field_arity :: "ast_field \<Rightarrow> field_arity \<Rightarrow> ast_field" where
  "update_field_arity field new_arity = field\<lparr>fld_arity := new_arity\<rparr>"

definition update_field_type :: "ast_field \<Rightarrow> string \<Rightarrow> ast_field" where
  "update_field_type field new_type = field\<lparr>fld_type := new_ident new_type\<rparr>"

definition update_field_name :: "ast_field \<Rightarrow> string \<Rightarrow> ast_field" where
  "update_field_name field new_name = field\<lparr>fld_ident := new_ident new_name\<rparr>"

definition apply_update_field :: "schema_ast \<Rightarrow> update_field \<Rightarrow> schema_ast calc" where
  "apply_update_field datamodel step =
     (case find_model datamodel (uf_model step) of
        None \<Rightarrow> Inl (UpdatedFieldModelDoesNotExist (uf_model step))
      | Some _ \<Rightarrow>
          find_field_mut (UpdatedFieldDoesNotExist (uf_field step) (uf_model step)) (uf_model step) (uf_field step)
            (\<lambda>field.
               let field1 = apply_field_update field (map_option arity_into_ast (uf_arity step)) update_field_arity;
                   field2 = apply_field_update field1 (uf_tpe step) update_field_type
               in Inr (apply_field_update field2 (uf_new_name step) update_field_name))
            datamodel)"

definition apply_delete_field :: "schema_ast \<Rightarrow> delete_field \<Rightarrow> schema_ast calc" where
  "apply_delete_field datamodel step =
     bind_res (ok_or (DeletedFieldModelDoesNotExist (df_model step)) (find_model datamodel (df_model step)))
       (\<lambda>_. bind_res (ok_or (DeletedFieldDoesNotExist (df_field step) (df_model step))
                          (find_field datamodel (df_model step) (df_field step)))
         (\<lambda>_. find_model_mut (CalcPanic ContainerUnwrap) (df_model step)
                (\<lambda>model. Inr (model\<lparr>mdl_fields := filter (\<lambda>field. fld_name field \<noteq> df_field step)
                                                    (mdl_fields model)\<rparr>))
                datamodel))"

section \<open>Directives and arguments\<close>

fun filter_res :: "('a \<Rightarrow> ('e, bool) res) \<Rightarrow> 'a list \<Rightarrow> ('e, 'a list) res" where
  "filter_res P [] = Inr []"
| "filter_res P (x # xs) =
     bind_res (P x) (\<lambda>b. map_res (\<lambda>ys. if b then x # ys else ys) (filter_res P xs))"

definition apply_create_directive :: "expr_parser \<Rightarrow> schema_ast \<Rightarrow> directive_location \<Rightarrow> schema_ast calc" where
  "apply_create_directive parse datamodel location =
     find_directives_mut (CreateDirectiveOnAbsentTarget location) (dl_path location)
       (\<lambda>directives.
          bind_res
            (case path_arguments (dl_path location) of
               None \<Rightarrow> Inr []
             | Some args \<Rightarrow> collect_res (\<lambda>arg. or_panic (step_argument_into parse arg)) args)
            (\<lambda>args. Inr (directives @
               [\<lparr>dir_ident = new_ident (dl_directive location), dir_arguments = args, dir_span = span_empty\<rparr>])))
       datamodel"

definition apply_delete_directive :: "schema_ast \<Rightarrow> directive_location \<Rightarrow> schema_ast calc" where
  "apply_delete_directive datamodel location =
     find_directives_mut (DeleteDirectiveOnAbsentTarget location) (dl_path location)
       (filter_res (\<lambda>directive. map_res Not (or_panic (matches_ast_directive location directive))))
       datamodel"

definition apply_create_directive_argument :: "expr_parser \<Rightarrow> schema_ast \<Rightarrow> create_argument \<Rightarrow> schema_ast calc" where
  "apply_create_directive_argument parse datamodel step =
     find_argument_container (CalcPanic ContainerUnwrap) (ca_location step)
       (\<lambda>arguments. map_res
          (\<lambda>value. arguments @
             [\<lparr>arg_ident = new_ident (ca_argument step), arg_value = value, arg_span = span_empty\<rparr>])
          (or_panic (to_ast_expression parse (ca_value step))))
       datamodel"

definition apply_update_directive_argument :: "expr_parser \<Rightarrow> schema_ast \<Rightarrow> update_argument \<Rightarrow> schema_ast calc" where
  "apply_update_directive_argument parse datamodel step =
     find_argument_container (CalcPanic ContainerUnwrap) (ua_location step)
       (collect_res
          (\<lambda>argument. if arg_name argument = ua_argument step
             then map_res (\<lambda>value. argument\<lparr>arg_value := value\<rparr>)
                    (or_panic (to_ast_expression parse (ua_new_value step)))
             else Inr argument))
       datamodel"

definition apply_delete_directive_argument :: "schema_ast \<Rightarrow> delete_argument \<Rightarrow> schema_ast calc" where
  "apply_delete_directive_argument datamodel step =
     find_argument_container (CalcPanic ContainerUnwrap) (da_location step)
       (\<lambda>arguments. Inr (filter (\<lambda>arg. arg_name arg \<noteq> da_argument step) arguments))
       datamodel"

section \<open>Type aliases\<close>

definition apply_create_type_alias :: "schema_ast \<Rightarrow> create_type_alias \<Rightarrow> schema_ast calc" where
  "apply_create_type_alias datamodel step =
     (case find_type_alias datamodel (ct_type_alias step) of
        Some _ \<Rightarrow> Inl (TypeAlreadyExists (ct_type_alias step))
      | None \<Rightarrow>
          Inr (datamodel\<lparr>tops := tops datamodel @
                [TopType \<lparr>fld_type = new_ident (ct_type step), fld_ident = new_ident (ct_type_alias step),
                          fld_arity = arity_into_ast (ct_arity step), fld_default_value = None,
                          fld_directives = [], fld_documentation = None, fld_span = span_empty,
                          fld_is_commented_out = False\<rparr>]\<rparr>))"

definition apply_update_type_alias :: "schema_ast \<Rightarrow> update_type_alias \<Rightarrow> schema_ast calc" where
  "apply_update_type_alias datamodel step =
     find_type_alias_mut (UpdateTypeAliasOnUnknownType (ut_type_alias step)) (ut_type_alias step)
       (\<lambda>type_alias. Inr (case ut_type step of
            None \<Rightarrow> type_alias
          | Some t \<Rightarrow> type_alias\<lparr>fld_type := new_ident t\<rparr>))
       datamodel"

definition apply_delete_type_alias :: "schema_ast \<Rightarrow> string \<Rightarrow> schema_ast calc" where
  "apply_delete_type_alias datamodel type_alias =
     bind_res (ok_or (DeletedTypeDoesNotExist type_alias) (find_type_alias datamodel type_alias))
       (\<lambda>_. Inr (datamodel\<lparr>tops := filter (\<lambda>top. case top of TopType x \<Rightarrow> fld_name x \<noteq> type_alias | _ \<Rightarrow> True)
                              (tops datamodel)\<rparr>))"

section \<open>Applying steps\<close>

fun apply_step :: "expr_parser \<Rightarrow> migration_step \<Rightarrow> schema_ast \<Rightarrow> schema_ast calc" where
  "apply_step parse (CreateEnum x) dm = apply_create_enum dm x"
| "apply_step parse (UpdateEnum x) dm = apply_update_enum dm x"
| "apply_step parse (DeleteEnum x) dm = apply_delete_enum dm x"
| "apply_step parse (CreateModel x) dm = apply_create_model dm x"
| "apply_step parse (UpdateModel x) dm = apply_update_model dm x"
| "apply_step parse (DeleteModel x) dm = apply_delete_model dm x"
| "apply_step parse (CreateField x) dm = apply_create_field dm x"
| "apply_step parse (UpdateField x) dm = apply_update_field dm x"
| "apply_step parse (DeleteField x) dm = apply_delete_field dm x"
| "apply_step parse (CreateTypeAlias x) dm = apply_create_type_alias dm x"
| "apply_step parse (UpdateTypeAlias x) dm = apply_update_type_alias dm x"
| "apply_step parse (DeleteTypeAlias x) dm = apply_delete_type_alias dm x"
| "apply_step parse (CreateDirective x) dm = apply_create_directive parse dm x"
| "apply_step parse (DeleteDirective x) dm = apply_delete_directive dm x"
| "apply_step parse (CreateArgument x) dm = apply_create_directive_argument parse dm x"
| "apply_step parse (DeleteArgument x) dm = apply_delete_directive_argument dm x"
| "apply_step parse (UpdateArgument x) dm = apply_update_directive_argument parse dm x"
| "apply_step parse (CreateSource x) dm = apply_create_source dm x"
| "apply_step parse (DeleteSource x) dm = apply_delete_source dm x"

definition apply_steps :: "expr_parser \<Rightarrow> schema_ast \<Rightarrow> migration_step list \<Rightarrow> schema_ast calc" where
  "apply_steps parse schema steps = run_steps (apply_step parse) steps schema"

definition calculator_infer :: "expr_parser \<Rightarrow> schema_ast \<Rightarrow> migration_step list \<Rightarrow> schema_ast calc" where
  "calculator_infer parse current steps = apply_steps parse current steps"

end
