(* ===== verification/Datamodel_Differ.thy ===== *)
theory Datamodel_Differ
  imports Datamodel_Calculator
begin

text \<open>
  The datamodel differ (\<open>migration-engine/core/src/migration/datamodel_differ.rs\<close> and the
  submodules of \<open>datamodel_differ/\<close>): computes the migration steps from a previous to a next
  schema. The vector \<open>steps\<close> the Rust functions push onto is passed as the last argument and
  returned; the left side of the result is the panic of rendering an \<open>Any\<close> expression.
\<close>

section \<open>Matching\<close>

definition directives_match :: "directive \<Rightarrow> directive \<Rightarrow> bool" where
  "directives_match previous nxt \<longleftrightarrow> dir_name previous = dir_name nxt"

definition arguments_match :: "argument \<Rightarrow> argument \<Rightarrow> bool" where
  "arguments_match previous nxt \<longleftrightarrow> arg_name previous = arg_name nxt"

definition fields_match :: "ast_field \<Rightarrow> ast_field \<Rightarrow> bool" where
  "fields_match previous nxt \<longleftrightarrow> fld_name previous = fld_name nxt"

definition values_match :: "enum_value \<Rightarrow> enum_value \<Rightarrow> bool" where
  "values_match previous nxt \<longleftrightarrow> val_name previous = val_name nxt"

definition enum_directives_match :: "directive \<Rightarrow> directive \<Rightarrow> bool" where
  "enum_directives_match previous nxt \<longleftrightarrow> dir_name previous = dir_name nxt"

definition enum_value_directives_match :: "directive \<Rightarrow> directive \<Rightarrow> bool" where
  "enum_value_directives_match previous nxt \<longleftrightarrow> dir_name previous = dir_name nxt"

definition sources_match :: "source_config \<Rightarrow> source_config \<Rightarrow> bool" where
  "sources_match previous nxt \<longleftrightarrow> src_name previous = src_name nxt"

definition enums_match :: "ast_enum \<Rightarrow> ast_enum \<Rightarrow> bool" where
  "enums_match previous nxt \<longleftrightarrow> enm_name previous = enm_name nxt"

definition models_match :: "ast_model \<Rightarrow> ast_model \<Rightarrow> bool" where
  "models_match previous nxt \<longleftrightarrow> mdl_name previous = mdl_name nxt"

definition type_aliases_match :: "ast_field \<Rightarrow> ast_field \<Rightarrow> bool" where
  "type_aliases_match previous nxt \<longleftrightarrow> fld_name previous = fld_name nxt"

definition arguments_are_identical :: "argument \<Rightarrow> argument \<Rightarrow> (panic, bool) res" where
  "arguments_are_identical previous nxt =
     (if arg_name previous = arg_name nxt
      then bind_res (from_ast_expression (arg_value previous))
             (\<lambda>p. map_res (\<lambda>n. p = n) (from_ast_expression (arg_value nxt)))
      else Inr False)"

definition directives_are_identical :: "directive \<Rightarrow> directive \<Rightarrow> (panic, bool) res" where
  "directives_are_identical previous nxt =
     (if dir_name previous \<noteq> dir_name nxt then Inr False
      else if length (dir_arguments previous) \<noteq> length (dir_arguments nxt) then Inr False
      else all_res (\<lambda>previous_argument.
             find_res (\<lambda>next_argument. arguments_are_identical previous_argument next_argument)
               (dir_arguments nxt))
           (dir_arguments previous))"

definition REPEATED_MODEL_DIRECTIVES :: "string list" where
  "REPEATED_MODEL_DIRECTIVES = [''unique'', ''index'']"

definition directive_is_repeated :: "directive \<Rightarrow> bool" where
  "directive_is_repeated d \<longleftrightarrow> dir_name d \<in> set REPEATED_MODEL_DIRECTIVES"

definition directive_is_regular :: "directive \<Rightarrow> bool" where
  "directive_is_regular d \<longleftrightarrow> \<not> directive_is_repeated d"

section \<open>Pairs of entities: the differ structs\<close>

text \<open>
  A differ struct holds references to the previous and the next entity; its iterators are the
  functions below over that pair.
\<close>

definition dd_deleted_arguments :: "directive \<Rightarrow> directive \<Rightarrow> argument list" where
  "dd_deleted_arguments p n = diff_deleted arguments_match (dir_arguments p) (dir_arguments n)"

definition dd_created_arguments :: "directive \<Rightarrow> directive \<Rightarrow> argument list" where
  "dd_created_arguments p n = diff_created arguments_match (dir_arguments p) (dir_arguments n)"

definition dd_argument_pairs :: "directive \<Rightarrow> directive \<Rightarrow> (argument \<times> argument) list" where
  "dd_argument_pairs p n = diff_pairs arguments_match (dir_arguments p) (dir_arguments n)"

definition sd_deleted_arguments :: "source_config \<Rightarrow> source_config \<Rightarrow> argument list" where
  "sd_deleted_arguments p n = diff_deleted arguments_match (src_properties p) (src_properties n)"

definition sd_created_arguments :: "source_config \<Rightarrow> source_config \<Rightarrow> argument list" where
  "sd_created_arguments p n = diff_created arguments_match (src_properties p) (src_properties n)"

definition sd_argument_pairs :: "source_config \<Rightarrow> source_config \<Rightarrow> (argument \<times> argument) list" where
  "sd_argument_pairs p n = diff_pairs arguments_match (src_properties p) (src_properties n)"

definition fd_created_directives :: "ast_field \<Rightarrow> ast_field \<Rightarrow> directive list" where
  "fd_created_directives p n = diff_created directives_match (fld_directives p) (fld_directives n)"

definition fd_deleted_directives :: "ast_field \<Rightarrow> ast_field \<Rightarrow> directive list" where
  "fd_deleted_directives p n = diff_deleted directives_match (fld_directives p) (fld_directives n)"

definition fd_directive_pairs :: "ast_field \<Rightarrow> ast_field \<Rightarrow> (directive \<times> directive) list" where
  "fd_directive_pairs p n = diff_pairs directives_match (fld_directives p) (fld_directives n)"

definition vd_created_directives :: "enum_value \<Rightarrow> enum_value \<Rightarrow> directive list" where
  "vd_created_directives p n =
     filter (\<lambda>nxt. \<not> list_ex (\<lambda>previous. enum_value_directives_match previous nxt) (val_directives p))
       (val_directives n)"

definition vd_deleted_directives :: "enum_value \<Rightarrow> enum_value \<Rightarrow> directive list" where
  "vd_deleted_directives p n =
     filter (\<lambda>previous. \<not> list_ex (\<lambda>nxt. enum_value_directives_match previous nxt) (val_directives n))
       (val_directives p)"

definition vd_directive_pairs :: "enum_value \<Rightarrow> enum_value \<Rightarrow> (directive \<times> directive) list" where
  "vd_directive_pairs p n = diff_pairs enum_value_directives_match (val_directives p) (val_directives n)"

definition ed_value_pairs :: "ast_enum \<Rightarrow> ast_enum \<Rightarrow> (enum_value \<times> enum_value) list" where
  "ed_value_pairs p n = diff_pairs values_match (enm_values p) (enm_values n)"

definition ed_created_values :: "ast_enum \<Rightarrow> ast_enum \<Rightarrow> enum_value list" where
  "ed_created_values p n = diff_created values_match (enm_values p) (enm_values n)"

definition ed_deleted_values :: "ast_enum \<Rightarrow> ast_enum \<Rightarrow> enum_value list" where
  "ed_deleted_values p n = diff_deleted values_match (enm_values p) (enm_values n)"

definition ed_created_directives :: "ast_enum \<Rightarrow> ast_enum \<Rightarrow> directive list" where
  "ed_created_directives p n = diff_created enum_directives_match (enm_directives p) (enm_directives n)"

definition ed_deleted_directives :: "ast_enum \<Rightarrow> ast_enum \<Rightarrow> directive list" where
  "ed_deleted_directives p n = diff_deleted enum_directives_match (enm_directives p) (enm_directives n)"

definition ed_directive_pairs :: "ast_enum \<Rightarrow> ast_enum \<Rightarrow> (directive \<times> directive) list" where
  "ed_directive_pairs p n = diff_pairs enum_directives_match (enm_directives p) (enm_directives n)"

definition md_created_fields :: "ast_model \<Rightarrow> ast_model \<Rightarrow> ast_field list" where
  "md_created_fields p n = diff_created fields_match (mdl_fields p) (mdl_fields n)"

definition md_deleted_fields :: "ast_model \<Rightarrow> ast_model \<Rightarrow> ast_field list" where
  "md_deleted_fields p n = diff_deleted fields_match (mdl_fields p) (mdl_fields n)"

definition md_field_pairs :: "ast_model \<Rightarrow> ast_model \<Rightarrow> (ast_field \<times> ast_field) list" where
  "md_field_pairs p n = diff_pairs fields_match (mdl_fields p) (mdl_fields n)"

definition regular_directives :: "ast_model \<Rightarrow> directive list" where
  "regular_directives m = filter directive_is_regular (mdl_directives m)"

definition repeated_directives :: "ast_model \<Rightarrow> directive list" where
  "repeated_directives m = filter directive_is_repeated (mdl_directives m)"

definition md_created_regular_directives :: "ast_model \<Rightarrow> ast_model \<Rightarrow> directive list" where
  "md_created_regular_directives p n =
     diff_created directives_match (regular_directives p) (regular_directives n)"

definition md_deleted_regular_directives :: "ast_model \<Rightarrow> ast_model \<Rightarrow> directive list" where
  "md_deleted_regular_directives p n =
     diff_deleted directives_match (regular_directives p) (regular_directives n)"

definition md_regular_directive_pairs :: "ast_model \<Rightarrow> ast_model \<Rightarrow> (directive \<times> directive) list" where
  "md_regular_directive_pairs p n =
     diff_pairs directives_match (regular_directives p) (regular_directives n)"

definition md_created_repeated_directives :: "ast_model \<Rightarrow> ast_model \<Rightarrow> (panic, directive list) res" where
  "md_created_repeated_directives p n =
     filter_res (\<lambda>next_directive. map_res Not
         (find_res (\<lambda>previous_directive. directives_are_identical previous_directive next_directive)
            (repeated_directives p)))
       (repeated_directives n)"

definition md_deleted_repeated_directives :: "ast_model \<Rightarrow> ast_model \<Rightarrow> (panic, directive list) res" where
  "md_deleted_repeated_directives p n =
     filter_res (\<lambda>previous_directive. map_res Not
         (find_res (\<lambda>next_directive. directives_are_identical previous_directive next_directive)
            (repeated_directives n)))
       (repeated_directives p)"

section \<open>The top-level differ\<close>

definition walk_sources :: "schema_ast \<Rightarrow> source_config list" where
  "walk_sources ast = List.map_filter as_source (tops ast)"

definition walk_enums :: "schema_ast \<Rightarrow> ast_enum list" where
  "walk_enums ast = List.map_filter as_enum (tops ast)"

definition walk_models :: "schema_ast \<Rightarrow> ast_model list" where
  "walk_models ast = List.map_filter as_model (tops ast)"

definition walk_type_aliases :: "schema_ast \<Rightarrow> ast_field list" where
  "walk_type_aliases ast = List.map_filter as_type_alias (tops ast)"

definition td_model_pairs :: "schema_ast \<Rightarrow> schema_ast \<Rightarrow> (ast_model \<times> ast_model) list" where
  "td_model_pairs p n = diff_pairs models_match (walk_models p) (walk_models n)"

definition td_created_models :: "schema_ast \<Rightarrow> schema_ast \<Rightarrow> ast_model list" where
  "td_created_models p n = diff_created models_match (walk_models p) (walk_models n)"

definition td_deleted_models :: "schema_ast \<Rightarrow> schema_ast \<Rightarrow> ast_model list" where
  "td_deleted_models p n = diff_deleted models_match (walk_models p) (walk_models n)"

definition td_updated_datasources :: "schema_ast \<Rightarrow> schema_ast \<Rightarrow> (source_config \<times> source_config) list" where
  "td_updated_datasources p n = diff_pairs sources_match (walk_sources p) (walk_sources n)"

definition td_created_datasources :: "schema_ast \<Rightarrow> schema_ast \<Rightarrow> source_config list" where
  "td_created_datasources p n = diff_created sources_match (walk_sources p) (walk_sources n)"

text \<open>The source swaps the two closure variables here; the predicate is symmetric.\<close>

definition td_deleted_datasources :: "schema_ast \<Rightarrow> schema_ast \<Rightarrow> source_config list" where
  "td_deleted_datasources p n =
     filter (\<lambda>nxt. find (\<lambda>previous. sources_match previous nxt) (walk_sources n) = None) (walk_sources p)"

definition td_enum_pairs :: "schema_ast \<Rightarrow> schema_ast \<Rightarrow> (ast_enum \<times> ast_enum) list" where
  "td_enum_pairs p n = diff_pairs enums_match (walk_enums p) (walk_enums n)"

definition td_created_enums :: "schema_ast \<Rightarrow> schema_ast \<Rightarrow> ast_enum list" where
  "td_created_enums p n = diff_created enums_match (walk_enums p) (walk_enums n)"

definition td_deleted_enums :: "schema_ast \<Rightarrow> schema_ast \<Rightarrow> ast_enum list" where
  "td_deleted_enums p n = diff_deleted enums_match (walk_enums p) (walk_enums n)"

definition td_created_type_aliases :: "schema_ast \<Rightarrow> schema_ast \<Rightarrow> ast_field list" where
  "td_created_type_aliases p n = diff_created type_aliases_match (walk_type_aliases p) (walk_type_aliases n)"

definition td_deleted_type_aliases :: "schema_ast \<Rightarrow> schema_ast \<Rightarrow> ast_field list" where
  "td_deleted_type_aliases p n = diff_deleted type_aliases_match (walk_type_aliases p) (walk_type_aliases n)"

definition td_type_alias_pairs :: "schema_ast \<Rightarrow> schema_ast \<Rightarrow> (ast_field \<times> ast_field) list" where
  "td_type_alias_pairs p n = diff_pairs type_aliases_match (walk_type_aliases p) (walk_type_aliases n)"

section \<open>Arguments\<close>

type_synonym push = "migration_step list \<Rightarrow> (panic, migration_step list) res"

definition push_created_argument :: "argument_location \<Rightarrow> argument \<Rightarrow> push" where
  "push_created_argument loc a steps =
     map_res (\<lambda>v. steps @ [CreateArgument \<lparr>ca_location = loc, ca_argument = arg_name a, ca_value = v\<rparr>])
       (from_ast_expression (arg_value a))"

definition push_updated_argument :: "argument_location \<Rightarrow> argument \<times> argument \<Rightarrow> push" where
  "push_updated_argument loc = (\<lambda>(previous_argument, next_argument) steps.
     bind_res (from_ast_expression (arg_value previous_argument)) (\<lambda>previous_value.
     bind_res (from_ast_expression (arg_value next_argument)) (\<lambda>next_value.
       Inr (if previous_value = next_value then steps
            else steps @ [UpdateArgument \<lparr>ua_location = loc, ua_argument = arg_name next_argument,
                                          ua_new_value = next_value\<rparr>]))))"

definition push_deleted_argument :: "argument_location \<Rightarrow> string \<Rightarrow> push" where
  "push_deleted_argument loc arg steps =
     Inr (steps @ [DeleteArgument \<lparr>da_location = loc, da_argument = arg\<rparr>])"

section \<open>Directives\<close>

definition push_created_directive :: "directive_path \<Rightarrow> directive \<Rightarrow> push" where
  "push_created_directive path d steps =
     (let location = \<lparr>dl_path = path, dl_directive = dir_name d\<rparr>
      in run_steps (push_created_argument (ArgDirective location)) (dir_arguments d)
           (steps @ [CreateDirective location]))"

definition push_created_directives :: "directive_path \<Rightarrow> directive list \<Rightarrow> push" where
  "push_created_directives path ds = run_steps (push_created_directive path) ds"

definition push_created_directive_with_arguments :: "directive_path \<Rightarrow> directive \<Rightarrow> push" where
  "push_created_directive_with_arguments path d steps =
     map_res (\<lambda>args. steps @ [CreateDirective \<lparr>dl_path = set_arguments path args, dl_directive = dir_name d\<rparr>])
       (collect_res step_argument_from (dir_arguments d))"

definition push_created_directives_with_arguments :: "directive_path \<Rightarrow> directive list \<Rightarrow> push" where
  "push_created_directives_with_arguments path ds = run_steps (push_created_directive_with_arguments path) ds"

definition push_deleted_directive :: "directive_path \<Rightarrow> directive \<Rightarrow> push" where
  "push_deleted_directive path d steps =
     Inr (steps @ [DeleteDirective \<lparr>dl_path = path, dl_directive = dir_name d\<rparr>])"

definition push_deleted_directives :: "directive_path \<Rightarrow> directive list \<Rightarrow> push" where
  "push_deleted_directives path ds = run_steps (push_deleted_directive path) ds"

definition push_deleted_directive_with_arguments :: "directive_path \<Rightarrow> directive \<Rightarrow> push" where
  "push_deleted_directive_with_arguments path d steps =
     map_res (\<lambda>args. steps @ [DeleteDirective \<lparr>dl_path = set_arguments path args, dl_directive = dir_name d\<rparr>])
       (collect_res step_argument_from (dir_arguments d))"

definition push_updated_directive :: "directive_path \<Rightarrow> directive \<times> directive \<Rightarrow> push" where
  "push_updated_directive path = (\<lambda>(previous, nxt) steps.
     let location = ArgDirective \<lparr>dl_path = path, dl_directive = dir_name previous\<rparr> in
     bind_res (run_steps (push_created_argument location) (dd_created_arguments previous nxt) steps) (\<lambda>steps.
     bind_res (run_steps (push_updated_argument location) (dd_argument_pairs previous nxt) steps) (\<lambda>steps.
       run_steps (\<lambda>a. push_deleted_argument location (arg_name a)) (dd_deleted_arguments previous nxt) steps)))"

definition push_updated_directives :: "directive_path \<Rightarrow> (directive \<times> directive) list \<Rightarrow> push" where
  "push_updated_directives path ds = run_steps (push_updated_directive path) ds"

section \<open>Type aliases\<close>

definition push_created_type_alias :: "ast_field \<Rightarrow> push" where
  "push_created_type_alias t steps =
     push_created_directives (PathTypeAlias (fld_name t)) (fld_directives t)
       (steps @ [CreateTypeAlias \<lparr>ct_type_alias = fld_name t, ct_type = id_name (fld_type t),
                                  ct_arity = arity_from_ast (fld_arity t)\<rparr>])"

definition push_created_type_aliases :: "ast_field list \<Rightarrow> push" where
  "push_created_type_aliases ts = run_steps push_created_type_alias ts"

definition push_deleted_type_aliases :: "ast_field list \<Rightarrow> push" where
  "push_deleted_type_aliases ts steps = Inr (steps @ map (\<lambda>t. DeleteTypeAlias (fld_name t)) ts)"

definition push_updated_type_alias :: "ast_field \<times> ast_field \<Rightarrow> push" where
  "push_updated_type_alias = (\<lambda>(previous, nxt) steps.
     let path = PathTypeAlias (fld_name previous);
         step = \<lparr>ut_type_alias = fld_name previous,
                 ut_type = diff_value (id_name (fld_type previous)) (id_name (fld_type nxt))\<rparr>;
         steps = (if ut_is_any_option_set step then steps @ [UpdateTypeAlias step] else steps) in
     bind_res (push_created_directives path (fd_created_directives previous nxt) steps) (\<lambda>steps.
     bind_res (push_updated_directives path (fd_directive_pairs previous nxt) steps) (\<lambda>steps.
       push_deleted_directives path (fd_deleted_directives previous nxt) steps)))"

definition push_updated_type_aliases :: "(ast_field \<times> ast_field) list \<Rightarrow> push" where
  "push_updated_type_aliases ts = run_steps push_updated_type_alias ts"

definition push_type_aliases :: "schema_ast \<Rightarrow> schema_ast \<Rightarrow> push" where
  "push_type_aliases previous nxt steps =
     bind_res (push_created_type_aliases (td_created_type_aliases previous nxt) steps) (\<lambda>steps.
     bind_res (push_deleted_type_aliases (td_deleted_type_aliases previous nxt) steps) (\<lambda>steps.
       push_updated_type_aliases (td_type_alias_pairs previous nxt) steps))"

section \<open>Enums\<close>

definition push_created_enum :: "ast_enum \<Rightarrow> push" where
  "push_created_enum e steps =
     bind_res (push_created_directives (PathEnum (enm_name e)) (enm_directives e)
                 (steps @ [CreateEnum \<lparr>ce_enum = enm_name e, ce_values = map val_name (enm_values e)\<rparr>]))
       (run_steps (\<lambda>value. push_created_directives (PathEnumValue (enm_name e) (val_name value))
                             (val_directives value)) (enm_values e))"

definition push_created_enums :: "ast_enum list \<Rightarrow> push" where
  "push_created_enums es = run_steps push_created_enum es"

definition push_deleted_enums :: "ast_enum list \<Rightarrow> push" where
  "push_deleted_enums es steps = Inr (steps @ map (\<lambda>e. DeleteEnum (enm_name e)) es)"

definition push_updated_enum_value :: "string \<Rightarrow> enum_value \<times> enum_value \<Rightarrow> push" where
  "push_updated_enum_value enum_name = (\<lambda>(previous, nxt) steps.
     let path = PathEnumValue enum_name (val_name nxt) in
     bind_res (push_created_directives path (vd_created_directives previous nxt) steps) (\<lambda>steps.
     bind_res (push_updated_directives path (vd_directive_pairs previous nxt) steps) (\<lambda>steps.
       push_deleted_directives path (vd_deleted_directives previous nxt) steps)))"

definition push_updated_enum :: "ast_enum \<times> ast_enum \<Rightarrow> push" where
  "push_updated_enum = (\<lambda>(previous, nxt) steps.
     let deleted_values = map val_name (ed_deleted_values previous nxt);
         created_values = map val_name (ed_created_values previous nxt);
         path = PathEnum (enm_name previous) in
     bind_res (run_steps (\<lambda>created_value.
                 push_created_directives (PathEnumValue (enm_name nxt) (val_name created_value))
                   (val_directives created_value)) (ed_created_values previous nxt) steps) (\<lambda>steps.
     bind_res (run_steps (push_updated_enum_value (enm_name nxt)) (ed_value_pairs previous nxt) steps) (\<lambda>steps.
       let step = \<lparr>ue_enum = enm_name previous,
                   ue_new_name = diff_value (enm_name previous) (enm_name nxt),
                   ue_created_values = created_values, ue_deleted_values = deleted_values\<rparr>;
           steps = (if ue_is_any_option_set step then steps @ [UpdateEnum step] else steps) in
     bind_res (push_created_directives path (ed_created_directives previous nxt) steps) (\<lambda>steps.
     bind_res (push_updated_directives path (ed_directive_pairs previous nxt) steps) (\<lambda>steps.
       push_deleted_directives path (ed_deleted_directives previous nxt) steps)))))"

definition push_updated_enums :: "(ast_enum \<times> ast_enum) list \<Rightarrow> push" where
  "push_updated_enums es = run_steps push_updated_enum es"

definition push_enums :: "schema_ast \<Rightarrow> schema_ast \<Rightarrow> push" where
  "push_enums previous nxt steps =
     bind_res (push_created_enums (td_created_enums previous nxt) steps) (\<lambda>steps.
     bind_res (push_deleted_enums (td_deleted_enums previous nxt) steps) (\<lambda>steps.
       push_updated_enums (td_enum_pairs previous nxt) steps))"

section \<open>Data sources\<close>

definition push_updated_source :: "source_config \<times> source_config \<Rightarrow> push" where
  "push_updated_source = (\<lambda>(previous, nxt) steps.
     let location = ArgSource (src_name previous) in
     bind_res (run_steps (push_created_argument location) (sd_created_arguments previous nxt) steps) (\<lambda>steps.
     bind_res (run_steps (\<lambda>a. push_deleted_argument location (arg_name a))
                 (sd_deleted_arguments previous nxt) steps) (\<lambda>steps.
       run_steps (push_updated_argument location) (sd_argument_pairs previous nxt) steps)))"

definition push_updated_sources :: "(source_config \<times> source_config) list \<Rightarrow> push" where
  "push_updated_sources ss = run_steps push_updated_source ss"

definition push_created_source :: "source_config \<Rightarrow> push" where
  "push_created_source s steps =
     run_steps (push_created_argument (ArgSource (src_name s))) (src_properties s)
       (steps @ [CreateSource (src_name s)])"

definition push_created_sources :: "source_config list \<Rightarrow> push" where
  "push_created_sources ss = run_steps push_created_source ss"

definition push_deleted_sources :: "source_config list \<Rightarrow> push" where
  "push_deleted_sources ss steps = Inr (steps @ map (\<lambda>s. DeleteSource (src_name s)) ss)"

definition push_datasources :: "schema_ast \<Rightarrow> schema_ast \<Rightarrow> push" where
  "push_datasources previous nxt steps =
     bind_res (push_created_sources (td_created_datasources previous nxt) steps) (\<lambda>steps.
     bind_res (push_deleted_sources (td_deleted_datasources previous nxt) steps) (\<lambda>steps.
       push_updated_sources (td_updated_datasources previous nxt) steps))"

section \<open>Models\<close>

definition push_created_field :: "string \<Rightarrow> ast_field \<Rightarrow> push" where
  "push_created_field model_name f steps =
     push_created_directives (PathField model_name (fld_name f)) (fld_directives f)
       (steps @ [CreateField \<lparr>cf_model = model_name, cf_field = fld_name f,
                              cf_tpe = id_name (fld_type f), cf_arity = arity_from_ast (fld_arity f)\<rparr>])"

definition push_created_fields :: "string \<Rightarrow> ast_field list \<Rightarrow> push" where
  "push_created_fields model_name fs = run_steps (push_created_field model_name) fs"

definition push_deleted_fields :: "string \<Rightarrow> ast_field list \<Rightarrow> push" where
  "push_deleted_fields model_name fs steps =
     Inr (steps @ map (\<lambda>f. DeleteField \<lparr>df_model = model_name, df_field = fld_name f\<rparr>) fs)"

definition push_updated_field :: "string \<Rightarrow> ast_field \<times> ast_field \<Rightarrow> push" where
  "push_updated_field model_name = (\<lambda>(previous, nxt) steps.
     let step = \<lparr>uf_model = model_name, uf_field = fld_name previous,
                 uf_new_name = diff_value (fld_name previous) (fld_name nxt),
                 uf_tpe = diff_value (id_name (fld_type previous)) (id_name (fld_type nxt)),
                 uf_arity = map_option arity_from_ast (diff_value (fld_arity previous) (fld_arity nxt))\<rparr>;
         steps = (if uf_is_any_option_set step then steps @ [UpdateField step] else steps);
         path = PathField model_name (fld_name previous) in
     bind_res (push_created_directives path (fd_created_directives previous nxt) steps) (\<lambda>steps.
     bind_res (push_updated_directives path (fd_directive_pairs previous nxt) steps) (\<lambda>steps.
       push_deleted_directives path (fd_deleted_directives previous nxt) steps)))"

definition push_updated_fields :: "string \<Rightarrow> (ast_field \<times> ast_field) list \<Rightarrow> push" where
  "push_updated_fields model_name fs = run_steps (push_updated_field model_name) fs"

definition push_created_model :: "ast_model \<Rightarrow> push" where
  "push_created_model m steps =
     (let path = PathModel (mdl_name m) None in
      bind_res (push_created_fields (mdl_name m) (mdl_fields m)
                  (steps @ [CreateModel (mdl_name m)])) (\<lambda>steps.
      bind_res (push_created_directives path (filter directive_is_regular (mdl_directives m)) steps) (\<lambda>steps.
        push_created_directives_with_arguments path
          (filter directive_is_repeated (mdl_directives m)) steps)))"

definition push_created_models :: "ast_model list \<Rightarrow> push" where
  "push_created_models ms = run_steps push_created_model ms"

definition push_deleted_models :: "ast_model list \<Rightarrow> push" where
  "push_deleted_models ms steps = Inr (steps @ map (\<lambda>m. DeleteModel (mdl_name m)) ms)"

definition push_updated_model :: "ast_model \<times> ast_model \<Rightarrow> push" where
  "push_updated_model = (\<lambda>(previous, nxt) steps.
     let model_name = mdl_name previous; path = PathModel model_name None in
     bind_res (push_created_fields model_name (md_created_fields previous nxt) steps) (\<lambda>steps.
     bind_res (push_deleted_fields model_name (md_deleted_fields previous nxt) steps) (\<lambda>steps.
     bind_res (push_updated_fields model_name (md_field_pairs previous nxt) steps) (\<lambda>steps.
     bind_res (push_created_directives path (md_created_regular_directives previous nxt) steps) (\<lambda>steps.
     bind_res (push_updated_directives path (md_regular_directive_pairs previous nxt) steps) (\<lambda>steps.
     bind_res (push_deleted_directives path (md_deleted_regular_directives previous nxt) steps) (\<lambda>steps.
     bind_res (md_created_repeated_directives previous nxt) (\<lambda>created.
     bind_res (run_steps (push_created_directive_with_arguments path) created steps) (\<lambda>steps.
     bind_res (md_deleted_repeated_directives previous nxt) (\<lambda>deleted.
       run_steps (push_deleted_directive_with_arguments path) deleted steps))))))))))"

definition push_updated_models :: "(ast_model \<times> ast_model) list \<Rightarrow> push" where
  "push_updated_models ms = run_steps push_updated_model ms"

definition push_models :: "schema_ast \<Rightarrow> schema_ast \<Rightarrow> push" where
  "push_models previous nxt steps =
     bind_res (push_created_models (td_created_models previous nxt) steps) (\<lambda>steps.
     bind_res (push_deleted_models (td_deleted_models previous nxt) steps) (\<lambda>steps.
       push_updated_models (td_model_pairs previous nxt) steps))"

section \<open>The differ\<close>

definition diff :: "schema_ast \<Rightarrow> schema_ast \<Rightarrow> (panic, migration_step list) res" where
  "diff previous nxt =
     bind_res (push_type_aliases previous nxt []) (\<lambda>steps.
     bind_res (push_enums previous nxt steps) (\<lambda>steps.
     bind_res (push_datasources previous nxt steps) (\<lambda>steps.
       push_models previous nxt steps)))"

definition inferrer_infer :: "schema_ast \<Rightarrow> schema_ast \<Rightarrow> (panic, migration_step list) res" where
  "inferrer_infer previous nxt = diff previous nxt"

end
