(* ===== verification/List_Sync.thy ===== *)
theory List_Sync
  imports Engine_Prelude
begin

text \<open>
  The contract between a differ and a calculator on one list of named entries. The differ
  enumerates the created, paired and deleted entries of a previous and a next list; the
  calculator offers an operation that creates, updates or deletes one entry in place. The locale
  \<open>list_sync\<close> states the law of each operation and proves once, for both orders in which the
  differs emit their steps, that running the enumerations brings the list to the content of the
  next one and leaves entries of other kinds alone. It is interpreted for arguments, directives,
  fields and top-level entries.
\<close>

section \<open>Created, deleted and paired entries by key\<close>

definition same_key :: "('a \<Rightarrow> 'k) \<Rightarrow> 'a \<Rightarrow> 'a \<Rightarrow> bool" where
  "same_key key p n \<longleftrightarrow> key p = key n"

lemma diff_created_by_key:
  "diff_created (same_key key) ps ns = filter (\<lambda>n. key n \<notin> key ` set ps) ns"
  unfolding diff_created_def same_key_def find_None_iff_ball
  by (rule filter_cong [OF refl]) (metis image_iff)

lemma diff_deleted_by_key:
  "diff_deleted (same_key key) ps ns = filter (\<lambda>p. key p \<notin> key ` set ns) ps"
  unfolding diff_deleted_def same_key_def find_None_iff_ball
  by (rule filter_cong [OF refl]) (metis image_iff)

lemma find_by_key:
  "distinct (map key ns) \<Longrightarrow> n \<in> set ns \<Longrightarrow> find (\<lambda>x. key n = key x) ns = Some n"
  by (induction ns) (auto simp: rev_image_eqI)

lemma set_diff_pairs_by_key:
  assumes "distinct (map key ns)"
  shows "set (diff_pairs (same_key key) ps ns) = {(p, n). p \<in> set ps \<and> n \<in> set ns \<and> key p = key n}"
proof -
  have "(p, n) \<in> set (diff_pairs (same_key key) ps ns)"
    if "p \<in> set ps" "n \<in> set ns" "key p = key n" for p n
  proof -
    from that(2,3) have "find (same_key key p) ns = Some n"
      using find_by_key [OF assms, of n] by (simp add: same_key_def [abs_def])
    with that(1) show ?thesis
      by (force simp: diff_pairs_def in_map_filter)
  qed
  then show ?thesis
    by (auto dest: diff_pairsD simp: same_key_def)
qed

lemma distinct_diff_pairs:
  "distinct (map key ps) \<Longrightarrow> distinct (map (key \<circ> fst) (diff_pairs m ps ns))"
proof (induction ps)
  case (Cons p ps)
  have "key p \<notin> (key \<circ> fst) ` set (diff_pairs m ps ns)"
    using Cons.prems by (auto dest: diff_pairsD)
  with Cons show ?case by (auto split: option.split)
qed simp

lemma map_diff_created:
  assumes "\<And>p n. m' (f p) (f n) = m p n"
  shows "map f (diff_created m ps ns) = diff_created m' (map f ps) (map f ns)"
  unfolding diff_created_def
  by (induction ns) (auto simp: find_None_iff_ball assms)

lemma map_diff_deleted:
  assumes "\<And>p n. m' (f p) (f n) = m p n"
  shows "map f (diff_deleted m ps ns) = diff_deleted m' (map f ps) (map f ns)"
  unfolding diff_deleted_def
  by (induction ps) (auto simp: find_None_iff_ball assms)

lemma find_map_match:
  assumes "\<And>n. m' (f n) = m n"
  shows "find m' (map f ns) = map_option f (find m ns)"
  by (induction ns) (auto simp: assms)

lemma map_diff_pairs:
  assumes "\<And>p n. m' (f p) (f n) = m p n"
  shows "map (map_prod f f) (diff_pairs m ps ns) = diff_pairs m' (map f ps) (map f ns)"
proof (induction ps)
  case (Cons p ps)
  have "find (m' (f p)) (map f ns) = map_option f (find (m p) ns)"
    by (rule find_map_match) (simp add: assms)
  with Cons show ?case by (simp split: option.split)
qed simp

lemma diff_created_self: "diff_created (same_key key) xs xs = []"
  by (auto simp: diff_created_by_key filter_empty_conv)

lemma diff_deleted_self: "diff_deleted (same_key key) xs xs = []"
  by (auto simp: diff_deleted_by_key filter_empty_conv)

lemma diff_pairs_self:
  assumes "distinct (map key xs)" and "(p, n) \<in> set (diff_pairs (same_key key) xs xs)"
  shows "p = n \<and> p \<in> set xs"
proof -
  from assms have "p \<in> set xs" "n \<in> set xs" "key p = key n"
    by (simp_all add: set_diff_pairs_by_key)
  with assms(1) show ?thesis
    by (metis distinct_map inj_on_eq_iff)
qed

lemma list_all2_ex1: "list_all2 R xs ys \<Longrightarrow> x \<in> set xs \<Longrightarrow> \<exists>y \<in> set ys. R x y"
  by (metis in_set_conv_nth list_all2_conv_all_nth)

lemma list_all2_ex2: "list_all2 R xs ys \<Longrightarrow> y \<in> set ys \<Longrightarrow> \<exists>x \<in> set xs. R x y"
  by (metis in_set_conv_nth list_all2_conv_all_nth)

lemma survivors_by_key:
  "\<forall>y \<in> new. f y \<in> f ` B \<Longrightarrow> {x \<in> A \<union> new. f x \<notin> f ` A - f ` B} = {x \<in> A. f x \<in> f ` B} \<union> new"
  by blast

lemma image_outside: "f ` {x \<in> A. f x \<notin> K} = f ` A - K"
  by auto

lemma no_key_outside: "k \<notin> f ` S \<Longrightarrow> {a \<in> A. f a = k} \<subseteq> S \<Longrightarrow> \<forall>a \<in> A. f a \<noteq> k"
  by blast

text \<open>Lists with the same entries give the differ nothing to report.\<close>

lemma diff_same_views:
  assumes "(\<lambda>x. (key x, cont x)) ` set ps = (\<lambda>x. (key x, cont x)) ` set ns" and "distinct (map key ns)"
  shows "diff_created (same_key key) ps ns = []" and "diff_deleted (same_key key) ps ns = []"
    and "\<And>p n. (p, n) \<in> set (diff_pairs (same_key key) ps ns) \<Longrightarrow>
           p \<in> set ps \<and> n \<in> set ns \<and> key p = key n \<and> cont p = cont n"
proof -
  have keys: "key ` set ps = key ` set ns"
    using arg_cong [OF assms(1), of "image fst"] by (simp add: image_image)
  then show "diff_created (same_key key) ps ns = []" "diff_deleted (same_key key) ps ns = []"
    unfolding diff_created_by_key diff_deleted_by_key filter_empty_conv by blast+
  fix p n assume "(p, n) \<in> set (diff_pairs (same_key key) ps ns)"
  then have p: "p \<in> set ps" and n: "n \<in> set ns" and pn: "key p = key n"
    by (simp_all add: set_diff_pairs_by_key [OF assms(2)])
  from p have "(key p, cont p) \<in> (\<lambda>x. (key x, cont x)) ` set ns"
    unfolding assms(1) [symmetric] by (rule imageI)
  then obtain m where "m \<in> set ns" "key p = key m" "cont p = cont m" by auto
  moreover from this pn n assms(2) have "m = n"
    by (auto simp: distinct_map dest: inj_onD)
  ultimately show "p \<in> set ps \<and> n \<in> set ns \<and> key p = key n \<and> cont p = cont n"
    using p n by simp
qed

section \<open>The contract\<close>

locale list_sync =
  fixes key :: "'a \<Rightarrow> 'k" and cont :: "'a \<Rightarrow> 'c" and kind :: "'k \<Rightarrow> bool"
    and new_ok :: "'a \<Rightarrow> bool" and upd_ok :: "'a \<Rightarrow> 'a \<Rightarrow> bool" and del_ok :: "'a \<Rightarrow> bool"
    and create :: "'a \<Rightarrow> 'a list \<Rightarrow> ('e, 'a list) res"
    and update :: "'a \<times> 'a \<Rightarrow> 'a list \<Rightarrow> ('e, 'a list) res"
    and delete :: "'a \<Rightarrow> 'a list \<Rightarrow> ('e, 'a list) res"
  assumes create_law:
    "new_ok n \<Longrightarrow> kind (key n) \<Longrightarrow> key n \<notin> key ` set xs \<Longrightarrow>
     \<exists>x. create n xs = Inr (xs @ [x]) \<and> key x = key n \<and> cont x = cont n"
  and update_law:
    "upd_ok p n \<Longrightarrow> kind (key p) \<Longrightarrow> key p = key n \<Longrightarrow> \<forall>a \<in> set pre \<union> set post. key a \<noteq> key p \<Longrightarrow>
     \<exists>x. update (p, n) (pre @ p # post) = Inr (pre @ x # post) \<and> key x = key n \<and> cont x = cont n"
  and delete_law:
    "del_ok d \<Longrightarrow> kind (key d) \<Longrightarrow> d \<in> set xs \<Longrightarrow> delete d xs = Inr (filter (\<lambda>x. key x \<noteq> key d) xs)"
begin

definition view :: "'a \<Rightarrow> 'k \<times> 'c" where
  "view x = (key x, cont x)"

definition of_kind :: "'a list \<Rightarrow> 'a list" where
  "of_kind xs = filter (\<lambda>x. kind (key x)) xs"

definition others :: "'a list \<Rightarrow> 'a list" where
  "others xs = filter (\<lambda>x. \<not> kind (key x)) xs"

lemma view_eq: "view x = view n \<longleftrightarrow> key x = key n \<and> cont x = cont n"
  by (simp add: view_def)

lemma run_create:
  assumes "\<forall>n \<in> set ns. new_ok n \<and> kind (key n) \<and> key n \<notin> key ` set xs" and "distinct (map key ns)"
  shows "\<exists>news. run_steps create ns xs = Inr (xs @ news) \<and> map view news = map view ns"
  using assms
proof (induction ns arbitrary: xs)
  case Nil
  then show ?case by simp
next
  case (Cons n ns)
  then obtain x where x: "create n xs = Inr (xs @ [x])" "key x = key n" "cont x = cont n"
    using create_law [of n xs] by auto
  have "\<exists>news. run_steps create ns (xs @ [x]) = Inr ((xs @ [x]) @ news) \<and> map view news = map view ns"
    using Cons.prems x by (intro Cons.IH) (auto simp: rev_image_eqI)
  then obtain news where "run_steps create ns (xs @ [x]) = Inr ((xs @ [x]) @ news)"
    "map view news = map view ns"
    by blast
  with x have "run_steps create (n # ns) xs = Inr (xs @ x # news)"
    "map view (x # news) = map view (n # ns)"
    by (simp_all add: view_def)
  then show ?case by blast
qed

lemma run_delete:
  assumes "\<forall>d \<in> set ds. del_ok d \<and> kind (key d) \<and> d \<in> set xs" and "distinct (map key ds)"
  shows "run_steps delete ds xs = Inr (filter (\<lambda>x. key x \<notin> key ` set ds) xs)"
  using assms
proof (induction ds arbitrary: xs)
  case Nil
  then show ?case by simp
next
  case (Cons d ds)
  have "delete d xs = Inr (filter (\<lambda>x. key x \<noteq> key d) xs)"
    using Cons.prems by (intro delete_law) auto
  moreover have "run_steps delete ds (filter (\<lambda>x. key x \<noteq> key d) xs) =
      Inr (filter (\<lambda>x. key x \<notin> key ` set ds) (filter (\<lambda>x. key x \<noteq> key d) xs))"
    using Cons.prems by (intro Cons.IH) (auto simp: image_iff)
  ultimately show ?case
    by (auto intro!: filter_cong)
qed

text \<open>After updating the pairs \<open>prs\<close>, a paired entry has the content of its partner, the others are unchanged.\<close>

definition updated :: "('a \<times> 'a) list \<Rightarrow> 'a \<Rightarrow> 'a \<Rightarrow> bool" where
  "updated prs x z \<longleftrightarrow> key z = key x \<and>
     (if x \<in> fst ` set prs then \<exists>n. (x, n) \<in> set prs \<and> view z = view n else z = x)"

lemma run_update:
  assumes "\<forall>(p, n) \<in> set prs. upd_ok p n \<and> kind (key p) \<and> key p = key n \<and> p \<in> set xs"
    and "distinct (map (key \<circ> fst) prs)" and "distinct (map key (of_kind xs))"
  shows "\<exists>zs. run_steps update prs xs = Inr zs \<and> list_all2 (updated prs) xs zs"
  using assms
proof (induction prs arbitrary: xs)
  case Nil
  then show ?case by (auto simp: updated_def list_all2_refl)
next
  case (Cons pn prs)
  obtain p n where pn: "pn = (p, n)" by (cases pn)
  with Cons.prems(1) obtain pre post where xs: "xs = pre @ p # post"
    by (auto dest: split_list)
  from Cons.prems pn have p: "upd_ok p n" "kind (key p)" "key p = key n"
    by auto
  have "key p \<notin> key ` set (of_kind pre @ of_kind post)"
    using Cons.prems(3) p(2) by (simp add: xs of_kind_def image_Un)
  moreover have "{a \<in> set pre \<union> set post. key a = key p} \<subseteq> set (of_kind pre @ of_kind post)"
    using p(2) by (auto simp: of_kind_def)
  ultimately have nokey: "\<forall>a \<in> set pre \<union> set post. key a \<noteq> key p"
    by (rule no_key_outside)
  then obtain x where x: "update (p, n) xs = Inr (pre @ x # post)" "key x = key n" "cont x = cont n"
    using update_law [of p n pre post] p xs by auto
  have rest: "q \<in> set pre \<union> set post \<and> key q \<noteq> key p" if "q \<in> fst ` set prs" for q
  proof -
    from that Cons.prems(2) pn have "key q \<noteq> key p" by (auto simp: rev_image_eqI)
    moreover from that Cons.prems(1) have "q \<in> set xs" by auto
    ultimately show ?thesis using xs by auto
  qed
  have "map key (of_kind (pre @ x # post)) = map key (of_kind xs)"
    using xs x p by (simp add: of_kind_def)
  then have dist: "distinct (map key (of_kind (pre @ x # post)))"
    using Cons.prems(3) by simp
  have "\<forall>qm \<in> set prs. fst qm \<in> set (pre @ x # post)"
    using rest by simp
  with Cons.prems(1) have "\<forall>(q, m) \<in> set prs. upd_ok q m \<and> kind (key q) \<and> key q = key m
      \<and> q \<in> set (pre @ x # post)"
    by (simp add: case_prod_beta) metis
  then have "\<exists>zs. run_steps update prs (pre @ x # post) = Inr zs \<and> list_all2 (updated prs) (pre @ x # post) zs"
    using Cons.prems(2) dist by (intro Cons.IH) simp_all
  then obtain zs where zs: "run_steps update prs (pre @ x # post) = Inr zs"
    "list_all2 (updated prs) (pre @ x # post) zs"
    by blast
  then obtain zp z zq where z: "zs = zp @ z # zq" "list_all2 (updated prs) pre zp"
    "updated prs x z" "list_all2 (updated prs) post zq"
    by (auto simp: list_all2_append1 list_all2_Cons1)
  have "updated (pn # prs) a b" if "updated prs a b" "a \<in> set pre \<union> set post" for a b
  proof -
    from that(2) nokey have "a \<noteq> p" by blast
    with that(1) pn show ?thesis by (auto simp: updated_def)
  qed
  then have side: "list_all2 (updated (pn # prs)) pre zp" "list_all2 (updated (pn # prs)) post zq"
    using z(2,4) by (auto simp: list_all2_conv_all_nth)
  have "x \<notin> fst ` set prs"
    using rest x(2) p(3) by force
  then have "updated (pn # prs) p z"
    using z(3) x p(3) pn by (auto simp: updated_def view_eq)
  with side xs z(1) have "list_all2 (updated (pn # prs)) xs zs"
    by (simp add: list_all2_appendI)
  with zs(1) x(1) pn show ?case by auto
qed

lemma updated_key: "list_all2 (updated prs) xs zs \<Longrightarrow> map key zs = map key xs"
  by (induction rule: list_all2_induct) (auto simp: updated_def)

lemma updated_filter:
  assumes "list_all2 (updated prs) xs zs"
  shows "list_all2 (updated prs) (filter (\<lambda>x. P (key x)) xs) (filter (\<lambda>x. P (key x)) zs)"
  using assms by (induction rule: list_all2_induct) (auto simp: updated_def)

lemma updated_others:
  assumes "list_all2 (updated prs) xs zs" and "\<forall>p \<in> fst ` set prs. kind (key p)"
  shows "others zs = others xs"
  using assms by (induction rule: list_all2_induct) (auto simp: updated_def others_def split: if_splits)

text \<open>What the three phases leave of the kind: the created entries and the updated pairs.\<close>

lemma view_of_synced:
  assumes upd: "list_all2 (updated prs) ys zs"
    and ys: "set ys = {x \<in> set (of_kind xs). key x \<in> key ` set ns} \<union> set news"
    and news: "map view news = map view (filter (\<lambda>n. key n \<notin> key ` set (of_kind xs)) ns)"
    and prs: "set prs = {(p, n). p \<in> set (of_kind xs) \<and> n \<in> set ns \<and> key p = key n}"
    and ns: "distinct (map key ns)"
  shows "view ` set zs = view ` set ns"
proof -
  let ?created = "filter (\<lambda>n. key n \<notin> key ` set (of_kind xs)) ns"
  have fst_prs: "fst ` set prs = {x \<in> set (of_kind xs). key x \<in> key ` set ns}"
    by (force simp: prs)
  have news_set: "view ` set news = view ` set ?created"
    using news by (metis image_set)
  have news_unpaired: "y \<notin> fst ` set prs" if "y \<in> set news" for y
  proof
    assume "y \<in> fst ` set prs"
    then have "key y \<in> key ` set (of_kind xs)" by (auto simp: fst_prs)
    moreover from that news_set have "view y \<in> view ` set ?created" by blast
    ultimately show False by (auto simp: view_def)
  qed
  have sound: "view z \<in> view ` set ns" if "z \<in> set zs" for z
  proof -
    from that obtain y where y: "y \<in> set ys" "updated prs y z"
      using list_all2_ex2 [OF upd] by blast
    show ?thesis
    proof (cases "y \<in> fst ` set prs")
      case True
      with y obtain n where "(y, n) \<in> set prs" "view z = view n" by (auto simp: updated_def)
      then show ?thesis by (auto simp: prs)
    next
      case False
      with y ys fst_prs have "z = y" "y \<in> set news" by (auto simp: updated_def)
      with news_set show ?thesis by auto
    qed
  qed
  have complete: "view n \<in> view ` set zs" if n: "n \<in> set ns" for n
  proof (cases "key n \<in> key ` set (of_kind xs)")
    case True
    then obtain p where p: "p \<in> set (of_kind xs)" "key p = key n" by auto
    with n have "p \<in> set ys" by (auto simp: ys)
    then obtain z where z: "z \<in> set zs" "updated prs p z"
      using list_all2_ex1 [OF upd] by blast
    have "p \<in> fst ` set prs" using p n by (auto simp: fst_prs)
    with z obtain m where m: "(p, m) \<in> set prs" "view z = view m" by (auto simp: updated_def)
    have "m = n" using m(1) p n ns
      by (auto simp: prs distinct_map dest: inj_onD)
    with m z show ?thesis by (metis image_eqI)
  next
    case False
    with n have "view n \<in> view ` set news" by (auto simp: news_set)
    then obtain y where y: "y \<in> set news" "view y = view n" by auto
    then obtain z where "z \<in> set zs" "updated prs y z"
      using list_all2_ex1 [OF upd] ys by blast
    with y news_unpaired have "z = y" by (auto simp: updated_def)
    with y \<open>z \<in> set zs\<close> show ?thesis by (metis image_eqI)
  qed
  from sound complete show ?thesis by blast
qed

text \<open>The lists a synchronisation starts from.\<close>

definition sync_pre :: "'a list \<Rightarrow> 'a list \<Rightarrow> bool" where
  "sync_pre xs ns \<longleftrightarrow> distinct (map key (of_kind xs)) \<and> distinct (map key ns)
     \<and> (\<forall>n \<in> set ns. kind (key n))
     \<and> (\<forall>n \<in> set ns. key n \<notin> key ` set (of_kind xs) \<longrightarrow> new_ok n)
     \<and> (\<forall>p \<in> set (of_kind xs). \<forall>n \<in> set ns. key p = key n \<longrightarrow> upd_ok p n)
     \<and> (\<forall>d \<in> set (of_kind xs). key d \<notin> key ` set ns \<longrightarrow> del_ok d)"

abbreviation "created xs ns \<equiv> diff_created (same_key key) (of_kind xs) ns"
abbreviation "deleted xs ns \<equiv> diff_deleted (same_key key) (of_kind xs) ns"
abbreviation "pairs xs ns \<equiv> diff_pairs (same_key key) (of_kind xs) ns"

definition synced :: "'a list \<Rightarrow> 'a list \<Rightarrow> 'a list \<Rightarrow> bool" where
  "synced xs ns zs \<longleftrightarrow> others zs = others xs \<and> view ` set (of_kind zs) = view ` set ns
     \<and> distinct (map key (of_kind zs))"

lemma of_kind_append [simp]: "of_kind (xs @ ys) = of_kind xs @ of_kind ys"
  by (simp add: of_kind_def)

lemma of_kindD: "x \<in> set (of_kind xs) \<Longrightarrow> x \<in> set xs"
  by (simp add: of_kind_def)

lemma of_kind_filter: "of_kind (filter P xs) = filter P (of_kind xs)"
  by (simp add: of_kind_def filter_filter conj_commute)

lemma others_append [simp]: "others (xs @ ys) = others xs @ others ys"
  by (simp add: others_def)

lemma sync_create:
  assumes "sync_pre xs ns" and "map key ys = map key xs"
  obtains news where "run_steps create (created xs ns) ys = Inr (ys @ news)"
    and "map view news = map view (filter (\<lambda>n. key n \<notin> key ` set (of_kind xs)) ns)"
    and "of_kind news = news" and "others news = []"
    and "distinct (map key (of_kind xs @ news))"
proof -
  let ?c = "filter (\<lambda>n. key n \<notin> key ` set (of_kind xs)) ns"
  have "key ` set ys = key ` set xs"
    using assms(2) by (metis image_set)
  moreover have "\<forall>n \<in> set ?c. new_ok n \<and> kind (key n) \<and> key n \<notin> key ` set xs"
    using assms(1) by (auto simp: sync_pre_def of_kind_def)
  ultimately have "\<forall>n \<in> set ?c. new_ok n \<and> kind (key n) \<and> key n \<notin> key ` set ys"
    by simp
  moreover have dist: "distinct (map key ?c)"
    using assms(1) by (auto simp: sync_pre_def distinct_map intro: inj_on_subset)
  ultimately obtain news where news: "run_steps create ?c ys = Inr (ys @ news)"
      "map view news = map view ?c"
    using run_create by blast
  have keys: "map key news = map key ?c"
    using arg_cong [OF news(2), of "map fst"] by (simp add: view_def comp_def)
  then have in_c: "key ` set news = key ` set ?c"
    by (metis image_set)
  have "key ` set ?c \<subseteq> Collect kind - key ` set (of_kind xs)"
    using assms(1) by (auto simp: sync_pre_def)
  then have sub: "key ` set news \<subseteq> Collect kind - key ` set (of_kind xs)"
    by (simp only: in_c)
  then have kinds: "\<forall>y \<in> set news. kind (key y)"
    by blast
  have "set (map key (of_kind xs)) \<inter> set (map key news) = {}"
    using sub by (simp only: set_map) blast
  moreover have "distinct (map key news)"
    using dist keys by simp
  ultimately have "distinct (map key (of_kind xs @ news))"
    using assms(1) by (simp add: sync_pre_def)
  with news kinds show thesis
    by (intro that) (auto simp: diff_created_by_key of_kind_def others_def filter_id_conv)
qed

lemma sync_pairs:
  assumes "sync_pre xs ns"
  shows "set (pairs xs ns) = {(p, n). p \<in> set (of_kind xs) \<and> n \<in> set ns \<and> key p = key n}"
    and "distinct (map (key \<circ> fst) (pairs xs ns))"
    and "\<forall>(p, n) \<in> set (pairs xs ns). upd_ok p n \<and> kind (key p) \<and> key p = key n"
proof -
  show set: "set (pairs xs ns) = {(p, n). p \<in> set (of_kind xs) \<and> n \<in> set ns \<and> key p = key n}"
    using assms by (intro set_diff_pairs_by_key) (simp add: sync_pre_def)
  show "distinct (map (key \<circ> fst) (pairs xs ns))"
    using assms by (intro distinct_diff_pairs) (simp add: sync_pre_def)
  show "\<forall>(p, n) \<in> set (pairs xs ns). upd_ok p n \<and> kind (key p) \<and> key p = key n"
    using assms unfolding set by (auto simp: sync_pre_def of_kind_def)
qed

lemma sync_deleted:
  assumes "sync_pre xs ns"
  shows "distinct (map key (deleted xs ns))"
    and "\<forall>d \<in> set (deleted xs ns). del_ok d \<and> kind (key d) \<and> d \<in> set (of_kind xs) \<and> key d \<notin> key ` set ns"
proof -
  show "distinct (map key (deleted xs ns))"
    using assms by (simp add: sync_pre_def diff_deleted_by_key distinct_map_filter)
  show "\<forall>d \<in> set (deleted xs ns). del_ok d \<and> kind (key d) \<and> d \<in> set (of_kind xs) \<and> key d \<notin> key ` set ns"
    using assms by (auto simp: sync_pre_def diff_deleted_by_key of_kind_def)
qed

lemma key_deleted: "key ` set (deleted xs ns) = key ` set (of_kind xs) - key ` set ns"
  unfolding diff_deleted_by_key set_filter by (rule image_outside)

lemma sync_survivors:
  assumes "sync_pre xs ns" and "map view news = map view (filter (\<lambda>n. key n \<notin> key ` set (of_kind xs)) ns)"
    and "of_kind news = news"
  shows "set (of_kind (filter (\<lambda>x. key x \<notin> key ` set (deleted xs ns)) (xs @ news)))
      = {x \<in> set (of_kind xs). key x \<in> key ` set ns} \<union> set news"
proof -
  have "map key news = map key (filter (\<lambda>n. key n \<notin> key ` set (of_kind xs)) ns)"
    using arg_cong [OF assms(2), of "map fst"] by (simp add: view_def comp_def)
  then have "set (map key news) \<subseteq> key ` set ns"
    by (simp only: set_map set_filter image_outside Diff_subset)
  then have news_keys: "\<forall>y \<in> set news. key y \<in> key ` set ns"
    by (simp add: image_subset_iff)
  have "set (of_kind (filter (\<lambda>x. key x \<notin> key ` set (deleted xs ns)) (xs @ news)))
      = {x \<in> set (of_kind xs) \<union> set news. key x \<notin> key ` set (of_kind xs) - key ` set ns}"
    unfolding of_kind_filter of_kind_append assms(3) key_deleted set_filter set_append by (rule refl)
  then show ?thesis
    by (simp only: survivors_by_key [OF news_keys])
qed

lemma sync_others_survivors:
  assumes "sync_pre xs ns"
  shows "others (filter (\<lambda>x. key x \<notin> key ` set (deleted xs ns)) ys) = others ys"
proof -
  have "key ` set (deleted xs ns) \<subseteq> Collect kind"
    using sync_deleted(2) [OF assms] by (simp add: image_subset_iff)
  then have "\<not> kind (key x) \<Longrightarrow> key x \<notin> key ` set (deleted xs ns)" for x
    by blast
  then show ?thesis
    unfolding others_def filter_filter by (intro filter_cong) auto
qed

lemma synced_from:
  assumes "sync_pre xs ns" and "list_all2 (updated (pairs xs ns)) ys zs"
    and "ys = filter (\<lambda>x. key x \<notin> key ` set (deleted xs ns)) (xs @ news)"
    and news: "map view news = map view (filter (\<lambda>n. key n \<notin> key ` set (of_kind xs)) ns)"
      "of_kind news = news" "others news = []" "distinct (map key (of_kind xs @ news))"
  shows "synced xs ns zs"
proof -
  have kinds: "list_all2 (updated (pairs xs ns)) (of_kind ys) (of_kind zs)"
    using updated_filter [OF assms(2), of kind] by (simp add: of_kind_def)
  then have "view ` set (of_kind zs) = view ` set ns"
    by (rule view_of_synced [OF _ _ news(1) sync_pairs(1) [OF assms(1)]])
      (use sync_survivors [OF assms(1) news(1,2)] assms(1,3) in \<open>simp_all add: sync_pre_def\<close>)
  moreover have "others zs = others xs"
  proof -
    have "\<forall>p \<in> fst ` set (pairs xs ns). kind (key p)"
      using sync_pairs(3) [OF assms(1)] by auto
    then have "others zs = others ys" by (rule updated_others [OF assms(2)])
    then show ?thesis
      unfolding assms(3) using sync_others_survivors [OF assms(1)] news(3) by simp
  qed
  moreover have eq: "of_kind ys = filter (\<lambda>x. key x \<notin> key ` set (deleted xs ns)) (of_kind xs @ news)"
    unfolding assms(3) using news(2) by (simp add: of_kind_filter)
  have "distinct (map key (of_kind ys))"
    unfolding eq by (rule distinct_map_filter [OF news(4)])
  then have "distinct (map key (of_kind zs))"
    by (simp add: updated_key [OF kinds])
  ultimately show ?thesis by (simp add: synced_def)
qed

lemma sync_delete:
  assumes "sync_pre xs ns" and "set (deleted xs ns) \<subseteq> set ys"
  shows "run_steps delete (deleted xs ns) ys = Inr (filter (\<lambda>x. key x \<notin> key ` set (deleted xs ns)) ys)"
proof (rule run_delete [OF _ sync_deleted(1) [OF assms(1)]])
  show "\<forall>d \<in> set (deleted xs ns). del_ok d \<and> kind (key d) \<and> d \<in> set ys"
    using sync_deleted(2) [OF assms(1)] assms(2) by blast
qed

lemma sync_update:
  assumes "sync_pre xs ns" and "distinct (map key (of_kind ys))"
    and "\<And>p n. (p, n) \<in> set (pairs xs ns) \<Longrightarrow> p \<in> set ys"
  obtains zs where "run_steps update (pairs xs ns) ys = Inr zs" and "list_all2 (updated (pairs xs ns)) ys zs"
proof -
  have "\<forall>(p, n) \<in> set (pairs xs ns). upd_ok p n \<and> kind (key p) \<and> key p = key n \<and> p \<in> set ys"
    using sync_pairs(3) [OF assms(1)] assms(3) by blast
  from run_update [OF this sync_pairs(2) [OF assms(1)] assms(2)] that show thesis
    by blast
qed

lemma sync_pairD:
  assumes "sync_pre xs ns" and "(p, n) \<in> set (pairs xs ns)"
  shows "p \<in> set xs" and "key p \<notin> key ` set (deleted xs ns)"
proof -
  have p: "p \<in> set (of_kind xs)" "n \<in> set ns" "key p = key n"
    using assms(2) unfolding sync_pairs(1) [OF assms(1)] by simp_all
  then show "p \<in> set xs" by (simp add: of_kindD)
  from p(2,3) have "key p \<in> key ` set ns" by simp
  then show "key p \<notin> key ` set (deleted xs ns)" unfolding key_deleted by simp
qed

theorem sync_create_delete_update:
  assumes pre: "sync_pre xs ns"
  shows "\<exists>zs. bind_res (run_steps create (created xs ns) xs)
            (\<lambda>xs1. bind_res (run_steps delete (deleted xs ns) xs1) (run_steps update (pairs xs ns))) = Inr zs
          \<and> synced xs ns zs"
proof -
  obtain news where news: "run_steps create (created xs ns) xs = Inr (xs @ news)"
    "map view news = map view (filter (\<lambda>n. key n \<notin> key ` set (of_kind xs)) ns)"
    "of_kind news = news" "others news = []" "distinct (map key (of_kind xs @ news))"
    by (rule sync_create [OF pre refl])
  let ?ys = "filter (\<lambda>x. key x \<notin> key ` set (deleted xs ns)) (xs @ news)"
  have del: "run_steps delete (deleted xs ns) (xs @ news) = Inr ?ys"
    using sync_deleted(2) [OF pre] by (intro sync_delete [OF pre]) (auto dest: of_kindD)
  have "distinct (map key (of_kind ?ys))"
    unfolding of_kind_filter of_kind_append news(3) by (rule distinct_map_filter [OF news(5)])
  then obtain zs where zs: "run_steps update (pairs xs ns) ?ys = Inr zs"
    "list_all2 (updated (pairs xs ns)) ?ys zs"
    by (rule sync_update [OF pre]) (simp add: sync_pairD [OF pre])
  from zs(1) del news(1) synced_from [OF pre zs(2) refl news(2-5)] show ?thesis
    by simp
qed

lemma sync_finish:
  assumes pre: "sync_pre xs ns" and upd: "list_all2 (updated (pairs xs ns)) (xs @ news) zs"
    and news: "map view news = map view (filter (\<lambda>n. key n \<notin> key ` set (of_kind xs)) ns)"
      "of_kind news = news" "others news = []" "distinct (map key (of_kind xs @ news))"
  shows "\<exists>us. run_steps delete (deleted xs ns) zs = Inr us \<and> synced xs ns us"
proof -
  have "d \<in> set zs" if d: "d \<in> set (deleted xs ns)" for d
  proof -
    have "d \<in> set (xs @ news)"
      using d sync_deleted(2) [OF pre] by (auto dest: of_kindD)
    then obtain z where z: "z \<in> set zs" "updated (pairs xs ns) d z"
      using list_all2_ex1 [OF upd] by blast
    have "d \<notin> fst ` set (pairs xs ns)"
      using d by (auto dest!: sync_pairD(2) [OF pre] intro: imageI)
    with z show ?thesis by (simp add: updated_def)
  qed
  then have "run_steps delete (deleted xs ns) zs
      = Inr (filter (\<lambda>x. key x \<notin> key ` set (deleted xs ns)) zs)"
    by (intro sync_delete [OF pre]) blast
  with synced_from [OF pre updated_filter [OF upd] refl news] show ?thesis by blast
qed

theorem sync_create_update_delete:
  assumes pre: "sync_pre xs ns"
  shows "\<exists>zs. bind_res (run_steps create (created xs ns) xs)
            (\<lambda>xs1. bind_res (run_steps update (pairs xs ns) xs1) (run_steps delete (deleted xs ns))) = Inr zs
          \<and> synced xs ns zs"
proof -
  obtain news where news: "run_steps create (created xs ns) xs = Inr (xs @ news)"
    "map view news = map view (filter (\<lambda>n. key n \<notin> key ` set (of_kind xs)) ns)"
    "of_kind news = news" "others news = []" "distinct (map key (of_kind xs @ news))"
    by (rule sync_create [OF pre refl])
  from news(3,5) have "distinct (map key (of_kind (xs @ news)))" by simp
  then obtain zs where zs: "run_steps update (pairs xs ns) (xs @ news) = Inr zs"
    "list_all2 (updated (pairs xs ns)) (xs @ news) zs"
    by (rule sync_update [OF pre]) (simp add: sync_pairD [OF pre])
  from news(1) zs(1) sync_finish [OF pre zs(2) news(2-5)] show ?thesis by simp
qed

theorem sync_update_create_delete:
  assumes pre: "sync_pre xs ns"
  shows "\<exists>zs. bind_res (run_steps update (pairs xs ns) xs)
            (\<lambda>xs1. bind_res (run_steps create (created xs ns) xs1) (run_steps delete (deleted xs ns))) = Inr zs
          \<and> synced xs ns zs"
proof -
  from pre have "distinct (map key (of_kind xs))" by (simp add: sync_pre_def)
  then obtain ys where ys: "run_steps update (pairs xs ns) xs = Inr ys" "list_all2 (updated (pairs xs ns)) xs ys"
    by (rule sync_update [OF pre]) (simp add: sync_pairD [OF pre])
  obtain news where news: "run_steps create (created xs ns) ys = Inr (ys @ news)"
    "map view news = map view (filter (\<lambda>n. key n \<notin> key ` set (of_kind xs)) ns)"
    "of_kind news = news" "others news = []" "distinct (map key (of_kind xs @ news))"
    by (rule sync_create [OF pre updated_key [OF ys(2)]])
  have "y \<notin> fst ` set (pairs xs ns)" if "y \<in> set news" for y
  proof -
    have "fst ` set (pairs xs ns) \<subseteq> set (of_kind xs)"
      unfolding sync_pairs(1) [OF pre] by auto
    moreover have "set (of_kind xs) \<inter> set news = {}"
      using news(5) unfolding distinct_map distinct_append by blast
    ultimately show ?thesis using that by blast
  qed
  then have "list_all2 (updated (pairs xs ns)) news news"
    by (simp add: list_all2_same updated_def)
  with ys(2) have "list_all2 (updated (pairs xs ns)) (xs @ news) (ys @ news)"
    by (rule list_all2_appendI)
  from ys(1) news(1) sync_finish [OF pre this news(2-5)] show ?thesis by simp
qed

end

end
