(* ===== verification/Differ_Spec.thy ===== *)
theory Differ_Spec
  imports Datamodel_Differ List_Sync
begin

text \<open>
  The differ as a specification: for schemas whose expressions can be rendered, the vector of
  steps is a pure function of the two schemas. The lemmas of this theory reduce every push
  function of \<open>datamodel_differ.rs\<close> to the list it appends (collection \<open>diff_simps\<close>), so that
  the correctness proofs work on lists of steps.
\<close>

section \<open>Schemas that can be rendered\<close>

definition arg_renders :: "argument \<Rightarrow> bool" where
  "arg_renders a \<longleftrightarrow> \<not> mentions_any (arg_value a)"

definition dir_renders :: "directive \<Rightarrow> bool" where
  "dir_renders d \<longleftrightarrow> list_all arg_renders (dir_arguments d)"

definition fld_renders :: "ast_field \<Rightarrow> bool" where
  "fld_renders f \<longleftrightarrow> list_all dir_renders (fld_directives f)"

definition mdl_renders :: "ast_model \<Rightarrow> bool" where
  "mdl_renders m \<longleftrightarrow> list_all fld_renders (mdl_fields m) \<and> list_all dir_renders (mdl_directives m)"

definition val_renders :: "enum_value \<Rightarrow> bool" where
  "val_renders v \<longleftrightarrow> list_all dir_renders (val_directives v)"

definition enm_renders :: "ast_enum \<Rightarrow> bool" where
  "enm_renders e \<longleftrightarrow> list_all val_renders (enm_values e) \<and> list_all dir_renders (enm_directives e)"

definition src_renders :: "source_config \<Rightarrow> bool" where
  "src_renders s \<longleftrightarrow> list_all arg_renders (src_properties s)"

fun top_renders :: "top_level \<Rightarrow> bool" where
  "top_renders (TopEnum x) = enm_renders x"
| "top_renders (TopModel x) = mdl_renders x"
| "top_renders (TopSource x) = src_renders x"
| "top_renders (TopGenerator x) = True"
| "top_renders (TopType x) = fld_renders x"

definition schema_renders :: "schema_ast \<Rightarrow> bool" where
  "schema_renders s \<longleftrightarrow> list_all top_renders (tops s)"

definition rendered :: "argument \<Rightarrow> migration_expression" where
  "rendered a = MigrationExpression (case render_value (arg_value a) of None \<Rightarrow> [] | Some s \<Rightarrow> s)"

lemma from_ast_expression_rendered [diff_simps]:
  "arg_renders a \<Longrightarrow> from_ast_expression (arg_value a) = Inr (rendered a)"
  unfolding arg_renders_def render_value_None [symmetric]
  by (auto simp: from_ast_expression_def rendered_def)

lemma list_all_filterI: "list_all P xs \<Longrightarrow> list_all P (filter Q xs)"
  by (auto simp: list_all_iff)

lemma list_all_created: "list_all P ns \<Longrightarrow> list_all P (diff_created m ps ns)"
  by (simp add: diff_created_def list_all_filterI)

lemma list_all_deleted: "list_all P ps \<Longrightarrow> list_all P (diff_deleted m ps ns)"
  by (simp add: diff_deleted_def list_all_filterI)

lemma list_all_pairs:
  "list_all P ps \<Longrightarrow> list_all P ns \<Longrightarrow> list_all (\<lambda>(p, n). P p \<and> P n) (diff_pairs m ps ns)"
  by (auto simp: list_all_iff dest: diff_pairsD)

lemmas list_all_diff = list_all_created list_all_deleted list_all_pairs list_all_filterI

text \<open>All matching predicates compare names.\<close>

lemma match_by_name:
  "directives_match = same_key dir_name" "enum_directives_match = same_key dir_name"
  "enum_value_directives_match = same_key dir_name" "arguments_match = same_key arg_name"
  "fields_match = same_key fld_name" "values_match = same_key val_name"
  "sources_match = same_key src_name" "enums_match = same_key enm_name"
  "models_match = same_key mdl_name" "type_aliases_match = same_key fld_name"
  by (auto simp: fun_eq_iff same_key_def directives_match_def enum_directives_match_def
      enum_value_directives_match_def arguments_match_def fields_match_def values_match_def
      sources_match_def enums_match_def models_match_def type_aliases_match_def)

lemma vd_directives_by_name:
  "vd_created_directives p n = diff_created (same_key dir_name) (val_directives p) (val_directives n)"
  "vd_deleted_directives p n = diff_deleted (same_key dir_name) (val_directives p) (val_directives n)"
  by (auto simp: vd_created_directives_def vd_deleted_directives_def diff_created_def diff_deleted_def
      list_ex_iff find_None_iff_ball match_by_name intro!: filter_cong)

lemma td_deleted_datasources_by_name:
  "td_deleted_datasources p n = diff_deleted (same_key src_name) (walk_sources p) (walk_sources n)"
  unfolding td_deleted_datasources_def diff_deleted_def match_by_name same_key_def
  by (simp add: eq_commute)

section \<open>Arguments\<close>

definition created_argument_step :: "argument_location \<Rightarrow> argument \<Rightarrow> migration_step" where
  "created_argument_step loc a =
     CreateArgument \<lparr>ca_location = loc, ca_argument = arg_name a, ca_value = rendered a\<rparr>"

definition updated_argument_steps :: "argument_location \<Rightarrow> argument \<times> argument \<Rightarrow> migration_step list" where
  "updated_argument_steps loc pn =
     (if rendered (fst pn) = rendered (snd pn) then []
      else [UpdateArgument \<lparr>ua_location = loc, ua_argument = arg_name (snd pn), ua_new_value = rendered (snd pn)\<rparr>])"

definition deleted_argument_step :: "argument_location \<Rightarrow> argument \<Rightarrow> migration_step" where
  "deleted_argument_step loc a = DeleteArgument \<lparr>da_location = loc, da_argument = arg_name a\<rparr>"

lemma push_created_argument_spec:
  "arg_renders a \<Longrightarrow> push_created_argument loc a st = Inr (st @ [created_argument_step loc a])"
  by (simp add: push_created_argument_def created_argument_step_def diff_simps)

lemma push_updated_argument_spec:
  "(\<lambda>(p, n). arg_renders p \<and> arg_renders n) pn \<Longrightarrow>
   push_updated_argument loc pn st = Inr (st @ updated_argument_steps loc pn)"
  by (cases pn) (simp add: push_updated_argument_def updated_argument_steps_def diff_simps)

lemma push_deleted_argument_spec:
  "push_deleted_argument loc (arg_name a) st = Inr (st @ [deleted_argument_step loc a])"
  by (simp add: push_deleted_argument_def deleted_argument_step_def)

lemma concat_map_singleton: "concat (map (\<lambda>x. [f x]) xs) = map f xs"
  by (induction xs) auto

text \<open>Loops that push one specification each.\<close>

lemma run_push:
  assumes "list_all P xs" and "\<And>x st. P x \<Longrightarrow> push x st = Inr (st @ out x)"
  shows "run_steps push xs st = Inr (st @ concat (map out xs))"
  using assms by (intro run_steps_push) (auto simp: list_all_iff)

lemma run_push_created_argument [diff_simps]:
  "list_all arg_renders as \<Longrightarrow>
   run_steps (push_created_argument loc) as st = Inr (st @ map (created_argument_step loc) as)"
  using run_push [where P = arg_renders and push = "push_created_argument loc" and xs = as and st = st
      and out = "\<lambda>a. [created_argument_step loc a]"]
  by (simp add: push_created_argument_spec concat_map_singleton)

lemma run_push_updated_argument [diff_simps]:
  "list_all (\<lambda>(p, n). arg_renders p \<and> arg_renders n) ps \<Longrightarrow>
   run_steps (push_updated_argument loc) ps st = Inr (st @ concat (map (updated_argument_steps loc) ps))"
  by (rule run_push [OF _ push_updated_argument_spec])

lemma run_push_deleted_argument [diff_simps]:
  "run_steps (\<lambda>a. push_deleted_argument loc (arg_name a)) as st = Inr (st @ map (deleted_argument_step loc) as)"
  using run_push [of "\<lambda>_. True" as "\<lambda>a. push_deleted_argument loc (arg_name a)"
      "\<lambda>a. [deleted_argument_step loc a]" st]
  by (simp add: push_deleted_argument_spec concat_map_singleton list_all_iff)

section \<open>Directives\<close>

abbreviation dloc :: "directive_path \<Rightarrow> directive \<Rightarrow> directive_location" where
  "dloc path d \<equiv> \<lparr>dl_path = path, dl_directive = dir_name d\<rparr>"

definition created_directive_steps :: "directive_path \<Rightarrow> directive \<Rightarrow> migration_step list" where
  "created_directive_steps path d =
     CreateDirective (dloc path d) # map (created_argument_step (ArgDirective (dloc path d))) (dir_arguments d)"

definition updated_directive_steps :: "directive_path \<Rightarrow> directive \<times> directive \<Rightarrow> migration_step list" where
  "updated_directive_steps path pn =
     (let loc = ArgDirective (dloc path (fst pn)); as = dir_arguments (fst pn); bs = dir_arguments (snd pn) in
      map (created_argument_step loc) (diff_created (same_key arg_name) as bs)
      @ concat (map (updated_argument_steps loc) (diff_pairs (same_key arg_name) as bs))
      @ map (deleted_argument_step loc) (diff_deleted (same_key arg_name) as bs))"

definition deleted_directive_step :: "directive_path \<Rightarrow> directive \<Rightarrow> migration_step" where
  "deleted_directive_step path d = DeleteDirective (dloc path d)"

definition step_args :: "directive \<Rightarrow> step_argument list" where
  "step_args d = map (\<lambda>a. \<lparr>sa_name = arg_name a, sa_value = rendered a\<rparr>) (dir_arguments d)"

definition created_repeated_step :: "directive_path \<Rightarrow> directive \<Rightarrow> migration_step" where
  "created_repeated_step path d = CreateDirective (dloc (set_arguments path (step_args d)) d)"

definition deleted_repeated_step :: "directive_path \<Rightarrow> directive \<Rightarrow> migration_step" where
  "deleted_repeated_step path d = DeleteDirective (dloc (set_arguments path (step_args d)) d)"

text \<open>Directives of fields, type aliases, enums and enum values, and the regular ones of models.\<close>

definition sync_directives_steps :: "directive_path \<Rightarrow> directive list \<Rightarrow> directive list \<Rightarrow> migration_step list" where
  "sync_directives_steps path ps ns =
     concat (map (created_directive_steps path) (diff_created (same_key dir_name) ps ns))
     @ concat (map (updated_directive_steps path) (diff_pairs (same_key dir_name) ps ns))
     @ map (deleted_directive_step path) (diff_deleted (same_key dir_name) ps ns)"

definition identical :: "directive \<Rightarrow> directive \<Rightarrow> bool" where
  "identical p n \<longleftrightarrow> dir_name p = dir_name n \<and> length (dir_arguments p) = length (dir_arguments n)
     \<and> (\<forall>a \<in> set (dir_arguments p). \<exists>b \<in> set (dir_arguments n). arg_name a = arg_name b \<and> rendered a = rendered b)"

lemma push_created_directive_spec:
  "dir_renders d \<Longrightarrow> push_created_directive path d st = Inr (st @ created_directive_steps path d)"
  by (simp add: push_created_directive_def created_directive_steps_def dir_renders_def diff_simps Let_def)

lemma push_created_directives_spec [diff_simps]:
  "list_all dir_renders ds \<Longrightarrow>
   push_created_directives path ds st = Inr (st @ concat (map (created_directive_steps path) ds))"
  unfolding push_created_directives_def by (rule run_push [OF _ push_created_directive_spec])

lemma push_updated_directive_spec:
  "(\<lambda>(p, n). dir_renders p \<and> dir_renders n) pn \<Longrightarrow>
   push_updated_directive path pn st = Inr (st @ updated_directive_steps path pn)"
  by (cases pn)
    (simp add: push_updated_directive_def updated_directive_steps_def dir_renders_def diff_simps Let_def
      dd_created_arguments_def dd_argument_pairs_def dd_deleted_arguments_def match_by_name list_all_diff)

lemma push_updated_directives_spec [diff_simps]:
  "list_all (\<lambda>(p, n). dir_renders p \<and> dir_renders n) ps \<Longrightarrow>
   push_updated_directives path ps st = Inr (st @ concat (map (updated_directive_steps path) ps))"
  unfolding push_updated_directives_def by (rule run_push [OF _ push_updated_directive_spec])

lemma push_deleted_directives_spec [diff_simps]:
  "push_deleted_directives path ds st = Inr (st @ map (deleted_directive_step path) ds)"
  unfolding push_deleted_directives_def
  using run_push [of "\<lambda>_. True" ds "push_deleted_directive path" "\<lambda>d. [deleted_directive_step path d]" st]
  by (simp add: push_deleted_directive_def deleted_directive_step_def concat_map_singleton list_all_iff)

lemma collect_step_args:
  "dir_renders d \<Longrightarrow> collect_res step_argument_from (dir_arguments d) = Inr (step_args d)"
  unfolding step_args_def
  by (rule collect_res_Inr) (auto simp: dir_renders_def list_all_iff step_argument_from_def diff_simps)

lemma run_push_created_repeated [diff_simps]:
  assumes "list_all dir_renders ds"
  shows "run_steps (push_created_directive_with_arguments path) ds st
      = Inr (st @ map (created_repeated_step path) ds)"
  using run_push [OF assms, of "push_created_directive_with_arguments path" "\<lambda>d. [created_repeated_step path d]" st]
  by (simp add: push_created_directive_with_arguments_def created_repeated_step_def
      collect_step_args concat_map_singleton)

lemma run_push_deleted_repeated [diff_simps]:
  assumes "list_all dir_renders ds"
  shows "run_steps (push_deleted_directive_with_arguments path) ds st
      = Inr (st @ map (deleted_repeated_step path) ds)"
  using run_push [OF assms, of "push_deleted_directive_with_arguments path" "\<lambda>d. [deleted_repeated_step path d]" st]
  by (simp add: push_deleted_directive_with_arguments_def deleted_repeated_step_def
      collect_step_args concat_map_singleton)

lemma directives_are_identical_spec [diff_simps]:
  assumes "dir_renders p" and "dir_renders n"
  shows "directives_are_identical p n = Inr (identical p n)"
proof -
  let ?same = "\<lambda>a b. arg_name a = arg_name b \<and> rendered a = rendered b"
  have "arguments_are_identical a b = Inr (?same a b)"
    if "a \<in> set (dir_arguments p)" "b \<in> set (dir_arguments n)" for a b
    using that assms
    by (auto simp: arguments_are_identical_def dir_renders_def list_all_iff diff_simps)
  then have "find_res (arguments_are_identical a) (dir_arguments n)
      = Inr (\<exists>b \<in> set (dir_arguments n). ?same a b)" if "a \<in> set (dir_arguments p)" for a
    using that by (intro find_res_Inr) auto
  then have "all_res (\<lambda>a. find_res (arguments_are_identical a) (dir_arguments n)) (dir_arguments p)
      = Inr (\<forall>a \<in> set (dir_arguments p). \<exists>b \<in> set (dir_arguments n). ?same a b)"
    by (intro all_res_Inr) auto
  then show ?thesis
    by (auto simp: directives_are_identical_def identical_def)
qed

lemma filter_res_Inr:
  assumes "\<And>x. x \<in> set xs \<Longrightarrow> P x = Inr (Q x)"
  shows "filter_res P xs = Inr (filter Q xs)"
  using assms by (induction xs) auto

section \<open>Type aliases\<close>

definition created_type_alias_steps :: "ast_field \<Rightarrow> migration_step list" where
  "created_type_alias_steps t =
     CreateTypeAlias \<lparr>ct_type_alias = fld_name t, ct_type = id_name (fld_type t),
                      ct_arity = arity_from_ast (fld_arity t)\<rparr>
     # concat (map (created_directive_steps (PathTypeAlias (fld_name t))) (fld_directives t))"

definition updated_type_alias_steps :: "ast_field \<times> ast_field \<Rightarrow> migration_step list" where
  "updated_type_alias_steps pn =
     (let p = fst pn; n = snd pn in
      (if id_name (fld_type p) = id_name (fld_type n) then []
       else [UpdateTypeAlias \<lparr>ut_type_alias = fld_name p, ut_type = Some (id_name (fld_type n))\<rparr>])
      @ sync_directives_steps (PathTypeAlias (fld_name p)) (fld_directives p) (fld_directives n))"

lemma push_created_type_aliases_spec [diff_simps]:
  "list_all fld_renders ts \<Longrightarrow>
   push_created_type_aliases ts st = Inr (st @ concat (map created_type_alias_steps ts))"
  unfolding push_created_type_aliases_def
  by (rule run_push [of fld_renders])
    (simp_all add: push_created_type_alias_def created_type_alias_steps_def fld_renders_def diff_simps)

lemma sync_directives_push:
  assumes "list_all dir_renders ps" and "list_all dir_renders ns"
  shows "bind_res (push_created_directives path (diff_created (same_key dir_name) ps ns) st) (\<lambda>st.
         bind_res (push_updated_directives path (diff_pairs (same_key dir_name) ps ns) st) (\<lambda>st.
           push_deleted_directives path (diff_deleted (same_key dir_name) ps ns) st))
       = Inr (st @ sync_directives_steps path ps ns)"
  using assms by (simp add: diff_simps list_all_diff sync_directives_steps_def)

lemmas fd_defs = fd_created_directives_def fd_deleted_directives_def fd_directive_pairs_def
lemmas ed_dir_defs = ed_created_directives_def ed_deleted_directives_def ed_directive_pairs_def

lemma push_updated_type_aliases_spec [diff_simps]:
  "list_all (\<lambda>(p, n). fld_renders p \<and> fld_renders n) ts \<Longrightarrow>
   push_updated_type_aliases ts st = Inr (st @ concat (map updated_type_alias_steps ts))"
  unfolding push_updated_type_aliases_def
  by (rule run_push [of "\<lambda>(p, n). fld_renders p \<and> fld_renders n"])
    (auto simp: push_updated_type_alias_def updated_type_alias_steps_def fld_renders_def Let_def fd_defs
      match_by_name sync_directives_push ut_is_any_option_set_def diff_value_def split: if_splits)

section \<open>Enums\<close>

definition created_enum_steps :: "ast_enum \<Rightarrow> migration_step list" where
  "created_enum_steps e =
     CreateEnum \<lparr>ce_enum = enm_name e, ce_values = map val_name (enm_values e)\<rparr>
     # concat (map (created_directive_steps (PathEnum (enm_name e))) (enm_directives e))
     @ concat (map (\<lambda>v. concat (map (created_directive_steps (PathEnumValue (enm_name e) (val_name v)))
                                 (val_directives v))) (enm_values e))"

definition updated_enum_value_steps :: "string \<Rightarrow> enum_value \<times> enum_value \<Rightarrow> migration_step list" where
  "updated_enum_value_steps enum_name pn =
     sync_directives_steps (PathEnumValue enum_name (val_name (snd pn)))
       (val_directives (fst pn)) (val_directives (snd pn))"

definition updated_enum_steps :: "ast_enum \<times> ast_enum \<Rightarrow> migration_step list" where
  "updated_enum_steps pn =
     (let p = fst pn; n = snd pn;
          created = diff_created (same_key val_name) (enm_values p) (enm_values n);
          deleted = diff_deleted (same_key val_name) (enm_values p) (enm_values n);
          step = \<lparr>ue_enum = enm_name p, ue_new_name = diff_value (enm_name p) (enm_name n),
                  ue_created_values = map val_name created, ue_deleted_values = map val_name deleted\<rparr> in
      concat (map (\<lambda>v. concat (map (created_directive_steps (PathEnumValue (enm_name n) (val_name v)))
                                 (val_directives v))) created)
      @ concat (map (updated_enum_value_steps (enm_name n))
                  (diff_pairs (same_key val_name) (enm_values p) (enm_values n)))
      @ (if ue_is_any_option_set step then [UpdateEnum step] else [])
      @ sync_directives_steps (PathEnum (enm_name p)) (enm_directives p) (enm_directives n))"

lemma run_push_value_directives:
  "list_all val_renders vs \<Longrightarrow>
   run_steps (\<lambda>v. push_created_directives (PathEnumValue nm (val_name v)) (val_directives v)) vs st
   = Inr (st @ concat (map (\<lambda>v. concat (map (created_directive_steps (PathEnumValue nm (val_name v)))
                                          (val_directives v))) vs))"
  by (rule run_push [of val_renders]) (simp_all add: val_renders_def diff_simps)

lemma push_created_enums_spec [diff_simps]:
  "list_all enm_renders es \<Longrightarrow>
   push_created_enums es st = Inr (st @ concat (map created_enum_steps es))"
  unfolding push_created_enums_def
  by (rule run_push [of enm_renders])
    (simp_all add: push_created_enum_def created_enum_steps_def enm_renders_def diff_simps
      run_push_value_directives)

lemma run_push_updated_enum_value:
  "list_all (\<lambda>(p, n). val_renders p \<and> val_renders n) vs \<Longrightarrow>
   run_steps (push_updated_enum_value nm) vs st = Inr (st @ concat (map (updated_enum_value_steps nm) vs))"
  by (rule run_push [of "\<lambda>(p, n). val_renders p \<and> val_renders n"])
    (auto simp: push_updated_enum_value_def updated_enum_value_steps_def val_renders_def Let_def
      vd_directives_by_name vd_directive_pairs_def match_by_name sync_directives_push)

lemma push_updated_enum_spec:
  "(\<lambda>(p, n). enm_renders p \<and> enm_renders n) pn \<Longrightarrow>
   push_updated_enum pn st = Inr (st @ updated_enum_steps pn)"
  by (cases pn)
    (simp add: push_updated_enum_def updated_enum_steps_def enm_renders_def Let_def list_all_diff
      run_push_value_directives run_push_updated_enum_value sync_directives_push match_by_name ed_dir_defs
      ed_created_values_def ed_deleted_values_def ed_value_pairs_def)

lemma push_updated_enums_spec [diff_simps]:
  "list_all (\<lambda>(p, n). enm_renders p \<and> enm_renders n) es \<Longrightarrow>
   push_updated_enums es st = Inr (st @ concat (map updated_enum_steps es))"
  unfolding push_updated_enums_def by (rule run_push [OF _ push_updated_enum_spec])

section \<open>Data sources\<close>

definition created_source_steps :: "source_config \<Rightarrow> migration_step list" where
  "created_source_steps s =
     CreateSource (src_name s) # map (created_argument_step (ArgSource (src_name s))) (src_properties s)"

definition updated_source_steps :: "source_config \<times> source_config \<Rightarrow> migration_step list" where
  "updated_source_steps pn =
     (let loc = ArgSource (src_name (fst pn)); as = src_properties (fst pn); bs = src_properties (snd pn) in
      map (created_argument_step loc) (diff_created (same_key arg_name) as bs)
      @ map (deleted_argument_step loc) (diff_deleted (same_key arg_name) as bs)
      @ concat (map (updated_argument_steps loc) (diff_pairs (same_key arg_name) as bs)))"

lemma push_created_sources_spec [diff_simps]:
  "list_all src_renders ss \<Longrightarrow>
   push_created_sources ss st = Inr (st @ concat (map created_source_steps ss))"
  unfolding push_created_sources_def
  by (rule run_push [of src_renders])
    (simp_all add: push_created_source_def created_source_steps_def src_renders_def diff_simps)

lemma push_updated_sources_spec [diff_simps]:
  "list_all (\<lambda>(p, n). src_renders p \<and> src_renders n) ss \<Longrightarrow>
   push_updated_sources ss st = Inr (st @ concat (map updated_source_steps ss))"
  unfolding push_updated_sources_def
  by (rule run_push [of "\<lambda>(p, n). src_renders p \<and> src_renders n"])
    (auto simp: push_updated_source_def updated_source_steps_def src_renders_def Let_def diff_simps
      list_all_diff match_by_name sd_created_arguments_def sd_deleted_arguments_def sd_argument_pairs_def)

section \<open>Models\<close>

definition created_field_steps :: "string \<Rightarrow> ast_field \<Rightarrow> migration_step list" where
  "created_field_steps model_name f =
     CreateField \<lparr>cf_model = model_name, cf_field = fld_name f, cf_tpe = id_name (fld_type f),
                  cf_arity = arity_from_ast (fld_arity f)\<rparr>
     # concat (map (created_directive_steps (PathField model_name (fld_name f))) (fld_directives f))"

definition deleted_field_step :: "string \<Rightarrow> ast_field \<Rightarrow> migration_step" where
  "deleted_field_step model_name f = DeleteField \<lparr>df_model = model_name, df_field = fld_name f\<rparr>"

definition updated_field_steps :: "string \<Rightarrow> ast_field \<times> ast_field \<Rightarrow> migration_step list" where
  "updated_field_steps model_name pn =
     (let p = fst pn; n = snd pn;
          step = \<lparr>uf_model = model_name, uf_field = fld_name p,
                  uf_new_name = diff_value (fld_name p) (fld_name n),
                  uf_tpe = diff_value (id_name (fld_type p)) (id_name (fld_type n)),
                  uf_arity = map_option arity_from_ast (diff_value (fld_arity p) (fld_arity n))\<rparr> in
      (if uf_is_any_option_set step then [UpdateField step] else [])
      @ sync_directives_steps (PathField model_name (fld_name p)) (fld_directives p) (fld_directives n))"

definition created_model_steps :: "ast_model \<Rightarrow> migration_step list" where
  "created_model_steps m =
     CreateModel (mdl_name m)
     # concat (map (created_field_steps (mdl_name m)) (mdl_fields m))
     @ concat (map (created_directive_steps (PathModel (mdl_name m) None)) (regular_directives m))
     @ map (created_repeated_step (PathModel (mdl_name m) None)) (repeated_directives m)"

definition created_repeated :: "ast_model \<Rightarrow> ast_model \<Rightarrow> directive list" where
  "created_repeated p n = filter (\<lambda>d. \<not> (\<exists>x \<in> set (repeated_directives p). identical x d)) (repeated_directives n)"

definition deleted_repeated :: "ast_model \<Rightarrow> ast_model \<Rightarrow> directive list" where
  "deleted_repeated p n = filter (\<lambda>d. \<not> (\<exists>x \<in> set (repeated_directives n). identical d x)) (repeated_directives p)"

definition updated_model_steps :: "ast_model \<times> ast_model \<Rightarrow> migration_step list" where
  "updated_model_steps pn =
     (let p = fst pn; n = snd pn; nm = mdl_name p; path = PathModel nm None in
      concat (map (created_field_steps nm) (diff_created (same_key fld_name) (mdl_fields p) (mdl_fields n)))
      @ map (deleted_field_step nm) (diff_deleted (same_key fld_name) (mdl_fields p) (mdl_fields n))
      @ concat (map (updated_field_steps nm) (diff_pairs (same_key fld_name) (mdl_fields p) (mdl_fields n)))
      @ sync_directives_steps path (regular_directives p) (regular_directives n)
      @ map (created_repeated_step path) (created_repeated p n)
      @ map (deleted_repeated_step path) (deleted_repeated p n))"

lemma push_created_fields_spec [diff_simps]:
  "list_all fld_renders fs \<Longrightarrow>
   push_created_fields nm fs st = Inr (st @ concat (map (created_field_steps nm) fs))"
  unfolding push_created_fields_def
  by (rule run_push [of fld_renders])
    (simp_all add: push_created_field_def created_field_steps_def fld_renders_def diff_simps)

lemma push_deleted_fields_spec [diff_simps]:
  "push_deleted_fields nm fs st = Inr (st @ map (deleted_field_step nm) fs)"
  by (simp add: push_deleted_fields_def deleted_field_step_def)

lemma push_updated_fields_spec [diff_simps]:
  "list_all (\<lambda>(p, n). fld_renders p \<and> fld_renders n) fs \<Longrightarrow>
   push_updated_fields nm fs st = Inr (st @ concat (map (updated_field_steps nm) fs))"
  unfolding push_updated_fields_def
  by (rule run_push [of "\<lambda>(p, n). fld_renders p \<and> fld_renders n"])
    (auto simp: push_updated_field_def updated_field_steps_def fld_renders_def Let_def fd_defs
      match_by_name sync_directives_push)

lemma list_all_regular: "mdl_renders m \<Longrightarrow> list_all dir_renders (regular_directives m)"
  by (simp add: mdl_renders_def regular_directives_def list_all_filterI)

lemma list_all_repeated: "mdl_renders m \<Longrightarrow> list_all dir_renders (repeated_directives m)"
  by (simp add: mdl_renders_def repeated_directives_def list_all_filterI)

lemma created_repeated_spec [diff_simps]:
  assumes "mdl_renders p" and "mdl_renders n"
  shows "md_created_repeated_directives p n = Inr (created_repeated p n)"
  unfolding md_created_repeated_directives_def created_repeated_def
proof (rule filter_res_Inr)
  fix d assume "d \<in> set (repeated_directives n)"
  with assms have "find_res (\<lambda>x. directives_are_identical x d) (repeated_directives p)
      = Inr (\<exists>x \<in> set (repeated_directives p). identical x d)"
    using list_all_repeated by (intro find_res_Inr) (auto simp: list_all_iff diff_simps)
  then show "map_res Not (find_res (\<lambda>x. directives_are_identical x d) (repeated_directives p))
      = Inr (\<not> (\<exists>x \<in> set (repeated_directives p). identical x d))"
    by simp
qed

lemma deleted_repeated_spec [diff_simps]:
  assumes "mdl_renders p" and "mdl_renders n"
  shows "md_deleted_repeated_directives p n = Inr (deleted_repeated p n)"
  unfolding md_deleted_repeated_directives_def deleted_repeated_def
proof (rule filter_res_Inr)
  fix d assume "d \<in> set (repeated_directives p)"
  with assms have "find_res (\<lambda>x. directives_are_identical d x) (repeated_directives n)
      = Inr (\<exists>x \<in> set (repeated_directives n). identical d x)"
    using list_all_repeated by (intro find_res_Inr) (auto simp: list_all_iff diff_simps)
  then show "map_res Not (find_res (\<lambda>x. directives_are_identical d x) (repeated_directives n))
      = Inr (\<not> (\<exists>x \<in> set (repeated_directives n). identical d x))"
    by simp
qed

lemma push_created_models_spec [diff_simps]:
  "list_all mdl_renders ms \<Longrightarrow>
   push_created_models ms st = Inr (st @ concat (map created_model_steps ms))"
  unfolding push_created_models_def
  by (rule run_push [of mdl_renders])
    (simp_all add: push_created_model_def created_model_steps_def mdl_renders_def diff_simps Let_def
      list_all_filterI push_created_directives_with_arguments_def regular_directives_def repeated_directives_def)

lemmas md_field_defs = md_created_fields_def md_deleted_fields_def md_field_pairs_def
lemmas md_regular_defs =
  md_created_regular_directives_def md_deleted_regular_directives_def md_regular_directive_pairs_def

lemma push_updated_model_spec:
  assumes "(\<lambda>(p, n). mdl_renders p \<and> mdl_renders n) pn"
  shows "push_updated_model pn st = Inr (st @ updated_model_steps pn)"
proof -
  obtain p n where pn: "pn = (p, n)" and r: "mdl_renders p" "mdl_renders n"
    using assms by (cases pn) auto
  have fields: "list_all fld_renders (mdl_fields p)" "list_all fld_renders (mdl_fields n)"
    using r by (simp_all add: mdl_renders_def)
  have repeated: "list_all dir_renders (created_repeated p n)" "list_all dir_renders (deleted_repeated p n)"
    using r by (simp_all add: created_repeated_def deleted_repeated_def list_all_repeated list_all_filterI)
  show ?thesis
    using r fields repeated
    by (simp add: pn push_updated_model_def updated_model_steps_def Let_def md_field_defs md_regular_defs
        match_by_name diff_simps list_all_diff list_all_regular sync_directives_steps_def)
qed

lemma push_updated_models_spec [diff_simps]:
  "list_all (\<lambda>(p, n). mdl_renders p \<and> mdl_renders n) ms \<Longrightarrow>
   push_updated_models ms st = Inr (st @ concat (map updated_model_steps ms))"
  unfolding push_updated_models_def by (rule run_push [OF _ push_updated_model_spec])

section \<open>The whole differ\<close>

definition type_alias_steps :: "schema_ast \<Rightarrow> schema_ast \<Rightarrow> migration_step list" where
  "type_alias_steps p n =
     concat (map created_type_alias_steps (diff_created (same_key fld_name) (walk_type_aliases p) (walk_type_aliases n)))
     @ map (\<lambda>t. DeleteTypeAlias (fld_name t)) (diff_deleted (same_key fld_name) (walk_type_aliases p) (walk_type_aliases n))
     @ concat (map updated_type_alias_steps (diff_pairs (same_key fld_name) (walk_type_aliases p) (walk_type_aliases n)))"

definition enum_steps :: "schema_ast \<Rightarrow> schema_ast \<Rightarrow> migration_step list" where
  "enum_steps p n =
     concat (map created_enum_steps (diff_created (same_key enm_name) (walk_enums p) (walk_enums n)))
     @ map (\<lambda>e. DeleteEnum (enm_name e)) (diff_deleted (same_key enm_name) (walk_enums p) (walk_enums n))
     @ concat (map updated_enum_steps (diff_pairs (same_key enm_name) (walk_enums p) (walk_enums n)))"

definition source_steps :: "schema_ast \<Rightarrow> schema_ast \<Rightarrow> migration_step list" where
  "source_steps p n =
     concat (map created_source_steps (diff_created (same_key src_name) (walk_sources p) (walk_sources n)))
     @ map (\<lambda>s. DeleteSource (src_name s)) (diff_deleted (same_key src_name) (walk_sources p) (walk_sources n))
     @ concat (map updated_source_steps (diff_pairs (same_key src_name) (walk_sources p) (walk_sources n)))"

definition model_steps :: "schema_ast \<Rightarrow> schema_ast \<Rightarrow> migration_step list" where
  "model_steps p n =
     concat (map created_model_steps (diff_created (same_key mdl_name) (walk_models p) (walk_models n)))
     @ map (\<lambda>m. DeleteModel (mdl_name m)) (diff_deleted (same_key mdl_name) (walk_models p) (walk_models n))
     @ concat (map updated_model_steps (diff_pairs (same_key mdl_name) (walk_models p) (walk_models n)))"

definition diff_steps :: "schema_ast \<Rightarrow> schema_ast \<Rightarrow> migration_step list" where
  "diff_steps p n = type_alias_steps p n @ enum_steps p n @ source_steps p n @ model_steps p n"

lemma schema_renders_walk:
  assumes "schema_renders s"
  shows "list_all fld_renders (walk_type_aliases s)" and "list_all enm_renders (walk_enums s)"
    and "list_all src_renders (walk_sources s)" and "list_all mdl_renders (walk_models s)"
proof -
  have tops: "top_renders t" if "t \<in> set (tops s)" for t
    using assms that by (simp add: schema_renders_def list_all_iff)
  show "list_all fld_renders (walk_type_aliases s)"
    by (auto simp: list_all_iff walk_type_aliases_def in_map_filter elim!: as_type_alias.elims dest!: tops)
  show "list_all enm_renders (walk_enums s)"
    by (auto simp: list_all_iff walk_enums_def in_map_filter elim!: as_enum.elims dest!: tops)
  show "list_all src_renders (walk_sources s)"
    by (auto simp: list_all_iff walk_sources_def in_map_filter elim!: as_source.elims dest!: tops)
  show "list_all mdl_renders (walk_models s)"
    by (auto simp: list_all_iff walk_models_def in_map_filter elim!: as_model.elims dest!: tops)
qed

lemma diff_eq_steps:
  assumes "schema_renders p" and "schema_renders n"
  shows "diff p n = Inr (diff_steps p n)"
proof -
  note r = schema_renders_walk [OF assms(1)] schema_renders_walk [OF assms(2)]
  have "push_type_aliases p n st = Inr (st @ type_alias_steps p n)" for st
    using r by (simp add: push_type_aliases_def type_alias_steps_def td_created_type_aliases_def
        td_deleted_type_aliases_def td_type_alias_pairs_def push_deleted_type_aliases_def
        match_by_name diff_simps list_all_diff)
  moreover have "push_enums p n st = Inr (st @ enum_steps p n)" for st
    using r by (simp add: push_enums_def enum_steps_def td_created_enums_def
        td_deleted_enums_def td_enum_pairs_def push_deleted_enums_def
        match_by_name diff_simps list_all_diff)
  moreover have "push_datasources p n st = Inr (st @ source_steps p n)" for st
    using r by (simp add: push_datasources_def source_steps_def td_created_datasources_def
        td_deleted_datasources_by_name td_updated_datasources_def push_deleted_sources_def
        match_by_name diff_simps list_all_diff)
  moreover have "push_models p n st = Inr (st @ model_steps p n)" for st
    using r by (simp add: push_models_def model_steps_def td_created_models_def
        td_deleted_models_def td_model_pairs_def push_deleted_models_def
        match_by_name diff_simps list_all_diff)
  ultimately show ?thesis
    by (simp add: diff_def diff_steps_def)
qed

end
