(* ===== verification/Step_Semantics.thy ===== *)
theory Step_Semantics
  imports Differ_Spec
begin

text \<open>
  What a migration step does to the part of the schema it addresses: to the arguments of a
  directive or a source, to a list of directives, to the fields of a model. Each level is tied to
  the calculator by a focus lemma, and the lists of arguments and directives are interpretations
  of \<open>list_sync\<close> on these operations.
\<close>

section \<open>Arguments\<close>

fun args_step :: "expr_parser \<Rightarrow> migration_step \<Rightarrow> argument list \<Rightarrow> argument list calc" where
  "args_step parse (CreateArgument c) as =
     map_res (\<lambda>value. as @ [\<lparr>arg_ident = new_ident (ca_argument c), arg_value = value, arg_span = span_empty\<rparr>])
       (or_panic (to_ast_expression parse (ca_value c)))"
| "args_step parse (UpdateArgument u) as =
     collect_res (\<lambda>a. if arg_name a = ua_argument u
       then map_res (\<lambda>value. a\<lparr>arg_value := value\<rparr>) (or_panic (to_ast_expression parse (ua_new_value u)))
       else Inr a) as"
| "args_step parse (DeleteArgument d) as = Inr (filter (\<lambda>a. arg_name a \<noteq> da_argument d) as)"
| "args_step parse _ as = Inr as"

text \<open>The parser reads the rendered value of an argument back as an expression that renders alike.\<close>

definition arg_parses :: "expr_parser \<Rightarrow> argument \<Rightarrow> bool" where
  "arg_parses parse a \<longleftrightarrow> arg_renders a \<and>
     (\<exists>s e. render_value (arg_value a) = Some s \<and> parse s = Some e \<and> render_value e = Some s)"

lemma arg_parsesE:
  assumes "arg_parses parse a"
  obtains e where "to_ast_expression parse (rendered a) = Inr e"
    and "\<And>b. arg_value b = e \<Longrightarrow> rendered b = rendered a"
  using assms by (auto simp: arg_parses_def to_ast_expression_def rendered_def)

lemma id_name_new_ident [simp]: "id_name (new_ident s) = s"
  by (simp add: new_ident_def)

lemma collect_res_update_one:
  assumes "\<forall>a \<in> set pre \<union> set post. \<not> P a" and "P p" and "f p = Inr x"
  shows "collect_res (\<lambda>a. if P a then f a else Inr a) (pre @ p # post) = Inr (pre @ x # post)"
proof -
  have "collect_res (\<lambda>a. if P a then f a else Inr a) ys = Inr ys" if "\<forall>a \<in> set ys. \<not> P a" for ys
    using that by (induction ys) auto
  with assms show ?thesis by (induction pre) auto
qed

abbreviation arg_create where
  "arg_create parse loc a \<equiv> args_step parse (created_argument_step loc a)"
abbreviation arg_update where
  "arg_update parse loc pn \<equiv> run_steps (args_step parse) (updated_argument_steps loc pn)"
abbreviation arg_delete where
  "arg_delete parse loc a \<equiv> args_step parse (deleted_argument_step loc a)"

interpretation args: list_sync arg_name rendered "\<lambda>_. True" "arg_parses parse" "\<lambda>_. arg_parses parse" "\<lambda>_. True"
    "arg_create parse loc" "arg_update parse loc" "arg_delete parse loc" for parse loc
proof (unfold_locales, goal_cases)
  case (1 n xs)
  then obtain e where "to_ast_expression parse (rendered n) = Inr e"
    "\<And>b. arg_value b = e \<Longrightarrow> rendered b = rendered n"
    by (auto elim: arg_parsesE)
  then show ?case by (auto simp: created_argument_step_def)
next
  case (2 p n pre post)
  then obtain e where e: "to_ast_expression parse (rendered n) = Inr e"
    "\<And>b. arg_value b = e \<Longrightarrow> rendered b = rendered n"
    by (auto elim: arg_parsesE)
  show ?case
  proof (cases "rendered p = rendered n")
    case True
    with 2 show ?thesis by (auto simp: updated_argument_steps_def)
  next
    case False
    have "args_step parse (UpdateArgument \<lparr>ua_location = loc, ua_argument = arg_name n, ua_new_value = rendered n\<rparr>)
        (pre @ p # post) = Inr (pre @ p\<lparr>arg_value := e\<rparr> # post)"
      unfolding args_step.simps using 2 e by (intro collect_res_update_one) auto
    with False 2 e(2) [of "p\<lparr>arg_value := e\<rparr>"] show ?thesis
      by (auto simp: updated_argument_steps_def)
  qed
next
  case (3 d xs)
  then show ?case by (simp add: deleted_argument_step_def)
qed

definition arg_views :: "argument list \<Rightarrow> (string \<times> migration_expression) set" where
  "arg_views as = (\<lambda>a. (arg_name a, rendered a)) ` set as"

lemma args_view: "args.view ` set as = arg_views as"
  by (auto simp: arg_views_def args.view_def)

lemma args_of_kind [simp]: "args.of_kind as = as"
  by (simp add: args.of_kind_def)

text \<open>Both orders of the argument steps bring a list of arguments to the content of the next one.\<close>

lemma sync_arguments_directive:
  assumes "distinct (map arg_name as)" and "distinct (map arg_name bs)" and "\<forall>b \<in> set bs. arg_parses parse b"
  shows "\<exists>zs. run_steps (args_step parse)
        (map (created_argument_step loc) (diff_created (same_key arg_name) as bs)
         @ concat (map (updated_argument_steps loc) (diff_pairs (same_key arg_name) as bs))
         @ map (deleted_argument_step loc) (diff_deleted (same_key arg_name) as bs)) as = Inr zs
      \<and> arg_views zs = arg_views bs"
proof -
  have "args.sync_pre parse as bs"
    using assms by (simp add: args.sync_pre_def)
  from args.sync_create_update_delete [OF this, of loc] show ?thesis
    by (auto simp: run_steps_folds args.synced_def args_view)
qed

lemma sync_arguments_source:
  assumes "distinct (map arg_name as)" and "distinct (map arg_name bs)" and "\<forall>b \<in> set bs. arg_parses parse b"
  shows "\<exists>zs. run_steps (args_step parse)
        (map (created_argument_step loc) (diff_created (same_key arg_name) as bs)
         @ map (deleted_argument_step loc) (diff_deleted (same_key arg_name) as bs)
         @ concat (map (updated_argument_steps loc) (diff_pairs (same_key arg_name) as bs))) as = Inr zs
      \<and> arg_views zs = arg_views bs"
proof -
  have "args.sync_pre parse as bs"
    using assms by (simp add: args.sync_pre_def)
  from args.sync_create_delete_update [OF this, of loc] show ?thesis
    by (auto simp: run_steps_folds args.synced_def args_view)
qed

lemma create_arguments:
  assumes "distinct (map arg_name bs)" and "\<forall>b \<in> set bs. arg_parses parse b"
  shows "\<exists>zs. run_steps (args_step parse) (map (created_argument_step loc) bs) [] = Inr zs
      \<and> arg_views zs = arg_views bs"
proof -
  have "\<exists>news. run_steps (arg_create parse loc) bs [] = Inr ([] @ news) \<and> map args.view news = map args.view bs"
    using assms by (intro args.run_create) auto
  then show ?thesis
    by (auto simp: run_steps_map args_view [symmetric] dest: arg_cong [of _ _ set])
qed

section \<open>Directives\<close>

definition on_arguments :: "expr_parser \<Rightarrow> migration_step \<Rightarrow> argument_location \<Rightarrow> directive list \<Rightarrow> directive list calc" where
  "on_arguments parse st location directives =
     (case location of
        ArgSource _ \<Rightarrow> Inr directives
      | ArgDirective l \<Rightarrow>
          modify_first (CalcPanic ContainerUnwrap) (\<lambda>d. dir_name d = dl_directive l)
            (\<lambda>d. map_res (\<lambda>as. d\<lparr>dir_arguments := as\<rparr>) (args_step parse st (dir_arguments d))) directives)"

definition argument_path :: "argument_location \<Rightarrow> directive_path option" where
  "argument_path location = (case location of ArgSource _ \<Rightarrow> None | ArgDirective l \<Rightarrow> Some (dl_path l))"

fun dirs_step :: "expr_parser \<Rightarrow> migration_step \<Rightarrow> directive list \<Rightarrow> directive list calc" where
  "dirs_step parse (CreateDirective location) directives =
     bind_res
       (case path_arguments (dl_path location) of
          None \<Rightarrow> Inr []
        | Some args \<Rightarrow> collect_res (\<lambda>arg. or_panic (step_argument_into parse arg)) args)
       (\<lambda>args. Inr (directives @
          [\<lparr>dir_ident = new_ident (dl_directive location), dir_arguments = args, dir_span = span_empty\<rparr>]))"
| "dirs_step parse (DeleteDirective location) directives =
     filter_res (\<lambda>directive. map_res Not (or_panic (matches_ast_directive location directive))) directives"
| "dirs_step parse (CreateArgument c) directives = on_arguments parse (CreateArgument c) (ca_location c) directives"
| "dirs_step parse (UpdateArgument u) directives = on_arguments parse (UpdateArgument u) (ua_location u) directives"
| "dirs_step parse (DeleteArgument d) directives = on_arguments parse (DeleteArgument d) (da_location d) directives"
| "dirs_step parse _ directives = Inr directives"

text \<open>The path of a step on directives, and the error of the calculator when the path is absent.\<close>

fun step_path :: "migration_step \<Rightarrow> directive_path option" where
  "step_path (CreateDirective l) = Some (dl_path l)"
| "step_path (DeleteDirective l) = Some (dl_path l)"
| "step_path (CreateArgument c) = argument_path (ca_location c)"
| "step_path (UpdateArgument u) = argument_path (ua_location u)"
| "step_path (DeleteArgument d) = argument_path (da_location d)"
| "step_path _ = None"

fun absent :: "migration_step \<Rightarrow> calculator_error" where
  "absent (CreateDirective l) = CreateDirectiveOnAbsentTarget l"
| "absent (DeleteDirective l) = DeleteDirectiveOnAbsentTarget l"
| "absent _ = CalcPanic ContainerUnwrap"

lemma apply_step_on_directives:
  assumes "step_path st = Some path"
  shows "apply_step parse st s = find_directives_mut (absent st) path (dirs_step parse st) s"
  using assms
  by (cases st)
    (auto simp: apply_create_directive_def apply_delete_directive_def apply_create_directive_argument_def
      apply_update_directive_argument_def apply_delete_directive_argument_def find_argument_container_def
      find_directive_mut_def on_arguments_def argument_path_def fun_eq_iff
      intro!: arg_cong2 [where f = "\<lambda>g s. find_directives_mut e path g s" for e path]
      split: argument_location.splits)

fun bare :: "directive_path \<Rightarrow> directive_path" where
  "bare (PathModel m _) = PathModel m None"
| "bare p = p"

lemma path_arguments_bare [simp]: "path_arguments (bare path) = None"
  by (cases path) auto

lemma matches_bare [simp]:
  "dl_path l = bare path \<Longrightarrow> matches_ast_directive l d = Inr (dl_directive l = dir_name d)"
  by (cases path) (auto simp: matches_ast_directive_def)

definition dir_content :: "directive \<Rightarrow> (string \<times> migration_expression) set" where
  "dir_content d = arg_views (dir_arguments d)"

definition dir_wf :: "directive \<Rightarrow> bool" where
  "dir_wf d \<longleftrightarrow> distinct (map arg_name (dir_arguments d))"

definition dir_parses :: "expr_parser \<Rightarrow> directive \<Rightarrow> bool" where
  "dir_parses parse d \<longleftrightarrow> dir_wf d \<and> (\<forall>a \<in> set (dir_arguments d). arg_parses parse a)"

fun argument_step_at :: "argument_location \<Rightarrow> migration_step \<Rightarrow> bool" where
  "argument_step_at l (CreateArgument c) = (ca_location c = l)"
| "argument_step_at l (UpdateArgument u) = (ua_location u = l)"
| "argument_step_at l (DeleteArgument d) = (da_location d = l)"
| "argument_step_at l _ = False"

lemma dirs_step_arguments:
  "argument_step_at (ArgDirective l) st \<Longrightarrow> dirs_step parse st ds =
     modify_first (CalcPanic ContainerUnwrap) (\<lambda>d. dir_name d = dl_directive l)
       (\<lambda>d. map_res (\<lambda>as. d\<lparr>dir_arguments := as\<rparr>) (args_step parse st (dir_arguments d))) ds"
  by (cases st) (auto simp: on_arguments_def)

lemma argument_step_at_steps [simp]:
  "argument_step_at l (created_argument_step l a)" "argument_step_at l (deleted_argument_step l a)"
  "st \<in> set (updated_argument_steps l pn) \<Longrightarrow> argument_step_at l st"
  by (auto simp: created_argument_step_def deleted_argument_step_def updated_argument_steps_def split: if_splits)

text \<open>Steps on the arguments of the directive at one position of the list.\<close>

lemma run_on_arguments:
  assumes "\<forall>st \<in> set sts. argument_step_at (ArgDirective l) st" and "dir_name d = dl_directive l"
    and "\<forall>a \<in> set pre. dir_name a \<noteq> dl_directive l"
  shows "run_steps (dirs_step parse) sts (pre @ d # post) =
     map_res (\<lambda>as. pre @ d\<lparr>dir_arguments := as\<rparr> # post) (run_steps (args_step parse) sts (dir_arguments d))"
proof -
  let ?C = "\<lambda>as. pre @ d\<lparr>dir_arguments := as\<rparr> # post"
  have "run_steps (dirs_step parse) sts (?C (dir_arguments d)) = map_res ?C (run_steps (args_step parse) sts (dir_arguments d))"
    using assms
    by (intro run_steps_focus [where I = "\<lambda>_. True"])
      (auto simp: dirs_step_arguments modify_first_split map_res_comp comp_def)
  then show ?thesis by simp
qed

abbreviation dir_create where
  "dir_create parse path d \<equiv> run_steps (dirs_step parse) (created_directive_steps (bare path) d)"
abbreviation dir_update where
  "dir_update parse path pn \<equiv> run_steps (dirs_step parse) (updated_directive_steps (bare path) pn)"
abbreviation dir_delete where
  "dir_delete parse path d \<equiv> dirs_step parse (deleted_directive_step (bare path) d)"

lemma dir_create_law:
  assumes "dir_parses parse n" and "dir_name n \<notin> dir_name ` set xs"
  shows "\<exists>x. dir_create parse path n xs = Inr (xs @ [x]) \<and> dir_name x = dir_name n \<and> dir_content x = dir_content n"
proof -
  let ?l = "dloc (bare path) n"
  let ?d = "\<lparr>dir_ident = new_ident (dir_name n), dir_arguments = [], dir_span = span_empty\<rparr>"
  obtain zs where zs: "run_steps (args_step parse) (map (created_argument_step (ArgDirective ?l)) (dir_arguments n)) [] = Inr zs"
    "arg_views zs = arg_views (dir_arguments n)"
    using create_arguments assms(1) by (fastforce simp: dir_parses_def dir_wf_def)
  have absent: "\<forall>a \<in> set xs. dir_name a \<noteq> dir_name n"
    using assms(2) by (metis image_eqI)
  have "run_steps (dirs_step parse) (map (created_argument_step (ArgDirective ?l)) (dir_arguments n)) (xs @ [?d])
      = Inr (xs @ [?d\<lparr>dir_arguments := zs\<rparr>])"
    using run_on_arguments [of "map (created_argument_step (ArgDirective ?l)) (dir_arguments n)" ?l ?d xs parse "[]"] absent zs(1)
    by simp
  with zs(2) show ?thesis
    by (simp add: created_directive_steps_def dir_content_def)
qed

lemma dir_update_law:
  assumes "dir_wf p" and "dir_parses parse n" and "dir_name p = dir_name n"
    and "\<forall>a \<in> set pre \<union> set post. dir_name a \<noteq> dir_name p"
  shows "\<exists>x. dir_update parse path (p, n) (pre @ p # post) = Inr (pre @ x # post)
      \<and> dir_name x = dir_name n \<and> dir_content x = dir_content n"
proof -
  let ?l = "dloc (bare path) p" and ?sts = "updated_directive_steps (bare path) (p, n)"
  obtain zs where zs: "run_steps (args_step parse) ?sts (dir_arguments p) = Inr zs"
    "arg_views zs = arg_views (dir_arguments n)"
    using sync_arguments_directive [of "dir_arguments p" "dir_arguments n" parse "ArgDirective ?l"] assms(1,2)
    by (auto simp: dir_parses_def dir_wf_def updated_directive_steps_def Let_def)
  moreover have "run_steps (dirs_step parse) ?sts (pre @ p # post) =
     map_res (\<lambda>as. pre @ p\<lparr>dir_arguments := as\<rparr> # post) (run_steps (args_step parse) ?sts (dir_arguments p))"
    using assms(4) by (intro run_on_arguments [where l = ?l]) (auto simp: updated_directive_steps_def Let_def)
  ultimately show ?thesis
    using assms(3) by (simp add: dir_content_def)
qed

interpretation dirs: list_sync dir_name dir_content kind "dir_parses parse" "\<lambda>p n. dir_wf p \<and> dir_parses parse n"
    "\<lambda>_. True" "dir_create parse path" "dir_update parse path" "dir_delete parse path" for parse path kind
proof (unfold_locales, goal_cases)
  case (1 n xs)
  then show ?case by (intro dir_create_law)
next
  case (2 p n pre post)
  then show ?case by (intro dir_update_law) auto
next
  case (3 d xs)
  show ?case
    unfolding deleted_directive_step_def dirs_step.simps by (rule filter_res_Inr) auto
qed

type_synonym dir_view = "string \<times> (string \<times> migration_expression) set"

definition dir_view :: "directive \<Rightarrow> dir_view" where
  "dir_view d = (dir_name d, dir_content d)"

definition dir_views :: "directive list \<Rightarrow> dir_view set" where
  "dir_views ds = dir_view ` set ds"

lemma dirs_view: "dirs.view ` set ds = dir_views ds"
  by (auto simp: dir_views_def dir_view_def dirs.view_def)

definition dirs_wf :: "directive list \<Rightarrow> bool" where
  "dirs_wf ds \<longleftrightarrow> distinct (map dir_name ds) \<and> (\<forall>d \<in> set ds. dir_wf d)"

text \<open>Synchronising the directives of one kind leaves the directives of other kinds alone.\<close>

lemma sync_directives_of_kind:
  assumes "dirs_wf (filter (\<lambda>d. kind (dir_name d)) ps)" and "distinct (map dir_name ns)"
    and "\<forall>n \<in> set ns. kind (dir_name n) \<and> dir_parses parse n"
  shows "\<exists>zs. run_steps (dirs_step parse)
        (sync_directives_steps (bare path) (filter (\<lambda>d. kind (dir_name d)) ps) ns) ps = Inr zs
      \<and> dir_views (filter (\<lambda>d. kind (dir_name d)) zs) = dir_views ns
      \<and> filter (\<lambda>d. \<not> kind (dir_name d)) zs = filter (\<lambda>d. \<not> kind (dir_name d)) ps"
proof -
  have "dirs.sync_pre kind parse ps ns"
    using assms by (auto simp: dirs.sync_pre_def dirs.of_kind_def dirs_wf_def)
  from dirs.sync_create_update_delete [OF this, of path] show ?thesis
    by (auto simp: run_steps_folds sync_directives_steps_def dirs.synced_def dirs.of_kind_def dirs.others_def
        dirs_view simp del: set_filter)
qed

lemma sync_directives:
  assumes "dirs_wf ps" and "distinct (map dir_name ns)" and "\<forall>n \<in> set ns. dir_parses parse n"
  shows "\<exists>zs. run_steps (dirs_step parse) (sync_directives_steps (bare path) ps ns) ps = Inr zs
      \<and> dir_views zs = dir_views ns"
  using sync_directives_of_kind [of "\<lambda>_. True" ps ns parse path] assms by simp

lemma sync_directives_from_none:
  "sync_directives_steps path [] ns = concat (map (created_directive_steps path) ns)"
  by (simp add: sync_directives_steps_def diff_created_def diff_deleted_def diff_pairs_Nil)

lemma step_path_arguments:
  "step_path (created_argument_step l a) = argument_path l"
  "step_path (deleted_argument_step l a) = argument_path l"
  "st \<in> set (updated_argument_steps l pn) \<Longrightarrow> step_path st = argument_path l"
  by (auto simp: created_argument_step_def deleted_argument_step_def updated_argument_steps_def split: if_splits)

lemma step_path_sync:
  "st \<in> set (sync_directives_steps path ps ns) \<Longrightarrow> step_path st = Some path"
  by (auto simp: sync_directives_steps_def created_directive_steps_def updated_directive_steps_def
      deleted_directive_step_def Let_def step_path_arguments argument_path_def)

subsection \<open>Repeated directives\<close>

lemma finite_arg_views [simp]: "finite (arg_views as)"
  by (simp add: arg_views_def)

lemma card_arg_views: "distinct (map arg_name as) \<Longrightarrow> card (arg_views as) = length as"
proof -
  assume dist: "distinct (map arg_name as)"
  then have "inj_on (\<lambda>a. (arg_name a, rendered a)) (set as)"
    by (auto simp: distinct_map inj_on_def)
  with dist show ?thesis
    by (simp add: arg_views_def card_image distinct_card distinct_map)
qed

text \<open>On directives with distinct argument names, identity is equality of name and content.\<close>

lemma identical_iff:
  assumes "dir_wf p" and "dir_wf n"
  shows "identical p n \<longleftrightarrow> dir_view p = dir_view n"
proof -
  let ?p = "arg_views (dir_arguments p)" and ?n = "arg_views (dir_arguments n)"
  have card: "card ?p = length (dir_arguments p)" "card ?n = length (dir_arguments n)"
    using assms by (simp_all add: card_arg_views dir_wf_def)
  have "(\<forall>a \<in> set (dir_arguments p). \<exists>b \<in> set (dir_arguments n). arg_name a = arg_name b \<and> rendered a = rendered b)
      \<longleftrightarrow> ?p \<subseteq> ?n"
    by (auto simp: arg_views_def image_iff)
  then have "identical p n \<longleftrightarrow> dir_name p = dir_name n \<and> card ?p = card ?n \<and> ?p \<subseteq> ?n"
    by (simp add: identical_def card)
  then show ?thesis
    by (metis card_subset_eq dir_view_def dir_content_def finite_arg_views prod.inject subset_refl)
qed

abbreviation is_repeated :: "directive \<Rightarrow> bool" where
  "is_repeated d \<equiv> dir_name d \<in> set REPEATED_MODEL_DIRECTIVES"

definition rep_ok :: "directive \<Rightarrow> bool" where
  "rep_ok d \<longleftrightarrow> dir_wf d \<and> dir_renders d"

lemma step_argument_parses:
  assumes "arg_parses parse a"
  shows "\<exists>b. step_argument_into parse \<lparr>sa_name = arg_name a, sa_value = rendered a\<rparr> = Inr b
      \<and> arg_name b = arg_name a \<and> rendered b = rendered a \<and> arg_renders b"
proof -
  from assms obtain s e where "render_value (arg_value a) = Some s" "parse s = Some e" "render_value e = Some s"
    by (auto simp: arg_parses_def)
  moreover from this(3) have "\<not> mentions_any e" by (simp add: render_value_None [symmetric])
  ultimately show ?thesis
    by (simp add: step_argument_into_def to_ast_expression_def rendered_def arg_renders_def)
qed

lemma collect_step_arguments:
  assumes "\<forall>a \<in> set as. arg_parses parse a"
  shows "\<exists>bs. collect_res (\<lambda>arg. or_panic (step_argument_into parse arg))
        (map (\<lambda>a. \<lparr>sa_name = arg_name a, sa_value = rendered a\<rparr>) as) = Inr bs
      \<and> map arg_name bs = map arg_name as \<and> map rendered bs = map rendered as \<and> list_all arg_renders bs"
  using assms
proof (induction as)
  case Nil
  then show ?case by simp
next
  case (Cons a as)
  then obtain bs where "collect_res (\<lambda>arg. or_panic (step_argument_into parse arg))
        (map (\<lambda>a. \<lparr>sa_name = arg_name a, sa_value = rendered a\<rparr>) as) = Inr bs"
    "map arg_name bs = map arg_name as" "map rendered bs = map rendered as" "list_all arg_renders bs"
    by auto
  moreover from Cons.prems obtain b where "step_argument_into parse \<lparr>sa_name = arg_name a, sa_value = rendered a\<rparr> = Inr b"
    "arg_name b = arg_name a" "rendered b = rendered a" "arg_renders b"
    using step_argument_parses [of parse a] by auto
  ultimately show ?case by simp
qed

lemma arg_views_cong:
  assumes "map arg_name bs = map arg_name as" and "map rendered bs = map rendered as"
  shows "arg_views bs = arg_views as"
proof -
  have "map (\<lambda>a. (arg_name a, rendered a)) xs = zip (map arg_name xs) (map rendered xs)" for xs
    by (induction xs) simp_all
  then have "set (map (\<lambda>a. (arg_name a, rendered a)) bs) = set (map (\<lambda>a. (arg_name a, rendered a)) as)"
    by (simp only: assms)
  then show ?thesis
    by (simp only: arg_views_def set_map)
qed

lemma create_repeated:
  assumes "dir_parses parse d"
  shows "\<exists>x. dirs_step parse (created_repeated_step (PathModel m None) d) ds = Inr (ds @ [x])
      \<and> dir_view x = dir_view d \<and> rep_ok x"
proof -
  have "\<forall>a \<in> set (dir_arguments d). arg_parses parse a"
    using assms by (simp add: dir_parses_def)
  then obtain bs where "collect_res (\<lambda>arg. or_panic (step_argument_into parse arg)) (step_args d) = Inr bs"
    and bs: "map arg_name bs = map arg_name (dir_arguments d)" "map rendered bs = map rendered (dir_arguments d)"
      "list_all arg_renders bs"
    using collect_step_arguments unfolding step_args_def by blast
  with assms show ?thesis
    by (simp add: created_repeated_step_def dir_view_def dir_content_def rep_ok_def dir_wf_def dir_parses_def
        dir_renders_def arg_views_cong [OF bs(1,2)])
qed

lemma run_create_repeated:
  assumes "\<forall>d \<in> set cs. dir_parses parse d"
  shows "\<exists>news. run_steps (dirs_step parse) (map (created_repeated_step (PathModel m None)) cs) ds = Inr (ds @ news)
      \<and> map dir_view news = map dir_view cs \<and> list_all rep_ok news"
  using assms
proof (induction cs arbitrary: ds)
  case Nil
  then show ?case by simp
next
  case (Cons c cs)
  then obtain x where x: "dirs_step parse (created_repeated_step (PathModel m None) c) ds = Inr (ds @ [x])"
    "dir_view x = dir_view c" "rep_ok x"
    using create_repeated [of parse c m ds] by auto
  from Cons obtain news where
    "run_steps (dirs_step parse) (map (created_repeated_step (PathModel m None)) cs) (ds @ [x]) = Inr ((ds @ [x]) @ news)"
    "map dir_view news = map dir_view cs" "list_all rep_ok news"
    by (meson list.set_intros(2))
  with x show ?case by (intro exI [of _ "x # news"]) simp
qed

lemma matches_repeated:
  assumes "dir_name x = dir_name d \<Longrightarrow> dir_renders x"
  shows "matches_ast_directive (dloc (PathModel m (Some (step_args d))) d) x = Inr (identical x d)"
proof (cases "dir_name x = dir_name d \<and> length (dir_arguments x) = length (dir_arguments d)")
  case True
  have "matches_ast_argument sa a = Inr (arg_name a = sa_name sa \<and> rendered a = sa_value sa)"
    if "a \<in> set (dir_arguments x)" for sa a
    using that assms True by (auto simp: matches_ast_argument_def dir_renders_def list_all_iff diff_simps)
  then have "find_res (\<lambda>sa. matches_ast_argument sa a) (step_args d)
      = Inr (\<exists>sa \<in> set (step_args d). arg_name a = sa_name sa \<and> rendered a = sa_value sa)"
    if "a \<in> set (dir_arguments x)" for a
    using that by (intro find_res_Inr) auto
  then have "all_res (\<lambda>a. find_res (\<lambda>sa. matches_ast_argument sa a) (step_args d)) (dir_arguments x)
      = Inr (\<forall>a \<in> set (dir_arguments x). \<exists>sa \<in> set (step_args d). arg_name a = sa_name sa \<and> rendered a = sa_value sa)"
    by (intro all_res_Inr) auto
  with True show ?thesis
    by (auto simp: matches_ast_directive_def identical_def step_args_def)
next
  case False
  then show ?thesis by (auto simp: matches_ast_directive_def identical_def step_args_def)
qed

lemma run_delete_repeated:
  assumes "\<forall>d \<in> set dels. is_repeated d \<and> dir_wf d" and "\<forall>x \<in> set ds. is_repeated x \<longrightarrow> rep_ok x"
  shows "run_steps (dirs_step parse) (map (deleted_repeated_step (PathModel m None)) dels) ds
      = Inr (filter (\<lambda>x. dir_view x \<notin> dir_views dels) ds)"
  using assms
proof (induction dels arbitrary: ds)
  case Nil
  then show ?case by (simp add: dir_views_def)
next
  case (Cons d dels)
  have "matches_ast_directive (dloc (PathModel m (Some (step_args d))) d) x = Inr (dir_view x = dir_view d)"
    if "x \<in> set ds" for x
  proof (cases "dir_name x = dir_name d")
    case True
    with Cons.prems that have "rep_ok x" "dir_wf d" by auto
    then show ?thesis
      using matches_repeated [of x d m] identical_iff [of x d] by (simp add: rep_ok_def)
  next
    case False
    then show ?thesis by (auto simp: matches_ast_directive_def dir_view_def)
  qed
  then have "dirs_step parse (deleted_repeated_step (PathModel m None) d) ds
      = Inr (filter (\<lambda>x. dir_view x \<noteq> dir_view d) ds)"
    unfolding deleted_repeated_step_def dirs_step.simps by (intro filter_res_Inr) simp
  moreover have "run_steps (dirs_step parse) (map (deleted_repeated_step (PathModel m None)) dels)
      (filter (\<lambda>x. dir_view x \<noteq> dir_view d) ds)
      = Inr (filter (\<lambda>x. dir_view x \<notin> dir_views dels) (filter (\<lambda>x. dir_view x \<noteq> dir_view d) ds))"
    using Cons.prems by (intro Cons.IH) auto
  ultimately show ?case
    by (auto simp: dir_views_def intro!: filter_cong)
qed

text \<open>A model: regular directives match by name, repeated ones by their whole content.\<close>

definition mdl_dirs_wf :: "directive list \<Rightarrow> bool" where
  "mdl_dirs_wf ds \<longleftrightarrow> (\<forall>d \<in> set ds. dir_wf d) \<and> distinct (map dir_name (filter (\<lambda>d. \<not> is_repeated d) ds))"

lemma regular_repeated_filter:
  "regular_directives m = filter (\<lambda>d. \<not> is_repeated d) (mdl_directives m)"
  "repeated_directives m = filter is_repeated (mdl_directives m)"
  by (simp_all add: regular_directives_def repeated_directives_def directive_is_regular_def [abs_def]
      directive_is_repeated_def [abs_def])

lemma dir_views_append [simp]: "dir_views (xs @ ys) = dir_views xs \<union> dir_views ys"
  by (simp add: dir_views_def image_Un)

lemma dir_views_split: "dir_views ds = dir_views (filter P ds) \<union> dir_views (filter (\<lambda>d. \<not> P d) ds)"
  by (auto simp: dir_views_def)

lemma dir_views_repeated:
  "v \<in> dir_views (filter is_repeated ds) \<longleftrightarrow> v \<in> dir_views ds \<and> fst v \<in> set REPEATED_MODEL_DIRECTIVES"
  by (auto simp: dir_views_def dir_view_def)

lemma dir_views_cong: "map dir_view xs = map dir_view ys \<Longrightarrow> dir_views xs = dir_views ys"
  unfolding dir_views_def by (metis image_set)

lemma dir_views_diff [simp]: "dir_views (filter (\<lambda>x. dir_view x \<notin> V) xs) = dir_views xs - V"
  by (auto simp: dir_views_def)

lemma filter_commute: "filter P (filter Q xs) = filter Q (filter P xs)"
  by (induction xs) auto

lemma bex_image: "(\<And>x. x \<in> S \<Longrightarrow> R x \<longleftrightarrow> f x = v) \<Longrightarrow> (\<exists>x \<in> S. R x) \<longleftrightarrow> v \<in> f ` S"
  by auto

lemma sync_repeated:
  assumes p: "filter is_repeated ds = repeated_directives p" "list_all rep_ok (repeated_directives p)"
    and n: "\<forall>d \<in> set (repeated_directives n). dir_parses parse d"
  shows "\<exists>zs. run_steps (dirs_step parse)
        (map (created_repeated_step (PathModel m None)) (created_repeated p n)
         @ map (deleted_repeated_step (PathModel m None)) (deleted_repeated p n)) ds = Inr zs
      \<and> filter (\<lambda>d. \<not> is_repeated d) zs = filter (\<lambda>d. \<not> is_repeated d) ds
      \<and> dir_views (filter is_repeated zs) = dir_views (repeated_directives n)"
proof -
  let ?P = "repeated_directives p" and ?N = "repeated_directives n"
  let ?c = "created_repeated p n" and ?d = "deleted_repeated p n"
  have same: "identical x y \<longleftrightarrow> dir_view x = dir_view y" if "x \<in> set ?P" "y \<in> set ?N" for x y
    using that p(2) n by (intro identical_iff) (auto simp: list_all_iff rep_ok_def dir_parses_def)
  have "?c = filter (\<lambda>x. dir_view x \<notin> dir_views ?P) ?N"
    unfolding created_repeated_def dir_views_def
    by (intro filter_cong [OF refl] arg_cong [of _ _ Not] bex_image same)
  then have c: "dir_views ?c = dir_views ?N - dir_views ?P" by simp
  have "?d = filter (\<lambda>x. dir_view x \<notin> dir_views ?N) ?P"
    unfolding deleted_repeated_def dir_views_def
    by (intro filter_cong [OF refl] arg_cong [of _ _ Not] bex_image same [THEN trans] eq_commute)
  then have d: "dir_views ?d = dir_views ?P - dir_views ?N" by simp
  have "\<forall>x \<in> set ?c. dir_parses parse x"
    using n by (simp add: created_repeated_def)
  then obtain news where news: "run_steps (dirs_step parse) (map (created_repeated_step (PathModel m None)) ?c) ds = Inr (ds @ news)"
    "map dir_view news = map dir_view ?c" "list_all rep_ok news"
    using run_create_repeated by blast
  have rep_news: "\<forall>x \<in> set news. is_repeated x"
  proof
    fix x assume "x \<in> set news"
    then have "dir_view x \<in> dir_views news"
      unfolding dir_views_def by (rule imageI)
    then have "dir_view x \<in> dir_views ?N"
      unfolding dir_views_cong [OF news(2)] c by (rule DiffD1)
    then have "fst (dir_view x) \<in> set REPEATED_MODEL_DIRECTIVES"
      unfolding regular_repeated_filter dir_views_repeated by (rule conjunct2)
    then show "is_repeated x" by (simp add: dir_view_def)
  qed
  have "\<forall>x \<in> set ds. is_repeated x \<longrightarrow> rep_ok x"
    using p(2) unfolding p(1) [symmetric] by (simp add: list_all_iff)
  then have "\<forall>x \<in> set (ds @ news). is_repeated x \<longrightarrow> rep_ok x"
    using news(3) by (auto simp: list_all_iff)
  moreover have "\<forall>x \<in> set ?d. is_repeated x \<and> dir_wf x"
    using p(2) by (auto simp: deleted_repeated_def regular_repeated_filter list_all_iff rep_ok_def)
  ultimately have del: "run_steps (dirs_step parse) (map (deleted_repeated_step (PathModel m None)) ?d) (ds @ news)
      = Inr (filter (\<lambda>x. dir_view x \<notin> dir_views ?d) (ds @ news))"
    by (intro run_delete_repeated)
  let ?zs = "filter (\<lambda>x. dir_view x \<notin> dir_views ?d) (ds @ news)"
  have "\<not> is_repeated x \<Longrightarrow> dir_view x \<notin> dir_views ?P" for x
    unfolding regular_repeated_filter dir_views_repeated by (simp add: dir_view_def)
  then have "\<not> is_repeated x \<Longrightarrow> dir_view x \<notin> dir_views ?d" for x
    by (simp add: d)
  then have "filter (\<lambda>x. \<not> is_repeated x) ?zs = filter (\<lambda>x. \<not> is_repeated x) (ds @ news)"
    unfolding filter_filter by (intro filter_cong [OF refl]) blast
  then have reg: "filter (\<lambda>x. \<not> is_repeated x) ?zs = filter (\<lambda>x. \<not> is_repeated x) ds"
    using rep_news by simp
  have reps: "filter is_repeated (ds @ news) = ?P @ news"
    using rep_news p(1) by simp
  have "filter is_repeated ?zs = filter (\<lambda>x. dir_view x \<notin> dir_views ?d) (?P @ news)"
    unfolding reps [symmetric] by (rule filter_commute)
  then have "dir_views (filter is_repeated ?zs) = (dir_views ?P \<union> dir_views ?c) - dir_views ?d"
    by (simp only: dir_views_diff dir_views_append dir_views_cong [OF news(2)])
  then have "dir_views (filter is_repeated ?zs) = dir_views ?N"
    by (auto simp: c d)
  moreover have "run_steps (dirs_step parse)
      (map (created_repeated_step (PathModel m None)) ?c @ map (deleted_repeated_step (PathModel m None)) ?d) ds = Inr ?zs"
    by (simp only: run_steps_append news(1) bind_res_Inr del)
  ultimately show ?thesis
    using reg by (intro exI [of _ ?zs] conjI)
qed

definition model_directive_steps :: "string \<Rightarrow> ast_model \<Rightarrow> ast_model \<Rightarrow> migration_step list" where
  "model_directive_steps nm p n =
     sync_directives_steps (PathModel nm None) (regular_directives p) (regular_directives n)
     @ map (created_repeated_step (PathModel nm None)) (created_repeated p n)
     @ map (deleted_repeated_step (PathModel nm None)) (deleted_repeated p n)"

lemma sync_model_directives:
  assumes p: "mdl_dirs_wf (mdl_directives p)" "list_all dir_renders (mdl_directives p)"
    and n: "mdl_dirs_wf (mdl_directives n)" "\<forall>d \<in> set (mdl_directives n). dir_parses parse d"
  shows "\<exists>zs. run_steps (dirs_step parse) (model_directive_steps nm p n) (mdl_directives p) = Inr zs
      \<and> dir_views zs = dir_views (mdl_directives n)"
proof -
  have wf: "dirs_wf (regular_directives p)" "distinct (map dir_name (regular_directives n))"
    "\<forall>d \<in> set (regular_directives n). dir_name d \<notin> set REPEATED_MODEL_DIRECTIVES \<and> dir_parses parse d"
    using p n by (simp_all add: regular_repeated_filter mdl_dirs_wf_def dirs_wf_def)
  obtain ys where ys: "run_steps (dirs_step parse)
      (sync_directives_steps (PathModel nm None) (regular_directives p) (regular_directives n)) (mdl_directives p) = Inr ys"
    "dir_views (filter (\<lambda>d. \<not> is_repeated d) ys) = dir_views (regular_directives n)"
    "filter is_repeated ys = repeated_directives p"
    using sync_directives_of_kind [of "\<lambda>nm. nm \<notin> set REPEATED_MODEL_DIRECTIVES" "mdl_directives p"
        "regular_directives n" parse "PathModel nm None", folded regular_repeated_filter(1), OF wf]
    unfolding bare.simps not_not regular_repeated_filter(2) [symmetric] by blast
  have "list_all rep_ok (repeated_directives p)"
    using p by (auto simp: regular_repeated_filter mdl_dirs_wf_def list_all_iff rep_ok_def)
  moreover have "\<forall>d \<in> set (repeated_directives n). dir_parses parse d"
    using n(2) by (simp add: regular_repeated_filter)
  ultimately obtain zs where zs: "run_steps (dirs_step parse)
        (map (created_repeated_step (PathModel nm None)) (created_repeated p n)
         @ map (deleted_repeated_step (PathModel nm None)) (deleted_repeated p n)) ys = Inr zs"
      "filter (\<lambda>d. \<not> is_repeated d) zs = filter (\<lambda>d. \<not> is_repeated d) ys"
      "dir_views (filter is_repeated zs) = dir_views (repeated_directives n)"
    using sync_repeated [OF ys(3)] by blast
  have "dir_views zs = dir_views (mdl_directives n)"
    using dir_views_split [of zs is_repeated] dir_views_split [of "mdl_directives n" is_repeated] zs(2,3) ys(2)
    by (simp add: regular_repeated_filter)
  with ys(1) zs(1) show ?thesis
    by (simp add: model_directive_steps_def run_steps_append [of _ "sync_directives_steps path xs ys" for path xs ys])
qed

end
