(* ===== verification/Entity_Sync.thy ===== *)
theory Entity_Sync
  imports Step_Semantics
begin

text \<open>
  What migration steps do to the fields of a model and to the values of an enum, and the
  interpretations of \<open>list_sync\<close> for both.
\<close>

section \<open>Fields\<close>

definition new_field :: "create_field \<Rightarrow> ast_field" where
  "new_field c =
     \<lparr>fld_type = new_ident (cf_tpe c), fld_ident = new_ident (cf_field c),
      fld_arity = arity_into_ast (cf_arity c), fld_default_value = None,
      fld_directives = [], fld_documentation = None, fld_span = span_empty,
      fld_is_commented_out = False\<rparr>"

definition updated_field :: "update_field \<Rightarrow> ast_field \<Rightarrow> ast_field" where
  "updated_field u field =
     (let field1 = apply_field_update field (map_option arity_into_ast (uf_arity u)) update_field_arity;
          field2 = apply_field_update field1 (uf_tpe u) update_field_type
      in apply_field_update field2 (uf_new_name u) update_field_name)"

text \<open>Steps on the directives of one element of a list of elements that carry directives.\<close>

definition on_field_directives :: "expr_parser \<Rightarrow> migration_step \<Rightarrow> ast_field \<Rightarrow> ast_field calc" where
  "on_field_directives parse st f =
     map_res (\<lambda>ds. f\<lparr>fld_directives := ds\<rparr>) (dirs_step parse st (fld_directives f))"

definition fields_step :: "expr_parser \<Rightarrow> migration_step \<Rightarrow> ast_field list \<Rightarrow> ast_field list calc" where
  "fields_step parse st fs =
     (case st of
        CreateField c \<Rightarrow>
          (case find (\<lambda>f. fld_name f = cf_field c) fs of
             Some _ \<Rightarrow> Inl (FieldAlreadyExists (cf_field c) (cf_model c))
           | None \<Rightarrow> Inr (fs @ [new_field c]))
      | UpdateField u \<Rightarrow>
          modify_first (UpdatedFieldDoesNotExist (uf_field u) (uf_model u)) (\<lambda>f. fld_name f = uf_field u)
            (\<lambda>f. Inr (updated_field u f)) fs
      | DeleteField d \<Rightarrow>
          bind_res (ok_or (DeletedFieldDoesNotExist (df_field d) (df_model d)) (find (\<lambda>f. fld_name f = df_field d) fs))
            (\<lambda>_. Inr (filter (\<lambda>f. fld_name f \<noteq> df_field d) fs))
      | _ \<Rightarrow> (case step_path st of
               Some (PathField m f) \<Rightarrow> modify_first (absent st) (\<lambda>x. fld_name x = f) (on_field_directives parse st) fs
             | _ \<Rightarrow> Inr fs))"

definition field_step_of :: "string \<Rightarrow> migration_step \<Rightarrow> bool" where
  "field_step_of nm st =
     (case st of
        CreateField c \<Rightarrow> cf_model c = nm
      | UpdateField u \<Rightarrow> uf_model u = nm
      | DeleteField d \<Rightarrow> df_model d = nm
      | _ \<Rightarrow> (case step_path st of Some (PathField m f) \<Rightarrow> m = nm | _ \<Rightarrow> False))"

lemma fields_step_path:
  "step_path st = Some (PathField m f) \<Longrightarrow>
   fields_step parse st fs = modify_first (absent st) (\<lambda>x. fld_name x = f) (on_field_directives parse st) fs"
  by (cases st) (auto simp: fields_step_def)

lemma run_on_field_directives:
  assumes "\<forall>st \<in> set sts. step_path st = Some (PathField m (fld_name f))" and "\<forall>a \<in> set pre. fld_name a \<noteq> fld_name f"
  shows "run_steps (fields_step parse) sts (pre @ f # post) =
     map_res (\<lambda>ds. pre @ f\<lparr>fld_directives := ds\<rparr> # post) (run_steps (dirs_step parse) sts (fld_directives f))"
proof -
  let ?C = "\<lambda>ds. pre @ f\<lparr>fld_directives := ds\<rparr> # post"
  have "run_steps (fields_step parse) sts (?C (fld_directives f)) = map_res ?C (run_steps (dirs_step parse) sts (fld_directives f))"
    using assms
    by (intro run_steps_focus [where I = "\<lambda>_. True"])
      (auto simp: fields_step_path modify_first_split on_field_directives_def map_res_comp comp_def)
  then show ?thesis by simp
qed

type_synonym fld_content = "string \<times> field_arity \<times> dir_view set"

definition fld_content :: "ast_field \<Rightarrow> fld_content" where
  "fld_content f = (id_name (fld_type f), fld_arity f, dir_views (fld_directives f))"

definition fld_wf :: "ast_field \<Rightarrow> bool" where
  "fld_wf f \<longleftrightarrow> dirs_wf (fld_directives f)"

definition fld_parses :: "expr_parser \<Rightarrow> ast_field \<Rightarrow> bool" where
  "fld_parses parse f \<longleftrightarrow> fld_wf f \<and> (\<forall>d \<in> set (fld_directives f). dir_parses parse d)"

abbreviation fld_create where
  "fld_create parse nm f \<equiv> run_steps (fields_step parse) (created_field_steps nm f)"
abbreviation fld_update where
  "fld_update parse nm pn \<equiv> run_steps (fields_step parse) (updated_field_steps nm pn)"
abbreviation fld_delete where
  "fld_delete parse nm f \<equiv> fields_step parse (deleted_field_step nm f)"

lemma sync_field_directives:
  assumes "fld_wf p" and "fld_parses parse n" and "\<forall>a \<in> set pre. fld_name a \<noteq> fld_name f"
    and "fld_directives f = fld_directives p"
  shows "\<exists>zs. run_steps (fields_step parse)
        (sync_directives_steps (PathField nm (fld_name f)) (fld_directives p) (fld_directives n)) (pre @ f # post)
        = Inr (pre @ f\<lparr>fld_directives := zs\<rparr> # post) \<and> dir_views zs = dir_views (fld_directives n)"
proof -
  obtain zs where "run_steps (dirs_step parse)
      (sync_directives_steps (PathField nm (fld_name f)) (fld_directives p) (fld_directives n)) (fld_directives f) = Inr zs"
    "dir_views zs = dir_views (fld_directives n)"
    using sync_directives [of "fld_directives p" "fld_directives n" parse "PathField nm (fld_name f)"] assms(1,2,4)
    by (auto simp: fld_wf_def fld_parses_def dirs_wf_def)
  then show ?thesis
    using run_on_field_directives [of _ nm f pre parse post] assms(3)
    by (intro exI [of _ zs]) (simp add: step_path_sync)
qed

lemma find_none_by_name:
  "nm \<notin> key ` set xs \<Longrightarrow> find (\<lambda>x. key x = nm) xs = None"
  by (auto simp: find_None_iff)

lemma fld_create_law:
  assumes "fld_parses parse n" and "fld_name n \<notin> fld_name ` set xs"
  shows "\<exists>x. fld_create parse nm n xs = Inr (xs @ [x]) \<and> fld_name x = fld_name n \<and> fld_content x = fld_content n"
proof -
  let ?c = "\<lparr>cf_model = nm, cf_field = fld_name n, cf_tpe = id_name (fld_type n), cf_arity = arity_from_ast (fld_arity n)\<rparr>"
  have nf [simp]: "fld_name (new_field ?c) = fld_name n" "id_name (fld_type (new_field ?c)) = id_name (fld_type n)"
    "fld_arity (new_field ?c) = fld_arity n" "fld_directives (new_field ?c) = []"
    by (simp_all add: new_field_def)
  have absent: "\<forall>a \<in> set xs. fld_name a \<noteq> fld_name (new_field ?c)"
    using assms(2) unfolding nf by (metis image_eqI)
  have "fields_step parse (CreateField ?c) xs = Inr (xs @ [new_field ?c])"
    using find_none_by_name [OF assms(2)] by (simp add: fields_step_def)
  moreover have "\<exists>zs. run_steps (fields_step parse)
        (sync_directives_steps (PathField nm (fld_name (new_field ?c))) [] (fld_directives n)) (xs @ [new_field ?c])
        = Inr (xs @ [(new_field ?c)\<lparr>fld_directives := zs\<rparr>]) \<and> dir_views zs = dir_views (fld_directives n)"
    using sync_field_directives [OF _ assms(1) absent, of "new_field ?c" nm "[]"]
    by (simp add: fld_wf_def dirs_wf_def)
  ultimately show ?thesis
    by (auto simp: created_field_steps_def sync_directives_from_none fld_content_def)
qed

definition field_update :: "string \<Rightarrow> ast_field \<Rightarrow> ast_field \<Rightarrow> update_field" where
  "field_update nm p n =
     \<lparr>uf_model = nm, uf_field = fld_name p, uf_new_name = diff_value (fld_name p) (fld_name n),
      uf_tpe = diff_value (id_name (fld_type p)) (id_name (fld_type n)),
      uf_arity = map_option arity_from_ast (diff_value (fld_arity p) (fld_arity n))\<rparr>"

lemma updated_field_update:
  fixes nm
  assumes "fld_name p = fld_name n"
  defines "u \<equiv> field_update nm p n"
  shows "fld_name (updated_field u p) = fld_name n" and "id_name (fld_type (updated_field u p)) = id_name (fld_type n)"
    and "fld_arity (updated_field u p) = fld_arity n" and "fld_directives (updated_field u p) = fld_directives p"
    and "\<not> uf_is_any_option_set u \<Longrightarrow> updated_field u p = p"
  using assms
  by (simp_all add: field_update_def updated_field_def apply_field_update_def diff_value_def update_field_arity_def
      update_field_type_def update_field_name_def uf_is_any_option_set_def)

lemma fld_update_law:
  assumes "fld_wf p" and "fld_parses parse n" and "fld_name p = fld_name n"
    and "\<forall>a \<in> set pre \<union> set post. fld_name a \<noteq> fld_name p"
  shows "\<exists>x. fld_update parse nm (p, n) (pre @ p # post) = Inr (pre @ x # post)
      \<and> fld_name x = fld_name n \<and> fld_content x = fld_content n"
proof -
  define u where "u = field_update nm p n"
  note upd = updated_field_update [OF assms(3), of nm, folded u_def]
  let ?f = "updated_field u p"
  have "fields_step parse (UpdateField u) (pre @ p # post) = Inr (pre @ ?f # post)"
    using assms(4) by (simp add: fields_step_def modify_first_split u_def field_update_def)
  then have first: "run_steps (fields_step parse) (if uf_is_any_option_set u then [UpdateField u] else []) (pre @ p # post)
      = Inr (pre @ ?f # post)"
    using upd(5) by simp
  have name: "fld_name ?f = fld_name p" using upd(1) assms(3) by simp
  have "\<exists>zs. run_steps (fields_step parse)
        (sync_directives_steps (PathField nm (fld_name ?f)) (fld_directives p) (fld_directives n)) (pre @ ?f # post)
        = Inr (pre @ ?f\<lparr>fld_directives := zs\<rparr> # post) \<and> dir_views zs = dir_views (fld_directives n)"
    using assms(4) name upd(4) by (intro sync_field_directives [OF assms(1,2)]) auto
  then obtain zs where zs: "run_steps (fields_step parse)
        (sync_directives_steps (PathField nm (fld_name p)) (fld_directives p) (fld_directives n)) (pre @ ?f # post)
        = Inr (pre @ ?f\<lparr>fld_directives := zs\<rparr> # post)" "dir_views zs = dir_views (fld_directives n)"
    unfolding name by blast
  have "updated_field_steps nm (p, n) = (if uf_is_any_option_set u then [UpdateField u] else [])
      @ sync_directives_steps (PathField nm (fld_name p)) (fld_directives p) (fld_directives n)"
    by (simp add: updated_field_steps_def u_def field_update_def Let_def)
  then have "fld_update parse nm (p, n) (pre @ p # post) = Inr (pre @ ?f\<lparr>fld_directives := zs\<rparr> # post)"
    by (simp only: run_steps_append first bind_res_Inr zs(1))
  with upd(1-3) zs(2) show ?thesis
    by (intro exI [of _ "?f\<lparr>fld_directives := zs\<rparr>"]) (simp add: fld_content_def)
qed

interpretation fields: list_sync fld_name fld_content "\<lambda>_. True" "fld_parses parse"
    "\<lambda>p n. fld_wf p \<and> fld_parses parse n" "\<lambda>_. True"
    "fld_create parse nm" "fld_update parse nm" "fld_delete parse nm" for parse nm
proof (unfold_locales, goal_cases)
  case (1 n xs)
  then show ?case by (intro fld_create_law)
next
  case (2 p n pre post)
  then show ?case by (intro fld_update_law) auto
next
  case (3 d xs)
  then have "find (\<lambda>f. fld_name f = fld_name d) xs \<noteq> None"
    by (auto simp: find_None_iff)
  then show ?case by (auto simp: deleted_field_step_def fields_step_def)
qed

type_synonym fld_view = "string \<times> fld_content"

definition fld_views :: "ast_field list \<Rightarrow> fld_view set" where
  "fld_views fs = (\<lambda>f. (fld_name f, fld_content f)) ` set fs"

lemma fields_view: "fields.view ` set fs = fld_views fs"
  by (auto simp: fld_views_def fields.view_def)

lemma fields_of_kind [simp]: "fields.of_kind fs = fs"
  by (simp add: fields.of_kind_def)

definition flds_wf :: "ast_field list \<Rightarrow> bool" where
  "flds_wf fs \<longleftrightarrow> distinct (map fld_name fs) \<and> (\<forall>f \<in> set fs. fld_wf f)"

definition model_field_steps :: "string \<Rightarrow> ast_model \<Rightarrow> ast_model \<Rightarrow> migration_step list" where
  "model_field_steps nm p n =
     concat (map (created_field_steps nm) (diff_created (same_key fld_name) (mdl_fields p) (mdl_fields n)))
     @ map (deleted_field_step nm) (diff_deleted (same_key fld_name) (mdl_fields p) (mdl_fields n))
     @ concat (map (updated_field_steps nm) (diff_pairs (same_key fld_name) (mdl_fields p) (mdl_fields n)))"

lemma sync_model_fields:
  assumes "flds_wf (mdl_fields p)" and "flds_wf (mdl_fields n)" and "\<forall>f \<in> set (mdl_fields n). fld_parses parse f"
  shows "\<exists>zs. run_steps (fields_step parse) (model_field_steps nm p n) (mdl_fields p) = Inr zs
      \<and> fld_views zs = fld_views (mdl_fields n)"
proof -
  have "fields.sync_pre parse (mdl_fields p) (mdl_fields n)"
    using assms by (auto simp: fields.sync_pre_def flds_wf_def)
  from fields.sync_create_delete_update [OF this, of nm] show ?thesis
    by (auto simp: run_steps_folds model_field_steps_def fields.synced_def fields_view)
qed

section \<open>Enum values\<close>

definition values_step :: "expr_parser \<Rightarrow> migration_step \<Rightarrow> enum_value list \<Rightarrow> enum_value list calc" where
  "values_step parse st vs =
     (case step_path st of
        Some (PathEnumValue e v) \<Rightarrow>
          modify_first (absent st) (\<lambda>x. val_name x = v)
            (\<lambda>x. map_res (\<lambda>ds. x\<lparr>val_directives := ds\<rparr>) (dirs_step parse st (val_directives x))) vs
      | _ \<Rightarrow> Inr vs)"

lemma run_on_value_directives:
  assumes "\<forall>st \<in> set sts. step_path st = Some (PathEnumValue e (val_name v))" and "\<forall>a \<in> set pre. val_name a \<noteq> val_name v"
  shows "run_steps (values_step parse) sts (pre @ v # post) =
     map_res (\<lambda>ds. pre @ v\<lparr>val_directives := ds\<rparr> # post) (run_steps (dirs_step parse) sts (val_directives v))"
proof -
  let ?C = "\<lambda>ds. pre @ v\<lparr>val_directives := ds\<rparr> # post"
  have "run_steps (values_step parse) sts (?C (val_directives v)) = map_res ?C (run_steps (dirs_step parse) sts (val_directives v))"
    using assms
    by (intro run_steps_focus [where I = "\<lambda>_. True"])
      (auto simp: values_step_def modify_first_split map_res_comp comp_def)
  then show ?thesis by simp
qed

definition val_content :: "enum_value \<Rightarrow> dir_view set" where
  "val_content v = dir_views (val_directives v)"

definition val_wf :: "enum_value \<Rightarrow> bool" where
  "val_wf v \<longleftrightarrow> dirs_wf (val_directives v)"

definition val_parses :: "expr_parser \<Rightarrow> enum_value \<Rightarrow> bool" where
  "val_parses parse v \<longleftrightarrow> val_wf v \<and> (\<forall>d \<in> set (val_directives v). dir_parses parse d)"

text \<open>Values are created and deleted by name, all in one \<open>UpdateEnum\<close> step.\<close>

definition val_create :: "enum_value \<Rightarrow> enum_value list \<Rightarrow> enum_value list calc" where
  "val_create v vs = Inr (vs @ [new_enum_value (val_name v)])"

definition val_delete :: "enum_value \<Rightarrow> enum_value list \<Rightarrow> enum_value list calc" where
  "val_delete v vs = Inr (filter (\<lambda>x. val_name x \<noteq> val_name v) vs)"

abbreviation val_update where
  "val_update parse nm pn \<equiv> run_steps (values_step parse) (updated_enum_value_steps nm pn)"

interpretation vals: list_sync val_name val_content "\<lambda>_. True" "\<lambda>v. val_directives v = []"
    "\<lambda>p n. val_wf p \<and> val_parses parse n" "\<lambda>_. True" val_create "val_update parse nm" val_delete for parse nm
proof (unfold_locales, goal_cases)
  case (1 n xs)
  then show ?case by (simp add: val_create_def new_enum_value_def val_content_def)
next
  case (2 p n pre post)
  obtain zs where "run_steps (dirs_step parse)
      (sync_directives_steps (PathEnumValue nm (val_name n)) (val_directives p) (val_directives n)) (val_directives p) = Inr zs"
    "dir_views zs = dir_views (val_directives n)"
    using sync_directives [of "val_directives p" "val_directives n" parse "PathEnumValue nm (val_name n)"] 2(1)
    by (auto simp: val_wf_def val_parses_def dirs_wf_def)
  then show ?case
    using run_on_value_directives [of _ nm p pre parse post] 2
    by (intro exI [of _ "p\<lparr>val_directives := zs\<rparr>"])
      (simp add: updated_enum_value_steps_def step_path_sync val_content_def)
next
  case (3 d xs)
  show ?case by (simp add: val_delete_def)
qed

definition val_views :: "enum_value list \<Rightarrow> (string \<times> dir_view set) set" where
  "val_views vs = (\<lambda>v. (val_name v, val_content v)) ` set vs"

lemma vals_view: "vals.view ` set vs = val_views vs"
  by (auto simp: val_views_def vals.view_def)

lemma vals_of_kind [simp]: "vals.of_kind vs = vs"
  by (simp add: vals.of_kind_def)

lemma run_val_create: "run_steps val_create vs us = Inr (us @ map (\<lambda>v. new_enum_value (val_name v)) vs)"
  by (induction vs arbitrary: us) (simp_all add: val_create_def)

lemma run_val_delete: "run_steps val_delete vs us = Inr (filter (\<lambda>u. val_name u \<notin> val_name ` set vs) us)"
  by (induction vs arbitrary: us) (auto simp: val_delete_def filter_filter intro!: filter_cong)

definition vals_wf :: "enum_value list \<Rightarrow> bool" where
  "vals_wf vs \<longleftrightarrow> distinct (map val_name vs) \<and> (\<forall>v \<in> set vs. val_wf v)"

definition enum_values_update :: "enum_value list \<Rightarrow> enum_value list \<Rightarrow> enum_value list \<Rightarrow> enum_value list" where
  "enum_values_update vs ns us =
     filter (\<lambda>u. val_name u \<notin> val_name ` set (diff_deleted (same_key val_name) vs ns))
       (us @ map (\<lambda>v. new_enum_value (val_name v)) (diff_created (same_key val_name) vs ns))"

lemma sync_values:
  assumes "vals_wf vs" and "vals_wf ns" and "\<forall>n \<in> set ns. val_parses parse n"
    and "\<forall>n \<in> set (diff_created (same_key val_name) vs ns). val_directives n = []"
  shows "\<exists>zs. run_steps (values_step parse)
        (concat (map (updated_enum_value_steps nm) (diff_pairs (same_key val_name) vs ns))) vs = Inr zs
      \<and> val_views (enum_values_update vs ns zs) = val_views ns"
proof -
  have "vals.sync_pre parse vs ns"
    using assms by (auto simp: vals.sync_pre_def vals_wf_def diff_created_by_key)
  from vals.sync_update_create_delete [OF this, of nm] show ?thesis
    by (auto simp: run_steps_folds run_val_create run_val_delete vals.synced_def vals_view enum_values_update_def
        bind_res_eq_Inr simp del: filter_append)
qed

text \<open>The directives of the values of a created enum.\<close>

lemma create_value_directives:
  assumes "vals_wf ns" and "\<forall>n \<in> set ns. val_parses parse n"
  shows "\<exists>zs. run_steps (values_step parse)
        (concat (map (\<lambda>v. concat (map (created_directive_steps (PathEnumValue nm (val_name v))) (val_directives v))) ns))
        (map (\<lambda>v. new_enum_value (val_name v)) ns) = Inr zs \<and> val_views zs = val_views ns"
proof -
  let ?new = "\<lambda>v. new_enum_value (val_name v)"
  let ?prs = "map (\<lambda>v. (?new v, v)) ns"
  have steps: "concat (map (\<lambda>v. concat (map (created_directive_steps (PathEnumValue nm (val_name v))) (val_directives v))) ns)
      = concat (map (updated_enum_value_steps nm) ?prs)"
    by (simp add: comp_def updated_enum_value_steps_def new_enum_value_def sync_directives_from_none)
  have wf: "val_wf (?new v)" "val_name (?new v) = val_name v" for v
    by (simp_all add: new_enum_value_def val_wf_def dirs_wf_def)
  have "\<exists>zs. run_steps (val_update parse nm) ?prs (map ?new ns) = Inr zs
      \<and> list_all2 (vals.updated ?prs) (map ?new ns) zs"
    using assms wf by (intro vals.run_update) (auto simp: vals_wf_def comp_def)
  then obtain zs where zs: "run_steps (val_update parse nm) ?prs (map ?new ns) = Inr zs"
    "list_all2 (vals.updated ?prs) (map ?new ns) zs"
    by blast
  have "list_all2 (\<lambda>n z. vals.view z = vals.view n) ns zs"
  proof (rule list.rel_mono_strong [OF zs(2) [unfolded list_all2_map1]])
    fix n z assume n: "n \<in> set ns" and "vals.updated ?prs (?new n) z"
    moreover from n have "?new n \<in> fst ` set ?prs" by force
    ultimately obtain m where m: "(?new n, m) \<in> set ?prs" "vals.view z = vals.view m"
      unfolding vals.updated_def by (simp only: if_True) blast
    from m(1) have mem: "m \<in> set ns" and "?new m = ?new n" by auto
    then have "val_name m = val_name n" using wf(2) by metis
    moreover from assms(1) have "inj_on val_name (set ns)" by (simp add: vals_wf_def distinct_map)
    ultimately have "m = n" using mem n by (simp only: inj_on_def)
    with m show "vals.view z = vals.view n" by simp
  qed
  then have "map vals.view zs = map vals.view ns"
    by (induction rule: list_all2_induct) simp_all
  then have "val_views zs = val_views ns"
    unfolding vals_view [symmetric] by (metis image_set)
  with zs(1) show ?thesis
    unfolding steps run_steps_folds by blast
qed

end
