(* ===== verification/Schema_Sync.thy ===== *)
theory Schema_Sync
  imports Entity_Sync
begin

text \<open>
  Migration steps on the top-level entries of a schema: steps addressed to one model, enum, source
  or type alias act on that entry alone, and the list of entries is an interpretation of
  \<open>list_sync\<close> with the kind and the name of an entry as its key.
\<close>

section \<open>Steps on the list of top-level entries\<close>

definition tops_step :: "expr_parser \<Rightarrow> migration_step \<Rightarrow> top_level list \<Rightarrow> top_level list calc" where
  "tops_step parse st ts = map_res tops (apply_step parse st \<lparr>tops = ts\<rparr>)"

lemma apply_steps_tops:
  "apply_steps parse s sts = map_res (\<lambda>ts. \<lparr>tops = ts\<rparr>) (run_steps (tops_step parse) sts (tops s))"
proof -
  have [simp]: "map_res (\<lambda>a. \<lparr>tops = tops a\<rparr>) r = r" for r :: "schema_ast calc"
    by (cases r) simp_all
  have "run_steps (apply_step parse) sts \<lparr>tops = tops s\<rparr> = map_res (\<lambda>ts. \<lparr>tops = ts\<rparr>) (run_steps (tops_step parse) sts (tops s))"
    by (rule run_steps_focus [where I = "\<lambda>_. True"]) (simp_all add: tops_step_def map_res_comp comp_def)
  then show ?thesis by (cases s) (simp add: apply_steps_def)
qed

lemma find_map_filter_at:
  assumes "\<And>t x. t \<in> set pre \<Longrightarrow> as t = Some x \<Longrightarrow> \<not> P x" and "as t = Some m" and "P m"
  shows "find P (List.map_filter as (pre @ t # post)) = Some m"
  using assms by (induction pre) (auto simp: List.map_filter_simps split: option.splits)

lemma find_map_filter_none:
  assumes "\<And>t x. t \<in> set ts \<Longrightarrow> as t = Some x \<Longrightarrow> \<not> P x"
  shows "find P (List.map_filter as ts) = None"
  using assms by (induction ts) (auto simp: List.map_filter_simps split: option.splits)

definition top_key :: "top_level \<Rightarrow> string \<times> string" where
  "top_key t = (top_get_type t, top_name t)"

lemma top_is_key:
  "top_is_model nm t \<longleftrightarrow> top_key t = (''model'', nm)" "top_is_enum nm t \<longleftrightarrow> top_key t = (''enum'', nm)"
  "top_is_source nm t \<longleftrightarrow> top_key t = (''source'', nm)" "top_is_type nm t \<longleftrightarrow> top_key t = (''type'', nm)"
  by (cases t; simp add: top_key_def)+

lemma as_key:
  "as_model t = Some m \<Longrightarrow> top_key t = (''model'', mdl_name m)"
  "as_enum t = Some e \<Longrightarrow> top_key t = (''enum'', enm_name e)"
  "as_source t = Some s \<Longrightarrow> top_key t = (''source'', src_name s)"
  "as_type_alias t = Some a \<Longrightarrow> top_key t = (''type'', fld_name a)"
  by (cases t; simp add: top_key_def)+

lemma find_at:
  "\<forall>t \<in> set pre. top_key t \<noteq> (''model'', mdl_name m) \<Longrightarrow>
     find_model \<lparr>tops = pre @ TopModel m # post\<rparr> (mdl_name m) = Some m"
  "\<forall>t \<in> set pre. top_key t \<noteq> (''enum'', enm_name e) \<Longrightarrow>
     find_enum \<lparr>tops = pre @ TopEnum e # post\<rparr> (enm_name e) = Some e"
  "\<forall>t \<in> set pre. top_key t \<noteq> (''source'', src_name s) \<Longrightarrow>
     find_source \<lparr>tops = pre @ TopSource s # post\<rparr> (src_name s) = Some s"
  "\<forall>t \<in> set pre. top_key t \<noteq> (''type'', fld_name a) \<Longrightarrow>
     find_type_alias \<lparr>tops = pre @ TopType a # post\<rparr> (fld_name a) = Some a"
  unfolding find_model_def find_enum_def find_source_def find_type_alias_def
    schema_models_def schema_enums_def schema_sources_def schema_types_def schema_ast.simps
  by (rule find_map_filter_at; fastforce dest: as_key)+

lemma find_map_filter_key:
  assumes "\<And>t x. as t = Some x \<Longrightarrow> top_key t = (k, name x)" and "(k, nm) \<notin> top_key ` set ts"
  shows "find (\<lambda>x. name x = nm) (List.map_filter as ts) = None"
  using assms by (intro find_map_filter_none) (metis image_eqI)

lemma find_none:
  "(''model'', nm) \<notin> top_key ` set ts \<Longrightarrow> find_model \<lparr>tops = ts\<rparr> nm = None"
  "(''enum'', nm) \<notin> top_key ` set ts \<Longrightarrow> find_enum \<lparr>tops = ts\<rparr> nm = None"
  "(''source'', nm) \<notin> top_key ` set ts \<Longrightarrow> find_source \<lparr>tops = ts\<rparr> nm = None"
  "(''type'', nm) \<notin> top_key ` set ts \<Longrightarrow> find_type_alias \<lparr>tops = ts\<rparr> nm = None"
  unfolding find_model_def find_enum_def find_source_def find_type_alias_def
    schema_models_def schema_enums_def schema_sources_def schema_types_def schema_ast.simps
  by (rule find_map_filter_key, erule as_key, assumption)+

lemma find_mut_at:
  "mdl_name m = nm \<Longrightarrow> \<forall>t \<in> set pre. top_key t \<noteq> (''model'', nm) \<Longrightarrow>
     find_model_mut e nm g \<lparr>tops = pre @ TopModel m # post\<rparr>
     = map_res (\<lambda>m'. \<lparr>tops = pre @ TopModel m' # post\<rparr>) (g m)"
  "enm_name x = nm \<Longrightarrow> \<forall>t \<in> set pre. top_key t \<noteq> (''enum'', nm) \<Longrightarrow>
     find_enum_mut e nm h \<lparr>tops = pre @ TopEnum x # post\<rparr>
     = map_res (\<lambda>x'. \<lparr>tops = pre @ TopEnum x' # post\<rparr>) (h x)"
  "src_name s = nm \<Longrightarrow> \<forall>t \<in> set pre. top_key t \<noteq> (''source'', nm) \<Longrightarrow>
     find_source_mut e nm i \<lparr>tops = pre @ TopSource s # post\<rparr>
     = map_res (\<lambda>s'. \<lparr>tops = pre @ TopSource s' # post\<rparr>) (i s)"
  "fld_name a = nm \<Longrightarrow> \<forall>t \<in> set pre. top_key t \<noteq> (''type'', nm) \<Longrightarrow>
     find_type_alias_mut e nm j \<lparr>tops = pre @ TopType a # post\<rparr>
     = map_res (\<lambda>a'. \<lparr>tops = pre @ TopType a' # post\<rparr>) (j a)"
  by (auto simp add: find_model_mut_def find_enum_mut_def find_source_mut_def find_type_alias_mut_def
      modify_first_split top_is_key top_key_def map_res_comp comp_def)

section \<open>Steps addressed to one entry\<close>

abbreviation no_key :: "top_level list \<Rightarrow> string \<times> string \<Rightarrow> bool" where
  "no_key ts k \<equiv> \<forall>t \<in> set ts. top_key t \<noteq> k"

lemma tops_step_path:
  "step_path st = Some path \<Longrightarrow>
   tops_step parse st ts = map_res tops (find_directives_mut (absent st) path (dirs_step parse st) \<lparr>tops = ts\<rparr>)"
  by (simp add: tops_step_def apply_step_on_directives)

lemma find_field_at:
  "no_key pre (''model'', mdl_name m) \<Longrightarrow>
   find_field \<lparr>tops = pre @ TopModel m # post\<rparr> (mdl_name m) f = find (\<lambda>x. fld_name x = f) (mdl_fields m)"
  by (simp add: find_field_def find_at)

lemma tops_step_field:
  assumes "field_step_of (mdl_name m) st" and "no_key pre (''model'', mdl_name m)"
  shows "tops_step parse st (pre @ TopModel m # post) =
     map_res (\<lambda>fs. pre @ TopModel (m\<lparr>mdl_fields := fs\<rparr>) # post) (fields_step parse st (mdl_fields m))"
proof (cases "step_path st")
  case None
  with assms(1) consider
      (c) c where "st = CreateField c" "cf_model c = mdl_name m"
    | (u) u where "st = UpdateField u" "uf_model u = mdl_name m"
    | (d) d where "st = DeleteField d" "df_model d = mdl_name m"
    by (auto simp: field_step_of_def split: migration_step.splits)
  then show ?thesis
  proof cases
    case c
    with assms(2) show ?thesis
      by (simp add: tops_step_def apply_create_field_def find_field_at find_mut_at fields_step_def new_field_def
          split: option.split)
  next
    case u
    with assms(2) show ?thesis
      by (simp add: tops_step_def apply_update_field_def find_at find_field_mut_def find_mut_at fields_step_def
          updated_field_def Let_def map_res_comp comp_def)
  next
    case d
    with assms(2) show ?thesis
      by (cases "find (\<lambda>f. fld_name f = df_field d) (mdl_fields m)")
        (simp_all add: tops_step_def apply_delete_field_def find_at find_field_at find_mut_at fields_step_def)
  qed
next
  case (Some path)
  with assms(1) obtain f where "path = PathField (mdl_name m) f"
    by (cases st) (auto simp: field_step_of_def split: directive_path.splits)
  with Some assms(2) show ?thesis
    by (simp add: tops_step_path fields_step_path find_directives_mut_def find_field_mut_def find_mut_at
        on_field_directives_def [abs_def] map_res_comp comp_def)
qed

text \<open>A run of steps all addressed to one component of an entry.\<close>

lemma run_model_fields:
  assumes "\<forall>st \<in> set sts. field_step_of (mdl_name m) st" and "no_key pre (''model'', mdl_name m)"
  shows "run_steps (tops_step parse) sts (pre @ TopModel m # post) =
     map_res (\<lambda>fs. pre @ TopModel (m\<lparr>mdl_fields := fs\<rparr>) # post) (run_steps (fields_step parse) sts (mdl_fields m))"
  using run_steps_focus [where I = "\<lambda>_. True" and C = "\<lambda>fs. pre @ TopModel (m\<lparr>mdl_fields := fs\<rparr>) # post"
      and big = "tops_step parse" and small = "fields_step parse" and sts = sts and x = "mdl_fields m"] assms
    tops_step_field [of "m\<lparr>mdl_fields := fs\<rparr>" _ pre parse post for fs]
  by simp

lemma run_model_directives:
  assumes "\<forall>st \<in> set sts. \<exists>a. step_path st = Some (PathModel (mdl_name m) a)" and "no_key pre (''model'', mdl_name m)"
  shows "run_steps (tops_step parse) sts (pre @ TopModel m # post) =
     map_res (\<lambda>ds. pre @ TopModel (m\<lparr>mdl_directives := ds\<rparr>) # post) (run_steps (dirs_step parse) sts (mdl_directives m))"
proof -
  have "tops_step parse st (pre @ TopModel (m\<lparr>mdl_directives := ds\<rparr>) # post) =
     map_res (\<lambda>ds. pre @ TopModel (m\<lparr>mdl_directives := ds\<rparr>) # post) (dirs_step parse st ds)" if "st \<in> set sts" for st ds
  proof -
    from that assms(1) obtain a where "step_path st = Some (PathModel (mdl_name m) a)" by blast
    with assms(2) show ?thesis
      by (simp add: tops_step_path find_directives_mut_def find_mut_at map_res_comp comp_def)
  qed
  then show ?thesis
    using run_steps_focus [where I = "\<lambda>_. True" and C = "\<lambda>ds. pre @ TopModel (m\<lparr>mdl_directives := ds\<rparr>) # post"
      and big = "tops_step parse" and small = "dirs_step parse" and sts = sts and x = "mdl_directives m"] by simp
qed

lemma run_enum_directives:
  assumes "\<forall>st \<in> set sts. step_path st = Some (PathEnum (enm_name e))" and "no_key pre (''enum'', enm_name e)"
  shows "run_steps (tops_step parse) sts (pre @ TopEnum e # post) =
     map_res (\<lambda>ds. pre @ TopEnum (e\<lparr>enm_directives := ds\<rparr>) # post) (run_steps (dirs_step parse) sts (enm_directives e))"
proof -
  have "tops_step parse st (pre @ TopEnum (e\<lparr>enm_directives := ds\<rparr>) # post) =
     map_res (\<lambda>ds. pre @ TopEnum (e\<lparr>enm_directives := ds\<rparr>) # post) (dirs_step parse st ds)" if "st \<in> set sts" for st ds
    using that assms
    by (simp add: tops_step_path find_directives_mut_def find_mut_at map_res_comp comp_def)
  then show ?thesis
    using run_steps_focus [where I = "\<lambda>_. True" and C = "\<lambda>ds. pre @ TopEnum (e\<lparr>enm_directives := ds\<rparr>) # post"
      and big = "tops_step parse" and small = "dirs_step parse" and sts = sts and x = "enm_directives e"] by simp
qed

lemma run_enum_values:
  assumes "\<forall>st \<in> set sts. \<exists>v. step_path st = Some (PathEnumValue (enm_name e) v)" and "no_key pre (''enum'', enm_name e)"
  shows "run_steps (tops_step parse) sts (pre @ TopEnum e # post) =
     map_res (\<lambda>vs. pre @ TopEnum (e\<lparr>enm_values := vs\<rparr>) # post) (run_steps (values_step parse) sts (enm_values e))"
proof -
  have "tops_step parse st (pre @ TopEnum (e\<lparr>enm_values := vs\<rparr>) # post) =
     map_res (\<lambda>vs. pre @ TopEnum (e\<lparr>enm_values := vs\<rparr>) # post) (values_step parse st vs)" if "st \<in> set sts" for st vs
  proof -
    from that assms(1) obtain v where "step_path st = Some (PathEnumValue (enm_name e) v)" by blast
    with assms(2) show ?thesis
      by (simp add: tops_step_path find_directives_mut_def find_mut_at values_step_def map_res_comp comp_def)
  qed
  then show ?thesis
    using run_steps_focus [where I = "\<lambda>_. True" and C = "\<lambda>vs. pre @ TopEnum (e\<lparr>enm_values := vs\<rparr>) # post"
      and big = "tops_step parse" and small = "values_step parse" and sts = sts and x = "enm_values e"] by simp
qed

lemma run_alias_directives:
  assumes "\<forall>st \<in> set sts. step_path st = Some (PathTypeAlias (fld_name a))" and "no_key pre (''type'', fld_name a)"
  shows "run_steps (tops_step parse) sts (pre @ TopType a # post) =
     map_res (\<lambda>ds. pre @ TopType (a\<lparr>fld_directives := ds\<rparr>) # post) (run_steps (dirs_step parse) sts (fld_directives a))"
proof -
  have "tops_step parse st (pre @ TopType (a\<lparr>fld_directives := ds\<rparr>) # post) =
     map_res (\<lambda>ds. pre @ TopType (a\<lparr>fld_directives := ds\<rparr>) # post) (dirs_step parse st ds)" if "st \<in> set sts" for st ds
    using that assms
    by (simp add: tops_step_path find_directives_mut_def find_mut_at map_res_comp comp_def)
  then show ?thesis
    using run_steps_focus [where I = "\<lambda>_. True" and C = "\<lambda>ds. pre @ TopType (a\<lparr>fld_directives := ds\<rparr>) # post"
      and big = "tops_step parse" and small = "dirs_step parse" and sts = sts and x = "fld_directives a"] by simp
qed

lemma run_source_arguments:
  assumes "\<forall>st \<in> set sts. argument_step_at (ArgSource (src_name s)) st" and "no_key pre (''source'', src_name s)"
  shows "run_steps (tops_step parse) sts (pre @ TopSource s # post) =
     map_res (\<lambda>as. pre @ TopSource (s\<lparr>src_properties := as\<rparr>) # post) (run_steps (args_step parse) sts (src_properties s))"
proof -
  have "tops_step parse st (pre @ TopSource (s\<lparr>src_properties := as\<rparr>) # post) =
     map_res (\<lambda>as. pre @ TopSource (s\<lparr>src_properties := as\<rparr>) # post) (args_step parse st as)" if "st \<in> set sts" for st as
  proof -
    from that assms(1) have "argument_step_at (ArgSource (src_name s)) st" by blast
    with assms(2) show ?thesis
      by (cases st) (auto simp: tops_step_def apply_create_directive_argument_def apply_update_directive_argument_def
        apply_delete_directive_argument_def find_argument_container_def find_mut_at map_res_comp comp_def)
  qed
  then show ?thesis
    using run_steps_focus [where I = "\<lambda>_. True" and C = "\<lambda>as. pre @ TopSource (s\<lparr>src_properties := as\<rparr>) # post"
      and big = "tops_step parse" and small = "args_step parse" and sts = sts and x = "src_properties s"] by simp
qed

section \<open>Content and well-formedness of entries\<close>

datatype entry_content =
    ModelContent "fld_view set" "dir_view set"
  | EnumContent "(string \<times> dir_view set) set" "dir_view set"
  | SourceContent "(string \<times> migration_expression) set"
  | TypeContent fld_content
  | GeneratorContent generator_config

fun top_content :: "top_level \<Rightarrow> entry_content" where
  "top_content (TopModel m) = ModelContent (fld_views (mdl_fields m)) (dir_views (mdl_directives m))"
| "top_content (TopEnum e) = EnumContent (val_views (enm_values e)) (dir_views (enm_directives e))"
| "top_content (TopSource s) = SourceContent (arg_views (src_properties s))"
| "top_content (TopType a) = TypeContent (fld_content a)"
| "top_content (TopGenerator g) = GeneratorContent g"

definition mdl_wf :: "ast_model \<Rightarrow> bool" where
  "mdl_wf m \<longleftrightarrow> flds_wf (mdl_fields m) \<and> mdl_dirs_wf (mdl_directives m)"

definition enm_wf :: "ast_enum \<Rightarrow> bool" where
  "enm_wf e \<longleftrightarrow> vals_wf (enm_values e) \<and> dirs_wf (enm_directives e)"

definition src_wf :: "source_config \<Rightarrow> bool" where
  "src_wf s \<longleftrightarrow> distinct (map arg_name (src_properties s))"

fun top_wf :: "top_level \<Rightarrow> bool" where
  "top_wf (TopModel m) = mdl_wf m"
| "top_wf (TopEnum e) = enm_wf e"
| "top_wf (TopSource s) = src_wf s"
| "top_wf (TopType a) = fld_wf a"
| "top_wf (TopGenerator g) = True"

fun top_arguments :: "top_level \<Rightarrow> argument list" where
  "top_arguments (TopModel m) =
     concat (map (\<lambda>f. concat (map dir_arguments (fld_directives f))) (mdl_fields m))
     @ concat (map dir_arguments (mdl_directives m))"
| "top_arguments (TopEnum e) =
     concat (map (\<lambda>v. concat (map dir_arguments (val_directives v))) (enm_values e))
     @ concat (map dir_arguments (enm_directives e))"
| "top_arguments (TopSource s) = src_properties s"
| "top_arguments (TopType a) = concat (map dir_arguments (fld_directives a))"
| "top_arguments (TopGenerator g) = []"

definition top_ok :: "expr_parser \<Rightarrow> top_level \<Rightarrow> bool" where
  "top_ok parse t \<longleftrightarrow> top_wf t \<and> (\<forall>a \<in> set (top_arguments t). arg_parses parse a)"

text \<open>
  The updates the calculator carries out as the differ means them: an alias keeps its arity, and the
  values an enum gains carry no directives.
\<close>

fun top_update_ok :: "top_level \<Rightarrow> top_level \<Rightarrow> bool" where
  "top_update_ok (TopType p) (TopType n) = (fld_arity p = fld_arity n)"
| "top_update_ok (TopEnum p) (TopEnum n) =
     (\<forall>v \<in> set (diff_created (same_key val_name) (enm_values p) (enm_values n)). val_directives v = [])"
| "top_update_ok p n = True"

fun top_delete_ok :: "top_level \<Rightarrow> bool" where
  "top_delete_ok (TopSource s) = False"
| "top_delete_ok (TopGenerator g) = False"
| "top_delete_ok t = True"

definition top_new_ok :: "expr_parser \<Rightarrow> top_level \<Rightarrow> bool" where
  "top_new_ok parse t \<longleftrightarrow> top_ok parse t \<and> top_get_type t \<noteq> ''generator''"

definition top_upd_ok :: "expr_parser \<Rightarrow> top_level \<Rightarrow> top_level \<Rightarrow> bool" where
  "top_upd_ok parse p n \<longleftrightarrow>
     top_wf p \<and> top_renders p \<and> top_ok parse n \<and> top_update_ok p n \<and> top_get_type p \<noteq> ''generator''"

fun created_top_steps :: "top_level \<Rightarrow> migration_step list" where
  "created_top_steps (TopModel m) = created_model_steps m"
| "created_top_steps (TopEnum e) = created_enum_steps e"
| "created_top_steps (TopSource s) = created_source_steps s"
| "created_top_steps (TopType a) = created_type_alias_steps a"
| "created_top_steps (TopGenerator g) = []"

fun updated_top_steps :: "top_level \<times> top_level \<Rightarrow> migration_step list" where
  "updated_top_steps (TopModel p, TopModel n) = updated_model_steps (p, n)"
| "updated_top_steps (TopEnum p, TopEnum n) = updated_enum_steps (p, n)"
| "updated_top_steps (TopSource p, TopSource n) = updated_source_steps (p, n)"
| "updated_top_steps (TopType p, TopType n) = updated_type_alias_steps (p, n)"
| "updated_top_steps _ = []"

fun deleted_top_steps :: "top_level \<Rightarrow> migration_step list" where
  "deleted_top_steps (TopModel m) = [DeleteModel (mdl_name m)]"
| "deleted_top_steps (TopEnum e) = [DeleteEnum (enm_name e)]"
| "deleted_top_steps (TopSource s) = [DeleteSource (src_name s)]"
| "deleted_top_steps (TopType a) = [DeleteTypeAlias (fld_name a)]"
| "deleted_top_steps (TopGenerator g) = []"

lemma top_ok_parts:
  "top_ok parse (TopModel m) \<Longrightarrow> (\<forall>f \<in> set (mdl_fields m). fld_parses parse f) \<and> (\<forall>d \<in> set (mdl_directives m). dir_parses parse d)"
  "top_ok parse (TopEnum e) \<Longrightarrow> (\<forall>v \<in> set (enm_values e). val_parses parse v) \<and> (\<forall>d \<in> set (enm_directives e). dir_parses parse d)"
  "top_ok parse (TopSource s) \<Longrightarrow> \<forall>a \<in> set (src_properties s). arg_parses parse a"
  "top_ok parse (TopType a) \<Longrightarrow> fld_parses parse a"
  by (auto simp: top_ok_def mdl_wf_def enm_wf_def flds_wf_def vals_wf_def fld_parses_def val_parses_def
      dir_parses_def fld_wf_def val_wf_def dirs_wf_def mdl_dirs_wf_def ball_Un UN_ball_bex_simps)

section \<open>Models\<close>

lemma field_step_of_path: "step_path st = Some (PathField nm f) \<Longrightarrow> field_step_of nm st"
  by (cases st) (auto simp: field_step_of_def)

lemma field_steps_of:
  "st \<in> set (model_field_steps nm p n) \<Longrightarrow> field_step_of nm st"
  "st \<in> set (created_field_steps nm f) \<Longrightarrow> field_step_of nm st"
proof -
  have create: "st \<in> set (created_field_steps nm f) \<Longrightarrow> field_step_of nm st" for st f
    using step_path_sync [of st "PathField nm (fld_name f)" "[]" "fld_directives f"] field_step_of_path [of st nm]
    by (auto simp: created_field_steps_def sync_directives_from_none field_step_of_def [of _ "CreateField c" for c])
  moreover have "st \<in> set (updated_field_steps nm pn) \<Longrightarrow> field_step_of nm st" for st pn
    using step_path_sync [of st] field_step_of_path [of st nm]
    by (auto simp: updated_field_steps_def Let_def field_step_of_def [of _ "UpdateField u" for u] split: if_splits)
  moreover have "field_step_of nm (deleted_field_step nm f)" for f
    by (simp add: field_step_of_def deleted_field_step_def)
  ultimately show "st \<in> set (model_field_steps nm p n) \<Longrightarrow> field_step_of nm st"
    by (auto simp: model_field_steps_def)
  show "st \<in> set (created_field_steps nm f) \<Longrightarrow> field_step_of nm st" by (rule create)
qed

lemma model_directive_paths:
  "st \<in> set (model_directive_steps nm p n) \<Longrightarrow> \<exists>a. step_path st = Some (PathModel nm a)"
  using step_path_sync [of st "PathModel nm None"]
  by (auto simp: model_directive_steps_def created_repeated_step_def deleted_repeated_step_def)

lemma sync_model:
  assumes "mdl_wf p" and "mdl_renders p" and "top_ok parse (TopModel n)"
    and m: "mdl_name m = nm" "mdl_fields m = mdl_fields p" "mdl_directives m = mdl_directives p"
    and pre: "no_key pre (''model'', nm)"
  shows "\<exists>x. run_steps (tops_step parse) (model_field_steps nm p n @ model_directive_steps nm p n) (pre @ TopModel m # post)
        = Inr (pre @ TopModel x # post) \<and> mdl_name x = nm \<and> top_content (TopModel x) = top_content (TopModel n)"
proof -
  have n: "flds_wf (mdl_fields n)" "mdl_dirs_wf (mdl_directives n)"
    "\<forall>f \<in> set (mdl_fields n). fld_parses parse f" "\<forall>d \<in> set (mdl_directives n). dir_parses parse d"
    using assms(3) top_ok_parts(1) [OF assms(3)] by (simp_all add: top_ok_def mdl_wf_def)
  obtain fs where fs: "run_steps (fields_step parse) (model_field_steps nm p n) (mdl_fields p) = Inr fs"
    "fld_views fs = fld_views (mdl_fields n)"
    using sync_model_fields [of p n parse nm] assms(1) n by (auto simp: mdl_wf_def)
  obtain ds where ds: "run_steps (dirs_step parse) (model_directive_steps nm p n) (mdl_directives p) = Inr ds"
    "dir_views ds = dir_views (mdl_directives n)"
    using sync_model_directives [of p n parse nm] assms(1,2) n by (auto simp: mdl_wf_def mdl_renders_def)
  let ?m = "m\<lparr>mdl_fields := fs\<rparr>"
  have "run_steps (tops_step parse) (model_field_steps nm p n) (pre @ TopModel m # post) = Inr (pre @ TopModel ?m # post)"
    using run_model_fields [of "model_field_steps nm p n" m pre parse post] pre m fs(1) field_steps_of(1) by simp
  moreover have "run_steps (tops_step parse) (model_directive_steps nm p n) (pre @ TopModel ?m # post)
      = Inr (pre @ TopModel (?m\<lparr>mdl_directives := ds\<rparr>) # post)"
    using run_model_directives [of "model_directive_steps nm p n" ?m pre parse post] pre m ds(1) model_directive_paths
    by simp
  ultimately show ?thesis
    using fs(2) ds(2) m(1) by (intro exI [of _ "?m\<lparr>mdl_directives := ds\<rparr>"]) (simp add: run_steps_append)
qed

lemma absent_key: "k \<notin> top_key ` set ts \<Longrightarrow> no_key ts k"
  by auto

definition empty_model :: "string \<Rightarrow> ast_model" where
  "empty_model nm = \<lparr>mdl_ident = new_ident nm, mdl_fields = [], mdl_directives = [], mdl_documentation = None,
                     mdl_span = span_empty, mdl_commented_out = False\<rparr>"

lemma created_model_as_sync:
  "created_model_steps n = CreateModel (mdl_name n)
     # model_field_steps (mdl_name n) (empty_model (mdl_name n)) n
     @ model_directive_steps (mdl_name n) (empty_model (mdl_name n)) n"
  by (simp add: created_model_steps_def model_field_steps_def model_directive_steps_def empty_model_def
      diff_created_def diff_deleted_def diff_pairs_Nil regular_directives_def repeated_directives_def
      created_repeated_def deleted_repeated_def sync_directives_from_none)

lemma model_create_law:
  assumes "top_ok parse (TopModel n)" and "(''model'', mdl_name n) \<notin> top_key ` set xs"
  shows "\<exists>x. run_steps (tops_step parse) (created_model_steps n) xs = Inr (xs @ [TopModel x])
      \<and> mdl_name x = mdl_name n \<and> top_content (TopModel x) = top_content (TopModel n)"
proof -
  let ?m = "empty_model (mdl_name n)"
  have "tops_step parse (CreateModel (mdl_name n)) xs = Inr (xs @ [TopModel ?m])"
    using find_none(1) [OF assms(2)] by (simp add: tops_step_def apply_create_model_def empty_model_def)
  moreover have "\<exists>x. run_steps (tops_step parse)
      (model_field_steps (mdl_name n) ?m n @ model_directive_steps (mdl_name n) ?m n) (xs @ [TopModel ?m])
      = Inr (xs @ [TopModel x]) \<and> mdl_name x = mdl_name n \<and> top_content (TopModel x) = top_content (TopModel n)"
    using absent_key [OF assms(2)]
    by (intro sync_model [OF _ _ assms(1)])
      (simp_all add: empty_model_def mdl_wf_def flds_wf_def mdl_dirs_wf_def mdl_renders_def)
  ultimately show ?thesis
    by (simp add: created_model_as_sync)
qed

lemma model_update_law:
  assumes "top_upd_ok parse (TopModel p) (TopModel n)" and "no_key pre (''model'', mdl_name p)" "mdl_name p = mdl_name n"
  shows "\<exists>x. run_steps (tops_step parse) (updated_model_steps (p, n)) (pre @ TopModel p # post) = Inr (pre @ TopModel x # post)
      \<and> mdl_name x = mdl_name n \<and> top_content (TopModel x) = top_content (TopModel n)"
proof -
  have "updated_model_steps (p, n) = model_field_steps (mdl_name p) p n @ model_directive_steps (mdl_name p) p n"
    by (simp add: updated_model_steps_def model_field_steps_def model_directive_steps_def Let_def)
  then show ?thesis
    using sync_model [of p parse n p "mdl_name p" pre post] assms by (simp add: top_upd_ok_def)
qed

section \<open>Enums\<close>

lemma sync_enum_directives:
  assumes "dirs_wf ps" and "dirs_wf ns" "\<forall>d \<in> set ns. dir_parses parse d"
    and "enm_name e = nm" "enm_directives e = ps" and "no_key pre (''enum'', nm)"
  shows "\<exists>ds. run_steps (tops_step parse) (sync_directives_steps (PathEnum nm) ps ns) (pre @ TopEnum e # post)
      = Inr (pre @ TopEnum (e\<lparr>enm_directives := ds\<rparr>) # post) \<and> dir_views ds = dir_views ns"
proof -
  obtain ds where "run_steps (dirs_step parse) (sync_directives_steps (PathEnum nm) ps ns) ps = Inr ds"
    "dir_views ds = dir_views ns"
    using sync_directives [of ps ns parse "PathEnum nm"] assms(1-3) by (auto simp: dirs_wf_def)
  then show ?thesis
    using run_enum_directives [of "sync_directives_steps (PathEnum nm) ps ns" e pre parse post] assms(4-6)
    by (intro exI [of _ ds]) (simp add: step_path_sync)
qed

lemma created_value_paths:
  assumes "st \<in> set (concat (map (\<lambda>v. concat (map (created_directive_steps (PathEnumValue nm (val_name v))) (val_directives v))) vs))"
  shows "\<exists>v. step_path st = Some (PathEnumValue nm v)"
proof -
  from assms obtain v where "st \<in> set (sync_directives_steps (PathEnumValue nm (val_name v)) [] (val_directives v))"
    by (auto simp: sync_directives_from_none)
  then show ?thesis by (auto dest: step_path_sync)
qed

lemma enum_create_law:
  assumes "top_ok parse (TopEnum n)" and "(''enum'', enm_name n) \<notin> top_key ` set xs"
  shows "\<exists>x. run_steps (tops_step parse) (created_enum_steps n) xs = Inr (xs @ [TopEnum x])
      \<and> enm_name x = enm_name n \<and> top_content (TopEnum x) = top_content (TopEnum n)"
proof -
  let ?nm = "enm_name n"
  let ?e = "\<lparr>enm_ident = new_ident ?nm, enm_values = map new_enum_value (map val_name (enm_values n)),
             enm_directives = [], enm_documentation = None, enm_span = span_empty\<rparr>"
  let ?vsteps = "concat (map (\<lambda>v. concat (map (created_directive_steps (PathEnumValue ?nm (val_name v))) (val_directives v))) (enm_values n))"
  have n: "vals_wf (enm_values n)" "dirs_wf (enm_directives n)"
    "\<forall>v \<in> set (enm_values n). val_parses parse v" "\<forall>d \<in> set (enm_directives n). dir_parses parse d"
    using assms(1) top_ok_parts(2) [OF assms(1)] by (simp_all add: top_ok_def enm_wf_def)
  have create: "tops_step parse (CreateEnum \<lparr>ce_enum = ?nm, ce_values = map val_name (enm_values n)\<rparr>) xs = Inr (xs @ [TopEnum ?e])"
    using find_none(2) [OF assms(2)] by (simp add: tops_step_def apply_create_enum_def)
  obtain ds where ds: "run_steps (tops_step parse) (sync_directives_steps (PathEnum ?nm) [] (enm_directives n)) (xs @ [TopEnum ?e])
      = Inr (xs @ [TopEnum (?e\<lparr>enm_directives := ds\<rparr>)])" "dir_views ds = dir_views (enm_directives n)"
    using sync_enum_directives [OF _ n(2,4), of "[]" ?e ?nm xs "[]"] absent_key [OF assms(2)] by (auto simp: dirs_wf_def)
  obtain vs where vs: "run_steps (values_step parse) ?vsteps (map (\<lambda>v. new_enum_value (val_name v)) (enm_values n)) = Inr vs"
    "val_views vs = val_views (enm_values n)"
    using create_value_directives [OF n(1,3)] by blast
  have "run_steps (tops_step parse) ?vsteps (xs @ [TopEnum (?e\<lparr>enm_directives := ds\<rparr>)])
      = Inr (xs @ [TopEnum (?e\<lparr>enm_directives := ds, enm_values := vs\<rparr>)])"
    using run_enum_values [of ?vsteps "?e\<lparr>enm_directives := ds\<rparr>" xs parse "[]"] created_value_paths
      absent_key [OF assms(2)] vs(1) by (simp add: comp_def)
  with create ds vs(2) show ?thesis
    by (simp add: created_enum_steps_def sync_directives_from_none run_steps_append del: map_map)
qed

definition enum_update :: "ast_enum \<Rightarrow> ast_enum \<Rightarrow> update_enum" where
  "enum_update p n =
     \<lparr>ue_enum = enm_name p, ue_new_name = diff_value (enm_name p) (enm_name n),
      ue_created_values = map val_name (diff_created (same_key val_name) (enm_values p) (enm_values n)),
      ue_deleted_values = map val_name (diff_deleted (same_key val_name) (enm_values p) (enm_values n))\<rparr>"

lemma update_enum_values:
  assumes "enm_name p = enm_name n" and "enm_name e = enm_name p" and "no_key pre (''enum'', enm_name p)"
  defines "us \<equiv> enum_values_update (enm_values p) (enm_values n) (enm_values e)"
  shows "run_steps (tops_step parse) (if ue_is_any_option_set (enum_update p n) then [UpdateEnum (enum_update p n)] else [])
      (pre @ TopEnum e # post) = Inr (pre @ TopEnum (e\<lparr>enm_values := us\<rparr>) # post)"
proof (cases "ue_is_any_option_set (enum_update p n)")
  case True
  let ?c = "diff_created (same_key val_name) (enm_values p) (enm_values n)"
  let ?d = "diff_deleted (same_key val_name) (enm_values p) (enm_values n)"
  have not_removed: "(\<lambda>v. find (\<lambda>r. r = val_name v) (map val_name ?d) = None) = (\<lambda>v. val_name v \<notin> val_name ` set ?d)"
    by (auto simp: fun_eq_iff find_None_iff image_iff)
  have "remove_enum_values (add_enum_values e (map val_name ?c)) (map val_name ?d) = e\<lparr>enm_values := us\<rparr>"
    unfolding us_def enum_values_update_def remove_enum_values_def add_enum_values_def not_removed by (simp add: comp_def)
  with True assms(1-3) show ?thesis
    by (simp add: tops_step_def apply_update_enum_def enum_update_def find_mut_at diff_value_def apply_enum_update_def Let_def)
next
  case False
  then have "us = enm_values e"
    by (simp add: us_def enum_values_update_def enum_update_def ue_is_any_option_set_def)
  with False show ?thesis by simp
qed

lemma updated_value_paths:
  "st \<in> set (concat (map (updated_enum_value_steps nm) prs)) \<Longrightarrow> \<exists>v. step_path st = Some (PathEnumValue nm v)"
  by (auto simp: updated_enum_value_steps_def dest!: step_path_sync)

lemma enum_update_law:
  assumes "top_upd_ok parse (TopEnum p) (TopEnum n)" and pre: "no_key pre (''enum'', enm_name p)" and nm: "enm_name p = enm_name n"
  shows "\<exists>x. run_steps (tops_step parse) (updated_enum_steps (p, n)) (pre @ TopEnum p # post) = Inr (pre @ TopEnum x # post)
      \<and> enm_name x = enm_name n \<and> top_content (TopEnum x) = top_content (TopEnum n)"
proof -
  have ok: "top_ok parse (TopEnum n)" and p: "vals_wf (enm_values p)" "dirs_wf (enm_directives p)"
    and empty: "\<forall>v \<in> set (diff_created (same_key val_name) (enm_values p) (enm_values n)). val_directives v = []"
    using assms(1) by (simp_all add: top_upd_ok_def enm_wf_def)
  then have n: "vals_wf (enm_values n)" "dirs_wf (enm_directives n)"
    "\<forall>v \<in> set (enm_values n). val_parses parse v" "\<forall>d \<in> set (enm_directives n). dir_parses parse d"
    using top_ok_parts(2) [OF ok] by (simp_all add: top_ok_def enm_wf_def)
  let ?vsteps = "concat (map (updated_enum_value_steps (enm_name n)) (diff_pairs (same_key val_name) (enm_values p) (enm_values n)))"
  let ?dsteps = "sync_directives_steps (PathEnum (enm_name p)) (enm_directives p) (enm_directives n)"
  let ?usteps = "if ue_is_any_option_set (enum_update p n) then [UpdateEnum (enum_update p n)] else []"
  obtain zs where zs: "run_steps (values_step parse) ?vsteps (enm_values p) = Inr zs"
    "val_views (enum_values_update (enm_values p) (enm_values n) zs) = val_views (enm_values n)"
    using sync_values [OF p(1) n(1,3) empty] by blast
  let ?us = "enum_values_update (enm_values p) (enm_values n) zs"
  have 1: "run_steps (tops_step parse) ?vsteps (pre @ TopEnum p # post) = Inr (pre @ TopEnum (p\<lparr>enm_values := zs\<rparr>) # post)"
    using run_enum_values [of ?vsteps p pre parse post] updated_value_paths zs(1) pre nm by simp
  have 2: "run_steps (tops_step parse) ?usteps (pre @ TopEnum (p\<lparr>enm_values := zs\<rparr>) # post)
      = Inr (pre @ TopEnum (p\<lparr>enm_values := ?us\<rparr>) # post)"
    using update_enum_values [OF nm _ pre, of "p\<lparr>enm_values := zs\<rparr>" parse post] by simp
  obtain ds where 3: "run_steps (tops_step parse) ?dsteps (pre @ TopEnum (p\<lparr>enm_values := ?us\<rparr>) # post)
      = Inr (pre @ TopEnum (p\<lparr>enm_values := ?us, enm_directives := ds\<rparr>) # post)" "dir_views ds = dir_views (enm_directives n)"
    using sync_enum_directives [OF p(2) n(2,4), of "p\<lparr>enm_values := ?us\<rparr>" "enm_name p" pre post] pre by auto
  have steps: "updated_enum_steps (p, n) = ?vsteps @ ?usteps @ ?dsteps"
    using empty by (simp add: updated_enum_steps_def enum_update_def Let_def)
  have "run_steps (tops_step parse) (updated_enum_steps (p, n)) (pre @ TopEnum p # post)
      = Inr (pre @ TopEnum (p\<lparr>enm_values := ?us, enm_directives := ds\<rparr>) # post)"
    by (simp only: steps run_steps_append 1 2 3 bind_res_Inr)
  with zs(2) 3(2) nm show ?thesis
    by (intro exI [of _ "p\<lparr>enm_values := ?us, enm_directives := ds\<rparr>"]) simp
qed

section \<open>Sources and type aliases\<close>

lemma source_create_law:
  assumes "top_ok parse (TopSource n)" and "(''source'', src_name n) \<notin> top_key ` set xs"
  shows "\<exists>x. run_steps (tops_step parse) (created_source_steps n) xs = Inr (xs @ [TopSource x])
      \<and> src_name x = src_name n \<and> top_content (TopSource x) = top_content (TopSource n)"
proof -
  let ?s = "\<lparr>src_ident = new_ident (src_name n), src_properties = [], src_documentation = None, src_span = span_empty\<rparr>"
  let ?sts = "map (created_argument_step (ArgSource (src_name n))) (src_properties n)"
  have "tops_step parse (CreateSource (src_name n)) xs = Inr (xs @ [TopSource ?s])"
    using find_none(3) [OF assms(2)] by (simp add: tops_step_def apply_create_source_def)
  moreover obtain zs where "run_steps (args_step parse) ?sts [] = Inr zs" and zs: "arg_views zs = arg_views (src_properties n)"
    using create_arguments [of "src_properties n" parse "ArgSource (src_name n)"] assms(1) top_ok_parts(3) [OF assms(1)]
    by (auto simp: top_ok_def src_wf_def)
  then have "run_steps (tops_step parse) ?sts (xs @ [TopSource ?s]) = Inr (xs @ [TopSource (?s\<lparr>src_properties := zs\<rparr>)])"
    using run_source_arguments [of ?sts ?s xs parse "[]"] absent_key [OF assms(2)] by simp
  ultimately show ?thesis
    using zs by (simp add: created_source_steps_def)
qed

lemma source_update_law:
  assumes "top_upd_ok parse (TopSource p) (TopSource n)" and "no_key pre (''source'', src_name p)" and "src_name p = src_name n"
  shows "\<exists>x. run_steps (tops_step parse) (updated_source_steps (p, n)) (pre @ TopSource p # post) = Inr (pre @ TopSource x # post)
      \<and> src_name x = src_name n \<and> top_content (TopSource x) = top_content (TopSource n)"
proof -
  have ok: "top_ok parse (TopSource n)" using assms(1) by (simp add: top_upd_ok_def)
  obtain zs where "run_steps (args_step parse) (updated_source_steps (p, n)) (src_properties p) = Inr zs"
    and zs: "arg_views zs = arg_views (src_properties n)"
    using sync_arguments_source [of "src_properties p" "src_properties n" parse "ArgSource (src_name p)"]
      assms(1) ok top_ok_parts(3) [OF ok]
    by (auto simp: top_upd_ok_def top_ok_def src_wf_def updated_source_steps_def Let_def)
  moreover have "\<forall>st \<in> set (updated_source_steps (p, n)). argument_step_at (ArgSource (src_name p)) st"
    by (auto simp: updated_source_steps_def Let_def)
  ultimately show ?thesis
    using run_source_arguments [of "updated_source_steps (p, n)" p pre parse post] assms(2,3)
    by (intro exI [of _ "p\<lparr>src_properties := zs\<rparr>"]) simp
qed

lemma sync_alias_directives:
  assumes "fld_wf p" and "top_ok parse (TopType n)" and "fld_name a = nm" "fld_directives a = fld_directives p"
    and "no_key pre (''type'', nm)"
  shows "\<exists>ds. run_steps (tops_step parse) (sync_directives_steps (PathTypeAlias nm) (fld_directives p) (fld_directives n)) (pre @ TopType a # post)
      = Inr (pre @ TopType (a\<lparr>fld_directives := ds\<rparr>) # post) \<and> dir_views ds = dir_views (fld_directives n)"
proof -
  let ?sts = "sync_directives_steps (PathTypeAlias nm) (fld_directives p) (fld_directives n)"
  obtain ds where "run_steps (dirs_step parse) ?sts (fld_directives p) = Inr ds" "dir_views ds = dir_views (fld_directives n)"
    using sync_directives [of "fld_directives p" "fld_directives n" parse "PathTypeAlias nm"] assms(1) top_ok_parts(4) [OF assms(2)]
    by (auto simp: fld_wf_def fld_parses_def dirs_wf_def)
  then show ?thesis
    using run_alias_directives [of ?sts a pre parse post] assms(3-5)
    by (intro exI [of _ ds]) (simp add: step_path_sync)
qed

lemma alias_create_law:
  assumes "top_ok parse (TopType n)" and "(''type'', fld_name n) \<notin> top_key ` set xs"
  shows "\<exists>x. run_steps (tops_step parse) (created_type_alias_steps n) xs = Inr (xs @ [TopType x])
      \<and> fld_name x = fld_name n \<and> top_content (TopType x) = top_content (TopType n)"
proof -
  let ?c = "\<lparr>ct_type_alias = fld_name n, ct_type = id_name (fld_type n), ct_arity = arity_from_ast (fld_arity n)\<rparr>"
  let ?a = "\<lparr>fld_type = new_ident (id_name (fld_type n)), fld_ident = new_ident (fld_name n), fld_arity = fld_arity n,
             fld_default_value = None, fld_directives = [], fld_documentation = None, fld_span = span_empty,
             fld_is_commented_out = False\<rparr>"
  have "tops_step parse (CreateTypeAlias ?c) xs = Inr (xs @ [TopType ?a])"
    using find_none(4) [OF assms(2)] by (simp add: tops_step_def apply_create_type_alias_def)
  moreover obtain ds where "run_steps (tops_step parse) (sync_directives_steps (PathTypeAlias (fld_name n)) [] (fld_directives n)) (xs @ [TopType ?a])
      = Inr (xs @ [TopType (?a\<lparr>fld_directives := ds\<rparr>)])" and ds: "dir_views ds = dir_views (fld_directives n)"
    using sync_alias_directives [OF _ assms(1), of ?a ?a "fld_name n" xs "[]"] absent_key [OF assms(2)]
    by (auto simp: fld_wf_def dirs_wf_def)
  ultimately show ?thesis
    by (simp add: created_type_alias_steps_def sync_directives_from_none fld_content_def)
qed

lemma alias_update_law:
  assumes "top_upd_ok parse (TopType p) (TopType n)" and "no_key pre (''type'', fld_name p)" and "fld_name p = fld_name n"
  shows "\<exists>x. run_steps (tops_step parse) (updated_type_alias_steps (p, n)) (pre @ TopType p # post) = Inr (pre @ TopType x # post)
      \<and> fld_name x = fld_name n \<and> top_content (TopType x) = top_content (TopType n)"
proof -
  define q where "q = (if id_name (fld_type p) = id_name (fld_type n) then p else p\<lparr>fld_type := new_ident (id_name (fld_type n))\<rparr>)"
  have q: "fld_name q = fld_name p" "fld_directives q = fld_directives p" "id_name (fld_type q) = id_name (fld_type n)"
    "fld_arity q = fld_arity n"
    using assms(1) by (simp_all add: q_def top_upd_ok_def)
  let ?sts = "sync_directives_steps (PathTypeAlias (fld_name p)) (fld_directives p) (fld_directives n)"
  have "run_steps (tops_step parse) (if id_name (fld_type p) = id_name (fld_type n) then []
       else [UpdateTypeAlias \<lparr>ut_type_alias = fld_name p, ut_type = Some (id_name (fld_type n))\<rparr>]) (pre @ TopType p # post)
      = Inr (pre @ TopType q # post)"
    using assms(2) by (simp add: q_def tops_step_def apply_update_type_alias_def find_mut_at)
  moreover obtain ds where "run_steps (tops_step parse) ?sts (pre @ TopType q # post)
      = Inr (pre @ TopType (q\<lparr>fld_directives := ds\<rparr>) # post)" and ds: "dir_views ds = dir_views (fld_directives n)"
    using sync_alias_directives [of p parse n q "fld_name p" pre post] assms(1,2) q by (auto simp: top_upd_ok_def)
  ultimately have "run_steps (tops_step parse) (updated_type_alias_steps (p, n)) (pre @ TopType p # post)
      = Inr (pre @ TopType (q\<lparr>fld_directives := ds\<rparr>) # post)"
    unfolding updated_type_alias_steps_def Let_def fst_conv snd_conv by (simp only: run_steps_append bind_res_Inr)
  with q ds assms(3) show ?thesis
    by (intro exI [of _ "q\<lparr>fld_directives := ds\<rparr>"]) (simp add: fld_content_def)
qed

end
