(* ===== verification/Diff_Roundtrip.thy ===== *)
theory Diff_Roundtrip
  imports Schema_Sync
begin

text \<open>
  The datamodel differ and the datamodel calculator are inverse to each other: applying the steps
  inferred from a previous to a next schema brings the previous schema to the content of the next.
\<close>

section \<open>Top-level entries as an instance of the contract\<close>

abbreviation top_create where
  "top_create parse t \<equiv> run_steps (tops_step parse) (created_top_steps t)"
abbreviation top_update where
  "top_update parse pn \<equiv> run_steps (tops_step parse) (updated_top_steps pn)"
abbreviation top_delete where
  "top_delete parse t \<equiv> run_steps (tops_step parse) (deleted_top_steps t)"

lemma top_create_law:
  assumes "top_new_ok parse n" and "top_key n \<notin> top_key ` set xs"
  shows "\<exists>x. top_create parse n xs = Inr (xs @ [x]) \<and> top_key x = top_key n \<and> top_content x = top_content n"
proof (cases n)
  case (TopModel m)
  with assms show ?thesis
    using model_create_law [of parse m xs] by (auto simp: top_new_ok_def top_key_def)
next
  case (TopEnum e)
  with assms show ?thesis
    using enum_create_law [of parse e xs] by (auto simp: top_new_ok_def top_key_def)
next
  case (TopSource s)
  with assms show ?thesis
    using source_create_law [of parse s xs] by (auto simp: top_new_ok_def top_key_def)
next
  case (TopType a)
  with assms show ?thesis
    using alias_create_law [of parse a xs] by (auto simp: top_new_ok_def top_key_def)
next
  case (TopGenerator g)
  with assms show ?thesis by (simp add: top_new_ok_def)
qed

lemma top_update_law:
  assumes "top_upd_ok parse p n" and "top_key p = top_key n" and "\<forall>a \<in> set pre \<union> set post. top_key a \<noteq> top_key p"
  shows "\<exists>x. top_update parse (p, n) (pre @ p # post) = Inr (pre @ x # post) \<and> top_key x = top_key n \<and> top_content x = top_content n"
proof -
  have pre: "no_key pre (top_key p)" using assms(3) by blast
  show ?thesis
  proof (cases p)
    case (TopModel q)
    with assms(2) obtain m where "n = TopModel m" "mdl_name q = mdl_name m" by (cases n) (auto simp: top_key_def)
    with TopModel assms(1) pre model_update_law [of parse q m pre post] show ?thesis by (auto simp: top_key_def)
  next
    case (TopEnum q)
    with assms(2) obtain m where "n = TopEnum m" "enm_name q = enm_name m" by (cases n) (auto simp: top_key_def)
    with TopEnum assms(1) pre enum_update_law [of parse q m pre post] show ?thesis by (auto simp: top_key_def)
  next
    case (TopSource q)
    with assms(2) obtain m where "n = TopSource m" "src_name q = src_name m" by (cases n) (auto simp: top_key_def)
    with TopSource assms(1) pre source_update_law [of parse q m pre post] show ?thesis by (auto simp: top_key_def)
  next
    case (TopType q)
    with assms(2) obtain m where "n = TopType m" "fld_name q = fld_name m" by (cases n) (auto simp: top_key_def)
    with TopType assms(1) pre alias_update_law [of parse q m pre post] show ?thesis by (auto simp: top_key_def)
  next
    case (TopGenerator g)
    with assms(1) show ?thesis by (simp add: top_upd_ok_def)
  qed
qed

lemma top_delete_law:
  assumes "top_delete_ok d" and "d \<in> set xs"
  shows "top_delete parse d xs = Inr (filter (\<lambda>x. top_key x \<noteq> top_key d) xs)"
proof -
  have some: "as d = Some y \<Longrightarrow> find (\<lambda>y. P y) (List.map_filter as xs) \<noteq> None" if "P y" for y P as
    using that assms(2) by (auto simp: find_None_iff in_map_filter)
  show ?thesis
  proof (cases d)
    case (TopModel m)
    have "find_model \<lparr>tops = xs\<rparr> (mdl_name m) \<noteq> None"
      unfolding find_model_def schema_models_def schema_ast.simps using TopModel by (intro some) auto
    then obtain y where "find_model \<lparr>tops = xs\<rparr> (mdl_name m) = Some y" by blast
    with TopModel show ?thesis
      by (simp add: tops_step_def apply_delete_model_def) (intro filter_cong, auto simp: top_key_def split: top_level.splits)
  next
    case (TopEnum e)
    have "find_enum \<lparr>tops = xs\<rparr> (enm_name e) \<noteq> None"
      unfolding find_enum_def schema_enums_def schema_ast.simps using TopEnum by (intro some) auto
    then obtain y where "find_enum \<lparr>tops = xs\<rparr> (enm_name e) = Some y" by blast
    with TopEnum show ?thesis
      by (simp add: tops_step_def apply_delete_enum_def) (intro filter_cong, auto simp: top_key_def split: top_level.splits)
  next
    case (TopType a)
    have "find_type_alias \<lparr>tops = xs\<rparr> (fld_name a) \<noteq> None"
      unfolding find_type_alias_def schema_types_def schema_ast.simps using TopType by (intro some) auto
    then obtain y where "find_type_alias \<lparr>tops = xs\<rparr> (fld_name a) = Some y" by blast
    with TopType show ?thesis
      by (simp add: tops_step_def apply_delete_type_alias_def) (intro filter_cong, auto simp: top_key_def split: top_level.splits)
  qed (use assms in auto)
qed

interpretation entries: list_sync top_key top_content kind "top_new_ok parse" "top_upd_ok parse" top_delete_ok
    "top_create parse" "top_update parse" "top_delete parse" for parse kind
  by unfold_locales (simp_all add: top_create_law top_update_law top_delete_law)

section \<open>Steps per kind of entry\<close>

definition of_type :: "string \<Rightarrow> top_level list \<Rightarrow> top_level list" where
  "of_type k ts = filter (\<lambda>t. top_get_type t = k) ts"

definition kind_steps :: "top_level list \<Rightarrow> top_level list \<Rightarrow> string \<Rightarrow> migration_step list" where
  "kind_steps ps ns k =
     concat (map created_top_steps (diff_created (same_key top_key) (of_type k ps) (of_type k ns)))
     @ concat (map deleted_top_steps (diff_deleted (same_key top_key) (of_type k ps) (of_type k ns)))
     @ concat (map updated_top_steps (diff_pairs (same_key top_key) (of_type k ps) (of_type k ns)))"

lemma of_type_walk:
  "of_type ''type'' (tops s) = map TopType (walk_type_aliases s)"
  "of_type ''enum'' (tops s) = map TopEnum (walk_enums s)"
  "of_type ''source'' (tops s) = map TopSource (walk_sources s)"
  "of_type ''model'' (tops s) = map TopModel (walk_models s)"
proof -
  have "of_type ''type'' ts = map TopType (List.map_filter as_type_alias ts)
      \<and> of_type ''enum'' ts = map TopEnum (List.map_filter as_enum ts)
      \<and> of_type ''source'' ts = map TopSource (List.map_filter as_source ts)
      \<and> of_type ''model'' ts = map TopModel (List.map_filter as_model ts)" for ts
  proof (induction ts)
    case Nil
    then show ?case by (simp add: of_type_def List.map_filter_simps)
  next
    case (Cons t ts)
    then show ?case by (cases t) (simp_all add: of_type_def List.map_filter_simps)
  qed
  then show "of_type ''type'' (tops s) = map TopType (walk_type_aliases s)"
    "of_type ''enum'' (tops s) = map TopEnum (walk_enums s)"
    "of_type ''source'' (tops s) = map TopSource (walk_sources s)"
    "of_type ''model'' (tops s) = map TopModel (walk_models s)"
    by (simp_all add: walk_type_aliases_def walk_enums_def walk_sources_def walk_models_def)
qed

lemma kind_steps_map:
  assumes "\<And>p n. same_key top_key (C p) (C n) = same_key nm p n"
    and "of_type k ps = map C qs" and "of_type k ns = map C ms"
  shows "kind_steps ps ns k =
     concat (map (\<lambda>x. created_top_steps (C x)) (diff_created (same_key nm) qs ms))
     @ concat (map (\<lambda>x. deleted_top_steps (C x)) (diff_deleted (same_key nm) qs ms))
     @ concat (map (\<lambda>x. updated_top_steps (C (fst x), C (snd x))) (diff_pairs (same_key nm) qs ms))"
proof -
  note match = map_diff_created map_diff_deleted map_diff_pairs
  note lift = match [of "same_key top_key" C "same_key nm", OF assms(1), symmetric]
  show ?thesis
    unfolding kind_steps_def assms(2,3) lift by (simp add: comp_def map_prod_def case_prod_beta)
qed

lemma diff_steps_kinds:
  "diff_steps p n = concat (map (kind_steps (tops p) (tops n)) [''type'', ''enum'', ''source'', ''model''])"
proof -
  have "type_alias_steps p n = kind_steps (tops p) (tops n) ''type''"
    by (subst kind_steps_map [where C = TopType and nm = fld_name])
      (auto simp: same_key_def top_key_def of_type_walk type_alias_steps_def concat_map_singleton)
  moreover have "enum_steps p n = kind_steps (tops p) (tops n) ''enum''"
    by (subst kind_steps_map [where C = TopEnum and nm = enm_name])
      (auto simp: same_key_def top_key_def of_type_walk enum_steps_def concat_map_singleton)
  moreover have "source_steps p n = kind_steps (tops p) (tops n) ''source''"
    by (subst kind_steps_map [where C = TopSource and nm = src_name])
      (auto simp: same_key_def top_key_def of_type_walk source_steps_def concat_map_singleton)
  moreover have "model_steps p n = kind_steps (tops p) (tops n) ''model''"
    by (subst kind_steps_map [where C = TopModel and nm = mdl_name])
      (auto simp: same_key_def top_key_def of_type_walk model_steps_def concat_map_singleton)
  ultimately show ?thesis by (simp add: diff_steps_def)
qed

section \<open>The round trip\<close>

definition top_views :: "top_level list \<Rightarrow> ((string \<times> string) \<times> entry_content) set" where
  "top_views ts = (\<lambda>t. (top_key t, top_content t)) ` set ts"

definition schema_wf :: "schema_ast \<Rightarrow> bool" where
  "schema_wf s \<longleftrightarrow> distinct (map top_key (tops s)) \<and> (\<forall>t \<in> set (tops s). top_wf t)"

definition schema_parses :: "expr_parser \<Rightarrow> schema_ast \<Rightarrow> bool" where
  "schema_parses parse s \<longleftrightarrow> (\<forall>t \<in> set (tops s). \<forall>a \<in> set (top_arguments t). arg_parses parse a)"

text \<open>
  The changes whose steps the calculator can apply: no source is removed, aliases keep their arity,
  enum values added to an existing enum have no directives.
\<close>

definition supported_change :: "schema_ast \<Rightarrow> schema_ast \<Rightarrow> bool" where
  "supported_change p n \<longleftrightarrow>
     (\<forall>t \<in> set (tops p). top_get_type t = ''source'' \<longrightarrow> top_key t \<in> top_key ` set (tops n))
     \<and> (\<forall>t \<in> set (tops p). \<forall>u \<in> set (tops n). top_key t = top_key u \<longrightarrow> top_update_ok t u)"

definition schema_view :: "schema_ast \<Rightarrow> ((string \<times> string) \<times> entry_content) set" where
  "schema_view s = top_views (filter (\<lambda>t. top_get_type t \<noteq> ''generator'') (tops s))"

lemma entries_view: "entries.view ` set ts = top_views ts"
  by (auto simp: top_views_def entries.view_def)

lemma entries_kind:
  "entries.of_kind (\<lambda>x. fst x = k) ts = of_type k ts"
  "entries.others (\<lambda>x. fst x = k) ts = filter (\<lambda>t. top_get_type t \<noteq> k) ts"
  by (simp_all add: entries.of_kind_def entries.others_def of_type_def top_key_def)

lemma top_keyD: "top_key t = top_key u \<Longrightarrow> top_get_type t = top_get_type u"
  by (simp add: top_key_def)

lemma sync_pre_kind:
  assumes "schema_wf p" and "schema_wf n" and "schema_renders p" and "schema_parses parse n" and "supported_change p n"
    and "k \<noteq> ''generator''" and "of_type k ts = of_type k (tops p)"
  shows "entries.sync_pre (\<lambda>x. fst x = k) parse ts (of_type k (tops n))"
proof -
  have dist: "distinct (map top_key (of_type k (tops p)))" "distinct (map top_key (of_type k (tops n)))"
    using assms(1,2) by (simp_all add: schema_wf_def of_type_def distinct_map_filter)
  have ok: "top_ok parse u" if "u \<in> set (tops n)" for u
    using that assms(2,4) by (simp add: schema_wf_def schema_parses_def top_ok_def)
  have "top_new_ok parse u" if "u \<in> set (of_type k (tops n))" for u
    using that ok assms(6) by (auto simp: top_new_ok_def of_type_def)
  moreover have "top_upd_ok parse t u"
    if "t \<in> set (of_type k (tops p))" "u \<in> set (of_type k (tops n))" "top_key t = top_key u" for t u
    using that ok assms(1,3,5,6)
    by (auto simp: top_upd_ok_def of_type_def schema_wf_def schema_renders_def list_all_iff supported_change_def)
  moreover have "top_delete_ok t"
    if "t \<in> set (of_type k (tops p))" "top_key t \<notin> top_key ` set (of_type k (tops n))" for t
  proof -
    from that have t: "t \<in> set (tops p)" "top_get_type t = k" by (simp_all add: of_type_def)
    have "top_key t \<notin> top_key ` set (tops n)"
    proof
      assume "top_key t \<in> top_key ` set (tops n)"
      then obtain u where "u \<in> set (tops n)" "top_key t = top_key u" by blast
      with t(2) have "u \<in> set (of_type k (tops n))" using top_keyD [of t u] by (simp add: of_type_def)
      with that(2) \<open>top_key t = top_key u\<close> show False by simp
    qed
    with t(1) assms(5) have "top_get_type t \<noteq> ''source''" by (auto simp: supported_change_def)
    with assms(6) t(2) show ?thesis by (cases t) auto
  qed
  moreover have "\<forall>u \<in> set (of_type k (tops n)). fst (top_key u) = k"
    by (simp add: of_type_def top_key_def)
  ultimately show ?thesis
    unfolding entries.sync_pre_def entries_kind assms(7) using dist by blast
qed

lemma sync_kind:
  assumes "entries.sync_pre (\<lambda>x. fst x = k) parse ts (of_type k ns)" and "of_type k ts = of_type k ps"
  shows "\<exists>zs. run_steps (tops_step parse) (kind_steps ps ns k) ts = Inr zs
      \<and> top_views (of_type k zs) = top_views (of_type k ns)
      \<and> filter (\<lambda>t. top_get_type t \<noteq> k) zs = filter (\<lambda>t. top_get_type t \<noteq> k) ts"
  using entries.sync_create_delete_update [OF assms(1)] unfolding entries_kind assms(2)
  by (auto simp: kind_steps_def run_steps_folds entries.synced_def entries_kind entries_view)

lemma of_type_other:
  assumes "filter (\<lambda>t. top_get_type t \<noteq> k) zs = filter (\<lambda>t. top_get_type t \<noteq> k) ts" and "k' \<noteq> k"
  shows "of_type k' zs = of_type k' ts"
proof -
  have "of_type k' us = of_type k' (filter (\<lambda>t. top_get_type t \<noteq> k) us)" for us
    using assms(2) by (auto simp: of_type_def filter_filter intro!: filter_cong)
  then show ?thesis using assms(1) by metis
qed

lemma sync_kinds:
  assumes "\<And>k us. k \<in> set ks \<Longrightarrow> of_type k us = of_type k ps \<Longrightarrow>
      entries.sync_pre (\<lambda>x. fst x = k) parse us (of_type k ns)"
    and "distinct ks" and "\<And>k. k \<in> set ks \<Longrightarrow> of_type k ts = of_type k ps"
  shows "\<exists>zs. run_steps (tops_step parse) (concat (map (kind_steps ps ns) ks)) ts = Inr zs
      \<and> (\<forall>k \<in> set ks. top_views (of_type k zs) = top_views (of_type k ns))
      \<and> (\<forall>k. k \<notin> set ks \<longrightarrow> of_type k zs = of_type k ts)"
  using assms
proof (induction ks arbitrary: ts)
  case Nil
  then show ?case by simp
next
  case (Cons k ks)
  from Cons.prems obtain ys where ys: "run_steps (tops_step parse) (kind_steps ps ns k) ts = Inr ys"
    "top_views (of_type k ys) = top_views (of_type k ns)"
    "filter (\<lambda>t. top_get_type t \<noteq> k) ys = filter (\<lambda>t. top_get_type t \<noteq> k) ts"
    using sync_kind [of k parse ts ns ps] by (metis list.set_intros(1))
  have keep: "of_type k' ys = of_type k' ts" if "k' \<noteq> k" for k'
    using ys(3) that by (rule of_type_other)
  have "of_type k' ys = of_type k' ps" if "k' \<in> set ks" for k'
    using that keep [of k'] Cons.prems(2,3) by auto
  with Cons.prems(1,2) have "\<exists>zs. run_steps (tops_step parse) (concat (map (kind_steps ps ns) ks)) ys = Inr zs
      \<and> (\<forall>k \<in> set ks. top_views (of_type k zs) = top_views (of_type k ns))
      \<and> (\<forall>k. k \<notin> set ks \<longrightarrow> of_type k zs = of_type k ys)"
    by (intro Cons.IH) auto
  then obtain zs where zs: "run_steps (tops_step parse) (concat (map (kind_steps ps ns) ks)) ys = Inr zs"
    "\<forall>k \<in> set ks. top_views (of_type k zs) = top_views (of_type k ns)"
    "\<forall>k. k \<notin> set ks \<longrightarrow> of_type k zs = of_type k ys"
    by blast
  have "\<forall>k' \<in> set (k # ks). top_views (of_type k' zs) = top_views (of_type k' ns)"
    using zs(2,3) ys(2) Cons.prems(2) by simp
  moreover have "\<forall>k'. k' \<notin> set (k # ks) \<longrightarrow> of_type k' zs = of_type k' ts"
    using zs(3) keep by simp
  ultimately show ?case
    using ys(1) zs(1) by (auto simp: run_steps_append)
qed

lemma schema_view_kinds:
  "schema_view s = (\<Union>k \<in> {''type'', ''enum'', ''source'', ''model''}. top_views (of_type k (tops s)))"
proof -
  have "top_get_type t \<noteq> ''generator'' \<longleftrightarrow> top_get_type t \<in> {''type'', ''enum'', ''source'', ''model''}" for t
    by (cases t) simp_all
  then have "filter (\<lambda>t. top_get_type t \<noteq> ''generator'') (tops s)
      = filter (\<lambda>t. top_get_type t \<in> {''type'', ''enum'', ''source'', ''model''}) (tops s)"
    by simp
  then show ?thesis
    by (auto simp: schema_view_def top_views_def of_type_def)
qed

lemma schema_generators_of_type: "map TopGenerator (schema_generators s) = of_type ''generator'' (tops s)"
proof -
  have "map TopGenerator (List.map_filter as_generator ts) = of_type ''generator'' ts" for ts
  proof (induction ts)
    case (Cons t ts)
    then show ?case by (cases t) (simp_all add: of_type_def List.map_filter_simps)
  qed (simp add: of_type_def List.map_filter_simps)
  then show ?thesis by (simp add: schema_generators_def)
qed

theorem steps_roundtrip:
  assumes "schema_wf p" and "schema_wf n" and "schema_renders p" and "schema_parses parse n" and "supported_change p n"
  shows "\<exists>s'. calculator_infer parse p (diff_steps p n) = Inr s'
      \<and> schema_view s' = schema_view n \<and> schema_generators s' = schema_generators p"
proof -
  let ?ks = "[''type'', ''enum'', ''source'', ''model'']"
  have "\<exists>zs. run_steps (tops_step parse) (concat (map (kind_steps (tops p) (tops n)) ?ks)) (tops p) = Inr zs
      \<and> (\<forall>k \<in> set ?ks. top_views (of_type k zs) = top_views (of_type k (tops n)))
      \<and> (\<forall>k. k \<notin> set ?ks \<longrightarrow> of_type k zs = of_type k (tops p))"
    using assms by (intro sync_kinds sync_pre_kind) auto
  then obtain zs where zs: "run_steps (tops_step parse) (diff_steps p n) (tops p) = Inr zs"
    "\<forall>k \<in> set ?ks. top_views (of_type k zs) = top_views (of_type k (tops n))"
    "\<forall>k. k \<notin> set ?ks \<longrightarrow> of_type k zs = of_type k (tops p)"
    unfolding diff_steps_kinds by blast
  have "schema_view \<lparr>tops = zs\<rparr> = schema_view n"
    using zs(2) by (simp add: schema_view_kinds)
  moreover have "map TopGenerator (schema_generators \<lparr>tops = zs\<rparr>) = map TopGenerator (schema_generators p)"
    using zs(3) by (simp add: schema_generators_of_type)
  then have "schema_generators \<lparr>tops = zs\<rparr> = schema_generators p"
    by (rule map_injective) (simp add: inj_def)
  ultimately show ?thesis
    using zs(1) by (simp add: calculator_infer_def apply_steps_tops)
qed

end
