(* ===== verification/Diff_Fixpoint.thy ===== *)
theory Diff_Fixpoint
  imports Diff_Roundtrip
begin

text \<open>
  The differ is silent exactly on schemas of the same content: equal views give no step at every
  level, and a silent differ means equal views because the round trip then applies no step.
\<close>

section \<open>Equal content gives no steps\<close>

lemma concat_pairs_silent:
  "(\<And>a b. (a, b) \<in> set ps \<Longrightarrow> f (a, b) = []) \<Longrightarrow> concat (map f ps) = []"
  by (auto simp: concat_eq_Nil_conv)

lemma arguments_silent:
  assumes "arg_views as = arg_views bs" and "distinct (map arg_name bs)"
  shows "diff_created (same_key arg_name) as bs = []" and "diff_deleted (same_key arg_name) as bs = []"
    and "concat (map (updated_argument_steps loc) (diff_pairs (same_key arg_name) as bs)) = []"
  using diff_same_views [OF assms(1) [unfolded arg_views_def] assms(2)]
  by (auto simp: updated_argument_steps_def)

lemma updated_directive_silent:
  "dir_content p = dir_content n \<Longrightarrow> dir_wf n \<Longrightarrow> updated_directive_steps path (p, n) = []"
  using arguments_silent [of "dir_arguments p" "dir_arguments n"]
  by (simp add: dir_content_def dir_wf_def updated_directive_steps_def Let_def)

lemma sync_directives_silent:
  assumes "dir_views ps = dir_views ns" and "dirs_wf ns"
  shows "sync_directives_steps path ps ns = []"
proof -
  have dist: "distinct (map dir_name ns)" using assms(2) by (simp add: dirs_wf_def)
  note same = diff_same_views [OF assms(1) [unfolded dir_views_def dir_view_def] dist]
  have "concat (map (updated_directive_steps path) (diff_pairs (same_key dir_name) ps ns)) = []"
    by (rule concat_pairs_silent) (use same(3) assms(2) in \<open>simp add: dirs_wf_def updated_directive_silent\<close>)
  with same(1,2) show ?thesis by (simp add: sync_directives_steps_def)
qed

lemma updated_field_silent:
  assumes "fld_content p = fld_content n" and "fld_name p = fld_name n" and "fld_wf n"
  shows "updated_field_steps nm (p, n) = []"
  using assms sync_directives_silent [of "fld_directives p" "fld_directives n"]
  by (simp add: fld_content_def fld_wf_def updated_field_steps_def Let_def uf_is_any_option_set_def diff_value_def)

lemma model_fields_silent:
  assumes "fld_views (mdl_fields p) = fld_views (mdl_fields n)" and "flds_wf (mdl_fields n)"
  shows "model_field_steps nm p n = []"
proof -
  have dist: "distinct (map fld_name (mdl_fields n))" using assms(2) by (simp add: flds_wf_def)
  note same = diff_same_views [OF assms(1) [unfolded fld_views_def] dist]
  have "concat (map (updated_field_steps nm) (diff_pairs (same_key fld_name) (mdl_fields p) (mdl_fields n))) = []"
    by (rule concat_pairs_silent) (use same(3) assms(2) in \<open>simp add: flds_wf_def updated_field_silent\<close>)
  with same(1,2) show ?thesis by (simp add: model_field_steps_def)
qed

lemma dir_views_regular:
  "v \<in> dir_views (filter (\<lambda>d. \<not> is_repeated d) ds) \<longleftrightarrow> v \<in> dir_views ds \<and> fst v \<notin> set REPEATED_MODEL_DIRECTIVES"
  by (auto simp: dir_views_def dir_view_def)

lemma repeated_silent:
  assumes "dir_views (repeated_directives p) = dir_views (repeated_directives n)"
    and wf: "\<forall>d \<in> set (repeated_directives p). dir_wf d" "\<forall>d \<in> set (repeated_directives n). dir_wf d"
  shows "created_repeated p n = []" and "deleted_repeated p n = []"
proof -
  have in_p: "\<exists>x \<in> set (repeated_directives p). dir_view x = dir_view d" if "d \<in> set (repeated_directives n)" for d
    using that assms(1) unfolding dir_views_def by (metis imageE imageI)
  have in_n: "\<exists>x \<in> set (repeated_directives n). dir_view x = dir_view d" if "d \<in> set (repeated_directives p)" for d
    using that assms(1) unfolding dir_views_def by (metis imageE imageI)
  show "created_repeated p n = []"
    unfolding created_repeated_def filter_empty_conv not_not using in_p wf by (metis identical_iff)
  show "deleted_repeated p n = []"
    unfolding deleted_repeated_def filter_empty_conv not_not using in_n wf by (metis identical_iff)
qed

lemma model_directives_silent:
  assumes "dir_views (mdl_directives p) = dir_views (mdl_directives n)"
    and "mdl_dirs_wf (mdl_directives p)" and "mdl_dirs_wf (mdl_directives n)"
  shows "model_directive_steps nm p n = []"
proof -
  have "dir_views (regular_directives p) = dir_views (regular_directives n)"
    unfolding regular_repeated_filter set_eq_iff dir_views_regular assms(1) by simp
  moreover have "dirs_wf (regular_directives n)"
    using assms(3) by (simp add: regular_repeated_filter mdl_dirs_wf_def dirs_wf_def)
  ultimately have "sync_directives_steps (PathModel nm None) (regular_directives p) (regular_directives n) = []"
    by (rule sync_directives_silent)
  moreover have "dir_views (repeated_directives p) = dir_views (repeated_directives n)"
    unfolding regular_repeated_filter set_eq_iff dir_views_repeated assms(1) by simp
  ultimately show ?thesis
    using repeated_silent [of p n] assms(2,3)
    by (simp add: model_directive_steps_def regular_repeated_filter mdl_dirs_wf_def)
qed

lemma updated_enum_silent:
  assumes "val_views (enm_values p) = val_views (enm_values n)" and "dir_views (enm_directives p) = dir_views (enm_directives n)"
    and "enm_name p = enm_name n" and "enm_wf n"
  shows "updated_enum_steps (p, n) = []"
proof -
  have dist: "distinct (map val_name (enm_values n))" and vals: "\<forall>v \<in> set (enm_values n). val_wf v"
    and dirs: "dirs_wf (enm_directives n)"
    using assms(4) by (simp_all add: enm_wf_def vals_wf_def)
  note same = diff_same_views [OF assms(1) [unfolded val_views_def] dist]
  have "updated_enum_value_steps nm (a, b) = []" if "val_content a = val_content b" "val_wf b" for nm a b
    using that sync_directives_silent [of "val_directives a" "val_directives b"]
    by (simp add: updated_enum_value_steps_def val_content_def val_wf_def)
  then have "concat (map (updated_enum_value_steps nm) (diff_pairs (same_key val_name) (enm_values p) (enm_values n))) = []" for nm
    by (intro concat_pairs_silent) (use same(3) vals in simp)
  with same(1,2) assms(3) sync_directives_silent [OF assms(2) dirs] show ?thesis
    by (simp add: updated_enum_steps_def Let_def ue_is_any_option_set_def diff_value_def)
qed

lemma updated_top_silent:
  assumes "top_content p = top_content n" and "top_key p = top_key n" and "top_wf p" and "top_wf n"
  shows "updated_top_steps (p, n) = []"
proof (cases p)
  case (TopModel q)
  with assms obtain m where "n = TopModel m" "mdl_name q = mdl_name m" by (cases n) (auto simp: top_key_def)
  with TopModel assms show ?thesis
    using model_fields_silent [of q m] model_directives_silent [of q m]
    by (simp add: mdl_wf_def updated_model_steps_def Let_def model_field_steps_def model_directive_steps_def)
next
  case (TopEnum q)
  with assms obtain m where "n = TopEnum m" "enm_name q = enm_name m" by (cases n) (auto simp: top_key_def)
  with TopEnum assms show ?thesis by (simp add: updated_enum_silent)
next
  case (TopSource q)
  with assms obtain m where "n = TopSource m" "src_name q = src_name m" by (cases n) (auto simp: top_key_def)
  with TopSource assms show ?thesis
    using arguments_silent [of "src_properties q" "src_properties m"]
    by (simp add: src_wf_def updated_source_steps_def Let_def)
next
  case (TopType q)
  with assms obtain m where "n = TopType m" "fld_name q = fld_name m" by (cases n) (auto simp: top_key_def)
  with TopType assms show ?thesis
    using sync_directives_silent [of "fld_directives q" "fld_directives m"]
    by (simp add: fld_wf_def fld_content_def updated_type_alias_steps_def Let_def)
next
  case (TopGenerator g)
  then show ?thesis by (cases n) simp_all
qed

lemma schema_view_of_type:
  assumes "schema_view s = schema_view n" and "k \<noteq> ''generator''"
  shows "top_views (of_type k (tops s)) = top_views (of_type k (tops n))"
proof -
  have "v \<in> top_views (of_type k (tops s)) \<longleftrightarrow> v \<in> schema_view s \<and> fst (fst v) = k" for v s
    using assms(2) by (auto simp: schema_view_def top_views_def of_type_def top_key_def)
  with assms(1) show ?thesis by blast
qed

lemma same_view_silent:
  assumes "schema_view s = schema_view n" and "schema_wf s" and "schema_wf n"
  shows "diff_steps s n = []"
proof -
  have "kind_steps (tops s) (tops n) k = []" if "k \<noteq> ''generator''" for k
  proof -
    have dist: "distinct (map top_key (of_type k (tops n)))"
      using assms(3) by (simp add: schema_wf_def of_type_def distinct_map_filter)
    note same = diff_same_views [OF schema_view_of_type [OF assms(1) that, unfolded top_views_def] dist]
    have wf: "\<forall>t \<in> set (of_type k (tops s)). top_wf t" "\<forall>t \<in> set (of_type k (tops n)). top_wf t"
      using assms(2,3) by (simp_all add: schema_wf_def of_type_def)
    have "concat (map updated_top_steps (diff_pairs (same_key top_key) (of_type k (tops s)) (of_type k (tops n)))) = []"
      by (rule concat_pairs_silent) (use same(3) wf in \<open>simp add: updated_top_silent\<close>)
    with same(1,2) show ?thesis by (simp add: kind_steps_def)
  qed
  then show ?thesis by (simp add: diff_steps_kinds)
qed

section \<open>No steps mean equal content\<close>

text \<open>A parser that reads every text as a constant: rendering undoes it.\<close>

definition const_parse :: expr_parser where
  "const_parse s = Some (ConstantValue s span_empty)"

lemma const_parse_parses: "arg_renders a \<Longrightarrow> arg_parses const_parse a"
  unfolding arg_parses_def arg_renders_def const_parse_def
  using render_value_None [of "arg_value a"] by (cases "render_value (arg_value a)") auto

lemma top_arguments_render: "top_renders t \<longleftrightarrow> (\<forall>a \<in> set (top_arguments t). arg_renders a)"
  by (cases t) (auto simp: mdl_renders_def enm_renders_def src_renders_def fld_renders_def val_renders_def
      dir_renders_def list_all_iff)

lemma schema_parses_renders: "schema_parses parse s \<Longrightarrow> schema_renders s"
  by (auto simp: schema_parses_def schema_renders_def list_all_iff top_arguments_render arg_parses_def)

lemma const_parse_schema: "schema_renders s \<Longrightarrow> schema_parses const_parse s"
  by (auto simp: schema_parses_def schema_renders_def list_all_iff top_arguments_render intro: const_parse_parses)

definition alias_arities_agree :: "schema_ast \<Rightarrow> schema_ast \<Rightarrow> bool" where
  "alias_arities_agree s n \<longleftrightarrow>
     (\<forall>a \<in> set (walk_type_aliases s). \<forall>b \<in> set (walk_type_aliases n). fld_name a = fld_name b \<longrightarrow> fld_arity a = fld_arity b)"

lemma in_walk:
  "a \<in> set (walk_type_aliases s) \<longleftrightarrow> TopType a \<in> set (tops s)"
  "e \<in> set (walk_enums s) \<longleftrightarrow> TopEnum e \<in> set (tops s)"
  by (auto simp: walk_type_aliases_def walk_enums_def in_map_filter elim: as_type_alias.elims as_enum.elims intro: as_type_alias.simps as_enum.simps)

lemma silent_supported:
  assumes "diff_steps s n = []" and "schema_wf n" and "alias_arities_agree s n"
  shows "supported_change s n"
proof -
  have src: "kind_steps (tops s) (tops n) ''source'' = []" and enm: "kind_steps (tops s) (tops n) ''enum'' = []"
    using assms(1) by (simp_all add: diff_steps_kinds)
  have "top_key t \<in> top_key ` set (tops n)" if t: "t \<in> set (tops s)" "top_get_type t = ''source''" for t
  proof (rule ccontr)
    assume no: "top_key t \<notin> top_key ` set (tops n)"
    then have "top_key t \<notin> top_key ` set (of_type ''source'' (tops n))" by (auto simp: of_type_def)
    with t have "t \<in> set (diff_deleted (same_key top_key) (of_type ''source'' (tops s)) (of_type ''source'' (tops n)))"
      by (simp add: diff_deleted_by_key of_type_def)
    with src have "deleted_top_steps t = []" by (auto simp: kind_steps_def)
    with t(2) show False by (cases t) simp_all
  qed
  moreover have "top_update_ok t u" if tu: "t \<in> set (tops s)" "u \<in> set (tops n)" "top_key t = top_key u" for t u
  proof (cases "\<exists>p m. t = TopEnum p \<and> u = TopEnum m")
    case True
    then obtain p m where pm: "t = TopEnum p" "u = TopEnum m" by blast
    have "distinct (map top_key (of_type ''enum'' (tops n)))"
      using assms(2) by (simp add: schema_wf_def of_type_def distinct_map_filter)
    then have "(t, u) \<in> set (diff_pairs (same_key top_key) (of_type ''enum'' (tops s)) (of_type ''enum'' (tops n)))"
      using tu pm by (simp add: set_diff_pairs_by_key of_type_def)
    with enm have "updated_enum_steps (p, m) = []" using pm by (auto simp: kind_steps_def)
    then have "diff_created (same_key val_name) (enm_values p) (enm_values m) = []"
      by (auto simp: updated_enum_steps_def Let_def ue_is_any_option_set_def split: if_splits)
    with pm show ?thesis by simp
  next
    case False
    show ?thesis
      using False tu assms(3) by (cases t; cases u) (auto simp: alias_arities_agree_def in_walk top_key_def)
  qed
  ultimately show ?thesis by (simp add: supported_change_def)
qed

lemma silent_same_view:
  assumes "diff_steps s n = []" and "schema_wf s" and "schema_wf n" and "schema_renders s" and "schema_renders n"
    and "alias_arities_agree s n"
  shows "schema_view s = schema_view n"
  using steps_roundtrip [OF assms(2-4) const_parse_schema [OF assms(5)] silent_supported [OF assms(1,3,6)]] assms(1)
  by (simp add: calculator_infer_def apply_steps_def)

end
