(* ===== verification/Calculator_Laws.thy ===== *)
theory Calculator_Laws
  imports Diff_Fixpoint
begin

text \<open>
  Laws of the datamodel calculator on arbitrary lists of steps: what no step changes, what every
  step preserves, and the step sequences of the differ that the calculator rejects.
\<close>

section \<open>Generators are out of reach\<close>

lemma map_filter_append_none: "as t = None \<Longrightarrow> List.map_filter as (ts @ [t]) = List.map_filter as ts"
  by (induction ts) (auto simp: List.map_filter_simps split: option.splits)

lemma map_filter_filter_keep:
  "(\<And>t. as t \<noteq> None \<Longrightarrow> P t) \<Longrightarrow> List.map_filter as (filter P ts) = List.map_filter as ts"
  by (induction ts) (auto simp: List.map_filter_simps split: option.splits)

lemma modify_first_map_filter:
  assumes "modify_first e P f ts = Inr ts'" and "\<And>t t'. P t \<Longrightarrow> f t = Inr t' \<Longrightarrow> as t' = as t"
  shows "List.map_filter as ts' = List.map_filter as ts"
  using assms(1)
proof (rule modify_first_Inr)
  fix pre x x' post
  assume "ts = pre @ x # post" "ts' = pre @ x' # post" "P x" "f x = Inr x'"
  with assms(2) [of x x'] show ?thesis
    by (induction pre arbitrary: ts ts') (auto simp: List.map_filter_simps split: option.splits)
qed

lemma on_entry_generator:
  "on_model g t = Inr t' \<Longrightarrow> as_generator t' = as_generator t"
  "on_enum h t = Inr t' \<Longrightarrow> as_generator t' = as_generator t"
  "on_source i t = Inr t' \<Longrightarrow> as_generator t' = as_generator t"
  "on_type j t = Inr t' \<Longrightarrow> as_generator t' = as_generator t"
  by (cases t; auto simp: map_res_eq_Inr)+

lemma find_mut_generators:
  "find_model_mut e nm g s = Inr s' \<Longrightarrow> schema_generators s' = schema_generators s"
  "find_enum_mut e nm h s = Inr s' \<Longrightarrow> schema_generators s' = schema_generators s"
  "find_source_mut e nm i s = Inr s' \<Longrightarrow> schema_generators s' = schema_generators s"
  "find_type_alias_mut e nm j s = Inr s' \<Longrightarrow> schema_generators s' = schema_generators s"
  unfolding find_model_mut_def find_enum_mut_def find_source_mut_def find_type_alias_mut_def schema_generators_def
  by (auto simp: map_res_eq_Inr elim!: modify_first_map_filter dest: on_entry_generator)

lemma find_directives_mut_generators:
  "find_directives_mut e path g s = Inr s' \<Longrightarrow> schema_generators s' = schema_generators s"
  by (cases path) (auto simp: find_directives_mut_def find_field_mut_def dest: find_mut_generators)

lemma find_argument_container_generators:
  "find_argument_container e loc g s = Inr s' \<Longrightarrow> schema_generators s' = schema_generators s"
  by (cases loc)
    (auto simp: find_argument_container_def find_directive_mut_def dest: find_mut_generators find_directives_mut_generators)

lemma ok_or_eq_Inr [simp]: "ok_or e r = Inr x \<longleftrightarrow> r = Some x"
  by (cases r) auto

lemmas apply_defs =
  apply_create_enum_def apply_update_enum_def apply_delete_enum_def apply_create_model_def
  apply_update_model_def apply_delete_model_def apply_create_field_def apply_update_field_def
  apply_delete_field_def apply_create_type_alias_def apply_update_type_alias_def
  apply_delete_type_alias_def apply_create_directive_def apply_delete_directive_def
  apply_create_directive_argument_def apply_delete_directive_argument_def
  apply_update_directive_argument_def apply_create_source_def apply_delete_source_def

lemma apply_step_generators:
  assumes "apply_step parse st s = Inr s'"
  shows "schema_generators s' = schema_generators s"
  using assms
  by (cases st)
    (auto simp: apply_defs find_field_mut_def bind_res_eq_Inr schema_generators_def map_filter_append_none
      intro!: map_filter_filter_keep split: option.splits top_level.splits
      dest: find_mut_generators find_directives_mut_generators find_argument_container_generators)

section \<open>Names of entries stay unique\<close>

text \<open>Renaming steps are the only ones that can give two entries of a kind the same name.\<close>

fun is_rename :: "migration_step \<Rightarrow> bool" where
  "is_rename (UpdateModel u) = (um_new_name u \<noteq> None)"
| "is_rename (UpdateEnum u) = (ue_new_name u \<noteq> None)"
| "is_rename (UpdateField u) = (uf_new_name u \<noteq> None)"
| "is_rename _ = False"

definition keys_distinct :: "schema_ast \<Rightarrow> bool" where
  "keys_distinct s \<longleftrightarrow> distinct (map top_key (tops s))"

lemma modify_first_map:
  assumes "modify_first e P f ts = Inr ts'" and "\<And>t t'. P t \<Longrightarrow> f t = Inr t' \<Longrightarrow> k t' = k t"
  shows "map k ts' = map k ts"
  using assms(1) by (rule modify_first_Inr) (simp add: assms(2))

lemma on_entry_key:
  "on_model g t = Inr t' \<Longrightarrow> (\<And>m m'. g m = Inr m' \<Longrightarrow> mdl_name m' = mdl_name m) \<Longrightarrow> top_key t' = top_key t"
  "on_enum h t = Inr t' \<Longrightarrow> (\<And>x x'. h x = Inr x' \<Longrightarrow> enm_name x' = enm_name x) \<Longrightarrow> top_key t' = top_key t"
  "on_source i t = Inr t' \<Longrightarrow> (\<And>c c'. i c = Inr c' \<Longrightarrow> src_name c' = src_name c) \<Longrightarrow> top_key t' = top_key t"
  "on_type j t = Inr t' \<Longrightarrow> (\<And>a a'. j a = Inr a' \<Longrightarrow> fld_name a' = fld_name a) \<Longrightarrow> top_key t' = top_key t"
  by (cases t; auto simp: map_res_eq_Inr top_key_def)+

lemma find_mut_keys:
  "find_model_mut e nm g s = Inr s' \<Longrightarrow> (\<And>m m'. g m = Inr m' \<Longrightarrow> mdl_name m' = mdl_name m) \<Longrightarrow>
     map top_key (tops s') = map top_key (tops s)"
  "find_enum_mut e nm h s = Inr s' \<Longrightarrow> (\<And>x x'. h x = Inr x' \<Longrightarrow> enm_name x' = enm_name x) \<Longrightarrow>
     map top_key (tops s') = map top_key (tops s)"
  "find_source_mut e nm i s = Inr s' \<Longrightarrow> (\<And>c c'. i c = Inr c' \<Longrightarrow> src_name c' = src_name c) \<Longrightarrow>
     map top_key (tops s') = map top_key (tops s)"
  "find_type_alias_mut e nm j s = Inr s' \<Longrightarrow> (\<And>a a'. j a = Inr a' \<Longrightarrow> fld_name a' = fld_name a) \<Longrightarrow>
     map top_key (tops s') = map top_key (tops s)"
  unfolding find_model_mut_def find_enum_mut_def find_source_mut_def find_type_alias_mut_def
  by (auto simp: map_res_eq_Inr elim!: modify_first_map) (erule on_entry_key, simp)+

lemma find_directives_mut_keys:
  "find_directives_mut e path g s = Inr s' \<Longrightarrow> map top_key (tops s') = map top_key (tops s)"
  by (cases path)
    (auto simp: find_directives_mut_def find_field_mut_def map_res_eq_Inr elim!: find_mut_keys)

lemma find_argument_container_keys:
  "find_argument_container e loc g s = Inr s' \<Longrightarrow> map top_key (tops s') = map top_key (tops s)"
  by (cases loc)
    (auto simp: find_argument_container_def find_directive_mut_def map_res_eq_Inr elim!: find_mut_keys
      dest: find_directives_mut_keys)

lemma find_map_filter_none_iff:
  "find P (List.map_filter as ts) = None \<longleftrightarrow> (\<forall>t \<in> set ts. \<forall>x. as t = Some x \<longrightarrow> \<not> P x)"
  by (induction ts) (auto simp: List.map_filter_simps split: option.splits)

lemma key_as:
  "top_key t = (''model'', nm) \<longleftrightarrow> (\<exists>m. as_model t = Some m \<and> mdl_name m = nm)"
  "top_key t = (''enum'', nm) \<longleftrightarrow> (\<exists>e. as_enum t = Some e \<and> enm_name e = nm)"
  "top_key t = (''source'', nm) \<longleftrightarrow> (\<exists>c. as_source t = Some c \<and> src_name c = nm)"
  "top_key t = (''type'', nm) \<longleftrightarrow> (\<exists>a. as_type_alias t = Some a \<and> fld_name a = nm)"
  by (cases t; simp add: top_key_def)+

lemma find_none_keyI:
  assumes "find (\<lambda>x. name x = nm) (List.map_filter as ts) = None"
    and "\<And>t. top_key t = (k, nm) \<longleftrightarrow> (\<exists>x. as t = Some x \<and> name x = nm)"
  shows "(k, nm) \<notin> top_key ` set ts"
proof
  assume "(k, nm) \<in> top_key ` set ts"
  then obtain t where t: "t \<in> set ts" "top_key t = (k, nm)" by auto
  then obtain x where "as t = Some x" "name x = nm" using assms(2) by blast
  with t(1) assms(1) show False unfolding find_map_filter_none_iff by blast
qed

lemma find_none_key:
  "find_model s nm = None \<Longrightarrow> (''model'', nm) \<notin> top_key ` set (tops s)"
  "find_enum s nm = None \<Longrightarrow> (''enum'', nm) \<notin> top_key ` set (tops s)"
  "find_source s nm = None \<Longrightarrow> (''source'', nm) \<notin> top_key ` set (tops s)"
  "find_type_alias s nm = None \<Longrightarrow> (''type'', nm) \<notin> top_key ` set (tops s)"
  unfolding find_model_def find_enum_def find_source_def find_type_alias_def schema_models_def schema_enums_def
    schema_sources_def schema_types_def
  by (erule find_none_keyI, rule key_as)+

lemma keys_distinct_append:
  "keys_distinct s \<Longrightarrow> top_key t \<notin> top_key ` set (tops s) \<Longrightarrow> keys_distinct (s\<lparr>tops := tops s @ [t]\<rparr>)"
  by (simp add: keys_distinct_def)

lemma keys_distinct_filter: "keys_distinct s \<Longrightarrow> keys_distinct (s\<lparr>tops := filter P (tops s)\<rparr>)"
  by (simp add: keys_distinct_def distinct_map_filter)

lemma keys_distinct_same: "map top_key (tops s') = map top_key (tops s) \<Longrightarrow> keys_distinct s \<Longrightarrow> keys_distinct s'"
  by (simp add: keys_distinct_def)

lemma enum_update_name:
  "enm_name (remove_enum_values (add_enum_values (apply_enum_update e None update_enum_name) cs) ds) = enm_name e"
  by (simp add: remove_enum_values_def add_enum_values_def apply_enum_update_def)

lemma find_model_mut_same:
  assumes "find_model_mut e nm g s = Inr s'" and "\<And>m m'. g m = Inr m' \<Longrightarrow> mdl_name m' = mdl_name m" and "keys_distinct s"
  shows "keys_distinct s'"
  using find_mut_keys(1) [OF assms(1,2)] assms(3) by (rule keys_distinct_same)

lemma apply_step_keys_distinct:
  assumes step: "apply_step parse st s = Inr s'" and "\<not> is_rename st" and dist: "keys_distinct s"
  shows "keys_distinct s'"
proof (cases st)
  case (CreateEnum x)
  with step dist show ?thesis
    by (auto simp: apply_create_enum_def top_key_def split: option.splits dest!: find_none_key intro!: keys_distinct_append)
next
  case (CreateModel x)
  with step dist show ?thesis
    by (auto simp: apply_create_model_def top_key_def split: option.splits dest!: find_none_key intro!: keys_distinct_append)
next
  case (CreateTypeAlias x)
  with step dist show ?thesis
    by (auto simp: apply_create_type_alias_def top_key_def split: option.splits dest!: find_none_key intro!: keys_distinct_append)
next
  case (CreateSource x)
  with step dist show ?thesis
    by (auto simp: apply_create_source_def top_key_def split: option.splits dest!: find_none_key intro!: keys_distinct_append)
next
  case (DeleteEnum x)
  with step dist show ?thesis
    by (auto simp: apply_delete_enum_def bind_res_eq_Inr intro!: keys_distinct_filter)
next
  case (DeleteModel x)
  with step dist show ?thesis
    by (auto simp: apply_delete_model_def bind_res_eq_Inr intro!: keys_distinct_filter)
next
  case (DeleteTypeAlias x)
  with step dist show ?thesis
    by (auto simp: apply_delete_type_alias_def bind_res_eq_Inr intro!: keys_distinct_filter)
next
  case (DeleteSource x)
  with step dist show ?thesis
    by (auto simp: apply_delete_source_def bind_res_eq_Inr intro!: keys_distinct_filter)
next
  case (UpdateEnum x)
  with step assms(2) have "map top_key (tops s') = map top_key (tops s)"
    by (auto simp: apply_update_enum_def Let_def enum_update_name elim!: find_mut_keys(2))
  then show ?thesis using dist by (rule keys_distinct_same)
next
  case (UpdateTypeAlias x)
  with step have "map top_key (tops s') = map top_key (tops s)"
    by (auto simp: apply_update_type_alias_def split: option.splits elim!: find_mut_keys(4))
  then show ?thesis using dist by (rule keys_distinct_same)
next
  case (UpdateModel x)
  with step assms(2) dist show ?thesis
    by (auto simp: apply_update_model_def apply_model_update_def elim!: find_model_mut_same)
next
  case (CreateField x)
  with step dist show ?thesis
    by (auto simp: apply_create_field_def split: option.splits elim!: find_model_mut_same)
next
  case (UpdateField x)
  with step dist show ?thesis
    by (auto simp: apply_update_field_def find_field_mut_def map_res_eq_Inr split: option.splits elim!: find_model_mut_same)
next
  case (DeleteField x)
  with step dist show ?thesis
    by (auto simp: apply_delete_field_def bind_res_eq_Inr elim!: find_model_mut_same)
qed (use step dist in \<open>auto simp: apply_create_directive_def apply_delete_directive_def apply_create_directive_argument_def
      apply_update_directive_argument_def apply_delete_directive_argument_def
      dest!: find_directives_mut_keys find_argument_container_keys intro: keys_distinct_same\<close>)

lemma apply_steps_keys_distinct:
  assumes "apply_steps parse s sts = Inr s'" and "list_all (\<lambda>st. \<not> is_rename st) sts" and "keys_distinct s"
  shows "keys_distinct s'"
  using assms unfolding apply_steps_def
proof (induction sts arbitrary: s)
  case (Cons st sts)
  then show ?case by (auto simp: bind_res_eq_Inr dest: apply_step_keys_distinct)
qed simp

section \<open>The differ never renames\<close>

lemma step_path_not_rename: "step_path st = Some path \<Longrightarrow> \<not> is_rename st"
  by (cases st) auto

lemma sync_not_rename: "st \<in> set (sync_directives_steps path ps ns) \<Longrightarrow> \<not> is_rename st"
  by (rule step_path_not_rename [OF step_path_sync])

lemma argument_step_not_rename: "argument_step_at l st \<Longrightarrow> \<not> is_rename st"
  by (cases st) auto

lemma created_directive_not_rename:
  "st \<in> set (created_directive_steps path d) \<Longrightarrow> \<not> is_rename st"
  using sync_not_rename [of st path "[]" "[d]"] by (simp add: sync_directives_from_none)

lemma field_steps_not_rename:
  "st \<in> set (model_field_steps nm p n) \<Longrightarrow> \<not> is_rename st"
proof -
  have "st \<in> set (created_field_steps nm f) \<Longrightarrow> \<not> is_rename st" for f
    by (auto simp: created_field_steps_def dest: created_directive_not_rename)
  moreover have "(a, b) \<in> set (diff_pairs (same_key fld_name) (mdl_fields p) (mdl_fields n)) \<Longrightarrow>
      st \<in> set (updated_field_steps nm (a, b)) \<Longrightarrow> \<not> is_rename st" for a b
    by (auto simp: updated_field_steps_def Let_def diff_value_def same_key_def split: if_splits
        dest: sync_not_rename diff_pairsD)
  ultimately show "st \<in> set (model_field_steps nm p n) \<Longrightarrow> \<not> is_rename st"
    by (auto simp: model_field_steps_def deleted_field_step_def)
qed

lemma model_directives_not_rename:
  "st \<in> set (model_directive_steps nm p n) \<Longrightarrow> \<not> is_rename st"
  using model_directive_paths [of st nm p n] step_path_not_rename [of st] by blast

lemma created_top_not_rename: "st \<in> set (created_top_steps t) \<Longrightarrow> \<not> is_rename st"
proof (cases t)
  case (TopModel m)
  then show "st \<in> set (created_top_steps t) \<Longrightarrow> \<not> is_rename st"
    by (auto simp: created_model_as_sync dest: field_steps_not_rename model_directives_not_rename)
qed (auto simp: created_enum_steps_def created_source_steps_def created_type_alias_steps_def created_argument_step_def
    dest: created_directive_not_rename)

lemma deleted_top_not_rename: "st \<in> set (deleted_top_steps t) \<Longrightarrow> \<not> is_rename st"
  by (cases t) auto

lemma updated_top_not_rename:
  assumes "top_key p = top_key n" and "st \<in> set (updated_top_steps (p, n))"
  shows "\<not> is_rename st"
  using assms
proof (cases p)
  case (TopModel q)
  with assms obtain m where "n = TopModel m" by (cases n) (auto simp: top_key_def)
  with TopModel assms(2) have "st \<in> set (model_field_steps (mdl_name q) q m @ model_directive_steps (mdl_name q) q m)"
    by (simp add: updated_model_steps_def model_field_steps_def model_directive_steps_def Let_def)
  then show ?thesis by (auto dest: field_steps_not_rename model_directives_not_rename)
next
  case (TopEnum q)
  with assms obtain m where "n = TopEnum m" "enm_name q = enm_name m" by (cases n) (auto simp: top_key_def)
  with TopEnum assms(2) show ?thesis
    by (auto simp: updated_enum_steps_def Let_def updated_enum_value_steps_def diff_value_def split: if_splits
        dest: created_directive_not_rename sync_not_rename)
next
  case (TopSource q)
  with assms obtain m where "n = TopSource m" by (cases n) (auto simp: top_key_def)
  with TopSource assms(2) have "argument_step_at (ArgSource (src_name q)) st"
    by (auto simp: updated_source_steps_def Let_def)
  then show ?thesis by (rule argument_step_not_rename)
next
  case (TopType q)
  with assms obtain m where "n = TopType m" by (cases n) (auto simp: top_key_def)
  with TopType assms(2) show ?thesis
    by (auto simp: updated_type_alias_steps_def Let_def split: if_splits dest: sync_not_rename)
qed (cases n; simp)

lemma diff_steps_not_rename: "list_all (\<lambda>st. \<not> is_rename st) (diff_steps p n)"
proof -
  have "\<not> is_rename st" if "st \<in> set (kind_steps (tops p) (tops n) k)" for st k
    using that created_top_not_rename deleted_top_not_rename
    by (auto simp: kind_steps_def same_key_def dest!: diff_pairsD dest: updated_top_not_rename)
  then show ?thesis by (auto simp: list_all_iff diff_steps_kinds)
qed

section \<open>Sequences the calculator rejects\<close>

lemma find_enum_split:
  assumes "find_enum s nm = Some e"
  obtains pre post where "tops s = pre @ TopEnum e # post" and "enm_name e = nm"
    and "\<forall>t \<in> set pre. \<not> top_is_enum nm t"
proof -
  have "\<exists>pre post. ts = pre @ TopEnum e # post \<and> (\<forall>t \<in> set pre. \<not> top_is_enum nm t)"
    if "find (\<lambda>e. enm_name e = nm) (List.map_filter as_enum ts) = Some e" for ts
    using that
  proof (induction ts)
    case Nil
    then show ?case by (simp add: List.map_filter_simps)
  next
    case (Cons t ts)
    show ?case
    proof (cases "top_is_enum nm t")
      case True
      with Cons.prems have "t = TopEnum e" by (cases t) (auto simp: List.map_filter_simps)
      then show ?thesis by (intro exI [of _ "[]"] exI [of _ ts]) simp
    next
      case False
      with Cons.prems have "find (\<lambda>e. enm_name e = nm) (List.map_filter as_enum ts) = Some e"
        by (cases t) (auto simp: List.map_filter_simps)
      with Cons.IH obtain pre post where "ts = pre @ TopEnum e # post" "\<forall>t \<in> set pre. \<not> top_is_enum nm t" by blast
      with False show ?thesis by (intro exI [of _ "t # pre"] exI [of _ post]) simp
    qed
  qed
  from this [of "tops s"] assms show thesis
    by (auto simp: find_enum_def schema_enums_def find_Some_iff intro: that)
qed

lemma create_directive_absent_value:
  assumes "find_enum s nm = Some e" and "v \<notin> val_name ` set (enm_values e)" and "dl_path l = PathEnumValue nm v"
  shows "apply_step parse (CreateDirective l) s = Inl (CreateDirectiveOnAbsentTarget l)"
proof -
  from assms(1) obtain pre post where s: "tops s = pre @ TopEnum e # post" "\<forall>t \<in> set pre. \<not> top_is_enum nm t" "enm_name e = nm"
    by (rule find_enum_split)
  have "modify_first err (\<lambda>x. val_name x = v) g (enm_values e) = Inl err" for err :: calculator_error and g
    using assms(2) by (intro modify_first_absent) auto
  with s show ?thesis
    by (simp add: apply_create_directive_def find_directives_mut_def assms(3) find_enum_mut_def modify_first_split)
qed

lemma concat_first_nonempty:
  assumes "x \<in> set xs" and "f x \<noteq> []"
  shows "\<exists>y \<in> set xs. f y \<noteq> [] \<and> (\<exists>rest. concat (map f xs) = f y @ rest)"
  using assms
proof (induction xs)
  case (Cons a xs)
  then show ?case by (cases "f a = []") auto
qed simp

lemma updated_enum_rejected:
  assumes "find_enum s (enm_name p) = Some p" and "enm_name n = enm_name p"
    and v: "v \<in> set (enm_values n)" "val_name v \<notin> val_name ` set (enm_values p)" "val_directives v \<noteq> []"
  shows "\<exists>l. apply_steps parse s (updated_enum_steps (p, n)) = Inl (CreateDirectiveOnAbsentTarget l)"
proof -
  let ?steps = "\<lambda>v. concat (map (created_directive_steps (PathEnumValue (enm_name n) (val_name v))) (val_directives v))"
  let ?created = "diff_created (same_key val_name) (enm_values p) (enm_values n)"
  have "v \<in> set ?created" using v(1,2) by (simp add: diff_created_by_key)
  moreover have "?steps v \<noteq> []" using v(3) by (cases "val_directives v") (auto simp: created_directive_steps_def)
  ultimately obtain u rest where u: "u \<in> set ?created" "?steps u \<noteq> []" "concat (map ?steps ?created) = ?steps u @ rest"
    using concat_first_nonempty [of v ?created ?steps] by blast
  then obtain d ds where "val_directives u = d # ds" by (cases "val_directives u") auto
  with u(3) have first: "\<exists>rest. updated_enum_steps (p, n)
      = CreateDirective (dloc (PathEnumValue (enm_name n) (val_name u)) d) # rest"
    by (auto simp: updated_enum_steps_def Let_def created_directive_steps_def)
  have "val_name u \<notin> val_name ` set (enm_values p)" using u(1) by (simp add: diff_created_by_key)
  then have "apply_step parse (CreateDirective (dloc (PathEnumValue (enm_name n) (val_name u)) d)) s
      = Inl (CreateDirectiveOnAbsentTarget (dloc (PathEnumValue (enm_name n) (val_name u)) d))"
    using assms(1,2) by (intro create_directive_absent_value) auto
  with first show ?thesis by (auto simp: apply_steps_def)
qed

end
