(* ===== verification/Migration_Properties.thy ===== *)
theory Migration_Properties
  imports Calculator_Laws
begin

text \<open>
  The properties of the datamodel migration core: the differ, its step specification, and the
  calculator that applies the steps.
\<close>

section \<open>Example schemas\<close>

abbreviation ex_arg :: "string \<Rightarrow> string \<Rightarrow> argument" where
  "ex_arg nm v \<equiv> \<lparr>arg_ident = new_ident nm, arg_value = StringValue v span_empty, arg_span = span_empty\<rparr>"

abbreviation ex_dir :: "string \<Rightarrow> argument list \<Rightarrow> directive" where
  "ex_dir nm as \<equiv> \<lparr>dir_ident = new_ident nm, dir_arguments = as, dir_span = span_empty\<rparr>"

abbreviation ex_field :: "string \<Rightarrow> string \<Rightarrow> field_arity \<Rightarrow> directive list \<Rightarrow> ast_field" where
  "ex_field nm ty ar ds \<equiv>
     \<lparr>fld_type = new_ident ty, fld_ident = new_ident nm, fld_arity = ar, fld_default_value = None,
      fld_directives = ds, fld_documentation = None, fld_span = span_empty, fld_is_commented_out = False\<rparr>"

abbreviation ex_model :: "string \<Rightarrow> ast_field list \<Rightarrow> directive list \<Rightarrow> top_level" where
  "ex_model nm fs ds \<equiv>
     TopModel \<lparr>mdl_ident = new_ident nm, mdl_fields = fs, mdl_directives = ds, mdl_documentation = None,
               mdl_span = span_empty, mdl_commented_out = False\<rparr>"

abbreviation ex_value :: "string \<Rightarrow> directive list \<Rightarrow> enum_value" where
  "ex_value nm ds \<equiv>
     \<lparr>val_ident = new_ident nm, val_directives = ds, val_documentation = None, val_span = span_empty,
      val_commented_out = False\<rparr>"

abbreviation ex_enum_decl :: "string \<Rightarrow> enum_value list \<Rightarrow> ast_enum" where
  "ex_enum_decl nm vs \<equiv>
     \<lparr>enm_ident = new_ident nm, enm_values = vs, enm_directives = [], enm_documentation = None, enm_span = span_empty\<rparr>"

abbreviation ex_source :: "string \<Rightarrow> argument list \<Rightarrow> top_level" where
  "ex_source nm as \<equiv>
     TopSource \<lparr>src_ident = new_ident nm, src_properties = as, src_documentation = None, src_span = span_empty\<rparr>"

definition example_prev :: schema_ast where
  "example_prev = \<lparr>tops =
     [ex_source ''db'' [ex_arg ''url'' ''file:a''],
      TopEnum (ex_enum_decl ''Color'' [ex_value ''RED'' [], ex_value ''GREEN'' []]),
      ex_model ''User'' [ex_field ''id'' ''Int'' ArityRequired [ex_dir ''id'' []],
                         ex_field ''name'' ''String'' ArityOptional []]
        [ex_dir ''unique'' [ex_arg ''fields'' ''name'']],
      ex_model ''Post'' [] []]\<rparr>"

definition example_next :: schema_ast where
  "example_next = \<lparr>tops =
     [ex_model ''User'' [ex_field ''id'' ''Int'' ArityRequired [ex_dir ''id'' []],
                         ex_field ''name'' ''String'' ArityRequired [ex_dir ''map'' [ex_arg ''name'' ''n'']],
                         ex_field ''age'' ''Int'' ArityOptional []]
        [ex_dir ''unique'' [ex_arg ''fields'' ''age'']],
      TopEnum (ex_enum_decl ''Color'' [ex_value ''RED'' [ex_dir ''map'' [ex_arg ''name'' ''r'']], ex_value ''BLUE'' []]),
      ex_source ''db'' [ex_arg ''url'' ''file:b'']]\<rparr>"

lemmas example_defs =
  example_prev_def example_next_def

lemma example_ok:
  "schema_wf example_prev" "schema_wf example_next" "schema_renders example_prev" "schema_renders example_next"
  "supported_change example_prev example_next"
  by code_simp+

section \<open>Differ and calculator\<close>



text \<open>
  C18. The differ infers no step exactly when the two schemas have the same content. Type aliases
  have to agree on their arity, which the update step cannot carry.
\<close>

theorem diff_empty_iff:
  assumes "schema_wf s" and "schema_wf n" and "schema_renders s" and "schema_renders n" and "alias_arities_agree s n"
  shows "diff s n = Inr [] \<longleftrightarrow> schema_view s = schema_view n"
  using silent_same_view [OF _ assms] same_view_silent [OF _ assms(1,2)] diff_eq_steps [OF assms(3,4)] by auto

theorem diff_empty_iff_witness:
  "diff example_prev example_prev = Inr [] \<longleftrightarrow> schema_view example_prev = schema_view example_prev"
proof -
  have "alias_arities_agree example_prev example_prev" by code_simp
  then show ?thesis by (rule diff_empty_iff [OF example_ok(1) example_ok(1) example_ok(3) example_ok(3)])
qed



text \<open>
  C30. Names stay unique: from a schema whose entries have distinct kinds and names, every list of
  steps without a rename that the calculator applies leads to such a schema.
\<close>

theorem apply_steps_unique_names:
  assumes "apply_steps parse s sts = Inr s'" and "list_all (\<lambda>st. \<not> is_rename st) sts" and "keys_distinct s"
  shows "keys_distinct s'"
  by (rule apply_steps_keys_distinct [OF assms])

theorem apply_steps_unique_names_witness:
  "keys_distinct \<lparr>tops = [ex_model ''A'' [] [], ex_model ''B'' [] []]\<rparr>"
proof (rule apply_steps_unique_names)
  show "apply_steps const_parse \<lparr>tops = [ex_model ''A'' [] []]\<rparr> [CreateModel ''B'']
      = Inr \<lparr>tops = [ex_model ''A'' [] [], ex_model ''B'' [] []]\<rparr>"
    by code_simp
qed (simp_all add: keys_distinct_def)

text \<open>C31. The differ never emits a renaming step: an entry under a new name is a deletion and a creation.\<close>

theorem diff_never_renames:
  assumes "diff p n = Inr steps" and "schema_renders p" and "schema_renders n"
  shows "list_all (\<lambda>st. \<not> is_rename st) steps"
  using assms diff_steps_not_rename [of p n] diff_eq_steps [of p n] by simp

theorem diff_never_renames_witness:
  "list_all (\<lambda>st. \<not> is_rename st) (diff_steps example_prev example_next)"
  by (rule diff_never_renames [OF diff_eq_steps [OF example_ok(3,4)] example_ok(3,4)])

text \<open>No step of any kind, applied successfully, adds, removes or changes a generator block.\<close>

lemma apply_steps_generators:
  assumes "apply_steps parse s sts = Inr s'"
  shows "schema_generators s' = schema_generators s"
  using assms unfolding apply_steps_def
proof (induction sts arbitrary: s)
  case (Cons st sts)
  then show ?case by (auto simp: bind_res_eq_Inr dest: apply_step_generators)
qed simp

lemma apply_steps_generators_witness:
  "schema_generators \<lparr>tops = [ex_model ''A'' [] [], ex_model ''B'' [] []]\<rparr>
      = schema_generators \<lparr>tops = [ex_model ''A'' [] []]\<rparr>"
proof (rule apply_steps_generators)
  show "apply_steps const_parse \<lparr>tops = [ex_model ''A'' [] []]\<rparr> [CreateModel ''B'']
      = Inr \<lparr>tops = [ex_model ''A'' [] [], ex_model ''B'' [] []]\<rparr>"
    by code_simp
qed

text \<open>
  C33. A step that deletes an existing data source is rejected unless a model has the same name: the
  existence check consults the models instead of the sources.
\<close>

theorem delete_source_rejected:
  assumes "find_source s nm = Some c" and "find_model s nm = None"
  shows "apply_step parse (DeleteSource nm) s = Inl (SourceDoesNotExist nm)"
  using assms by (simp add: apply_delete_source_def)

theorem delete_source_rejected_witness:
  "apply_step const_parse (DeleteSource ''db'') example_prev = Inl (SourceDoesNotExist ''db'')"
proof (rule delete_source_rejected)
  show "find_source example_prev ''db'' = Some \<lparr>src_ident = new_ident ''db'', src_properties = [ex_arg ''url'' ''file:a''],
      src_documentation = None, src_span = span_empty\<rparr>" by code_simp
  show "find_model example_prev ''db'' = None" by code_simp
qed

text \<open>
  C34. When an existing enum gains a value that carries a directive, the steps the differ pushes
  are rejected by the calculator: the directive is created before the value.
\<close>

theorem new_value_with_directive_rejected:
  assumes "enm_renders p" and "enm_renders n" and "find_enum s (enm_name p) = Some p" and "enm_name n = enm_name p"
    and "v \<in> set (enm_values n)" and "val_name v \<notin> val_name ` set (enm_values p)" and "val_directives v \<noteq> []"
  shows "\<exists>steps l. push_updated_enum (p, n) [] = Inr steps
      \<and> apply_steps parse s steps = Inl (CreateDirectiveOnAbsentTarget l)"
  using updated_enum_rejected [OF assms(3-7)] push_updated_enum_spec [of "(p, n)" "[]"] assms(1,2) by simp

theorem new_value_with_directive_rejected_witness:
  "\<exists>steps l. push_updated_enum (ex_enum_decl ''Color'' [ex_value ''RED'' []],
       ex_enum_decl ''Color'' [ex_value ''RED'' [], ex_value ''BLUE'' [ex_dir ''map'' [ex_arg ''name'' ''b'']]]) [] = Inr steps
      \<and> apply_steps const_parse \<lparr>tops = [TopEnum (ex_enum_decl ''Color'' [ex_value ''RED'' []])]\<rparr> steps
          = Inl (CreateDirectiveOnAbsentTarget l)"
proof (rule new_value_with_directive_rejected)
  show "ex_value ''BLUE'' [ex_dir ''map'' [ex_arg ''name'' ''b'']]
      \<in> set (enm_values (ex_enum_decl ''Color'' [ex_value ''RED'' [], ex_value ''BLUE'' [ex_dir ''map'' [ex_arg ''name'' ''b'']]]))"
    by simp
qed code_simp+

end
