(* ===== verification/Sql_Schema.thy ===== *)
theory Sql_Schema
  imports Engine_Prelude Complex_Main "HOL-Library.Word"
begin

text \<open>
  The description of a SQL database (\<open>libs/sql-schema-describer/src/lib.rs\<close>), the values of
  \<open>libs/prisma-value\<close> its defaults carry, and the steps of a SQL migration
  (\<open>sql-migration-connector/src/sql_migration.rs\<close>). A \<open>Vec\<close> is a list, a lookup that is unwrapped
  (\<open>table_bang\<close>, \<open>column_bang\<close>) is an option whose \<open>None\<close> is the panic. Time stamps are
  nanoseconds since the epoch, decimals are rationals: both crates compare them as numbers.
\<close>

section \<open>Values\<close>

datatype prisma_value =
    PString string
  | PBoolean bool
  | PEnum string
  | PInt "64 word"
  | PNull
  | PUuid "128 word"
  | PList "prisma_value list"
  | PJson string
  | PDateTime int
  | PFloat rat

fun is_null :: "prisma_value \<Rightarrow> bool" where
  "is_null PNull = True"
| "is_null _ = False"

fun into_string :: "prisma_value \<Rightarrow> string option" where
  "into_string (PString s) = Some s"
| "into_string _ = None"

fun into_list :: "prisma_value \<Rightarrow> prisma_value list option" where
  "into_list (PList l) = Some l"
| "into_list _ = None"

text \<open>\<open>From<usize>\<close> casts with \<open>as i64\<close>, which wraps on 64-bit targets.\<close>

definition value_from_usize :: "64 word \<Rightarrow> prisma_value" where
  "value_from_usize u = PInt u"

fun value_to_i64 :: "prisma_value \<Rightarrow> 64 word option" where
  "value_to_i64 (PInt i) = Some i"
| "value_to_i64 _ = None"

section \<open>Columns\<close>

datatype sql_family = Sqlite | Postgres | Mysql

fun is_mysql :: "sql_family \<Rightarrow> bool" where
  "is_mysql Mysql = True"
| "is_mysql _ = False"

fun is_sqlite :: "sql_family \<Rightarrow> bool" where
  "is_sqlite Sqlite = True"
| "is_sqlite _ = False"

datatype column_type_family =
    FInt
  | FFloat
  | FBoolean
  | FString
  | FDateTime
  | FBinary
  | FJson
  | FUuid
  | FGeometric
  | FLogSequenceNumber
  | FTextSearch
  | FTransactionId
  | FEnum string
  | FUnsupported string

fun family_to_string :: "column_type_family \<Rightarrow> string" where
  "family_to_string FInt = ''int''"
| "family_to_string FFloat = ''float''"
| "family_to_string FBoolean = ''boolean''"
| "family_to_string FString = ''string''"
| "family_to_string FDateTime = ''dateTime''"
| "family_to_string FBinary = ''binary''"
| "family_to_string FJson = ''json''"
| "family_to_string FUuid = ''uuid''"
| "family_to_string FGeometric = ''geometric''"
| "family_to_string FLogSequenceNumber = ''logSequenceNumber''"
| "family_to_string FTextSearch = ''textSearch''"
| "family_to_string FTransactionId = ''transactionId''"
| "family_to_string (FEnum x) = ''Enum('' @ x @ '')''"
| "family_to_string (FUnsupported x) = x"

datatype column_arity = ARequired | ANullable | AList

fun arity_is_required :: "column_arity \<Rightarrow> bool" where
  "arity_is_required ARequired = True"
| "arity_is_required _ = False"

fun arity_is_nullable :: "column_arity \<Rightarrow> bool" where
  "arity_is_nullable ANullable = True"
| "arity_is_nullable _ = False"

record column_type =
  ct_data_type :: string
  ct_full_data_type :: string
  ct_character_maximum_length :: "64 word option"
  ct_family :: column_type_family
  ct_arity :: column_arity

definition column_type_pure :: "column_type_family \<Rightarrow> column_arity \<Rightarrow> column_type" where
  "column_type_pure family arity =
     \<lparr>ct_data_type = '''', ct_full_data_type = '''', ct_character_maximum_length = None,
      ct_family = family, ct_arity = arity\<rparr>"

datatype default_value =
    DVALUE prisma_value
  | DNOW
  | DSEQUENCE string
  | DDBGENERATED string

fun as_value :: "default_value \<Rightarrow> prisma_value option" where
  "as_value (DVALUE v) = Some v"
| "as_value _ = None"

record column =
  col_name :: string
  col_tpe :: column_type
  col_default :: "default_value option"
  col_auto_increment :: bool

definition column_is_required :: "column \<Rightarrow> bool" where
  "column_is_required c \<longleftrightarrow> ct_arity (col_tpe c) = ARequired"

section \<open>Tables\<close>

datatype index_type = IUnique | INormal

record index =
  idx_name :: string
  idx_columns :: "string list"
  idx_tpe :: index_type

definition index_is_unique :: "index \<Rightarrow> bool" where
  "index_is_unique i \<longleftrightarrow> idx_tpe i = IUnique"

record sequence =
  seq_name :: string
  seq_initial_value :: "32 word"
  seq_allocation_size :: "32 word"

record primary_key =
  pk_columns :: "string list"
  pk_sequence :: "sequence option"

definition is_single_primary_key :: "primary_key \<Rightarrow> string \<Rightarrow> bool" where
  "is_single_primary_key pk c \<longleftrightarrow> length (pk_columns pk) = 1 \<and> c \<in> set (pk_columns pk)"

datatype foreign_key_action = NoAction | Restrict | Cascade | SetNull | SetDefault

record foreign_key =
  fk_constraint_name :: "string option"
  fk_columns :: "string list"
  fk_referenced_table :: string
  fk_referenced_columns :: "string list"
  fk_on_delete_action :: foreign_key_action

text \<open>The equality of foreign keys leaves out the constraint name and the action.\<close>

definition foreign_key_eq :: "foreign_key \<Rightarrow> foreign_key \<Rightarrow> bool" where
  "foreign_key_eq a b \<longleftrightarrow> fk_columns a = fk_columns b \<and> fk_referenced_table a = fk_referenced_table b
     \<and> fk_referenced_columns a = fk_referenced_columns b"

record table =
  tbl_name :: string
  tbl_columns :: "column list"
  tbl_indices :: "index list"
  tbl_primary_key :: "primary_key option"
  tbl_foreign_keys :: "foreign_key list"

definition table_column :: "table \<Rightarrow> string \<Rightarrow> column option" where
  "table_column t name = find (\<lambda>c. col_name c = name) (tbl_columns t)"

definition has_column :: "table \<Rightarrow> string \<Rightarrow> bool" where
  "has_column t name \<longleftrightarrow> table_column t name \<noteq> None"

definition foreign_key_for_column :: "table \<Rightarrow> string \<Rightarrow> foreign_key option" where
  "foreign_key_for_column t c = find (\<lambda>fk. c \<in> set (fk_columns fk)) (tbl_foreign_keys t)"

definition is_part_of_foreign_key :: "table \<Rightarrow> string \<Rightarrow> bool" where
  "is_part_of_foreign_key t c \<longleftrightarrow> foreign_key_for_column t c \<noteq> None"

definition is_part_of_primary_key :: "table \<Rightarrow> string \<Rightarrow> bool" where
  "is_part_of_primary_key t c \<longleftrightarrow>
     (case tbl_primary_key t of Some pk \<Rightarrow> c \<in> set (pk_columns pk) | None \<Rightarrow> False)"

definition primary_key_columns :: "table \<Rightarrow> string list" where
  "primary_key_columns t = (case tbl_primary_key t of Some pk \<Rightarrow> pk_columns pk | None \<Rightarrow> [])"

definition is_column_unique :: "table \<Rightarrow> string \<Rightarrow> bool" where
  "is_column_unique t c \<longleftrightarrow>
     list_ex (\<lambda>i. idx_tpe i = IUnique \<and> length (idx_columns i) = 1 \<and> c \<in> set (idx_columns i)) (tbl_indices t)"

section \<open>Schemas\<close>

record sql_enum =
  se_name :: string
  se_values :: "string list"

record sql_schema =
  ss_tables :: "table list"
  ss_enums :: "sql_enum list"
  ss_sequences :: "sequence list"

definition get_table :: "sql_schema \<Rightarrow> string \<Rightarrow> table option" where
  "get_table s name = find (\<lambda>x. tbl_name x = name) (ss_tables s)"

definition has_table :: "sql_schema \<Rightarrow> string \<Rightarrow> bool" where
  "has_table s name \<longleftrightarrow> get_table s name \<noteq> None"

definition get_enum :: "sql_schema \<Rightarrow> string \<Rightarrow> sql_enum option" where
  "get_enum s name = find (\<lambda>x. se_name x = name) (ss_enums s)"

definition schema_table :: "sql_schema \<Rightarrow> string \<Rightarrow> (string, table) res" where
  "schema_table s name =
     ok_or (''Table '' @ name @ '' not found'') (find (\<lambda>t. tbl_name t = name) (ss_tables s))"

definition get_sequence :: "sql_schema \<Rightarrow> string \<Rightarrow> sequence option" where
  "get_sequence s name = find (\<lambda>x. seq_name x = name) (ss_sequences s)"

definition empty_schema :: sql_schema where
  "empty_schema = \<lparr>ss_tables = [], ss_enums = [], ss_sequences = []\<rparr>"

section \<open>Steps of a SQL migration\<close>

record add_foreign_key =
  afk_table :: string
  afk_foreign_key :: foreign_key

record alter_column =
  ac_name :: string
  ac_column :: column

text \<open>Structs with one field are the field.\<close>

datatype table_change =
    AddColumn column
  | AlterColumn alter_column
  | DropColumn string
  | DropForeignKey string

record alter_table =
  at_table :: table
  at_changes :: "table_change list"

record create_index =
  ci_table :: string
  ci_index :: index

record drop_index =
  di_table :: string
  di_name :: string

record alter_index =
  ai_table :: string
  ai_index_name :: string
  ai_index_new_name :: string

record sql_create_enum =
  sce_name :: string
  sce_variants :: "string list"

record alter_enum =
  ae_name :: string
  ae_created_variants :: "string list"
  ae_dropped_variants :: "string list"

definition alter_enum_is_empty :: "alter_enum \<Rightarrow> bool" where
  "alter_enum_is_empty e \<longleftrightarrow> ae_created_variants e = [] \<and> ae_dropped_variants e = []"

datatype sql_migration_step =
    AddForeignKey add_foreign_key
  | CreateTable table
  | AlterTable alter_table
  | DropTable string
  | DropTables "string list"
  | RenameTable string string
  | RawSql string
  | CreateIndex create_index
  | DropIndex drop_index
  | AlterIndex alter_index
  | CreateSqlEnum sql_create_enum
  | DropSqlEnum string
  | AlterSqlEnum alter_enum

record sql_migration =
  sm_before :: sql_schema
  sm_after :: sql_schema
  sm_original_steps :: "sql_migration_step list"
  sm_corrected_steps :: "sql_migration_step list"
  sm_rollback :: "sql_migration_step list"

definition sql_migration_empty :: sql_migration where
  "sql_migration_empty =
     \<lparr>sm_before = empty_schema, sm_after = empty_schema, sm_original_steps = [],
      sm_corrected_steps = [], sm_rollback = []\<rparr>"

section \<open>Lookups\<close>

lemma find_key_distinct:
  assumes "distinct (map key xs)" and "x \<in> set xs"
  shows "find (\<lambda>y. key y = key x) xs = Some x"
  using assms by (induction xs) (auto simp: image_iff)

lemma find_key_iff:
  assumes "distinct (map key xs)"
  shows "find (\<lambda>y. key y = k) xs = Some x \<longleftrightarrow> x \<in> set xs \<and> key x = k"
  using assms by (induction xs) (auto simp: image_iff)

lemma find_key_None: "find (\<lambda>y. key y = k) xs = None \<longleftrightarrow> k \<notin> key ` set xs"
  by (auto simp: find_None_iff)

lemma get_table_None: "get_table s name = None \<longleftrightarrow> name \<notin> tbl_name ` set (ss_tables s)"
  by (simp add: get_table_def find_key_None)

lemma has_table_iff: "has_table s name \<longleftrightarrow> name \<in> tbl_name ` set (ss_tables s)"
  by (simp add: has_table_def get_table_None)

lemma schema_table_get: "schema_table s name = ok_or (''Table '' @ name @ '' not found'') (get_table s name)"
  by (simp add: schema_table_def get_table_def)

lemma get_table_Some:
  "distinct (map tbl_name (ss_tables s)) \<Longrightarrow> get_table s name = Some t \<longleftrightarrow> t \<in> set (ss_tables s) \<and> tbl_name t = name"
  by (simp add: get_table_def find_key_iff)

lemma get_tableD: "get_table s name = Some t \<Longrightarrow> t \<in> set (ss_tables s) \<and> tbl_name t = name"
  by (auto simp: get_table_def dest: find_SomeD)

end
