(* ===== verification/Sql_Schema_Differ.thy ===== *)
theory Sql_Schema_Differ
  imports Sql_Schema
begin

text \<open>
  The differ of SQL schemas: \<open>sql_schema_differ.rs\<close> and its sub-modules \<open>column.rs\<close>,
  \<open>enums.rs\<close>, \<open>index.rs\<close> and \<open>table.rs\<close> of the SQL migration connector, with
  \<open>database_info.rs\<close> for the options. The functions of the struct \<open>SqlSchemaDiffer\<close> take its
  fields as arguments. The regular expressions of the ignored tables are case-insensitive
  comparisons over ASCII.
\<close>

section \<open>Options\<close>

record database_info =
  db_family :: sql_family
  db_schema_name :: string
  db_version :: "string option"

fun str_prefix :: "string \<Rightarrow> string \<Rightarrow> bool" where
  "str_prefix [] _ = True"
| "str_prefix (_ # _) [] = False"
| "str_prefix (a # as) (b # bs) \<longleftrightarrow> a = b \<and> str_prefix as bs"

fun str_contains :: "string \<Rightarrow> string \<Rightarrow> bool" where
  "str_contains [] needle \<longleftrightarrow> needle = []"
| "str_contains (c # cs) needle \<longleftrightarrow> str_prefix needle (c # cs) \<or> str_contains cs needle"

definition is_mysql_5_6 :: "database_info \<Rightarrow> bool" where
  "is_mysql_5_6 info \<longleftrightarrow> db_family info = Mysql
     \<and> (case db_version info of Some v \<Rightarrow> str_contains v ''5.6'' | None \<Rightarrow> False)"

definition is_mariadb :: "database_info \<Rightarrow> bool" where
  "is_mariadb info \<longleftrightarrow> db_family info = Mysql
     \<and> (case db_version info of Some v \<Rightarrow> str_contains v ''MariaDB'' | None \<Rightarrow> False)"

definition ascii_lower :: "char \<Rightarrow> char" where
  "ascii_lower c =
     (if 65 \<le> (of_char c :: nat) \<and> (of_char c :: nat) \<le> 90 then char_of ((of_char c :: nat) + 32) else c)"

definition postgres_ignored_tables :: "string \<Rightarrow> bool" where
  "postgres_ignored_tables name \<longleftrightarrow>
     map ascii_lower name = ''spatial_ref_sys'' \<or> map ascii_lower name = ''geometry_columns''"

definition empty_regexset :: "string \<Rightarrow> bool" where
  "empty_regexset name \<longleftrightarrow> False"

record diffing_options =
  opt_is_mariadb :: bool
  opt_ignore_tables :: "string \<Rightarrow> bool"

definition from_database_info :: "database_info \<Rightarrow> diffing_options" where
  "from_database_info info =
     \<lparr>opt_is_mariadb = is_mariadb info,
      opt_ignore_tables = (case db_family info of Postgres \<Rightarrow> postgres_ignored_tables | _ \<Rightarrow> empty_regexset)\<rparr>"

definition migration_table_name :: string where
  "migration_table_name = ''_Migration''"

section \<open>Columns\<close>

datatype column_change = Renaming | ChangedArity | ChangedDefault | ChangedType

definition mariadb_aliases :: "column_type_family list" where
  "mariadb_aliases = [FString, FJson]"

definition column_type_changed :: "diffing_options \<Rightarrow> column \<Rightarrow> column \<Rightarrow> bool" where
  "column_type_changed opts p n \<longleftrightarrow>
     (if opt_is_mariadb opts \<and> ct_family (col_tpe p) \<in> set mariadb_aliases
        \<and> ct_family (col_tpe n) \<in> set mariadb_aliases
      then False
      else ct_family (col_tpe p) \<noteq> ct_family (col_tpe n))"

definition defaults_match :: "column \<Rightarrow> column \<Rightarrow> bool" where
  "defaults_match p n \<longleftrightarrow>
     (if col_auto_increment p then True
      else case (col_default p, col_default n) of
        (Some (DVALUE pv), Some (DVALUE nv)) \<Rightarrow> pv = nv
      | (Some (DVALUE _), Some (DDBGENERATED _)) \<Rightarrow> True
      | (Some (DVALUE _), Some (DSEQUENCE _)) \<Rightarrow> True
      | (Some (DVALUE _), Some DNOW) \<Rightarrow> False
      | (Some (DVALUE _), None) \<Rightarrow> False
      | (Some DNOW, Some DNOW) \<Rightarrow> True
      | (Some DNOW, Some (DSEQUENCE _)) \<Rightarrow> True
      | (Some DNOW, None) \<Rightarrow> False
      | (Some DNOW, Some (DVALUE _)) \<Rightarrow> False
      | (Some (DDBGENERATED _), Some (DSEQUENCE _)) \<Rightarrow> True
      | (Some (DDBGENERATED _), Some (DVALUE _)) \<Rightarrow> False
      | (Some (DDBGENERATED _), Some DNOW) \<Rightarrow> False
      | (Some (DDBGENERATED _), None) \<Rightarrow> False
      | (Some (DSEQUENCE _), Some (DSEQUENCE _)) \<Rightarrow> True
      | (Some (DSEQUENCE _), None) \<Rightarrow> False
      | (Some (DSEQUENCE _), Some (DVALUE _)) \<Rightarrow> False
      | (Some (DSEQUENCE _), Some DNOW) \<Rightarrow> False
      | (None, None) \<Rightarrow> True
      | (None, Some (DSEQUENCE _)) \<Rightarrow> True
      | (None, Some (DVALUE _)) \<Rightarrow> False
      | (None, Some DNOW) \<Rightarrow> False
      | (_, Some (DDBGENERATED _)) \<Rightarrow> True)"

definition all_changes :: "diffing_options \<Rightarrow> column \<Rightarrow> column \<Rightarrow> column_change option list" where
  "all_changes opts p n =
     (let renaming = (if col_name p \<noteq> col_name n then Some Renaming else None);
          arity = (if ct_arity (col_tpe p) \<noteq> ct_arity (col_tpe n) then Some ChangedArity else None);
          tpe = (if column_type_changed opts p n then Some ChangedType else None);
          default = (if \<not> defaults_match p n then Some ChangedDefault else None)
      in [renaming, tpe, arity, default])"

definition changes_iter :: "column_change option list \<Rightarrow> column_change list" where
  "changes_iter changes = List.map_filter (\<lambda>c. c) changes"

definition type_changed :: "column_change option list \<Rightarrow> bool" where
  "type_changed changes \<longleftrightarrow> list_ex (\<lambda>c. c = Some ChangedType) changes"

definition arity_changed :: "column_change option list \<Rightarrow> bool" where
  "arity_changed changes \<longleftrightarrow> list_ex (\<lambda>c. c = Some ChangedArity) changes"

definition differs_in_something :: "diffing_options \<Rightarrow> column \<Rightarrow> column \<Rightarrow> bool" where
  "differs_in_something opts p n \<longleftrightarrow> length (changes_iter (all_changes opts p n)) > 0"

section \<open>Tables\<close>

definition columns_match :: "column \<Rightarrow> column \<Rightarrow> bool" where
  "columns_match a b \<longleftrightarrow> col_name a = col_name b"

definition indexes_match :: "index \<Rightarrow> index \<Rightarrow> bool" where
  "indexes_match a b \<longleftrightarrow> idx_columns a = idx_columns b \<and> idx_tpe a = idx_tpe b"

definition foreign_keys_match :: "foreign_key \<Rightarrow> foreign_key \<Rightarrow> bool" where
  "foreign_keys_match p n \<longleftrightarrow> fk_referenced_table p = fk_referenced_table n
     \<and> fk_referenced_columns p = fk_referenced_columns n \<and> fk_columns p = fk_columns n
     \<and> fk_on_delete_action p = fk_on_delete_action n"

definition column_pairs :: "table \<Rightarrow> table \<Rightarrow> (column \<times> column) list" where
  "column_pairs p n = diff_pairs columns_match (tbl_columns p) (tbl_columns n)"

definition dropped_columns :: "table \<Rightarrow> table \<Rightarrow> column list" where
  "dropped_columns p n = diff_deleted columns_match (tbl_columns p) (tbl_columns n)"

definition added_columns :: "table \<Rightarrow> table \<Rightarrow> column list" where
  "added_columns p n = diff_created columns_match (tbl_columns p) (tbl_columns n)"

definition created_foreign_keys :: "table \<Rightarrow> table \<Rightarrow> foreign_key list" where
  "created_foreign_keys p n = diff_created foreign_keys_match (tbl_foreign_keys p) (tbl_foreign_keys n)"

definition dropped_foreign_keys :: "table \<Rightarrow> table \<Rightarrow> foreign_key list" where
  "dropped_foreign_keys p n = diff_deleted foreign_keys_match (tbl_foreign_keys p) (tbl_foreign_keys n)"

definition created_indexes :: "table \<Rightarrow> table \<Rightarrow> index list" where
  "created_indexes p n =
     filter (\<lambda>ni. \<not> list_ex (\<lambda>pi. indexes_match pi ni) (tbl_indices p)) (tbl_indices n)"

definition dropped_indexes :: "table \<Rightarrow> table \<Rightarrow> index list" where
  "dropped_indexes p n =
     filter (\<lambda>pi. \<not> list_ex (\<lambda>ni. indexes_match pi ni) (tbl_indices n)) (tbl_indices p)"

definition index_pairs :: "table \<Rightarrow> table \<Rightarrow> (index \<times> index) list" where
  "index_pairs p n =
     List.map_filter (\<lambda>pi. map_option (Pair pi)
       (find (\<lambda>ni. indexes_match pi ni \<and> idx_name pi \<noteq> idx_name ni) (tbl_indices n))) (tbl_indices p)"

definition index_covers_fk :: "table \<Rightarrow> index \<Rightarrow> bool" where
  "index_covers_fk t i \<longleftrightarrow> list_ex (\<lambda>fk. fk_columns fk = idx_columns i) (tbl_foreign_keys t)"

section \<open>Enums\<close>

definition ed_created_variants :: "sql_enum \<Rightarrow> sql_enum \<Rightarrow> string list" where
  "ed_created_variants p n = filter (\<lambda>nv. \<not> list_ex (\<lambda>pv. pv = nv) (se_values p)) (se_values n)"

definition ed_dropped_variants :: "sql_enum \<Rightarrow> sql_enum \<Rightarrow> string list" where
  "ed_dropped_variants p n = filter (\<lambda>pv. \<not> list_ex (\<lambda>nv. pv = nv) (se_values n)) (se_values p)"

definition sql_enums_match :: "sql_enum \<Rightarrow> sql_enum \<Rightarrow> bool" where
  "sql_enums_match p n \<longleftrightarrow> se_name p = se_name n"

definition enum_pairs :: "sql_schema \<Rightarrow> sql_schema \<Rightarrow> (sql_enum \<times> sql_enum) list" where
  "enum_pairs p n = diff_pairs sql_enums_match (ss_enums p) (ss_enums n)"

definition created_enums :: "sql_schema \<Rightarrow> sql_schema \<Rightarrow> sql_enum list" where
  "created_enums p n = filter (\<lambda>ne. \<not> list_ex (\<lambda>pe. sql_enums_match pe ne) (ss_enums p)) (ss_enums n)"

definition dropped_enums :: "sql_schema \<Rightarrow> sql_schema \<Rightarrow> sql_enum list" where
  "dropped_enums p n = filter (\<lambda>pe. \<not> list_ex (\<lambda>ne. sql_enums_match pe ne) (ss_enums n)) (ss_enums p)"

definition sql_create_enums :: "sql_schema \<Rightarrow> sql_schema \<Rightarrow> sql_create_enum list" where
  "sql_create_enums p n = map (\<lambda>e. \<lparr>sce_name = se_name e, sce_variants = se_values e\<rparr>) (created_enums p n)"

definition sql_drop_enums :: "sql_schema \<Rightarrow> sql_schema \<Rightarrow> string list" where
  "sql_drop_enums p n = map se_name (dropped_enums p n)"

definition alter_enums :: "sql_schema \<Rightarrow> sql_schema \<Rightarrow> alter_enum list" where
  "alter_enums p n =
     List.map_filter (\<lambda>(pe, ne).
       let step = \<lparr>ae_name = se_name pe, ae_created_variants = ed_created_variants pe ne,
                   ae_dropped_variants = ed_dropped_variants pe ne\<rparr>
       in if alter_enum_is_empty step then None else Some step) (enum_pairs p n)"

section \<open>Schemas\<close>

definition tables_match :: "table \<Rightarrow> table \<Rightarrow> bool" where
  "tables_match p n \<longleftrightarrow> tbl_name p = tbl_name n"

definition table_is_ignored :: "diffing_options \<Rightarrow> string \<Rightarrow> bool" where
  "table_is_ignored opts name \<longleftrightarrow> name = migration_table_name \<or> opt_ignore_tables opts name"

definition considered_tables :: "diffing_options \<Rightarrow> sql_schema \<Rightarrow> table list" where
  "considered_tables opts s = filter (\<lambda>t. \<not> table_is_ignored opts (tbl_name t)) (ss_tables s)"

definition created_tables :: "diffing_options \<Rightarrow> sql_schema \<Rightarrow> sql_schema \<Rightarrow> table list" where
  "created_tables opts p n = filter (\<lambda>t. \<not> has_table p (tbl_name t)) (considered_tables opts n)"

definition dropped_tables :: "diffing_options \<Rightarrow> sql_schema \<Rightarrow> sql_schema \<Rightarrow> table list" where
  "dropped_tables opts p n =
     filter (\<lambda>pt. \<not> list_ex (tables_match pt) (considered_tables opts n)) (considered_tables opts p)"

definition table_pairs :: "sql_schema \<Rightarrow> sql_schema \<Rightarrow> (table \<times> table) list" where
  "table_pairs p n = diff_pairs tables_match (ss_tables p) (ss_tables n)"

definition create_tables :: "diffing_options \<Rightarrow> sql_schema \<Rightarrow> sql_schema \<Rightarrow> table list" where
  "create_tables opts p n = created_tables opts p n"

definition drop_tables :: "diffing_options \<Rightarrow> sql_schema \<Rightarrow> sql_schema \<Rightarrow> string list \<times> alter_table list" where
  "drop_tables opts p n =
     (map tbl_name (dropped_tables opts p n),
      concat (map (\<lambda>t. map (\<lambda>fk_name. \<lparr>at_table = t, at_changes = [DropForeignKey fk_name]\<rparr>)
                          (List.map_filter fk_constraint_name (tbl_foreign_keys t)))
                  (dropped_tables opts p n)))"

definition foreign_key_changed :: "foreign_key option \<Rightarrow> foreign_key option \<Rightarrow> bool" where
  "foreign_key_changed p n \<longleftrightarrow>
     (case (p, n) of
        (None, None) \<Rightarrow> False
      | (Some pf, Some nf) \<Rightarrow> \<not> foreign_keys_match pf nf
      | _ \<Rightarrow> True)"

definition drop_columns :: "table \<Rightarrow> table \<Rightarrow> table_change list" where
  "drop_columns p n = map (\<lambda>c. DropColumn (col_name c)) (dropped_columns p n)"

definition add_columns :: "table \<Rightarrow> table \<Rightarrow> table_change list" where
  "add_columns p n = map AddColumn (added_columns p n)"

definition alter_columns :: "diffing_options \<Rightarrow> table \<Rightarrow> table \<Rightarrow> table_change list" where
  "alter_columns opts p n =
     List.map_filter (\<lambda>(pc, nc).
       let previous_fk = foreign_key_for_column p (col_name pc);
           next_fk = foreign_key_for_column n (col_name nc)
       in if differs_in_something opts pc nc \<or> foreign_key_changed previous_fk next_fk
          then Some (AlterColumn \<lparr>ac_name = col_name pc, ac_column = nc\<rparr>)
          else None) (column_pairs p n)"

definition drop_foreign_keys :: "table \<Rightarrow> table \<Rightarrow> table_change list" where
  "drop_foreign_keys p n = map DropForeignKey (List.map_filter fk_constraint_name (dropped_foreign_keys p n))"

definition table_changes :: "diffing_options \<Rightarrow> table \<Rightarrow> table \<Rightarrow> table_change list" where
  "table_changes opts p n = drop_foreign_keys p n @ drop_columns p n @ add_columns p n @ alter_columns opts p n"

definition alter_tables :: "diffing_options \<Rightarrow> sql_schema \<Rightarrow> sql_schema \<Rightarrow> alter_table list" where
  "alter_tables opts p n =
     concat (map (\<lambda>pt. case schema_table n (tbl_name pt) of
         Inr nt \<Rightarrow> (let changes = table_changes opts pt nt
                    in if changes = [] then [] else [\<lparr>at_table = nt, at_changes = changes\<rparr>])
       | Inl _ \<Rightarrow> []) (ss_tables p))"

definition push_foreign_keys_from_created_tables :: "table list \<Rightarrow> add_foreign_key list" where
  "push_foreign_keys_from_created_tables ts =
     concat (map (\<lambda>t. map (\<lambda>fk. \<lparr>afk_table = tbl_name t, afk_foreign_key = fk\<rparr>) (tbl_foreign_keys t)) ts)"

definition push_created_foreign_keys :: "(table \<times> table) list \<Rightarrow> add_foreign_key list" where
  "push_created_foreign_keys pairs =
     concat (map (\<lambda>(pt, nt). map (\<lambda>fk. \<lparr>afk_table = tbl_name nt, afk_foreign_key = fk\<rparr>)
       (created_foreign_keys pt nt)) pairs)"

definition add_foreign_keys :: "diffing_options \<Rightarrow> sql_schema \<Rightarrow> sql_schema \<Rightarrow> add_foreign_key list" where
  "add_foreign_keys opts p n =
     push_foreign_keys_from_created_tables (created_tables opts p n) @ push_created_foreign_keys (table_pairs p n)"

definition create_indexes :: "diffing_options \<Rightarrow> sql_schema \<Rightarrow> sql_schema \<Rightarrow> create_index list" where
  "create_indexes opts p n =
     concat (map (\<lambda>t. map (\<lambda>i. \<lparr>ci_table = tbl_name t, ci_index = i\<rparr>) (tbl_indices t)) (created_tables opts p n)) @
     concat (map (\<lambda>(pt, nt). map (\<lambda>i. \<lparr>ci_table = tbl_name nt, ci_index = i\<rparr>) (created_indexes pt nt)) (table_pairs p n))"

definition drop_indexes :: "sql_family \<Rightarrow> sql_schema \<Rightarrow> sql_schema \<Rightarrow> drop_index list" where
  "drop_indexes family p n =
     concat (map (\<lambda>(pt, nt).
       map (\<lambda>i. \<lparr>di_table = tbl_name pt, di_name = idx_name i\<rparr>)
         (filter (\<lambda>i. \<not> (is_mysql family \<and> index_covers_fk pt i)) (dropped_indexes pt nt))) (table_pairs p n))"

definition alter_indexes :: "sql_schema \<Rightarrow> sql_schema \<Rightarrow> alter_index list" where
  "alter_indexes p n =
     concat (map (\<lambda>(pt, nt).
       map (\<lambda>(pi, ri). \<lparr>ai_table = tbl_name nt, ai_index_name = idx_name pi, ai_index_new_name = idx_name ri\<rparr>)
         (index_pairs pt nt)) (table_pairs p n))"

record sql_schema_diff =
  sd_add_foreign_keys :: "add_foreign_key list"
  sd_drop_tables :: "string list"
  sd_create_tables :: "table list"
  sd_alter_tables :: "alter_table list"
  sd_create_indexes :: "create_index list"
  sd_drop_indexes :: "drop_index list"
  sd_alter_indexes :: "alter_index list"
  sd_create_enums :: "sql_create_enum list"
  sd_drop_enums :: "string list"
  sd_alter_enums :: "alter_enum list"

definition sql_diff :: "diffing_options \<Rightarrow> sql_family \<Rightarrow> sql_schema \<Rightarrow> sql_schema \<Rightarrow> sql_schema_diff" where
  "sql_diff opts family p n =
     (let alter_ixs = alter_indexes p n;
          (drop_ts, drop_fks) = drop_tables opts p n;
          alter_ts = alter_tables opts p n @ drop_fks
      in \<lparr>sd_add_foreign_keys = add_foreign_keys opts p n,
          sd_drop_tables = drop_ts,
          sd_create_tables = create_tables opts p n,
          sd_alter_tables = alter_ts,
          sd_create_indexes = create_indexes opts p n,
          sd_drop_indexes = drop_indexes family p n,
          sd_alter_indexes = alter_ixs,
          sd_create_enums = sql_create_enums p n,
          sd_drop_enums = sql_drop_enums p n,
          sd_alter_enums = alter_enums p n\<rparr>)"

definition into_steps :: "sql_schema_diff \<Rightarrow> sql_migration_step list" where
  "into_steps d =
     map CreateSqlEnum (sd_create_enums d) @ map AlterSqlEnum (sd_alter_enums d) @
     map DropIndex (sd_drop_indexes d) @ map CreateTable (sd_create_tables d) @
     map AlterTable (sd_alter_tables d) @ map CreateIndex (sd_create_indexes d) @
     map AddForeignKey (sd_add_foreign_keys d) @ map DropTable (sd_drop_tables d) @
     map DropSqlEnum (sd_drop_enums d) @ map AlterIndex (sd_alter_indexes d)"

end
