(* ===== verification/Sql_Renderer.thy ===== *)
theory Sql_Renderer
  imports Sql_Schema_Differ
begin

text \<open>
  Rendering of SQL: the directory \<open>sql_renderer\<close> of the SQL migration connector (quoting, the
  three renderers of columns, references and defaults), \<open>expanded_alter_column.rs\<close>, and the
  functions of \<open>sql_database_step_applier.rs\<close> that turn a migration step into SQL statements. A
  panic (\<open>unreachable!\<close>, \<open>todo!\<close>, \<open>unimplemented!\<close>, \<open>unwrap\<close>) is the error \<open>RenderPanic\<close>, an
  \<open>anyhow\<close> error has a constructor of its own. The texts of decimals, time stamps, UUIDs and the
  debug text of a list come from other crates and are the fields of the parameter \<open>displays\<close>.
\<close>

section \<open>Text\<close>

abbreviation nl :: string where "nl \<equiv> [CHR 0x0A]"
abbreviation dquote :: char where "dquote \<equiv> CHR 0x22"
abbreviation squote :: char where "squote \<equiv> CHR 0x27"
abbreviation bslash :: char where "bslash \<equiv> CHR 0x5C"
abbreviation backtick :: char where "backtick \<equiv> CHR 0x60"

fun str_join :: "string \<Rightarrow> string list \<Rightarrow> string" where
  "str_join sep [] = []"
| "str_join sep [x] = x"
| "str_join sep (x # y # ys) = x @ sep @ str_join sep (y # ys)"

definition digit_char :: "nat \<Rightarrow> char" where
  "digit_char n = char_of (48 + n)"

fun show_nat :: "nat \<Rightarrow> string" where
  "show_nat n = (if n < 10 then [digit_char n] else show_nat (n div 10) @ [digit_char (n mod 10)])"

declare show_nat.simps [simp del]

definition show_int :: "int \<Rightarrow> string" where
  "show_int i = (if i < 0 then ''-'' @ show_nat (nat (- i)) else show_nat (nat i))"

record displays =
  disp_decimal :: "rat \<Rightarrow> string"
  disp_datetime :: "int \<Rightarrow> string"
  disp_uuid :: "128 word \<Rightarrow> string"
  debug_list :: "prisma_value list \<Rightarrow> string"

fun value_to_string :: "displays \<Rightarrow> prisma_value \<Rightarrow> string" where
  "value_to_string d (PString x) = x"
| "value_to_string d (PFloat x) = disp_decimal d x"
| "value_to_string d (PBoolean x) = (if x then ''true'' else ''false'')"
| "value_to_string d (PDateTime x) = disp_datetime d x"
| "value_to_string d (PEnum x) = x"
| "value_to_string d (PInt x) = show_int (sint x)"
| "value_to_string d PNull = ''null''"
| "value_to_string d (PUuid x) = disp_uuid d x"
| "value_to_string d (PJson x) = x"
| "value_to_string d (PList x) = debug_list d x"

section \<open>Quoting\<close>

datatype quoted = Double string | Single string | Backticks string

fun quote_that_too :: "quoted \<Rightarrow> string \<Rightarrow> quoted" where
  "quote_that_too (Double _) u = Double u"
| "quote_that_too (Single _) u = Single u"
| "quote_that_too (Backticks _) u = Backticks u"

fun quoted_text :: "quoted \<Rightarrow> string" where
  "quoted_text (Double s) = [dquote] @ s @ [dquote]"
| "quoted_text (Single s) = [squote] @ s @ [squote]"
| "quoted_text (Backticks s) = [backtick] @ s @ [backtick]"

definition mysql_string :: "string \<Rightarrow> string" where "mysql_string s = quoted_text (Single s)"
definition mysql_ident :: "string \<Rightarrow> string" where "mysql_ident s = quoted_text (Backticks s)"
definition postgres_string :: "string \<Rightarrow> string" where "postgres_string s = quoted_text (Single s)"
definition postgres_ident :: "string \<Rightarrow> string" where "postgres_ident s = quoted_text (Double s)"
definition sqlite_ident :: "string \<Rightarrow> string" where "sqlite_ident s = quoted_text (Double s)"

definition renderer_quote :: "sql_family \<Rightarrow> string \<Rightarrow> quoted" where
  "renderer_quote family name = (case family of Mysql \<Rightarrow> Backticks name | Postgres \<Rightarrow> Double name | Sqlite \<Rightarrow> Double name)"

abbreviation quote :: "sql_family \<Rightarrow> string \<Rightarrow> string" where
  "quote family name \<equiv> quoted_text (renderer_quote family name)"

definition quote_with_schema :: "sql_family \<Rightarrow> string \<Rightarrow> string \<Rightarrow> string" where
  "quote_with_schema family schema_name name =
     quoted_text (quote_that_too (renderer_quote family name) schema_name) @ ''.'' @ quote family name"

definition escape_with :: "(char \<Rightarrow> bool) \<Rightarrow> char \<Rightarrow> string \<Rightarrow> string" where
  "escape_with special prefix s = concat (map (\<lambda>c. if special c then [prefix, c] else [c]) s)"

definition sqlite_escape_quotes :: "string \<Rightarrow> string" where
  "sqlite_escape_quotes = escape_with (\<lambda>c. c = squote) squote"

definition mysql_escape_string_literal :: "string \<Rightarrow> string" where
  "mysql_escape_string_literal = escape_with (\<lambda>c. c = squote) squote"

definition postgres_escape_string_literal :: "string \<Rightarrow> string" where
  "postgres_escape_string_literal = escape_with (\<lambda>c. c = squote \<or> c = bslash) bslash"

section \<open>Errors\<close>

datatype render_error =
    RenderPanic string
  | EnumVariantsNotFound string
  | EnumNotFound string
  | AlteredColumnNotFound alter_enum
  | TableNotInCurrentSchema string
  | IndexNotInCurrentSchema string string

section \<open>Defaults, columns and references\<close>

definition string_like_default :: "default_value \<Rightarrow> column_type_family \<Rightarrow> string option" where
  "string_like_default dv family =
     (case (dv, family) of
        (DVALUE (PString val), FString) \<Rightarrow> Some val
      | (DVALUE (PEnum val), FEnum _) \<Rightarrow> Some val
      | _ \<Rightarrow> None)"

definition render_literal :: "sql_family \<Rightarrow> string \<Rightarrow> string" where
  "render_literal family val =
     (case family of
        Sqlite \<Rightarrow> [squote] @ sqlite_escape_quotes val @ [squote]
      | Mysql \<Rightarrow> [squote] @ mysql_escape_string_literal val @ [squote]
      | Postgres \<Rightarrow> ''E'' @ [squote] @ postgres_escape_string_literal val @ [squote])"

text \<open>The three renderers have the same arms; they differ in the literal.\<close>

definition render_default ::
    "displays \<Rightarrow> sql_family \<Rightarrow> default_value \<Rightarrow> column_type_family \<Rightarrow> (render_error, string) res" where
  "render_default d sql dv family =
     (case dv of
        DDBGENERATED val \<Rightarrow> Inr val
      | _ \<Rightarrow>
        (case string_like_default dv family of
           Some val \<Rightarrow> Inr (render_literal sql val)
         | None \<Rightarrow>
           (case dv of
              DNOW \<Rightarrow> (if family = FDateTime then Inr ''CURRENT_TIMESTAMP''
                       else Inl (RenderPanic ''NOW default on non-datetime column''))
            | DVALUE val \<Rightarrow> (if family = FDateTime then Inr ([squote] @ value_to_string d val @ [squote])
                             else Inr (value_to_string d val))
            | DSEQUENCE _ \<Rightarrow> Inl (RenderPanic ''rendering of sequence defaults'')
            | DDBGENERATED val \<Rightarrow> Inr val)))"

record column_ref =
  cr_schema :: sql_schema
  cr_column :: column
  cr_table :: table

definition walk_columns :: "sql_schema \<Rightarrow> column_ref list" where
  "walk_columns s =
     concat (map (\<lambda>t. map (\<lambda>c. \<lparr>cr_schema = s, cr_column = c, cr_table = t\<rparr>) (tbl_columns t)) (ss_tables s))"

definition render_nullability :: "column_ref \<Rightarrow> string" where
  "render_nullability r = (if column_is_required (cr_column r) then ''NOT NULL'' else '''')"

fun render_on_delete :: "foreign_key_action \<Rightarrow> string" where
  "render_on_delete NoAction = ''''"
| "render_on_delete SetNull = ''ON DELETE SET NULL''"
| "render_on_delete Cascade = ''ON DELETE CASCADE''"
| "render_on_delete SetDefault = ''ON DELETE SET DEFAULT''"
| "render_on_delete Restrict = ''ON DELETE RESTRICT''"

definition default_str :: "displays \<Rightarrow> sql_family \<Rightarrow> column_ref \<Rightarrow> (render_error, string) res" where
  "default_str d sql r =
     (case col_default (cr_column r) of
        Some dv \<Rightarrow> map_res (\<lambda>s. ''DEFAULT '' @ s) (render_default d sql dv (ct_family (col_tpe (cr_column r))))
      | None \<Rightarrow> Inr '''')"

definition sqlite_render_column_type :: "column_type \<Rightarrow> (render_error, string) res" where
  "sqlite_render_column_type t =
     (case ct_family t of
        FBoolean \<Rightarrow> Inr ''BOOLEAN''
      | FDateTime \<Rightarrow> Inr ''DATE''
      | FFloat \<Rightarrow> Inr ''REAL''
      | FInt \<Rightarrow> Inr ''INTEGER''
      | FString \<Rightarrow> Inr ''TEXT''
      | _ \<Rightarrow> Inl (RenderPanic ''not handled yet''))"

definition postgres_render_column_type :: "column_type \<Rightarrow> (render_error, string) res" where
  "postgres_render_column_type t =
     (let array = (case ct_arity t of AList \<Rightarrow> ''[]'' | _ \<Rightarrow> '''') in
      case ct_family t of
        FBoolean \<Rightarrow> Inr (''boolean '' @ array)
      | FDateTime \<Rightarrow> Inr (''timestamp(3) '' @ array)
      | FFloat \<Rightarrow> Inr (''Decimal(65,30) '' @ array)
      | FInt \<Rightarrow> Inr (''integer '' @ array)
      | FString \<Rightarrow> Inr (''text '' @ array)
      | FEnum name \<Rightarrow> Inr (postgres_ident name @ array)
      | FJson \<Rightarrow> Inr (''jsonb '' @ array)
      | _ \<Rightarrow> Inl (RenderPanic ''not handled yet''))"

definition varchar_length_prefix :: string where
  "varchar_length_prefix = ''(191)''"

definition mysql_render_column_type :: "column_ref \<Rightarrow> (render_error, string) res" where
  "mysql_render_column_type r =
     (case ct_family (col_tpe (cr_column r)) of
        FBoolean \<Rightarrow> Inr ''boolean''
      | FDateTime \<Rightarrow> (if col_default (cr_column r) = Some DNOW then Inr ''datetime'' else Inr ''datetime(3)'')
      | FFloat \<Rightarrow> Inr ''Decimal(65,30)''
      | FInt \<Rightarrow> Inr ''int''
      | FString \<Rightarrow> Inr (''varchar'' @ varchar_length_prefix)
      | FEnum enum_name \<Rightarrow>
          bind_res (ok_or (EnumVariantsNotFound enum_name) (get_enum (cr_schema r) enum_name)) (\<lambda>e.
            Inr (''ENUM('' @ str_join '', '' (map mysql_string (se_values e)) @ '')''))
      | FJson \<Rightarrow> Inr ''json''
      | _ \<Rightarrow> Inl (RenderPanic ''not handled yet''))"

text \<open>The MySQL renderer unwraps the column type, so a missing enum is a panic.\<close>

definition unwrap_rendered :: "(render_error, 'a) res \<Rightarrow> (render_error, 'a) res" where
  "unwrap_rendered r = (case r of Inr a \<Rightarrow> Inr a | Inl _ \<Rightarrow> Inl (RenderPanic ''unwrap''))"

definition mysql_render_column :: "displays \<Rightarrow> column_ref \<Rightarrow> (render_error, string) res" where
  "mysql_render_column d r =
     (let column_name = quote Mysql (col_name (cr_column r)) in
      bind_res (unwrap_rendered (mysql_render_column_type r)) (\<lambda>tpe_str.
      bind_res (default_str d Mysql r) (\<lambda>default.
      let auto_increment_str = (if col_auto_increment (cr_column r) then ''AUTO_INCREMENT'' else '''') in
      (case foreign_key_for_column (cr_table r) (col_name (cr_column r)) of
         Some _ \<Rightarrow> Inr (str_join '' '' [column_name, tpe_str, render_nullability r, default])
       | None \<Rightarrow> Inr (str_join '' '' [column_name, tpe_str, render_nullability r, default, auto_increment_str])))))"

definition postgres_render_column :: "displays \<Rightarrow> column_ref \<Rightarrow> (render_error, string) res" where
  "postgres_render_column d r =
     (let column_name = quote Postgres (col_name (cr_column r)) in
      bind_res (postgres_render_column_type (col_tpe (cr_column r))) (\<lambda>tpe_str.
      bind_res (default_str d Postgres r) (\<lambda>default.
      if col_auto_increment (cr_column r) then Inr (column_name @ '' SERIAL'')
      else Inr (str_join '' '' [column_name, tpe_str, render_nullability r, default]))))"

definition sqlite_render_column :: "displays \<Rightarrow> column_ref \<Rightarrow> (render_error, string) res" where
  "sqlite_render_column d r =
     (let column_name = quote Sqlite (col_name (cr_column r)) in
      bind_res (sqlite_render_column_type (col_tpe (cr_column r))) (\<lambda>tpe_str.
      bind_res (default_str d Sqlite r) (\<lambda>default.
      let auto_increment_str = (if col_auto_increment (cr_column r) then ''PRIMARY KEY AUTOINCREMENT'' else '''') in
      Inr (str_join '' '' [column_name, tpe_str, render_nullability r, default, auto_increment_str]))))"

definition render_column :: "displays \<Rightarrow> sql_family \<Rightarrow> column_ref \<Rightarrow> (render_error, string) res" where
  "render_column d sql r =
     (case sql of
        Mysql \<Rightarrow> mysql_render_column d r
      | Postgres \<Rightarrow> postgres_render_column d r
      | Sqlite \<Rightarrow> sqlite_render_column d r)"

definition render_references :: "sql_family \<Rightarrow> string \<Rightarrow> foreign_key \<Rightarrow> string" where
  "render_references sql schema_name fk =
     (case sql of
        Mysql \<Rightarrow>
          '' REFERENCES '' @ mysql_ident schema_name @ ''.'' @ mysql_ident (fk_referenced_table fk) @ ''('' @
          str_join '','' (map (quote Mysql) (fk_referenced_columns fk)) @ '') '' @
          render_on_delete (fk_on_delete_action fk) @ '' ON UPDATE CASCADE''
      | Postgres \<Rightarrow>
          ''REFERENCES '' @ quote_with_schema Postgres schema_name (fk_referenced_table fk) @ ''('' @
          str_join '','' (map postgres_ident (fk_referenced_columns fk)) @ '') '' @
          render_on_delete (fk_on_delete_action fk) @ ''  ON UPDATE CASCADE''
      | Sqlite \<Rightarrow>
          ''REFERENCES '' @ quote Sqlite (fk_referenced_table fk) @ ''('' @
          str_join '','' (map sqlite_ident (fk_referenced_columns fk)) @ '') '' @
          render_on_delete (fk_on_delete_action fk) @ '' ON UPDATE CASCADE'')"

end
