(* ===== verification/Sql_Steps_Rendering.thy ===== *)
theory Sql_Steps_Rendering
  imports Sql_Renderer
begin

text \<open>
  SQL of migration steps: \<open>sql_migration/expanded_alter_column.rs\<close> and the rendering half of
  \<open>sql_database_step_applier.rs\<close> (\<open>render_raw_sql\<close> and its helpers). Every step becomes a list
  of statements or an error; the match on the step and on the SQL family is the code's.
\<close>

section \<open>Altered columns\<close>

datatype postgres_alter_column = PgSetDefault default_value | PgDropDefault | PgDropNotNull | PgSetType column_type

datatype mysql_alter_column = MySetDefault default_value | MyDropDefault

datatype expanded_alter_column =
    ExpandedPostgres "postgres_alter_column list"
  | ExpandedMysql "mysql_alter_column list"
  | ExpandedSqlite

fun expand_mysql_changes :: "column \<Rightarrow> column_change list \<Rightarrow> mysql_alter_column list option" where
  "expand_mysql_changes n [] = Some []"
| "expand_mysql_changes n (ch # chs) =
     (case ch of
        ChangedDefault \<Rightarrow>
          map_option ((#) (case col_default n of Some dv \<Rightarrow> MySetDefault dv | None \<Rightarrow> MyDropDefault))
            (expand_mysql_changes n chs)
      | _ \<Rightarrow> None)"

definition expand_mysql_alter_column :: "diffing_options \<Rightarrow> column \<Rightarrow> column \<Rightarrow> mysql_alter_column list option" where
  "expand_mysql_alter_column opts p n = expand_mysql_changes n (changes_iter (all_changes opts p n))"

text \<open>The outer result is the panic on a renamed column, the inner option the early return.\<close>

fun expand_postgres_changes ::
    "column \<Rightarrow> column \<Rightarrow> column_change list \<Rightarrow> (render_error, postgres_alter_column list option) res" where
  "expand_postgres_changes p n [] = Inr (Some [])"
| "expand_postgres_changes p n (ch # chs) =
     (let push = (\<lambda>x. map_res (map_option ((#) x)) (expand_postgres_changes p n chs)) in
      case ch of
        ChangedDefault \<Rightarrow> push (case col_default n of Some dv \<Rightarrow> PgSetDefault dv | None \<Rightarrow> PgDropDefault)
      | ChangedArity \<Rightarrow>
          (if ct_arity (col_tpe p) = ARequired \<and> ct_arity (col_tpe n) = ANullable then push PgDropNotNull
           else Inr None)
      | ChangedType \<Rightarrow>
          (if ct_family (col_tpe p) = FInt \<and> ct_family (col_tpe n) = FString then push (PgSetType (col_tpe n))
           else Inr None)
      | Renaming \<Rightarrow> Inl (RenderPanic ''column renaming''))"

definition expand_postgres_alter_column ::
    "diffing_options \<Rightarrow> column \<Rightarrow> column \<Rightarrow> (render_error, postgres_alter_column list option) res" where
  "expand_postgres_alter_column opts p n = expand_postgres_changes p n (changes_iter (all_changes opts p n))"

definition expand_alter_column ::
    "diffing_options \<Rightarrow> sql_family \<Rightarrow> column \<Rightarrow> column \<Rightarrow> (render_error, expanded_alter_column option) res" where
  "expand_alter_column opts sql p n =
     (case sql of
        Sqlite \<Rightarrow> Inr None
      | Mysql \<Rightarrow> Inr (map_option ExpandedMysql (expand_mysql_alter_column opts p n))
      | Postgres \<Rightarrow> map_res (map_option ExpandedPostgres) (expand_postgres_alter_column opts p n))"

definition set_default_sql ::
    "displays \<Rightarrow> sql_family \<Rightarrow> string \<Rightarrow> column \<Rightarrow> default_value \<Rightarrow> (render_error, string) res" where
  "set_default_sql d sql prefix n dv =
     map_res (\<lambda>s. prefix @ '' SET DEFAULT '' @ s) (render_default d sql dv (ct_family (col_tpe n)))"

definition postgres_alter_sql ::
    "displays \<Rightarrow> string \<Rightarrow> column \<Rightarrow> postgres_alter_column \<Rightarrow> (render_error, string) res" where
  "postgres_alter_sql d prefix n step =
     (case step of
        PgDropDefault \<Rightarrow> Inr (prefix @ '' DROP DEFAULT'')
      | PgSetDefault dv \<Rightarrow> set_default_sql d Postgres prefix n dv
      | PgDropNotNull \<Rightarrow> Inr (prefix @ '' DROP NOT NULL'')
      | PgSetType ty \<Rightarrow> map_res (\<lambda>s. prefix @ '' SET DATA TYPE '' @ s) (postgres_render_column_type ty))"

definition mysql_alter_sql ::
    "displays \<Rightarrow> string \<Rightarrow> column \<Rightarrow> mysql_alter_column \<Rightarrow> (render_error, string) res" where
  "mysql_alter_sql d prefix n step =
     (case step of
        MyDropDefault \<Rightarrow> Inr (prefix @ '' DROP DEFAULT'')
      | MySetDefault dv \<Rightarrow> set_default_sql d Mysql prefix n dv)"

definition safe_alter_column ::
    "displays \<Rightarrow> diffing_options \<Rightarrow> sql_family \<Rightarrow> column \<Rightarrow> column \<Rightarrow> (render_error, string list option) res" where
  "safe_alter_column d opts sql p n =
     (let prefix = ''ALTER COLUMN '' @ quote sql (col_name p) in
      bind_res (expand_alter_column opts sql p n) (\<lambda>expanded.
      case expanded of
        None \<Rightarrow> Inr None
      | Some (ExpandedPostgres steps) \<Rightarrow> map_res Some (collect_res (postgres_alter_sql d prefix n) steps)
      | Some (ExpandedMysql steps) \<Rightarrow> map_res Some (collect_res (mysql_alter_sql d prefix n) steps)
      | Some ExpandedSqlite \<Rightarrow> Inr (Some [])))"

section \<open>Indexes and enums\<close>

definition render_create_index :: "sql_family \<Rightarrow> string \<Rightarrow> string \<Rightarrow> index \<Rightarrow> string" where
  "render_create_index sql schema_name table_name i =
     (let index_type = (case idx_tpe i of IUnique \<Rightarrow> ''UNIQUE'' | INormal \<Rightarrow> '''');
          index_name = (if sql = Sqlite then quote_with_schema sql schema_name (idx_name i) else quote sql (idx_name i));
          table_reference = (if sql = Sqlite then quote sql table_name else quote_with_schema sql schema_name table_name)
      in ''CREATE '' @ index_type @ '' INDEX '' @ index_name @ '' ON '' @ table_reference @ ''('' @
         str_join '','' (map (quote sql) (idx_columns i)) @ '')'')"

definition mysql_drop_index :: "string \<Rightarrow> string \<Rightarrow> string \<Rightarrow> string" where
  "mysql_drop_index schema_name table_name index_name =
     ''DROP INDEX '' @ quote Mysql index_name @ '' ON '' @ quote_with_schema Mysql schema_name table_name"

definition create_table_suffix :: "sql_family \<Rightarrow> string" where
  "create_table_suffix sql =
     (case sql of
        Sqlite \<Rightarrow> '')''
      | Postgres \<Rightarrow> '')''
      | Mysql \<Rightarrow> nl @ '') DEFAULT CHARACTER SET utf8mb4 COLLATE utf8mb4_unicode_ci'')"

definition render_create_enum :: "sql_family \<Rightarrow> sql_create_enum \<Rightarrow> string list" where
  "render_create_enum sql e =
     (case sql of
        Postgres \<Rightarrow> [''CREATE TYPE '' @ postgres_ident (sce_name e) @ '' AS ENUM ('' @
                     str_join '', '' (map postgres_string (sce_variants e)) @ '');'']
      | _ \<Rightarrow> [])"

definition render_drop_enum :: "sql_family \<Rightarrow> string \<Rightarrow> string list" where
  "render_drop_enum sql name = (case sql of Postgres \<Rightarrow> [''DROP TYPE '' @ postgres_ident name] | _ \<Rightarrow> [])"

definition column_uses_enum :: "string \<Rightarrow> column_ref \<Rightarrow> bool" where
  "column_uses_enum name r \<longleftrightarrow> ct_family (col_tpe (cr_column r)) = FEnum name"

definition postgres_alter_enum_column :: "string \<Rightarrow> string \<Rightarrow> string list \<Rightarrow> column_ref \<Rightarrow> (render_error, string) res" where
  "postgres_alter_enum_column schema_name tmp_name values r =
     (let column_name = postgres_ident (col_name (cr_column r));
          tmp = postgres_ident tmp_name;
          indent = nl @ replicate 24 (CHR '' '')
      in case values of
           [] \<Rightarrow> Inl (RenderPanic ''unwrap'')
         | v # _ \<Rightarrow> Inr (''ALTER TABLE '' @ postgres_ident schema_name @ ''.'' @ postgres_ident (tbl_name (cr_table r)) @
             '' ALTER COLUMN '' @ column_name @ '' DROP DEFAULT,'' @ indent @
             ''ALTER COLUMN '' @ column_name @ '' TYPE '' @ tmp @ '' USING ('' @ column_name @ ''::text::'' @ tmp @ ''),'' @ indent @
             ''ALTER COLUMN '' @ column_name @ '' SET DEFAULT '' @ postgres_string v))"

definition postgres_alter_enum :: "sql_schema \<Rightarrow> string \<Rightarrow> alter_enum \<Rightarrow> (render_error, string list) res" where
  "postgres_alter_enum next_schema schema_name e =
     (if ae_dropped_variants e = [] then
        Inr (map (\<lambda>v. ''ALTER TYPE '' @ postgres_ident (ae_name e) @ '' ADD VALUE '' @ postgres_string v)
               (ae_created_variants e))
      else
        bind_res (ok_or (EnumNotFound (ae_name e)) (get_enum next_schema (ae_name e))) (\<lambda>new_enum.
        let tmp_name = se_name new_enum @ ''_new'';
            tmp_old_name = ae_name e @ ''_old'';
            create_new_enum = ''CREATE TYPE '' @ postgres_ident tmp_name @ '' AS ENUM ('' @
                                str_join '', '' (map postgres_string (se_values new_enum)) @ '')'';
            affected_columns = filter (column_uses_enum (ae_name e)) (walk_columns next_schema)
        in bind_res (collect_res (postgres_alter_enum_column schema_name tmp_name (se_values new_enum)) affected_columns)
             (\<lambda>alters. Inr ([create_new_enum] @ alters @
               [''ALTER TYPE '' @ postgres_ident (ae_name e) @ '' RENAME TO '' @ postgres_ident tmp_old_name,
                ''ALTER TYPE '' @ postgres_ident tmp_name @ '' RENAME TO '' @ postgres_ident (se_name new_enum),
                ''DROP TYPE '' @ postgres_ident tmp_old_name]))))"

definition mysql_alter_enum :: "sql_schema \<Rightarrow> string \<Rightarrow> alter_enum \<Rightarrow> (render_error, string list) res" where
  "mysql_alter_enum next_schema schema_name e =
     bind_res (ok_or (AlteredColumnNotFound e) (find (column_uses_enum (ae_name e)) (walk_columns next_schema))) (\<lambda>r.
     bind_res (ok_or (EnumNotFound (ae_name e)) (get_enum next_schema (ae_name e))) (\<lambda>en.
     let enum_variants = str_join '', '' (map mysql_string (se_values en)) in
     Inr [''ALTER TABLE '' @ mysql_ident schema_name @ ''.'' @ mysql_ident (tbl_name (cr_table r)) @ '' CHANGE '' @
          col_name (cr_column r) @ '' '' @ col_name (cr_column r) @ '' ENUM('' @ enum_variants @ '')'']))"

section \<open>Steps\<close>

definition render_create_table ::
    "displays \<Rightarrow> sql_family \<Rightarrow> string \<Rightarrow> sql_schema \<Rightarrow> table \<Rightarrow> (render_error, string) res" where
  "render_create_table d sql schema_name next_schema t =
     bind_res (collect_res (\<lambda>c. render_column d sql \<lparr>cr_schema = next_schema, cr_column = c, cr_table = t\<rparr>) (tbl_columns t))
       (\<lambda>columns.
       let create_table = ''CREATE TABLE '' @ quote_with_schema sql schema_name (tbl_name t) @ '' ('' @ nl @ str_join '','' columns;
           primary_key_is_already_set = str_contains create_table ''PRIMARY KEY'';
           primary_columns = primary_key_columns t;
           primary_key = (if length primary_columns > 0 \<and> \<not> primary_key_is_already_set
              then '','' @ nl @ ''    PRIMARY KEY ('' @ str_join '','' (map (quote sql) primary_columns) @ '')'' else '''');
           foreign_keys = (if sql = Sqlite \<and> tbl_foreign_keys t \<noteq> []
              then '','' @ str_join ('','' @ nl) (map (\<lambda>fk. ''FOREIGN KEY ('' @
                 str_join '','' (map (\<lambda>c. [dquote] @ c @ [dquote]) (fk_columns fk)) @ '') '' @
                 render_references sql schema_name fk) (tbl_foreign_keys t)) else '''')
       in Inr (create_table @ primary_key @ foreign_keys @ create_table_suffix sql))"

definition render_table_change ::
    "displays \<Rightarrow> database_info \<Rightarrow> sql_schema \<Rightarrow> sql_schema \<Rightarrow> table \<Rightarrow> table_change \<Rightarrow> (render_error, string list) res" where
  "render_table_change d info current_schema next_schema t change =
     (let sql = db_family info;
          add_column = (\<lambda>c. map_res (\<lambda>s. ''ADD COLUMN '' @ s)
                          (render_column d sql \<lparr>cr_schema = next_schema, cr_column = c, cr_table = t\<rparr>))
      in case change of
        AddColumn c \<Rightarrow> map_res (\<lambda>s. [s]) (add_column c)
      | DropColumn name \<Rightarrow> Inr [''DROP COLUMN '' @ quote sql name]
      | AlterColumn ac \<Rightarrow>
          bind_res (ok_or (RenderPanic ''unwrap'') (get_table current_schema (tbl_name t))) (\<lambda>current_table.
          bind_res (ok_or (RenderPanic ''unwrap'') (table_column current_table (ac_name ac))) (\<lambda>p.
          bind_res (safe_alter_column d (from_database_info info) sql p (ac_column ac)) (\<lambda>safe.
          case safe of
            Some safe_sql \<Rightarrow> Inr safe_sql
          | None \<Rightarrow> map_res (\<lambda>s. [''DROP COLUMN '' @ quote sql (ac_name ac), s]) (add_column (ac_column ac)))))
      | DropForeignKey constraint_name \<Rightarrow>
          (case sql of
             Mysql \<Rightarrow> Inr [''DROP FOREIGN KEY '' @ quote sql constraint_name]
           | Postgres \<Rightarrow> Inr [''DROP CONSTRAINT IF EXiSTS '' @ quote sql constraint_name]
           | Sqlite \<Rightarrow> Inr []))"

definition render_alter_table ::
    "displays \<Rightarrow> database_info \<Rightarrow> sql_schema \<Rightarrow> sql_schema \<Rightarrow> alter_table \<Rightarrow> (render_error, string list) res" where
  "render_alter_table d info current_schema next_schema a =
     bind_res (collect_res (render_table_change d info current_schema next_schema (at_table a)) (at_changes a))
       (\<lambda>liness.
       let lines = concat liness in
       if lines = [] then Inr []
       else Inr [''ALTER TABLE '' @ quote_with_schema (db_family info) (db_schema_name info) (tbl_name (at_table a)) @
                 '' '' @ str_join ('','' @ nl) lines @ '';''])"

definition render_add_foreign_key :: "sql_family \<Rightarrow> string \<Rightarrow> add_foreign_key \<Rightarrow> string list" where
  "render_add_foreign_key sql schema_name a =
     (case sql of
        Sqlite \<Rightarrow> []
      | _ \<Rightarrow>
        [''ALTER TABLE '' @ quote_with_schema sql schema_name (afk_table a) @ '' ADD '' @
         (case fk_constraint_name (afk_foreign_key a) of
            Some c \<Rightarrow> ''CONSTRAINT '' @ quote sql c @ '' ''
          | None \<Rightarrow> '''') @
         ''FOREIGN KEY ('' @ str_join '', '' (map (quote sql) (fk_columns (afk_foreign_key a))) @ '')'' @
         render_references sql schema_name (afk_foreign_key a)])"

definition render_alter_index ::
    "database_info \<Rightarrow> sql_schema \<Rightarrow> alter_index \<Rightarrow> (render_error, string list) res" where
  "render_alter_index info current_schema a =
     (let sql = db_family info; schema_name = db_schema_name info in
      case sql of
        Mysql \<Rightarrow>
          (if is_mariadb info \<or> is_mysql_5_6 info then
             (case schema_table current_schema (ai_table a) of
                Inl _ \<Rightarrow> Inl (TableNotInCurrentSchema (ai_table a))
              | Inr t \<Rightarrow>
                  bind_res (ok_or (IndexNotInCurrentSchema (ai_index_name a) (ai_table a))
                      (find (\<lambda>i. idx_name i = ai_index_name a) (tbl_indices t))) (\<lambda>old_index.
                  Inr [render_create_index sql schema_name (ai_table a) (old_index\<lparr>idx_name := ai_index_new_name a\<rparr>),
                       mysql_drop_index schema_name (ai_table a) (ai_index_name a)]))
           else Inr [''ALTER TABLE '' @ quote_with_schema sql schema_name (ai_table a) @ '' RENAME INDEX '' @
                     quote sql (ai_index_name a) @ '' TO '' @ quote sql (ai_index_new_name a)])
      | Postgres \<Rightarrow> Inr [''ALTER INDEX '' @ quote_with_schema sql schema_name (ai_index_name a) @ '' RENAME TO '' @
                        quote sql (ai_index_new_name a)]
      | Sqlite \<Rightarrow> Inl (RenderPanic ''Index renaming on SQLite.''))"

definition render_drop_table :: "sql_family \<Rightarrow> string \<Rightarrow> string \<Rightarrow> string list" where
  "render_drop_table sql schema_name name =
     (let drop = ''DROP TABLE '' @ quote_with_schema sql schema_name name @ '';'' in
      case sql of
        Sqlite \<Rightarrow> [''PRAGMA foreign_keys=off'', drop, ''PRAGMA foreign_keys=on'']
      | _ \<Rightarrow> [drop])"

definition render_drop_index :: "sql_family \<Rightarrow> string \<Rightarrow> drop_index \<Rightarrow> string list" where
  "render_drop_index sql schema_name di =
     (case sql of
        Mysql \<Rightarrow> [''DROP INDEX '' @ quote sql (di_name di) @ '' ON '' @ quote_with_schema sql schema_name (di_table di)]
      | _ \<Rightarrow> [''DROP INDEX '' @ quote_with_schema sql schema_name (di_name di)])"

definition render_raw_sql ::
    "displays \<Rightarrow> database_info \<Rightarrow> sql_schema \<Rightarrow> sql_schema \<Rightarrow> sql_migration_step \<Rightarrow> (render_error, string list) res" where
  "render_raw_sql d info current_schema next_schema step =
     (let sql = db_family info; schema_name = db_schema_name info in
      case step of
        CreateSqlEnum e \<Rightarrow> Inr (render_create_enum sql e)
      | DropSqlEnum name \<Rightarrow> Inr (render_drop_enum sql name)
      | AlterSqlEnum e \<Rightarrow>
          (case sql of
             Postgres \<Rightarrow> postgres_alter_enum next_schema schema_name e
           | Mysql \<Rightarrow> mysql_alter_enum next_schema schema_name e
           | Sqlite \<Rightarrow> Inr [])
      | CreateTable t \<Rightarrow> map_res (\<lambda>s. [s]) (render_create_table d sql schema_name next_schema t)
      | DropTable name \<Rightarrow> Inr (render_drop_table sql schema_name name)
      | DropTables names \<Rightarrow>
          Inr [''DROP TABLE '' @ str_join '','' (map (quote_with_schema sql schema_name) names) @ '';'']
      | RenameTable name new_name \<Rightarrow>
          Inr [''ALTER TABLE '' @ quote_with_schema sql schema_name name @ '' RENAME TO '' @
               (if sql = Sqlite then quote sql new_name else quote_with_schema sql schema_name new_name) @ '';'']
      | AddForeignKey a \<Rightarrow> Inr (render_add_foreign_key sql schema_name a)
      | AlterTable a \<Rightarrow> render_alter_table d info current_schema next_schema a
      | CreateIndex ci \<Rightarrow> Inr [render_create_index sql schema_name (ci_table ci) (ci_index ci)]
      | DropIndex di \<Rightarrow> Inr (render_drop_index sql schema_name di)
      | AlterIndex a \<Rightarrow> render_alter_index info current_schema a
      | RawSql raw \<Rightarrow> Inr [raw])"

text \<open>Only the steps with a statement are shown; the text of a step joins its statements.\<close>

fun render_steps_pretty_loop ::
    "(sql_migration_step \<Rightarrow> (render_error, string list) res) \<Rightarrow> sql_migration_step list \<Rightarrow>
     (render_error, (sql_migration_step \<times> string) list) res" where
  "render_steps_pretty_loop render [] = Inr []"
| "render_steps_pretty_loop render (step # steps) =
     bind_res (render step) (\<lambda>stmts.
     let sql = str_join ('';'' @ nl) stmts in
     bind_res (render_steps_pretty_loop render steps) (\<lambda>rest.
     Inr (if sql \<noteq> [] then (step, sql) # rest else rest)))"

definition render_steps_pretty ::
    "displays \<Rightarrow> database_info \<Rightarrow> sql_migration \<Rightarrow> (render_error, (sql_migration_step \<times> string) list) res" where
  "render_steps_pretty d info m =
     render_steps_pretty_loop (render_raw_sql d info (sm_before m) (sm_after m)) (sm_corrected_steps m)"

end
