(* ===== verification/Sql_Migration_Inferrer.thy ===== *)
theory Sql_Migration_Inferrer
  imports Sql_Steps_Rendering
begin

text \<open>
  Inference of a database migration from two SQL schemas: \<open>sql_database_migration_inferrer.rs\<close>
  (the diff, the fallback for changed types of id columns, the rollback) and its sub-module
  \<open>sqlite.rs\<close> (redefinition of tables). Errors of \<open>SqlSchema::table\<close> and panics are values.
\<close>

datatype infer_error = TableMissing string | InferPanic

section \<open>Changed type of an id column\<close>

definition changes_id_column :: "table \<Rightarrow> table_change \<Rightarrow> (infer_error, bool) res" where
  "changes_id_column current_table c =
     (case c of
        AlterColumn ac \<Rightarrow>
          bind_res (ok_or InferPanic (table_column current_table (ac_name ac))) (\<lambda>current_column.
          let has_type_changed = ct_family (col_tpe current_column) \<noteq> ct_family (col_tpe (ac_column ac));
              is_part_of_pk = ac_name ac \<in> set (primary_key_columns current_table)
          in Inr (is_part_of_pk \<and> has_type_changed))
      | _ \<Rightarrow> Inr False)"

text \<open>\<open>iter().find(..).is_some()\<close> with a predicate that may panic.\<close>

fun any_res :: "('a \<Rightarrow> ('e, bool) res) \<Rightarrow> 'a list \<Rightarrow> ('e, bool) res" where
  "any_res P [] = Inr False"
| "any_res P (x # xs) = bind_res (P x) (\<lambda>b. if b then Inr True else any_res P xs)"

definition step_changes_id_type :: "sql_schema \<Rightarrow> sql_migration_step \<Rightarrow> (infer_error, bool) res" where
  "step_changes_id_type from_schema step =
     (case step of
        AlterTable a \<Rightarrow>
          (case schema_table from_schema (tbl_name (at_table a)) of
             Inr current_table \<Rightarrow> any_res (changes_id_column current_table) (at_changes a)
           | Inl _ \<Rightarrow> Inr False)
      | _ \<Rightarrow> Inr False)"

definition fix_id_column_type_change ::
    "database_info \<Rightarrow> sql_schema \<Rightarrow> sql_schema \<Rightarrow> sql_migration_step list \<Rightarrow> (infer_error, sql_migration_step list) res" where
  "fix_id_column_type_change info from_schema to_schema steps =
     bind_res (any_res (step_changes_id_type from_schema) steps) (\<lambda>has_id_type_change.
     if has_id_type_change then
       (let tables_to_drop = map tbl_name (filter (\<lambda>t. tbl_name t \<noteq> migration_table_name) (ss_tables from_schema));
            radical_steps = map DropTable tables_to_drop;
            diff_from_empty = sql_diff (from_database_info info) (db_family info) empty_schema to_schema
        in Inr (radical_steps @ into_steps diff_from_empty))
     else Inr steps)"

section \<open>SQLite: redefining tables\<close>

definition needs_fix_change :: "table_change \<Rightarrow> bool" where
  "needs_fix_change change =
     (case change of
        AddColumn c \<Rightarrow> ct_arity (col_tpe c) = ARequired
      | DropColumn _ \<Rightarrow> True
      | AlterColumn _ \<Rightarrow> True
      | DropForeignKey _ \<Rightarrow> True)"

definition needs_fix :: "alter_table \<Rightarrow> bool" where
  "needs_fix a \<longleftrightarrow> find needs_fix_change (at_changes a) \<noteq> None"

definition became_required_with_default :: "diffing_options \<Rightarrow> column \<times> column \<Rightarrow> bool" where
  "became_required_with_default opts cols =
     (case cols of (p, n) \<Rightarrow> arity_changed (all_changes opts p n) \<and> arity_is_required (ct_arity (col_tpe n))
        \<and> col_default n \<noteq> None)"

definition coalesced_column :: "displays \<Rightarrow> column \<times> column \<Rightarrow> (infer_error, string) res" where
  "coalesced_column d cols =
     (case cols of (p, n) \<Rightarrow>
       bind_res (ok_or InferPanic (col_default n)) (\<lambda>dv.
       case render_default d Sqlite dv (ct_family (col_tpe n)) of
         Inl _ \<Rightarrow> Inl InferPanic
       | Inr default_value \<Rightarrow>
           Inr (''coalesce('' @ sqlite_ident (col_name p) @ '', '' @ default_value @ '') AS '' @ sqlite_ident (col_name p))))"

definition copy_current_table_into_new_table ::
    "displays \<Rightarrow> diffing_options \<Rightarrow> table \<Rightarrow> table \<Rightarrow> string \<Rightarrow> (infer_error, sql_migration_step) res" where
  "copy_current_table_into_new_table d opts p n schema_name =
     (let required = filter (became_required_with_default opts) (column_pairs p n);
          intersection_columns = map (\<lambda>(pc, nc). col_name pc)
            (filter (\<lambda>(pc, nc). \<not> list_ex (\<lambda>(ec, _). col_name ec = col_name pc) required) (column_pairs p n));
          destination_columns = intersection_columns @ map (\<lambda>(pc, nc). col_name pc) required
      in bind_res (collect_res (coalesced_column d) required) (\<lambda>coalesced.
         Inr (RawSql (
           ''INSERT INTO '' @ sqlite_ident schema_name @ ''.'' @ sqlite_ident (tbl_name n) @ '' ('' @
           str_join '', '' (map sqlite_ident destination_columns) @ '') SELECT '' @
           str_join '', '' (map sqlite_ident intersection_columns @ coalesced) @
           '' FROM '' @ sqlite_ident schema_name @ ''.'' @ sqlite_ident (tbl_name p)))))"

definition fix_table ::
    "displays \<Rightarrow> database_info \<Rightarrow> table \<Rightarrow> table \<Rightarrow> string \<Rightarrow> (infer_error, sql_migration_step list) res" where
  "fix_table d info current nxt schema_name =
     (let name_of_temporary_table = ''new_'' @ tbl_name nxt;
          temporary_table = nxt\<lparr>tbl_name := name_of_temporary_table\<rparr>
      in bind_res (copy_current_table_into_new_table d (from_database_info info) current temporary_table schema_name)
           (\<lambda>copy. Inr ([CreateTable temporary_table, copy, DropTable (tbl_name current),
                         RenameTable name_of_temporary_table (tbl_name nxt)] @
                        map (\<lambda>i. CreateIndex \<lparr>ci_table = tbl_name nxt, ci_index = i\<rparr>) (tbl_indices nxt))))"

definition sqlite_fix_table ::
    "displays \<Rightarrow> database_info \<Rightarrow> sql_schema \<Rightarrow> sql_schema \<Rightarrow> string \<Rightarrow> string \<Rightarrow> (infer_error, sql_migration_step list) res" where
  "sqlite_fix_table d info current_schema next_schema table_name schema_name =
     bind_res (ok_or (TableMissing table_name) (get_table current_schema table_name)) (\<lambda>current_table.
     bind_res (ok_or (TableMissing table_name) (get_table next_schema table_name)) (\<lambda>next_table.
     fix_table d info current_table next_table schema_name))"

text \<open>One iteration of the loop: the result so far and the tables fixed so far.\<close>

definition fix_step ::
    "displays \<Rightarrow> database_info \<Rightarrow> sql_schema \<Rightarrow> sql_schema \<Rightarrow> string \<Rightarrow> sql_migration_step \<Rightarrow>
     sql_migration_step list \<times> string list \<Rightarrow> (infer_error, sql_migration_step list \<times> string list) res" where
  "fix_step d info current_schema next_schema schema_name step st =
     (let result = fst st; fixed_tables = snd st;
          redefine = (\<lambda>table_name. bind_res (sqlite_fix_table d info current_schema next_schema table_name schema_name)
                        (\<lambda>sts. Inr (result @ sts, fixed_tables @ [table_name])));
          keep = Inr (result @ [step], fixed_tables)
      in case step of
        AlterTable a \<Rightarrow>
          (if needs_fix a \<and> has_table current_schema (tbl_name (at_table a)) then redefine (tbl_name (at_table a)) else keep)
      | AddForeignKey a \<Rightarrow> (if afk_table a \<in> set fixed_tables then Inr (result, fixed_tables) else keep)
      | CreateIndex ci \<Rightarrow> (if ci_table ci \<in> set fixed_tables then Inr (result, fixed_tables) else keep)
      | AlterIndex ai \<Rightarrow> redefine (ai_table ai)
      | _ \<Rightarrow> keep)"

definition sqlite_fix ::
    "displays \<Rightarrow> database_info \<Rightarrow> sql_schema_diff \<Rightarrow> sql_schema \<Rightarrow> sql_schema \<Rightarrow> string \<Rightarrow> (infer_error, sql_migration_step list) res" where
  "sqlite_fix d info diff current_schema next_schema schema_name =
     bind_res (run_steps (fix_step d info current_schema next_schema schema_name) (into_steps diff)
                ([RawSql ''PRAGMA foreign_keys=OFF;''], []))
       (\<lambda>(result, fixed_tables).
         if length result = 1 then Inr []
         else Inr (result @ [RawSql (''PRAGMA '' @ sqlite_ident schema_name @ ''.foreign_key_check;''),
                             RawSql ''PRAGMA foreign_keys=ON;'']))"

section \<open>Inference\<close>

definition infer_database_migration_steps_and_fix ::
    "displays \<Rightarrow> database_info \<Rightarrow> sql_schema \<Rightarrow> sql_schema \<Rightarrow> string \<Rightarrow>
     (infer_error, sql_migration_step list \<times> sql_migration_step list) res" where
  "infer_database_migration_steps_and_fix d info from_schema to_schema schema_name =
     (let diff = sql_diff (from_database_info info) (db_family info) from_schema to_schema in
      bind_res (if is_sqlite (db_family info)
                then sqlite_fix d info diff from_schema to_schema schema_name
                else fix_id_column_type_change info from_schema to_schema (into_steps diff))
        (\<lambda>corrected_steps. Inr (into_steps diff, corrected_steps)))"

definition infer_migration ::
    "displays \<Rightarrow> database_info \<Rightarrow> sql_schema \<Rightarrow> sql_schema \<Rightarrow> (infer_error, sql_migration) res" where
  "infer_migration d info current_schema expected_schema =
     bind_res (infer_database_migration_steps_and_fix d info current_schema expected_schema (db_schema_name info))
       (\<lambda>(original_steps, corrected_steps).
     bind_res (infer_database_migration_steps_and_fix d info expected_schema current_schema (db_schema_name info))
       (\<lambda>(_, rollback).
     Inr \<lparr>sm_before = current_schema, sm_after = expected_schema, sm_original_steps = original_steps,
          sm_corrected_steps = corrected_steps, sm_rollback = rollback\<rparr>))"

end
