(* ===== verification/Sql_Differ_Laws.thy ===== *)
theory Sql_Differ_Laws
  imports Sql_Migration_Inferrer
begin

text \<open>
  Laws of the differ of SQL schemas. A specification of what a list of table changes does to the
  columns of a table (\<open>apply_table_changes\<close>) gives the changes a meaning that does not depend on a
  database; against it the differ reaches a fixpoint. Further laws: a schema does not differ from
  itself, the tables created and dropped are exactly the difference of the names, and the order of
  the steps.
\<close>

section \<open>Well-formed schemas\<close>

definition names_distinct :: "sql_schema \<Rightarrow> bool" where
  "names_distinct s \<longleftrightarrow> distinct (map tbl_name (ss_tables s)) \<and> distinct (map se_name (ss_enums s))
     \<and> list_all (\<lambda>t. distinct (map col_name (tbl_columns t))) (ss_tables s)"

definition indexes_named_apart :: "table \<Rightarrow> bool" where
  "indexes_named_apart t \<longleftrightarrow>
     list_all (\<lambda>i. list_all (\<lambda>j. indexes_match i j \<longrightarrow> idx_name i = idx_name j) (tbl_indices t)) (tbl_indices t)"

lemma map_filter_Nil_iff: "List.map_filter f xs = [] \<longleftrightarrow> (\<forall>x \<in> set xs. f x = None)"
  by (auto simp: List.map_filter_def filter_empty_conv)

section \<open>Columns\<close>

lemma differs_iff:
  "differs_in_something opts p n \<longleftrightarrow>
     col_name p \<noteq> col_name n \<or> column_type_changed opts p n \<or> ct_arity (col_tpe p) \<noteq> ct_arity (col_tpe n)
     \<or> \<not> defaults_match p n"
  by (simp add: differs_in_something_def all_changes_def changes_iter_def List.map_filter_def)

lemma defaults_match_refl [simp]: "defaults_match c c"
  by (simp add: defaults_match_def split: option.split default_value.split)

lemma column_type_changed_refl [simp]: "\<not> column_type_changed opts c c"
  by (simp add: column_type_changed_def)

lemma differs_refl [simp]: "\<not> differs_in_something opts c c"
  by (simp add: differs_iff)

lemma arity_changed_iff [simp]:
  "arity_changed (all_changes opts p n) \<longleftrightarrow> ct_arity (col_tpe p) \<noteq> ct_arity (col_tpe n)"
  by (simp add: arity_changed_def all_changes_def)

lemma type_changed_iff [simp]: "type_changed (all_changes opts p n) \<longleftrightarrow> column_type_changed opts p n"
  by (simp add: type_changed_def all_changes_def)

lemma foreign_keys_match_refl [simp]: "foreign_keys_match fk fk"
  by (simp add: foreign_keys_match_def)

lemma foreign_key_changed_refl [simp]: "\<not> foreign_key_changed fk fk"
  by (simp add: foreign_key_changed_def split: option.split)

lemma indexes_match_refl [simp]: "indexes_match i i"
  by (simp add: indexes_match_def)

section \<open>Meaning of table changes\<close>

fun column_after :: "table_change \<Rightarrow> column list \<Rightarrow> column list" where
  "column_after (AddColumn c) cs = cs @ [c]"
| "column_after (DropColumn name) cs = filter (\<lambda>c. col_name c \<noteq> name) cs"
| "column_after (AlterColumn ac) cs = map (\<lambda>c. if col_name c = ac_name ac then ac_column ac else c) cs"
| "column_after (DropForeignKey _) cs = cs"

definition apply_table_changes :: "table_change list \<Rightarrow> column list \<Rightarrow> column list" where
  "apply_table_changes changes cs = fold column_after changes cs"

lemma fold_drop_columns:
  "fold column_after (map (\<lambda>c. DropColumn (col_name c)) ds) cs = filter (\<lambda>c. col_name c \<notin> col_name ` set ds) cs"
  by (induction ds arbitrary: cs) (auto simp: filter_filter intro!: filter_cong)

lemma fold_add_columns: "fold column_after (map AddColumn ys) cs = cs @ ys"
  by (induction ys arbitrary: cs) auto

lemma fold_drop_foreign_keys: "fold column_after (map DropForeignKey ns) cs = cs"
  by (induction ns) auto

definition altered :: "alter_column list \<Rightarrow> column \<Rightarrow> column" where
  "altered acs c = (case find (\<lambda>a. ac_name a = col_name c) acs of Some a \<Rightarrow> ac_column a | None \<Rightarrow> c)"

lemma altered_Cons:
  "altered (a # acs) c = (if ac_name a = col_name c then ac_column a else altered acs c)"
  by (simp add: altered_def)

lemma altered_unnamed: "col_name c \<notin> ac_name ` set acs \<Longrightarrow> altered acs c = c"
  using find_key_None [of ac_name "col_name c" acs] by (simp add: altered_def)

lemma fold_alter_columns:
  assumes "distinct (map ac_name acs)" and "\<And>a. a \<in> set acs \<Longrightarrow> col_name (ac_column a) = ac_name a"
  shows "fold column_after (map AlterColumn acs) cs = map (altered acs) cs"
  using assms
proof (induction acs arbitrary: cs)
  case Nil
  then show ?case by (simp add: altered_def map_idI)
next
  case (Cons a acs)
  have "altered acs (ac_column a) = ac_column a"
    using Cons.prems by (auto intro!: altered_unnamed)
  with Cons show ?case by (auto simp: altered_Cons)
qed

section \<open>The changes of a table\<close>

definition altered_columns :: "diffing_options \<Rightarrow> table \<Rightarrow> table \<Rightarrow> alter_column list" where
  "altered_columns opts p n =
     map (\<lambda>(pc, nc). \<lparr>ac_name = col_name pc, ac_column = nc\<rparr>)
       (filter (\<lambda>(pc, nc). differs_in_something opts pc nc
            \<or> foreign_key_changed (foreign_key_for_column p (col_name pc)) (foreign_key_for_column n (col_name nc)))
          (column_pairs p n))"

lemma in_altered_columns:
  "a \<in> set (altered_columns opts p n) \<longleftrightarrow>
     (\<exists>pc nc. (pc, nc) \<in> set (column_pairs p n) \<and> a = \<lparr>ac_name = col_name pc, ac_column = nc\<rparr>
        \<and> (differs_in_something opts pc nc
            \<or> foreign_key_changed (foreign_key_for_column p (col_name pc)) (foreign_key_for_column n (col_name nc))))"
  unfolding altered_columns_def by auto

lemma alter_columns_eq: "alter_columns opts p n = map AlterColumn (altered_columns opts p n)"
proof -
  have "List.map_filter (\<lambda>(a, b). if P a b then Some (f a b) else None) xs
      = map (\<lambda>(a, b). f a b) (filter (\<lambda>(a, b). P a b) xs)"
    for P :: "column \<Rightarrow> column \<Rightarrow> bool" and f :: "column \<Rightarrow> column \<Rightarrow> table_change" and xs
    by (induction xs) (auto simp: List.map_filter_simps)
  then show ?thesis
    by (simp add: alter_columns_def altered_columns_def Let_def comp_def case_prod_unfold)
qed

lemma map_fst_diff_pairs_subseq:
  "\<exists>P. map fst (diff_pairs mtch ps ns) = filter P ps"
proof -
  have "map fst (diff_pairs mtch ps ns) = filter (\<lambda>p. find (mtch p) ns \<noteq> None) ps"
    by (induction ps) (auto split: option.split)
  then show ?thesis by blast
qed

lemma distinct_column_pairs:
  assumes "distinct (map col_name (tbl_columns p))"
  shows "distinct (map (\<lambda>x. col_name (fst x)) (column_pairs p n))"
proof -
  obtain P where "map fst (column_pairs p n) = filter P (tbl_columns p)"
    unfolding column_pairs_def using map_fst_diff_pairs_subseq by blast
  then have "map (\<lambda>x. col_name (fst x)) (column_pairs p n) = map col_name (filter P (tbl_columns p))"
    by (metis (no_types, lifting) list.map_comp comp_apply map_eq_conv)
  with assms show ?thesis by (simp add: distinct_map_filter)
qed

lemma distinct_altered_columns:
  assumes "distinct (map col_name (tbl_columns p))"
  shows "distinct (map ac_name (altered_columns opts p n))"
proof -
  have "map ac_name (altered_columns opts p n) = map (\<lambda>x. col_name (fst x))
      (filter (\<lambda>(pc, nc). differs_in_something opts pc nc
            \<or> foreign_key_changed (foreign_key_for_column p (col_name pc)) (foreign_key_for_column n (col_name nc)))
          (column_pairs p n))"
    by (simp add: altered_columns_def case_prod_unfold)
  with distinct_column_pairs [OF assms, of n] show ?thesis by (simp add: distinct_map_filter)
qed

lemma in_diff_pairs:
  "(p, n) \<in> set (diff_pairs mtch ps ns) \<longleftrightarrow> p \<in> set ps \<and> find (mtch p) ns = Some n"
  unfolding diff_pairs_def in_map_filter by auto

lemma columns_match_key: "columns_match c = (\<lambda>y. col_name y = col_name c)"
  by (intro ext) (simp add: columns_match_def eq_commute)

lemma column_pairs_iff:
  assumes "distinct (map col_name (tbl_columns n))"
  shows "(pc, nc) \<in> set (column_pairs p n) \<longleftrightarrow>
    pc \<in> set (tbl_columns p) \<and> nc \<in> set (tbl_columns n) \<and> col_name pc = col_name nc"
  unfolding column_pairs_def in_diff_pairs columns_match_key find_key_iff [OF assms] by metis

lemma altered_columns_name:
  assumes "distinct (map col_name (tbl_columns n))" and "a \<in> set (altered_columns opts p n)"
  shows "col_name (ac_column a) = ac_name a"
  using assms(2) by (auto simp: in_altered_columns column_pairs_iff [OF assms(1)])

lemma dropped_columns_names:
  "col_name ` set (dropped_columns p n) = col_name ` set (tbl_columns p) - col_name ` set (tbl_columns n)"
  by (auto simp: dropped_columns_def set_diff_deleted columns_match_def)

lemma added_columns_iff:
  "c \<in> set (added_columns p n) \<longleftrightarrow> c \<in> set (tbl_columns n) \<and> col_name c \<notin> col_name ` set (tbl_columns p)"
  unfolding added_columns_def set_diff_created columns_match_def by (auto simp: image_iff)

lemma apply_table_changes_eq:
  assumes "distinct (map col_name (tbl_columns p))" and "distinct (map col_name (tbl_columns n))"
  shows "apply_table_changes (table_changes opts p n) (tbl_columns p) =
    map (altered (altered_columns opts p n))
      (filter (\<lambda>c. col_name c \<in> col_name ` set (tbl_columns n)) (tbl_columns p) @ added_columns p n)"
proof -
  have "filter (\<lambda>c. col_name c \<notin> col_name ` set (dropped_columns p n)) (tbl_columns p) =
      filter (\<lambda>c. col_name c \<in> col_name ` set (tbl_columns n)) (tbl_columns p)"
    unfolding dropped_columns_names by (rule filter_cong) auto
  then show ?thesis
    unfolding apply_table_changes_def table_changes_def drop_foreign_keys_def drop_columns_def add_columns_def
      alter_columns_eq fold_append comp_def fold_drop_foreign_keys fold_drop_columns fold_add_columns
    using fold_alter_columns [OF distinct_altered_columns [OF assms(1)] altered_columns_name [OF assms(2)]]
    by simp
qed

lemma altered_pair:
  assumes "distinct (map col_name (tbl_columns p))" and "distinct (map col_name (tbl_columns n))"
    and pc: "pc \<in> set (tbl_columns p)" and nc: "nc \<in> set (tbl_columns n)" and nm: "col_name pc = col_name nc"
  shows "altered (altered_columns opts p n) pc = nc
    \<or> altered (altered_columns opts p n) pc = pc \<and> \<not> differs_in_something opts pc nc"
proof -
  let ?acs = "altered_columns opts p n"
  have pair: "(pc, nc) \<in> set (column_pairs p n)"
    using assms by (simp add: column_pairs_iff)
  show ?thesis
  proof (cases "\<lparr>ac_name = col_name pc, ac_column = nc\<rparr> \<in> set ?acs")
    case True
    have "find (\<lambda>a. ac_name a = col_name pc) ?acs = Some \<lparr>ac_name = col_name pc, ac_column = nc\<rparr>"
      using True by (simp add: find_key_iff [OF distinct_altered_columns [OF assms(1)]])
    then show ?thesis by (simp add: altered_def)
  next
    case False
    have "col_name pc \<notin> ac_name ` set ?acs"
    proof
      assume "col_name pc \<in> ac_name ` set ?acs"
      then obtain a where a: "a \<in> set ?acs" "ac_name a = col_name pc" by auto
      then obtain qc mc where qm: "(qc, mc) \<in> set (column_pairs p n)" "a = \<lparr>ac_name = col_name qc, ac_column = mc\<rparr>"
        unfolding in_altered_columns by blast
      with a have "mc \<in> set (tbl_columns n)" "col_name mc = col_name nc"
        using nm by (auto simp: column_pairs_iff [OF assms(2)])
      with nc assms(2) have "mc = nc" by (metis distinct_map inj_on_eq_iff)
      with a qm False show False by simp
    qed
    moreover have "\<not> differs_in_something opts pc nc"
      using False pair unfolding in_altered_columns by blast
    ultimately show ?thesis by (simp add: altered_unnamed)
  qed
qed

lemma altered_added:
  assumes "distinct (map col_name (tbl_columns n))" and "c \<in> set (added_columns p n)"
  shows "altered (altered_columns opts p n) c = c"
proof -
  have "col_name c \<notin> ac_name ` set (altered_columns opts p n)"
  proof
    assume "col_name c \<in> ac_name ` set (altered_columns opts p n)"
    then obtain qc mc where "(qc, mc) \<in> set (column_pairs p n)" "col_name c = col_name qc"
      by (auto simp: in_altered_columns)
    then have "col_name c \<in> col_name ` set (tbl_columns p)" by (metis column_pairs_iff [OF assms(1)] imageI)
    with assms(2) show False by (simp add: added_columns_iff)
  qed
  then show ?thesis by (rule altered_unnamed)
qed

lemma apply_table_changes_column:
  assumes "distinct (map col_name (tbl_columns p))" and "distinct (map col_name (tbl_columns n))"
    and "c \<in> set (apply_table_changes (table_changes opts p n) (tbl_columns p))"
  shows "\<exists>nc \<in> set (tbl_columns n). col_name c = col_name nc \<and> \<not> differs_in_something opts c nc"
proof -
  consider (kept) pc nc where "pc \<in> set (tbl_columns p)" "nc \<in> set (tbl_columns n)" "col_name pc = col_name nc"
      "c = altered (altered_columns opts p n) pc"
    | (added) nc where "nc \<in> set (added_columns p n)" "c = altered (altered_columns opts p n) nc"
    using assms(3) unfolding apply_table_changes_eq [OF assms(1,2)] by force
  then show ?thesis
  proof cases
    case kept
    then show ?thesis using altered_pair [OF assms(1,2) kept(1-3), of opts] by auto
  next
    case added
    then show ?thesis using altered_added [OF assms(2) added(1)] added_columns_iff by fastforce
  qed
qed

lemma apply_table_changes_names:
  assumes "distinct (map col_name (tbl_columns p))" and "distinct (map col_name (tbl_columns n))"
  shows "col_name ` set (apply_table_changes (table_changes opts p n) (tbl_columns p)) = col_name ` set (tbl_columns n)"
proof
  show "col_name ` set (apply_table_changes (table_changes opts p n) (tbl_columns p)) \<subseteq> col_name ` set (tbl_columns n)"
    using apply_table_changes_column [OF assms] by force
  show "col_name ` set (tbl_columns n) \<subseteq> col_name ` set (apply_table_changes (table_changes opts p n) (tbl_columns p))"
  proof
    fix k assume "k \<in> col_name ` set (tbl_columns n)"
    then obtain nc where nc: "nc \<in> set (tbl_columns n)" "k = col_name nc" by auto
    let ?f = "altered (altered_columns opts p n)"
    show "k \<in> col_name ` set (apply_table_changes (table_changes opts p n) (tbl_columns p))"
    proof (cases "k \<in> col_name ` set (tbl_columns p)")
      case True
      then obtain pc where pc: "pc \<in> set (tbl_columns p)" "col_name pc = col_name nc" using nc by auto
      then have "col_name (?f pc) = k" using altered_pair [OF assms pc(1) nc(1) pc(2), of opts] nc(2) by auto
      moreover have "?f pc \<in> set (apply_table_changes (table_changes opts p n) (tbl_columns p))"
        unfolding apply_table_changes_eq [OF assms] using pc nc by auto
      ultimately show ?thesis by blast
    next
      case False
      then have "nc \<in> set (added_columns p n)" using nc by (simp add: added_columns_iff)
      then have "?f nc \<in> set (apply_table_changes (table_changes opts p n) (tbl_columns p))" "?f nc = nc"
        unfolding apply_table_changes_eq [OF assms] using altered_added [OF assms(2)] by auto
      then show ?thesis using nc(2) by (metis image_eqI)
    qed
  qed
qed

lemma table_changes_Nil:
  assumes n: "distinct (map col_name (tbl_columns n))"
    and names: "col_name ` set (tbl_columns q) = col_name ` set (tbl_columns n)"
    and same: "\<And>c. c \<in> set (tbl_columns q) \<Longrightarrow>
      \<exists>nc \<in> set (tbl_columns n). col_name c = col_name nc \<and> \<not> differs_in_something opts c nc"
    and fks: "tbl_foreign_keys q = tbl_foreign_keys n"
  shows "table_changes opts q n = []"
proof -
  have "dropped_foreign_keys q n = []"
    unfolding dropped_foreign_keys_def diff_deleted_def fks filter_empty_conv
    by (auto simp: find_None_iff)
  moreover have "dropped_columns q n = []"
    using dropped_columns_names [of q n] names by auto
  moreover have "added_columns q n = []"
  proof (rule ccontr)
    assume "added_columns q n \<noteq> []"
    then obtain c where "c \<in> set (added_columns q n)" by (cases "added_columns q n") auto
    with names show False by (auto simp: added_columns_iff)
  qed
  moreover have "altered_columns opts q n = []"
  proof -
    have "\<not> differs_in_something opts qc nc" if "(qc, nc) \<in> set (column_pairs q n)" for qc nc
    proof -
      from that have qn: "qc \<in> set (tbl_columns q)" "nc \<in> set (tbl_columns n)" "col_name qc = col_name nc"
        by (auto simp: column_pairs_iff [OF n])
      from same [OF qn(1)] obtain mc where "mc \<in> set (tbl_columns n)" "col_name qc = col_name mc"
        "\<not> differs_in_something opts qc mc" by blast
      moreover have "mc = nc" using calculation qn n by (metis distinct_map inj_on_eq_iff)
      ultimately show ?thesis by simp
    qed
    moreover have "foreign_key_for_column q = foreign_key_for_column n"
      by (simp add: fun_eq_iff foreign_key_for_column_def fks)
    ultimately show ?thesis
      by (auto simp: altered_columns_def filter_empty_conv column_pairs_iff [OF n])
  qed
  ultimately show ?thesis
    by (simp add: table_changes_def drop_foreign_keys_def drop_columns_def add_columns_def alter_columns_eq
        List.map_filter_simps)
qed

section \<open>A schema and itself\<close>

lemma concat_map_Nil: "concat (map f xs) = [] \<longleftrightarrow> (\<forall>x \<in> set xs. f x = [])"
  by (induction xs) auto

lemma table_pairs_iff:
  assumes "distinct (map tbl_name (ss_tables n))"
  shows "(pt, nt) \<in> set (table_pairs p n) \<longleftrightarrow>
    pt \<in> set (ss_tables p) \<and> nt \<in> set (ss_tables n) \<and> tbl_name pt = tbl_name nt"
proof -
  have "tables_match t = (\<lambda>y. tbl_name y = tbl_name t)" for t
    by (intro ext) (simp add: tables_match_def eq_commute)
  then show ?thesis
    unfolding table_pairs_def in_diff_pairs by (simp only: find_key_iff [OF assms]) metis
qed

lemma enum_pairs_iff:
  assumes "distinct (map se_name (ss_enums n))"
  shows "(pe, ne) \<in> set (enum_pairs p n) \<longleftrightarrow>
    pe \<in> set (ss_enums p) \<and> ne \<in> set (ss_enums n) \<and> se_name pe = se_name ne"
proof -
  have "sql_enums_match t = (\<lambda>y. se_name y = se_name t)" for t
    by (intro ext) (simp add: sql_enums_match_def eq_commute)
  then show ?thesis
    unfolding enum_pairs_def in_diff_pairs by (simp only: find_key_iff [OF assms]) metis
qed

lemma key_unique:
  assumes "distinct (map key xs)" and "x \<in> set xs" and "y \<in> set xs" and "key x = key y"
  shows "x = y"
  using assms by (metis distinct_map inj_on_eq_iff)

lemma table_pairs_self:
  assumes "distinct (map tbl_name (ss_tables s))" and "(pt, nt) \<in> set (table_pairs s s)"
  shows "pt = nt" and "pt \<in> set (ss_tables s)"
  using assms key_unique [OF assms(1)] by (auto simp: table_pairs_iff)

lemma table_changes_self:
  "distinct (map col_name (tbl_columns t)) \<Longrightarrow> table_changes opts t t = []"
  by (rule table_changes_Nil) auto

lemma list_ex_refl:
  assumes "x \<in> set xs" and "P x"
  shows "list_ex P xs"
  using assms by (auto simp: list_ex_iff)

lemma table_differ_self:
  "created_indexes t t = []" "dropped_indexes t t = []" "created_foreign_keys t t = []"
    unfolding created_indexes_def dropped_indexes_def created_foreign_keys_def diff_created_def filter_empty_conv
  by (auto intro: list_ex_refl simp: find_None_iff)

lemma concat_self_pairs:
  assumes "distinct (map tbl_name (ss_tables s))" and "\<And>t. t \<in> set (ss_tables s) \<Longrightarrow> f (t, t) = []"
  shows "concat (map f (table_pairs s s)) = []"
proof -
  have "f x = []" if x: "x \<in> set (table_pairs s s)" for x
  proof -
    obtain pt nt where pn: "x = (pt, nt)" by (cases x)
    note self = table_pairs_self [OF assms(1) x [unfolded pn]]
    show ?thesis unfolding pn self(1) [symmetric] by (rule assms(2) [OF self(2)])
  qed
  then show ?thesis unfolding concat_map_Nil by blast
qed

lemma index_pairs_self:
  assumes "indexes_named_apart t"
  shows "index_pairs t t = []"
proof -
  have "find (\<lambda>ni. indexes_match pi ni \<and> idx_name pi \<noteq> idx_name ni) (tbl_indices t) = None"
    if "pi \<in> set (tbl_indices t)" for pi
    using assms that unfolding find_None_iff_ball indexes_named_apart_def list_all_iff by blast
  then show ?thesis by (simp add: index_pairs_def map_filter_Nil_iff)
qed

lemma enum_differ_self: "ed_created_variants e e = []" "ed_dropped_variants e e = []"
  by (auto simp: ed_created_variants_def ed_dropped_variants_def filter_empty_conv list_ex_iff)

lemma alter_enums_self:
  assumes "distinct (map se_name (ss_enums s))"
  shows "alter_enums s s = []"
proof -
  have "pe = ne" if "(pe, ne) \<in> set (enum_pairs s s)" for pe ne
    using that key_unique [OF assms] by (auto simp: enum_pairs_iff [OF assms])
  then show ?thesis
    by (fastforce simp: alter_enums_def map_filter_Nil_iff alter_enum_is_empty_def enum_differ_self)
qed

lemma enums_self: "created_enums s s = []" "dropped_enums s s = []"
  by (auto simp: created_enums_def dropped_enums_def filter_empty_conv list_ex_iff sql_enums_match_def)

lemma created_tables_self: "created_tables opts s s = []"
  by (auto simp: created_tables_def considered_tables_def filter_empty_conv has_table_iff)

lemma dropped_tables_self: "dropped_tables opts s s = []"
  by (auto simp: dropped_tables_def filter_empty_conv list_ex_iff tables_match_def)

lemma alter_tables_self:
  assumes "names_distinct s"
  shows "alter_tables opts s s = []"
proof -
  have d: "distinct (map tbl_name (ss_tables s))" using assms by (simp add: names_distinct_def)
  have "schema_table s (tbl_name t) = Inr t \<and> table_changes opts t t = []" if "t \<in> set (ss_tables s)" for t
  proof -
    have "get_table s (tbl_name t) = Some t" using that by (simp add: get_table_Some [OF d])
    with assms that show ?thesis
      by (simp add: schema_table_get names_distinct_def list_all_iff table_changes_self)
  qed
  then show ?thesis by (simp add: alter_tables_def concat_map_Nil)
qed

lemma sql_diff_self_empty:
  assumes "names_distinct s" and "list_all indexes_named_apart (ss_tables s)"
  shows "into_steps (sql_diff opts family s s) = []"
proof -
  have d: "distinct (map tbl_name (ss_tables s))" and e: "distinct (map se_name (ss_enums s))"
    using assms(1) by (simp_all add: names_distinct_def)
  note pairs = concat_self_pairs [OF d]
  have "push_created_foreign_keys (table_pairs s s) = []"
    unfolding push_created_foreign_keys_def by (rule pairs) (simp add: table_differ_self)
  moreover have "create_indexes opts s s = []"
    using pairs [of "\<lambda>(pt, nt). map (\<lambda>i. \<lparr>ci_table = tbl_name nt, ci_index = i\<rparr>) (created_indexes pt nt)"]
    by (simp add: create_indexes_def created_tables_self table_differ_self)
  moreover have "drop_indexes family s s = []"
    unfolding drop_indexes_def by (rule pairs) (simp add: table_differ_self)
  moreover have "alter_indexes s s = []"
    unfolding alter_indexes_def using assms(2) by (intro pairs) (simp add: list_all_iff index_pairs_self)
  ultimately show ?thesis
    using assms(1) e
    by (simp add: into_steps_def sql_diff_def drop_tables_def dropped_tables_self created_tables_self
        alter_tables_self create_tables_def add_foreign_keys_def push_foreign_keys_from_created_tables_def
        sql_create_enums_def sql_drop_enums_def enums_self alter_enums_self)
qed

section \<open>Created and dropped tables\<close>

abbreviation considered_names :: "diffing_options \<Rightarrow> sql_schema \<Rightarrow> string set" where
  "considered_names opts s \<equiv> tbl_name ` set (considered_tables opts s)"

lemma considered_names_iff:
  "k \<in> considered_names opts s \<longleftrightarrow> k \<in> tbl_name ` set (ss_tables s) \<and> \<not> table_is_ignored opts k"
  by (auto simp: considered_tables_def)

lemma dropped_names:
  "set (sd_drop_tables (sql_diff opts family p n)) = considered_names opts p - considered_names opts n"
  by (auto simp: sql_diff_def drop_tables_def dropped_tables_def list_ex_iff tables_match_def)

lemma created_names:
  "tbl_name ` set (sd_create_tables (sql_diff opts family p n)) = considered_names opts n - considered_names opts p"
  by (auto simp: sql_diff_def drop_tables_def create_tables_def created_tables_def considered_tables_def has_table_iff)

section \<open>Order of the steps\<close>

lemma prefix_before:
  assumes "xs @ z # ys = pre @ rest" and "z \<notin> set pre"
  shows "\<exists>us. xs = pre @ us"
  using assms by (auto simp: append_eq_append_conv2 Cons_eq_append_conv)

lemma before_drop_table:
  assumes "into_steps d = xs @ DropTable nm # ys" and "a \<in> set (sd_alter_tables d)"
  shows "AlterTable a \<in> set xs"
proof -
  let ?pre = "map CreateSqlEnum (sd_create_enums d) @ map AlterSqlEnum (sd_alter_enums d) @
     map DropIndex (sd_drop_indexes d) @ map CreateTable (sd_create_tables d) @ map AlterTable (sd_alter_tables d)"
  have split: "xs @ DropTable nm # ys = ?pre @ map CreateIndex (sd_create_indexes d) @
     map AddForeignKey (sd_add_foreign_keys d) @ map DropTable (sd_drop_tables d) @
     map DropSqlEnum (sd_drop_enums d) @ map AlterIndex (sd_alter_indexes d)"
    using assms(1) by (simp add: into_steps_def)
  have "DropTable nm \<notin> set ?pre" by auto
  from prefix_before [OF split this] obtain us where "xs = ?pre @ us" ..
  with assms(2) show ?thesis by simp
qed

lemma before_add_foreign_key:
  assumes "into_steps d = xs @ AddForeignKey a # ys" and "t \<in> set (sd_create_tables d)"
  shows "CreateTable t \<in> set xs"
proof -
  let ?pre = "map CreateSqlEnum (sd_create_enums d) @ map AlterSqlEnum (sd_alter_enums d) @
     map DropIndex (sd_drop_indexes d) @ map CreateTable (sd_create_tables d)"
  have split: "xs @ AddForeignKey a # ys = ?pre @ map AlterTable (sd_alter_tables d) @ map CreateIndex (sd_create_indexes d) @
     map AddForeignKey (sd_add_foreign_keys d) @ map DropTable (sd_drop_tables d) @
     map DropSqlEnum (sd_drop_enums d) @ map AlterIndex (sd_alter_indexes d)"
    using assms(1) by (simp add: into_steps_def)
  have "AddForeignKey a \<notin> set ?pre" by auto
  from prefix_before [OF split this] obtain us where "xs = ?pre @ us" ..
  with assms(2) show ?thesis by simp
qed

lemma in_into_steps:
  "DropTable nm \<in> set (into_steps d) \<longleftrightarrow> nm \<in> set (sd_drop_tables d)"
  "AddForeignKey a \<in> set (into_steps d) \<longleftrightarrow> a \<in> set (sd_add_foreign_keys d)"
  "AlterTable b \<in> set (into_steps d) \<longleftrightarrow> b \<in> set (sd_alter_tables d)"
  "AlterIndex c \<in> set (into_steps d) \<longleftrightarrow> c \<in> set (sd_alter_indexes d)"
  by (auto simp: into_steps_def)

definition references_closed :: "sql_schema \<Rightarrow> bool" where
  "references_closed s \<longleftrightarrow>
     list_all (\<lambda>t. list_all (\<lambda>fk. has_table s (fk_referenced_table fk)) (tbl_foreign_keys t)) (ss_tables s)"

lemma named_key_dropped_with_table:
  assumes "t \<in> set (dropped_tables opts p n)" and "fk \<in> set (tbl_foreign_keys t)" and "fk_constraint_name fk = Some c"
  shows "\<lparr>at_table = t, at_changes = [DropForeignKey c]\<rparr> \<in> set (sd_alter_tables (sql_diff opts family p n))"
  using assms by (force simp: sql_diff_def drop_tables_def in_map_filter)

lemma alter_table_of_changes:
  assumes "names_distinct n" and "pt \<in> set (ss_tables p)" and "nt \<in> set (ss_tables n)" and "tbl_name pt = tbl_name nt"
    and "table_changes opts pt nt \<noteq> []"
  shows "\<lparr>at_table = nt, at_changes = table_changes opts pt nt\<rparr> \<in> set (sd_alter_tables (sql_diff opts family p n))"
proof -
  have "schema_table n (tbl_name pt) = Inr nt"
    using assms(1,3,4) get_table_Some [of n "tbl_name pt" nt] by (simp add: schema_table_get names_distinct_def)
  then have "\<lparr>at_table = nt, at_changes = table_changes opts pt nt\<rparr> \<in> set (alter_tables opts p n)"
    using assms(2,5) by (force simp: alter_tables_def)
  then show ?thesis by (simp add: sql_diff_def drop_tables_def)
qed

lemma named_key_dropped_from_kept:
  assumes "names_distinct n" and "references_closed n" and "pt \<in> set (ss_tables p)" and "nt \<in> set (ss_tables n)"
    and "tbl_name pt = tbl_name nt" and "fk \<in> set (tbl_foreign_keys pt)" and "fk_constraint_name fk = Some c"
    and "\<not> has_table n (fk_referenced_table fk)"
  shows "DropForeignKey c \<in> set (table_changes opts pt nt)"
proof -
  have "\<not> foreign_keys_match fk fk'" if "fk' \<in> set (tbl_foreign_keys nt)" for fk'
    using assms(2,4,8) that by (auto simp: references_closed_def list_all_iff foreign_keys_match_def)
  then have "fk \<in> set (dropped_foreign_keys pt nt)"
    using assms(6) by (auto simp: dropped_foreign_keys_def set_diff_deleted)
  then have "DropForeignKey c \<in> set (drop_foreign_keys pt nt)"
    using assms(7) by (force simp: drop_foreign_keys_def in_map_filter)
  then show ?thesis by (simp add: table_changes_def)
qed

lemma keys_dropped_before_table:
  assumes "names_distinct n" and "references_closed n"
    and steps: "into_steps (sql_diff opts family p n) = xs @ DropTable nm # ys"
    and t: "t \<in> set (considered_tables opts p)" and fk: "fk \<in> set (tbl_foreign_keys t)"
    and ref: "fk_referenced_table fk = nm" and c: "fk_constraint_name fk = Some c"
  shows "\<exists>a. AlterTable a \<in> set xs \<and> tbl_name (at_table a) = tbl_name t \<and> DropForeignKey c \<in> set (at_changes a)"
proof -
  let ?d = "sql_diff opts family p n"
  have "nm \<in> set (sd_drop_tables ?d)" using steps in_into_steps(1) [of nm ?d] by simp
  then have nm: "nm \<in> considered_names opts p" "nm \<notin> considered_names opts n" unfolding dropped_names by auto
  then have "\<not> has_table n nm" by (auto simp: considered_names_iff has_table_iff)
  have "\<exists>a \<in> set (sd_alter_tables ?d). tbl_name (at_table a) = tbl_name t \<and> DropForeignKey c \<in> set (at_changes a)"
  proof (cases "t \<in> set (dropped_tables opts p n)")
    case True
    from named_key_dropped_with_table [OF this fk c] show ?thesis by force
  next
    case False
    then obtain nt where nt: "nt \<in> set (ss_tables n)" "tbl_name t = tbl_name nt"
      using t by (auto simp: dropped_tables_def list_ex_iff tables_match_def considered_tables_def)
    have pt: "t \<in> set (ss_tables p)" using t by (simp add: considered_tables_def)
    have ch: "DropForeignKey c \<in> set (table_changes opts t nt)"
      using named_key_dropped_from_kept [OF assms(1,2) pt nt fk c] \<open>\<not> has_table n nm\<close> ref by simp
    then have "table_changes opts t nt \<noteq> []" by auto
    from alter_table_of_changes [OF assms(1) pt nt this] ch nt show ?thesis by force
  qed
  then show ?thesis using before_drop_table [OF steps] by blast
qed

lemma created_before_reference:
  assumes "names_distinct n" and "references_closed n"
    and steps: "into_steps (sql_diff opts family p n) = xs @ AddForeignKey a # ys"
    and con: "\<not> table_is_ignored opts (fk_referenced_table (afk_foreign_key a))"
  shows "has_table p (fk_referenced_table (afk_foreign_key a))
    \<or> (\<exists>t. CreateTable t \<in> set xs \<and> tbl_name t = fk_referenced_table (afk_foreign_key a))"
proof -
  let ?d = "sql_diff opts family p n" and ?r = "fk_referenced_table (afk_foreign_key a)"
  have "a \<in> set (sd_add_foreign_keys ?d)" using steps in_into_steps(2) [of a ?d] by simp
  then have "a \<in> set (add_foreign_keys opts p n)" by (simp add: sql_diff_def drop_tables_def)
  moreover have "afk_foreign_key a \<in> \<Union> ((\<lambda>t. set (tbl_foreign_keys t)) ` set (ss_tables n))"
    if "a \<in> set (push_foreign_keys_from_created_tables (created_tables opts p n))"
    using that by (force simp: push_foreign_keys_from_created_tables_def created_tables_def considered_tables_def)
  moreover have "afk_foreign_key a \<in> \<Union> ((\<lambda>t. set (tbl_foreign_keys t)) ` set (ss_tables n))"
    if "a \<in> set (push_created_foreign_keys (table_pairs p n))"
    using that assms(1) by (force simp: push_created_foreign_keys_def created_foreign_keys_def set_diff_created
        table_pairs_iff names_distinct_def)
  ultimately have "has_table n ?r"
    using assms(2) by (auto simp: add_foreign_keys_def references_closed_def list_all_iff)
  then have "?r \<in> considered_names opts n" using con by (simp add: considered_names_iff has_table_iff)
  then consider "?r \<in> considered_names opts p" | "?r \<in> tbl_name ` set (sd_create_tables ?d)"
    unfolding created_names by blast
  then show ?thesis
  proof cases
    case 1
    then show ?thesis by (simp add: considered_names_iff has_table_iff)
  next
    case 2
    then obtain t where "t \<in> set (sd_create_tables ?d)" "tbl_name t = ?r" by auto
    then show ?thesis using before_add_foreign_key [OF steps] by blast
  qed
qed

end
