(* ===== verification/Sql_Inferrer_Laws.thy ===== *)
theory Sql_Inferrer_Laws
  imports Sql_Differ_Laws
begin

text \<open>
  Laws of the inference of database migrations: the steps of the differ refer to tables and
  columns that exist, so the inference neither panics nor fails; the steps it corrects for SQLite
  contain nothing SQLite cannot do; text literals of defaults decode to the value they render.
\<close>

section \<open>Alterations refer to existing tables and columns\<close>

lemma bex_map_filter: "(\<exists>y \<in> set (List.map_filter f xs). Q y) \<longleftrightarrow> (\<exists>x \<in> set xs. \<exists>y. f x = Some y \<and> Q y)"
  unfolding Bex_def in_map_filter by blast

lemma in_alter_tables:
  "a \<in> set (alter_tables opts p n) \<longleftrightarrow>
     (\<exists>pt nt. pt \<in> set (ss_tables p) \<and> get_table n (tbl_name pt) = Some nt \<and> table_changes opts pt nt \<noteq> []
        \<and> a = \<lparr>at_table = nt, at_changes = table_changes opts pt nt\<rparr>)"
proof -
  have "a \<in> set (case schema_table n (tbl_name pt) of
       Inr nt \<Rightarrow> (let changes = table_changes opts pt nt
                  in if changes = [] then [] else [\<lparr>at_table = nt, at_changes = changes\<rparr>])
     | Inl _ \<Rightarrow> []) \<longleftrightarrow> (\<exists>nt. get_table n (tbl_name pt) = Some nt \<and> table_changes opts pt nt \<noteq> []
      \<and> a = \<lparr>at_table = nt, at_changes = table_changes opts pt nt\<rparr>)" for pt
    by (cases "get_table n (tbl_name pt)") (simp_all add: schema_table_get Let_def)
  then show ?thesis by (simp only: alter_tables_def set_concat set_map UN_iff image_image bex_simps) blast
qed

definition foreign_key_drops :: "table \<Rightarrow> alter_table list" where
  "foreign_key_drops t =
     map (\<lambda>c. \<lparr>at_table = t, at_changes = [DropForeignKey c]\<rparr>) (List.map_filter fk_constraint_name (tbl_foreign_keys t))"

lemma in_foreign_key_drops:
  "a \<in> set (foreign_key_drops t) \<longleftrightarrow>
     (\<exists>fk c. fk \<in> set (tbl_foreign_keys t) \<and> fk_constraint_name fk = Some c
        \<and> a = \<lparr>at_table = t, at_changes = [DropForeignKey c]\<rparr>)"
  unfolding foreign_key_drops_def set_map image_iff bex_map_filter by blast

lemma sd_alter_tables_eq:
  "sd_alter_tables (sql_diff opts family p n) =
     alter_tables opts p n @ concat (map foreign_key_drops (dropped_tables opts p n))"
  by (simp add: sql_diff_def drop_tables_def foreign_key_drops_def [abs_def])

lemma in_sd_alter_tables:
  "a \<in> set (sd_alter_tables (sql_diff opts family p n)) \<longleftrightarrow>
     (\<exists>pt nt. pt \<in> set (ss_tables p) \<and> get_table n (tbl_name pt) = Some nt \<and> table_changes opts pt nt \<noteq> []
        \<and> a = \<lparr>at_table = nt, at_changes = table_changes opts pt nt\<rparr>)
   \<or> (\<exists>t fk c. t \<in> set (dropped_tables opts p n) \<and> fk \<in> set (tbl_foreign_keys t) \<and> fk_constraint_name fk = Some c
        \<and> a = \<lparr>at_table = t, at_changes = [DropForeignKey c]\<rparr>)"
proof -
  have "a \<in> set (concat (map foreign_key_drops (dropped_tables opts p n))) \<longleftrightarrow>
      (\<exists>t. t \<in> set (dropped_tables opts p n) \<and> a \<in> set (foreign_key_drops t))"
    by auto
  then show ?thesis
    unfolding sd_alter_tables_eq set_append Un_iff in_alter_tables in_foreign_key_drops by blast
qed

lemma altered_column_exists:
  assumes "AlterColumn ac \<in> set (table_changes opts pt nt)"
  shows "table_column pt (ac_name ac) \<noteq> None"
proof -
  have "AlterColumn ac \<in> set (alter_columns opts pt nt)"
    using assms by (auto simp: table_changes_def drop_foreign_keys_def drop_columns_def add_columns_def)
  then have "ac \<in> set (altered_columns opts pt nt)" by (auto simp: alter_columns_eq)
  then obtain pc nc where "(pc, nc) \<in> set (column_pairs pt nt)" "ac = \<lparr>ac_name = col_name pc, ac_column = nc\<rparr>"
    unfolding in_altered_columns by blast
  then have "pc \<in> set (tbl_columns pt)" "ac_name ac = col_name pc"
    unfolding column_pairs_def in_diff_pairs by simp_all
  then show ?thesis by (auto simp: table_column_def find_key_None)
qed

lemma table_of_names:
  assumes "names_distinct p" and "pt \<in> set (ss_tables p)"
  shows "get_table p (tbl_name pt) = Some pt"
  using assms get_table_Some [of p "tbl_name pt" pt] by (simp add: names_distinct_def)

lemma any_res_total:
  assumes "\<And>x. x \<in> set xs \<Longrightarrow> \<exists>b. P x = Inr b"
  shows "\<exists>b. any_res P xs = Inr b"
  using assms
proof (induction xs)
  case (Cons x xs)
  then obtain b b' where "P x = Inr b" "any_res P xs = Inr b'" by (metis list.set_intros)
  then show ?case by (cases b) auto
qed auto

lemma changes_id_column_total:
  assumes "\<And>ac. c = AlterColumn ac \<Longrightarrow> table_column pt (ac_name ac) \<noteq> None"
  shows "\<exists>b. changes_id_column pt c = Inr b"
proof (cases c)
  case (AlterColumn ac)
  then obtain col where "table_column pt (ac_name ac) = Some col" using assms by blast
  with AlterColumn show ?thesis by (simp add: changes_id_column_def)
qed (auto simp: changes_id_column_def)

lemma step_changes_id_type_total:
  assumes "names_distinct p" and "step \<in> set (into_steps (sql_diff opts family p n))"
  shows "\<exists>b. step_changes_id_type p step = Inr b"
proof (cases step)
  case (AlterTable a)
  then have "a \<in> set (sd_alter_tables (sql_diff opts family p n))" using assms(2) by (simp add: in_into_steps)
  then consider
      (kept) pt nt where "pt \<in> set (ss_tables p)" "get_table n (tbl_name pt) = Some nt"
        "a = \<lparr>at_table = nt, at_changes = table_changes opts pt nt\<rparr>"
    | (dropped) t c where "a = \<lparr>at_table = t, at_changes = [DropForeignKey c]\<rparr>"
    unfolding in_sd_alter_tables by blast
  then show ?thesis
  proof cases
    case kept
    have "tbl_name nt = tbl_name pt" using get_tableD [OF kept(2)] by simp
    then have "schema_table p (tbl_name (at_table a)) = Inr pt"
      using table_of_names [OF assms(1) kept(1)] kept(3) by (simp add: schema_table_get)
    moreover have "\<exists>b. any_res (changes_id_column pt) (at_changes a) = Inr b"
      using kept(3) altered_column_exists by (intro any_res_total changes_id_column_total) auto
    ultimately show ?thesis using AlterTable by (simp add: step_changes_id_type_def)
  next
    case dropped
    then show ?thesis using AlterTable
      by (cases "schema_table p (tbl_name t)") (auto simp: step_changes_id_type_def changes_id_column_def)
  qed
qed (auto simp: step_changes_id_type_def)

lemma fix_id_column_type_change_total:
  assumes "names_distinct p"
  shows "\<exists>steps. fix_id_column_type_change info p n (into_steps (sql_diff opts family p n)) = Inr steps"
proof -
  obtain b where "any_res (step_changes_id_type p) (into_steps (sql_diff opts family p n)) = Inr b"
    using any_res_total [of "into_steps (sql_diff opts family p n)" "step_changes_id_type p"]
      step_changes_id_type_total [OF assms] by blast
  then show ?thesis by (simp add: fix_id_column_type_change_def Let_def)
qed

section \<open>SQLite\<close>

definition default_renders :: "displays \<Rightarrow> column \<Rightarrow> bool" where
  "default_renders d c \<longleftrightarrow>
     (case col_default c of None \<Rightarrow> True | Some dv \<Rightarrow> \<not> isl (render_default d Sqlite dv (ct_family (col_tpe c))))"

definition sqlite_schema_ok :: "displays \<Rightarrow> sql_schema \<Rightarrow> bool" where
  "sqlite_schema_ok d s \<longleftrightarrow> list_all (\<lambda>t. list_all (default_renders d) (tbl_columns t)
     \<and> list_all (\<lambda>fk. fk_constraint_name fk = None) (tbl_foreign_keys t)) (ss_tables s)"

lemma coalesced_column_total:
  assumes "became_required_with_default opts (pc, nc)" and "default_renders d nc"
  shows "\<exists>s. coalesced_column d (pc, nc) = Inr s"
proof -
  obtain dv where dv: "col_default nc = Some dv"
    using assms(1) by (auto simp: became_required_with_default_def)
  then obtain s where "render_default d Sqlite dv (ct_family (col_tpe nc)) = Inr s"
    using assms(2) by (auto simp: default_renders_def isl_def) (metis sum.exhaust)
  with dv show ?thesis by (simp add: coalesced_column_def)
qed

lemma copy_total:
  assumes "list_all (default_renders d) (tbl_columns n)"
  shows "\<exists>s. copy_current_table_into_new_table d opts p n schema_name = Inr (RawSql s)"
proof -
  have "\<exists>s. coalesced_column d x = Inr s" if x: "x \<in> set (filter (became_required_with_default opts) (column_pairs p n))" for x
  proof -
    obtain pc nc where pn: "x = (pc, nc)" by (cases x)
    have "nc \<in> set (tbl_columns n)"
      using x find_SomeD [of "columns_match pc" "tbl_columns n" nc] by (simp add: pn column_pairs_def in_diff_pairs)
    with assms have "default_renders d nc" by (simp add: list_all_iff)
    with x show ?thesis unfolding pn by (intro coalesced_column_total [of opts]) simp_all
  qed
  then obtain ys where "collect_res (coalesced_column d) (filter (became_required_with_default opts) (column_pairs p n)) = Inr ys"
    using collect_res_total by meson
  then show ?thesis unfolding copy_current_table_into_new_table_def Let_def by (simp only: bind_res_Inr) (rule exI, rule refl)
qed

lemma sqlite_fix_table_total:
  assumes "get_table cur nm = Some ct" and "get_table nxt nm = Some nt" and "list_all (default_renders d) (tbl_columns nt)"
  shows "\<exists>sts. sqlite_fix_table d info cur nxt nm schema_name = Inr sts"
proof -
  have "list_all (default_renders d) (tbl_columns (nt\<lparr>tbl_name := ''new_'' @ tbl_name nt\<rparr>))" using assms(3) by simp
  from copy_total [OF this] obtain s where
    "copy_current_table_into_new_table d (from_database_info info) ct (nt\<lparr>tbl_name := ''new_'' @ tbl_name nt\<rparr>) schema_name
      = Inr (RawSql s)" by blast
  with assms(1,2) show ?thesis by (simp add: sqlite_fix_table_def fix_table_def Let_def)
qed

lemma alter_index_tables:
  assumes "ai \<in> set (alter_indexes p n)" and "names_distinct p" and "names_distinct n"
  shows "\<exists>pt nt. get_table p (ai_table ai) = Some pt \<and> get_table n (ai_table ai) = Some nt"
proof -
  obtain pt nt where pn: "(pt, nt) \<in> set (table_pairs p n)" "ai_table ai = tbl_name nt"
    using assms(1) by (auto simp: alter_indexes_def)
  then have "pt \<in> set (ss_tables p)" "nt \<in> set (ss_tables n)" "tbl_name pt = tbl_name nt"
    using assms(3) by (simp_all add: table_pairs_iff names_distinct_def)
  then have "get_table p (tbl_name nt) = Some pt" "get_table n (tbl_name nt) = Some nt"
    using table_of_names [OF assms(2), of pt] table_of_names [OF assms(3), of nt] by simp_all
  with pn(2) show ?thesis by simp
qed

lemma sqlite_alter_tables:
  assumes "a \<in> set (sd_alter_tables (sql_diff opts family p n))" and "names_distinct p" and "sqlite_schema_ok d p"
  shows "\<exists>pt nt. get_table p (tbl_name (at_table a)) = Some pt \<and> get_table n (tbl_name (at_table a)) = Some nt"
  using assms(1) unfolding in_sd_alter_tables
proof (elim disjE exE conjE)
  fix pt nt
  assume pt: "pt \<in> set (ss_tables p)" and nt: "get_table n (tbl_name pt) = Some nt"
    and a: "a = \<lparr>at_table = nt, at_changes = table_changes opts pt nt\<rparr>"
  have "tbl_name nt = tbl_name pt" using get_tableD [OF nt] by simp
  with nt table_of_names [OF assms(2) pt] a show ?thesis by simp
next
  fix t fk c
  assume "t \<in> set (dropped_tables opts p n)" "fk \<in> set (tbl_foreign_keys t)" "fk_constraint_name fk = Some c"
  with assms(3) show ?thesis
    by (auto simp: sqlite_schema_ok_def list_all_iff dropped_tables_def considered_tables_def)
qed

lemma sqlite_fix_total:
  assumes "names_distinct p" and "names_distinct n" and "sqlite_schema_ok d p" and "sqlite_schema_ok d n"
  shows "\<exists>steps. sqlite_fix d info (sql_diff opts family p n) p n schema_name = Inr steps"
proof -
  let ?D = "sql_diff opts family p n"
  have fixed: "\<exists>sts. sqlite_fix_table d info p n nm schema_name = Inr sts"
    if "get_table p nm = Some pt" "get_table n nm = Some nt" for nm pt nt
    using that assms(4) get_tableD [OF that(2)]
    by (intro sqlite_fix_table_total) (auto simp: sqlite_schema_ok_def list_all_iff)
  have "\<exists>s'. fix_step d info p n schema_name step st = Inr s'" if step: "step \<in> set (into_steps ?D)" for step st
  proof (cases step)
    case (AlterTable a)
    then have "a \<in> set (sd_alter_tables ?D)" using step by (simp add: in_into_steps)
    from sqlite_alter_tables [OF this assms(1,3)] fixed
    obtain sts where "sqlite_fix_table d info p n (tbl_name (at_table a)) schema_name = Inr sts" by blast
    with AlterTable show ?thesis by (simp add: fix_step_def Let_def)
  next
    case (AlterIndex ai)
    then have "ai \<in> set (alter_indexes p n)" using step by (simp add: in_into_steps sql_diff_def drop_tables_def)
    from alter_index_tables [OF this assms(1,2)] fixed
    obtain sts where "sqlite_fix_table d info p n (ai_table ai) schema_name = Inr sts" by blast
    with AlterIndex show ?thesis by (simp add: fix_step_def Let_def)
  qed (simp_all add: fix_step_def Let_def)
  then obtain s' where "run_steps (fix_step d info p n schema_name) (into_steps ?D) ([RawSql ''PRAGMA foreign_keys=OFF;''], []) = Inr s'"
    using run_steps_total [of "into_steps ?D" "fix_step d info p n schema_name"] by blast
  then show ?thesis by (cases s') (simp add: sqlite_fix_def)
qed

lemma infer_steps_total:
  assumes "names_distinct p" and "names_distinct n"
    and "is_sqlite (db_family info) \<longrightarrow> sqlite_schema_ok d p \<and> sqlite_schema_ok d n"
  shows "\<exists>corrected. infer_database_migration_steps_and_fix d info p n schema_name =
    Inr (into_steps (sql_diff (from_database_info info) (db_family info) p n), corrected)"
proof (cases "is_sqlite (db_family info)")
  case True
  with assms sqlite_fix_total [OF assms(1,2), of d info "from_database_info info" "db_family info" schema_name]
  show ?thesis by (auto simp: infer_database_migration_steps_and_fix_def)
next
  case False
  with fix_id_column_type_change_total [OF assms(1), of info n "from_database_info info" "db_family info"]
  show ?thesis by (auto simp: infer_database_migration_steps_and_fix_def)
qed

lemma infer_migration_total:
  assumes "names_distinct p" and "names_distinct n"
    and "is_sqlite (db_family info) \<longrightarrow> sqlite_schema_ok d p \<and> sqlite_schema_ok d n"
  shows "\<exists>m. infer_migration d info p n = Inr m \<and> sm_before m = p \<and> sm_after m = n
    \<and> sm_original_steps m = into_steps (sql_diff (from_database_info info) (db_family info) p n)"
proof -
  obtain c r where
    "infer_database_migration_steps_and_fix d info p n (db_schema_name info) =
       Inr (into_steps (sql_diff (from_database_info info) (db_family info) p n), c)"
    "infer_database_migration_steps_and_fix d info n p (db_schema_name info) =
       Inr (into_steps (sql_diff (from_database_info info) (db_family info) n p), r)"
    using infer_steps_total [OF assms] infer_steps_total [OF assms(2,1)] assms(3) by metis
  then show ?thesis by (simp add: infer_migration_def)
qed

section \<open>The corrected steps of SQLite\<close>

fun sqlite_ok :: "sql_schema \<Rightarrow> sql_migration_step \<Rightarrow> bool" where
  "sqlite_ok s (AlterIndex _) = False"
| "sqlite_ok s (AlterTable a) \<longleftrightarrow> \<not> (needs_fix a \<and> has_table s (tbl_name (at_table a)))"
| "sqlite_ok s _ = True"

lemma sqlite_fix_table_ok:
  assumes "sqlite_fix_table d info cur nxt nm schema_name = Inr sts"
  shows "list_all (sqlite_ok cur) sts"
proof -
  obtain ct nt where "fix_table d info ct nt schema_name = Inr sts"
    using assms by (auto simp: sqlite_fix_table_def bind_res_eq_Inr)
  then obtain copy where copy: "copy_current_table_into_new_table d (from_database_info info) ct
        (nt\<lparr>tbl_name := ''new_'' @ tbl_name nt\<rparr>) schema_name = Inr copy"
    and sts: "sts = [CreateTable (nt\<lparr>tbl_name := ''new_'' @ tbl_name nt\<rparr>), copy, DropTable (tbl_name ct),
          RenameTable (''new_'' @ tbl_name nt) (tbl_name nt)] @
          map (\<lambda>i. CreateIndex \<lparr>ci_table = tbl_name nt, ci_index = i\<rparr>) (tbl_indices nt)"
    by (simp only: fix_table_def Let_def bind_res_eq_Inr sum.inject) blast
  have "\<exists>raw. copy = RawSql raw"
    using copy by (simp only: copy_current_table_into_new_table_def Let_def bind_res_eq_Inr sum.inject) blast
  then show ?thesis unfolding sts by (auto simp: list_all_iff)
qed

lemma fix_step_ok:
  assumes "fix_step d info cur nxt schema_name step st = Inr st'"
  shows "\<exists>us. fst st' = fst st @ us \<and> list_all (sqlite_ok cur) us"
proof -
  have redefined: ?thesis
    if "bind_res (sqlite_fix_table d info cur nxt nm schema_name) (\<lambda>sts. Inr (fst st @ sts, snd st @ [nm])) = Inr st'" for nm
    using that sqlite_fix_table_ok by (auto simp: bind_res_eq_Inr)
  show ?thesis
  proof (cases step)
    case (AlterTable a)
    then show ?thesis
      using assms redefined by (auto simp: fix_step_def Let_def split: if_splits)
  next
    case (AlterIndex ai)
    then show ?thesis using assms redefined by (auto simp: fix_step_def Let_def)
  qed (use assms in \<open>auto simp: fix_step_def Let_def split: if_splits\<close>)
qed

lemma fix_steps_ok:
  assumes "run_steps (fix_step d info cur nxt schema_name) steps st = Inr st'"
  shows "\<exists>us. fst st' = fst st @ us \<and> list_all (sqlite_ok cur) us"
  using assms
proof (induction steps arbitrary: st)
  case (Cons step steps)
  then obtain st1 where st1: "fix_step d info cur nxt schema_name step st = Inr st1"
    and rest: "run_steps (fix_step d info cur nxt schema_name) steps st1 = Inr st'"
    by (auto simp: bind_res_eq_Inr)
  from fix_step_ok [OF st1] Cons.IH [OF rest] show ?case by (metis append.assoc list_all_append)
qed simp

lemma sqlite_fix_shape:
  assumes "sqlite_fix d info diff cur nxt schema_name = Inr steps"
  shows "steps = [] \<or> (\<exists>mid. list_all (sqlite_ok cur) mid \<and>
    steps = RawSql ''PRAGMA foreign_keys=OFF;'' # mid @
      [RawSql (''PRAGMA '' @ sqlite_ident schema_name @ ''.foreign_key_check;''), RawSql ''PRAGMA foreign_keys=ON;''])"
proof -
  obtain st' where run: "run_steps (fix_step d info cur nxt schema_name) (into_steps diff)
      ([RawSql ''PRAGMA foreign_keys=OFF;''], []) = Inr st'"
    and steps: "steps = (if length (fst st') = 1 then [] else fst st' @
      [RawSql (''PRAGMA '' @ sqlite_ident schema_name @ ''.foreign_key_check;''), RawSql ''PRAGMA foreign_keys=ON;''])"
    using assms by (auto simp: sqlite_fix_def bind_res_eq_Inr split: if_splits)
  from fix_steps_ok [OF run] obtain us where "fst st' = RawSql ''PRAGMA foreign_keys=OFF;'' # us"
    "list_all (sqlite_ok cur) us" by auto
  with steps show ?thesis by auto
qed

section \<open>Literals\<close>

text \<open>
  How a database reads a literal, after the opening quote: up to the closing quote, a doubled quote
  stands for a quote; with backslash escapes (PostgreSQL \<open>E'..'\<close>, MySQL) a backslash and a quote or
  a backslash stand for the second character. The result is the value and the text behind.
\<close>

fun read_literal :: "bool \<Rightarrow> string \<Rightarrow> (string \<times> string) option" where
  "read_literal escapes [] = None"
| "read_literal escapes [c] = (if c = squote then Some ([], []) else None)"
| "read_literal escapes (c # c' # cs) =
     (if escapes \<and> c = bslash then
        (if c' = bslash \<or> c' = squote then map_option (apfst ((#) c')) (read_literal escapes cs) else None)
      else if c = squote then
        (if c' = squote then map_option (apfst ((#) squote)) (read_literal escapes cs) else Some ([], c' # cs))
      else map_option (apfst ((#) c)) (read_literal escapes (c' # cs)))"

definition decode_literal :: "sql_family \<Rightarrow> string \<Rightarrow> (string \<times> string) option" where
  "decode_literal sql s =
     (case sql of
        Postgres \<Rightarrow> (if take 2 s = [CHR ''E'', squote] then read_literal True (drop 2 s) else None)
      | Mysql \<Rightarrow> (if take 1 s = [squote] then read_literal True (drop 1 s) else None)
      | Sqlite \<Rightarrow> (if take 1 s = [squote] then read_literal False (drop 1 s) else None))"

lemma read_literal_end:
  "rest = [] \<or> hd rest \<noteq> squote \<Longrightarrow> read_literal escapes (squote # rest) = Some ([], rest)"
  by (cases rest) auto

lemma read_literal_plain:
  assumes "c \<noteq> squote" and "\<not> (escapes \<and> c = bslash)" and "cs \<noteq> []"
  shows "read_literal escapes (c # cs) = map_option (apfst ((#) c)) (read_literal escapes cs)"
  using assms by (cases cs) auto

lemma read_doubled:
  assumes "rest = [] \<or> hd rest \<noteq> squote"
  shows "read_literal False (escape_with (\<lambda>c. c = squote) squote s @ squote # rest) = Some (s, rest)"
  using read_literal_end [OF assms, of False]
  by (induction s) (auto simp: escape_with_def read_literal_plain)

lemma read_escaped:
  assumes "rest = [] \<or> hd rest \<noteq> squote"
  shows "read_literal True (escape_with (\<lambda>c. c = squote \<or> c = bslash) bslash s @ squote # rest) = Some (s, rest)"
  using read_literal_end [OF assms, of True]
  by (induction s) (auto simp: escape_with_def read_literal_plain)

lemma decode_render_literal:
  assumes "sql \<noteq> Mysql" and "rest = [] \<or> hd rest \<noteq> squote"
  shows "decode_literal sql (render_literal sql s @ rest) = Some (s, rest)"
  using assms(1) read_doubled [OF assms(2), of s] read_escaped [OF assms(2), of s]
  by (cases sql) (simp_all add: decode_literal_def render_literal_def sqlite_escape_quotes_def
      postgres_escape_string_literal_def)

lemma read_mysql_backslash:
  assumes "squote \<notin> set s" and "bslash \<notin> set s"
  shows "read_literal True (s @ [bslash, squote]) = None"
  using assms by (induction s) (auto simp: read_literal_plain)

lemma escape_with_plain: "(\<And>c. c \<in> set s \<Longrightarrow> \<not> special c) \<Longrightarrow> escape_with special prefix s = s"
  by (induction s) (auto simp: escape_with_def)

section \<open>Primary keys\<close>

lemma str_prefix_append: "str_prefix needle s \<Longrightarrow> str_prefix needle (s @ t)"
  by (induction needle s rule: str_prefix.induct) auto

lemma str_contains_prefix: "str_prefix needle s \<Longrightarrow> str_contains s needle"
  by (cases s; cases needle) auto

lemma str_contains_append: "str_contains s needle \<Longrightarrow> str_contains (s @ t) needle"
proof (induction s)
  case Nil
  then show ?case by (cases t) auto
next
  case (Cons c s)
  then show ?case using str_prefix_append [of needle "c # s" t] by auto
qed

lemma str_contains_behind: "str_contains s needle \<Longrightarrow> str_contains (r @ s) needle"
  by (induction r) auto

lemma str_contains_inside: "str_contains s needle \<Longrightarrow> str_contains (r @ s @ t) needle"
  by (intro str_contains_behind str_contains_append)

lemma quoted_contains: "str_contains name needle \<Longrightarrow> str_contains (quote_with_schema sql schema_name name) needle"
proof -
  assume "str_contains name needle"
  then have "str_contains (quote sql name) needle"
    using str_contains_inside [of name needle "[dquote]" "[dquote]"] str_contains_inside [of name needle "[backtick]" "[backtick]"]
    by (cases sql) (simp_all add: renderer_quote_def)
  then show ?thesis unfolding quote_with_schema_def by (metis append.assoc str_contains_behind)
qed

lemma foreign_key_for_column_pk: "foreign_key_for_column (t\<lparr>tbl_primary_key := pk\<rparr>) = foreign_key_for_column t"
  by (simp add: fun_eq_iff foreign_key_for_column_def)

lemma render_column_ignores_primary_key:
  "render_column d sql \<lparr>cr_schema = s, cr_column = c, cr_table = t\<lparr>tbl_primary_key := pk\<rparr>\<rparr> =
   render_column d sql \<lparr>cr_schema = s, cr_column = c, cr_table = t\<rparr>"
  unfolding render_column_def mysql_render_column_def postgres_render_column_def sqlite_render_column_def
    mysql_render_column_type_def default_str_def render_nullability_def column_ref.select_convs
    foreign_key_for_column_pk by (rule refl)

lemma create_table_without_primary_key:
  assumes "str_contains (tbl_name t) ''PRIMARY KEY''"
  shows "render_create_table d sql schema_name s t = render_create_table d sql schema_name s (t\<lparr>tbl_primary_key := None\<rparr>)"
proof -
  have "str_contains (''CREATE TABLE '' @ quote_with_schema sql schema_name (tbl_name t) @ rest) ''PRIMARY KEY''" for rest
    by (intro str_contains_inside quoted_contains assms)
  then have set: "str_contains (''CREATE TABLE '' @ quote_with_schema sql schema_name (tbl_name t) @ '' ('' @ nl @ cols)
      ''PRIMARY KEY'' = True" for cols
    by blast
  have sel: "tbl_columns (t\<lparr>tbl_primary_key := None\<rparr>) = tbl_columns t"
    "tbl_name (t\<lparr>tbl_primary_key := None\<rparr>) = tbl_name t"
    "tbl_foreign_keys (t\<lparr>tbl_primary_key := None\<rparr>) = tbl_foreign_keys t" by simp_all
  show ?thesis
    unfolding render_create_table_def render_column_ignores_primary_key sel Let_def
    by (simp only: set not_True_eq_False simp_thms if_False)
qed

end
