(* ===== verification/Sql_Properties.thy ===== *)
theory Sql_Properties
  imports Sql_Inferrer_Laws
begin

text \<open>
  The properties of the SQL side of a migration: what the schema differ finds, in which order its
  steps come, what inference makes of them, and what the renderer writes for a default.
\<close>

section \<open>Example schemas\<close>

definition ex_column :: "string \<Rightarrow> column_type_family \<Rightarrow> column_arity \<Rightarrow> column" where
  "ex_column name family arity =
     \<lparr>col_name = name, col_tpe = column_type_pure family arity, col_default = None, col_auto_increment = False\<rparr>"

definition ex_table :: "string \<Rightarrow> column list \<Rightarrow> foreign_key list \<Rightarrow> table" where
  "ex_table name cols fks =
     \<lparr>tbl_name = name, tbl_columns = cols, tbl_indices = [\<lparr>idx_name = name @ ''_idx'', idx_columns = [''id''], idx_tpe = IUnique\<rparr>],
      tbl_primary_key = Some \<lparr>pk_columns = [''id''], pk_sequence = None\<rparr>, tbl_foreign_keys = fks\<rparr>"

definition ex_key :: "string option \<Rightarrow> string \<Rightarrow> foreign_key" where
  "ex_key cname referenced =
     \<lparr>fk_constraint_name = cname, fk_columns = [''ref''], fk_referenced_table = referenced,
      fk_referenced_columns = [''id''], fk_on_delete_action = Cascade\<rparr>"

definition ex_shop :: "string option \<Rightarrow> sql_schema" where
  "ex_shop cname = \<lparr>ss_tables =
     [ex_table ''User'' [ex_column ''id'' FInt ARequired, ex_column ''age'' FInt ANullable, ex_column ''old'' FInt ANullable] [],
      ex_table ''Post'' [ex_column ''id'' FInt ARequired, ex_column ''ref'' FInt ANullable] [ex_key cname ''User'']],
    ss_enums = [\<lparr>se_name = ''Color'', se_values = [''RED'']\<rparr>], ss_sequences = []\<rparr>"

definition ex_blog :: "string option \<Rightarrow> sql_schema" where
  "ex_blog cname = \<lparr>ss_tables =
     [ex_table ''Post'' [ex_column ''id'' FInt ARequired, ex_column ''ref'' FString ANullable] [ex_key cname ''Author''],
      ex_table ''Author'' [ex_column ''id'' FInt ARequired, ex_column ''name'' FString ANullable] []],
    ss_enums = [], ss_sequences = []\<rparr>"

definition ex_info :: "sql_family \<Rightarrow> database_info" where
  "ex_info family = \<lparr>db_family = family, db_schema_name = ''prisma'', db_version = None\<rparr>"

definition ex_displays :: displays where
  "ex_displays = \<lparr>disp_decimal = (\<lambda>_. ''0.0''), disp_datetime = (\<lambda>_. ''2020-01-01''), disp_uuid = (\<lambda>_. ''uuid''),
     debug_list = (\<lambda>_. ''[]'')\<rparr>"


lemma ex_step_split:
  assumes "k < length xs" and "xs ! k = x"
  shows "xs = take k xs @ x # drop (Suc k) xs"
  using id_take_nth_drop [OF assms(1)] assms(2) by simp

definition ex_steps :: "sql_migration_step list" where
  "ex_steps = into_steps (sql_diff (from_database_info (ex_info Postgres)) Postgres (ex_shop (Some ''fk'')) (ex_blog (Some ''fk'')))"

section \<open>The schema differ\<close>





text \<open>
  C20. The differ creates exactly the tables that are only in the new schema and drops exactly those
  that are only in the old one; the migration table and the tables of ignored extensions are neither
  created nor dropped.
\<close>
theorem created_and_dropped_tables:
  "(CreateTable t \<in> set (into_steps (sql_diff opts family p n)) \<longleftrightarrow>
      t \<in> set (ss_tables n) \<and> \<not> table_is_ignored opts (tbl_name t) \<and> \<not> has_table p (tbl_name t)) \<and>
   (DropTable nm \<in> set (into_steps (sql_diff opts family p n)) \<longleftrightarrow>
      has_table p nm \<and> \<not> table_is_ignored opts nm \<and> \<not> has_table n nm)"
proof -
  have "CreateTable t \<in> set (into_steps d) \<longleftrightarrow> t \<in> set (sd_create_tables d)" for d
    by (auto simp: into_steps_def)
  then have "CreateTable t \<in> set (into_steps (sql_diff opts family p n)) \<longleftrightarrow>
      t \<in> set (ss_tables n) \<and> \<not> table_is_ignored opts (tbl_name t) \<and> \<not> has_table p (tbl_name t)"
    by (auto simp: sql_diff_def drop_tables_def create_tables_def created_tables_def considered_tables_def)
  moreover have "DropTable nm \<in> set (into_steps (sql_diff opts family p n)) \<longleftrightarrow>
      has_table p nm \<and> \<not> table_is_ignored opts nm \<and> \<not> has_table n nm"
    unfolding in_into_steps dropped_names Diff_iff considered_names_iff
    by (auto simp: has_table_iff)
  ultimately show ?thesis ..
qed

text \<open>
  C13. A table is dropped only after every named foreign key that points to it: in the steps of a diff,
  each \<open>DropTable\<close> comes after the \<open>AlterTable\<close> steps that drop the keys referencing it, whether the
  table holding the key stays or is dropped itself. The new schema has no dangling reference.
\<close>
theorem keys_dropped_before_their_table:
  assumes "names_distinct n" and "references_closed n"
    and "into_steps (sql_diff opts family p n) = xs @ DropTable nm # ys"
    and "t \<in> set (ss_tables p)" and "\<not> table_is_ignored opts (tbl_name t)" and "fk \<in> set (tbl_foreign_keys t)"
    and "fk_referenced_table fk = nm" and "fk_constraint_name fk = Some c"
  shows "\<exists>a. AlterTable a \<in> set xs \<and> tbl_name (at_table a) = tbl_name t \<and> DropForeignKey c \<in> set (at_changes a)"
  by (rule keys_dropped_before_table [OF assms(1-3) _ assms(6-8)]) (simp add: considered_tables_def assms)

theorem keys_dropped_before_their_table_witness:
  "ex_steps ! 4 = DropTable ''User'' \<and>
   (\<exists>a. AlterTable a \<in> set (take 4 ex_steps) \<and> tbl_name (at_table a) = ''Post'' \<and> DropForeignKey ''fk'' \<in> set (at_changes a))"
proof -
  let ?t = "ss_tables (ex_shop (Some ''fk'')) ! 1"
  have step: "ex_steps ! 4 = DropTable ''User''" and len: "4 < length ex_steps" by code_simp+
  have "\<exists>a. AlterTable a \<in> set (take 4 ex_steps) \<and> tbl_name (at_table a) = tbl_name ?t \<and> DropForeignKey ''fk'' \<in> set (at_changes a)"
  proof (rule keys_dropped_before_their_table)
    show "into_steps (sql_diff (from_database_info (ex_info Postgres)) Postgres (ex_shop (Some ''fk'')) (ex_blog (Some ''fk''))) =
        take 4 ex_steps @ DropTable ''User'' # drop (Suc 4) ex_steps"
      using ex_step_split [OF len step] unfolding ex_steps_def .
    show "names_distinct (ex_blog (Some ''fk''))" by code_simp
    show "references_closed (ex_blog (Some ''fk''))" by code_simp
    show "?t \<in> set (ss_tables (ex_shop (Some ''fk'')))" by (simp add: ex_shop_def)
    show "\<not> table_is_ignored (from_database_info (ex_info Postgres)) (tbl_name ?t)" by code_simp
    show "ex_key (Some ''fk'') ''User'' \<in> set (tbl_foreign_keys ?t)" by (simp add: ex_shop_def ex_table_def)
  qed (simp_all add: ex_key_def)
  moreover have "tbl_name ?t = ''Post''" by code_simp
  ultimately show ?thesis using step by simp
qed

text \<open>
  C14. A foreign key is added only when the table it points to exists: before each \<open>AddForeignKey\<close> of
  a diff the referenced table is in the old schema or a \<open>CreateTable\<close> step has made it.
\<close>
theorem tables_created_before_their_keys:
  assumes "names_distinct n" and "references_closed n"
    and "into_steps (sql_diff opts family p n) = xs @ AddForeignKey a # ys"
    and "\<not> table_is_ignored opts (fk_referenced_table (afk_foreign_key a))"
  shows "has_table p (fk_referenced_table (afk_foreign_key a))
    \<or> (\<exists>t. CreateTable t \<in> set xs \<and> tbl_name t = fk_referenced_table (afk_foreign_key a))"
  using assms by (rule created_before_reference)

theorem tables_created_before_their_keys_witness:
  "ex_steps ! 3 = AddForeignKey \<lparr>afk_table = ''Post'', afk_foreign_key = ex_key (Some ''fk'') ''Author''\<rparr> \<and>
   \<not> has_table (ex_shop (Some ''fk'')) ''Author'' \<and> (\<exists>t. CreateTable t \<in> set (take 3 ex_steps) \<and> tbl_name t = ''Author'')"
proof -
  let ?a = "\<lparr>afk_table = ''Post'', afk_foreign_key = ex_key (Some ''fk'') ''Author''\<rparr>"
  have step: "ex_steps ! 3 = AddForeignKey ?a" and len: "3 < length ex_steps" by code_simp+
  have new: "\<not> has_table (ex_shop (Some ''fk'')) ''Author''" by code_simp
  have "has_table (ex_shop (Some ''fk'')) (fk_referenced_table (afk_foreign_key ?a))
    \<or> (\<exists>t. CreateTable t \<in> set (take 3 ex_steps) \<and> tbl_name t = fk_referenced_table (afk_foreign_key ?a))"
  proof (rule tables_created_before_their_keys)
    show "into_steps (sql_diff (from_database_info (ex_info Postgres)) Postgres (ex_shop (Some ''fk'')) (ex_blog (Some ''fk''))) =
        take 3 ex_steps @ AddForeignKey ?a # drop (Suc 3) ex_steps"
      using ex_step_split [OF len step] unfolding ex_steps_def .
    show "names_distinct (ex_blog (Some ''fk''))" by code_simp
    show "references_closed (ex_blog (Some ''fk''))" by code_simp
    show "\<not> table_is_ignored (from_database_info (ex_info Postgres)) (fk_referenced_table (afk_foreign_key ?a))" by code_simp
  qed
  then show ?thesis using step new by (simp add: ex_key_def)
qed

section \<open>Inference\<close>





section \<open>Rendering\<close>

text \<open>
  C29. A string default survives rendering on Postgres and SQLite: the database, reading the literal by
  its own escaping rules, gets back the string of the default and stops at the end of the literal,
  whatever quotes and backslashes the string has.
\<close>
theorem string_default_read_back:
  assumes "sql \<noteq> Mysql" and "rest = [] \<or> hd rest \<noteq> squote"
  shows "\<exists>lit. render_default d sql (DVALUE (PString s)) FString = Inr lit \<and> decode_literal sql (lit @ rest) = Some (s, rest)"
  using decode_render_literal [OF assms, of s]
  by (simp add: render_default_def string_like_default_def)

theorem string_default_read_back_witness:
  "\<exists>lit. render_default ex_displays Postgres (DVALUE (PString [squote, bslash, CHR ''n''])) FString = Inr lit
     \<and> decode_literal Postgres (lit @ '' NOT NULL'') = Some ([squote, bslash, CHR ''n''], '' NOT NULL'')"
  by (rule string_default_read_back) simp_all



text \<open>
  C37. A table whose name contains \<open>PRIMARY KEY\<close> is created without its primary key: the renderer looks
  for these words in the text it has written so far, and the name is part of that text.
\<close>
theorem primary_key_lost_by_name:
  assumes "str_contains (tbl_name t) ''PRIMARY KEY''"
  shows "render_create_table d sql schema_name s t = render_create_table d sql schema_name s (t\<lparr>tbl_primary_key := None\<rparr>)"
  using assms by (rule create_table_without_primary_key)

theorem primary_key_lost_by_name_witness:
  "let t = ex_table ''NO PRIMARY KEY'' [ex_column ''id'' FInt ARequired] [] in
   tbl_primary_key t \<noteq> None \<and>
   render_create_table ex_displays Postgres ''public'' empty_schema t =
   render_create_table ex_displays Postgres ''public'' empty_schema (t\<lparr>tbl_primary_key := None\<rparr>)"
proof -
  let ?t = "ex_table ''NO PRIMARY KEY'' [ex_column ''id'' FInt ARequired] []"
  have "str_contains (tbl_name ?t) ''PRIMARY KEY''" by code_simp
  then show ?thesis
    using primary_key_lost_by_name [of ?t ex_displays Postgres "''public''" empty_schema] by (simp add: Let_def ex_table_def)
qed

end
