(* ===== verification/Effects.thy ===== *)
theory Effects
  imports Engine_Prelude
begin

text \<open>
  Operations with effects: a function from a state to a result and the state it leaves behind, so
  that an error keeps the effects before it. \<open>bind_eff\<close> is the question mark operator of the
  sources, \<open>fold_eff\<close> a loop over a list with an accumulator. The collection \<open>eff_simps\<close> carries
  their equations. \<open>keeps\<close> says that an operation leaves an observation of the state alone, on
  every outcome.
\<close>

section \<open>Operations with effects\<close>

type_synonym ('w, 'e, 'a) eff = "'w \<Rightarrow> ('e, 'a) res \<times> 'w"

definition return_eff :: "'a \<Rightarrow> ('w, 'e, 'a) eff" where
  "return_eff a w = (Inr a, w)"

definition fail_eff :: "'e \<Rightarrow> ('w, 'e, 'a) eff" where
  "fail_eff e w = (Inl e, w)"

definition bind_eff :: "('w, 'e, 'a) eff \<Rightarrow> ('a \<Rightarrow> ('w, 'e, 'b) eff) \<Rightarrow> ('w, 'e, 'b) eff" where
  "bind_eff m f w = (case m w of (Inl e, w') \<Rightarrow> (Inl e, w') | (Inr a, w') \<Rightarrow> f a w')"

definition lift_eff :: "('e, 'a) res \<Rightarrow> ('w, 'e, 'a) eff" where
  "lift_eff r w = (r, w)"

named_theorems eff_simps

lemma return_eff_run [eff_simps, simp]: "return_eff a w = (Inr a, w)"
  by (simp add: return_eff_def)

lemma fail_eff_run [eff_simps, simp]: "fail_eff e w = (Inl e, w)"
  by (simp add: fail_eff_def)

lemma lift_eff_run [eff_simps, simp]: "lift_eff r w = (r, w)"
  by (simp add: lift_eff_def)

lemma bind_eff_Inr [eff_simps, simp]: "m w = (Inr a, w') \<Longrightarrow> bind_eff m f w = f a w'"
  by (simp add: bind_eff_def)

lemma bind_eff_Inl [eff_simps, simp]: "m w = (Inl e, w') \<Longrightarrow> bind_eff m f w = (Inl e, w')"
  by (simp add: bind_eff_def)

lemma bind_eff_eq:
  "bind_eff m f w = (r, w') \<longleftrightarrow>
     (\<exists>e. m w = (Inl e, w') \<and> r = Inl e) \<or> (\<exists>a w1. m w = (Inr a, w1) \<and> f a w1 = (r, w'))"
  by (auto simp: bind_eff_def split: prod.splits sum.splits)

lemma bind_eff_assoc: "bind_eff (bind_eff m f) g = bind_eff m (\<lambda>a. bind_eff (f a) g)"
  by (auto simp: bind_eff_def fun_eq_iff split: prod.splits sum.splits)

fun fold_eff :: "('x \<Rightarrow> 's \<Rightarrow> ('w, 'e, 's) eff) \<Rightarrow> 'x list \<Rightarrow> 's \<Rightarrow> ('w, 'e, 's) eff" where
  "fold_eff f [] s = return_eff s"
| "fold_eff f (x # xs) s = bind_eff (f x s) (fold_eff f xs)"

lemma fold_eff_append: "fold_eff f (xs @ ys) s = bind_eff (fold_eff f xs s) (fold_eff f ys)"
proof (induction xs arbitrary: s)
  case Nil
  then show ?case by (simp add: fun_eq_iff bind_eff_def)
next
  case (Cons x xs)
  then have "fold_eff f (xs @ ys) = (\<lambda>a. bind_eff (fold_eff f xs a) (fold_eff f ys))" by (intro ext) simp
  then show ?case by (simp add: bind_eff_assoc)
qed

section \<open>Frames\<close>

definition keeps :: "('w \<Rightarrow> 'v) \<Rightarrow> ('w, 'e, 'a) eff \<Rightarrow> bool" where
  "keeps view m \<longleftrightarrow> (\<forall>w. view (snd (m w)) = view w)"

named_theorems keeps_intros

lemma keepsD: "keeps view m \<Longrightarrow> m w = (r, w') \<Longrightarrow> view w' = view w"
  by (metis keeps_def snd_conv)

lemma keeps_return [keeps_intros, simp]: "keeps view (return_eff a)"
  by (simp add: keeps_def)

lemma keeps_fail [keeps_intros, simp]: "keeps view (fail_eff e)"
  by (simp add: keeps_def)

lemma keeps_lift [keeps_intros, simp]: "keeps view (lift_eff r)"
  by (simp add: keeps_def)

lemma keeps_bind [keeps_intros]:
  assumes "keeps view m" and "\<And>a. keeps view (f a)"
  shows "keeps view (bind_eff m f)"
  unfolding keeps_def
proof
  fix w
  show "view (snd (bind_eff m f w)) = view w"
  proof (cases "m w")
    case (Pair r w1)
    then have "view w1 = view w" using assms(1) by (rule keepsD [rotated])
    with Pair assms(2) show ?thesis
      by (cases r) (auto simp: keeps_def)
  qed
qed

lemma keeps_fold [keeps_intros]:
  assumes "\<And>x s. x \<in> set xs \<Longrightarrow> keeps view (f x s)"
  shows "keeps view (fold_eff f xs s)"
  using assms by (induction xs arbitrary: s) (auto intro!: keeps_bind)

end
