(* ===== verification/Migration_Persistence.thy ===== *)
theory Migration_Persistence
  imports Effects Migration_Steps Sql_Schema "HOL-Library.Signed_Division"
begin

text \<open>
  The persisted migrations (\<open>migration-connector/src/migration_persistence.rs\<close> and
  \<open>sql-migration-connector/src/sql_migration_persistence.rs\<close>): the migration records, their
  status, and the SQL table that stores them. The database is an explicit world: the rows of the
  migration table (\<open>None\<close> before it is created), the next value of its auto-increment key, a
  schedule of faults (each query consumes one entry; \<open>True\<close> makes it fail) and the database schema
  the migrations act on. An operation returns its result and the world it leaves behind, so an
  error keeps the effects before it.
\<close>

section \<open>Status of a migration\<close>

datatype migration_status =
    Pending
  | MigrationInProgress
  | MigrationSuccess
  | MigrationFailure
  | RollingBack
  | RollbackSuccess
  | RollbackFailure

fun status_code :: "migration_status \<Rightarrow> string" where
  "status_code Pending = ''Pending''"
| "status_code MigrationInProgress = ''MigrationInProgress''"
| "status_code MigrationSuccess = ''MigrationSuccess''"
| "status_code MigrationFailure = ''MigrationFailure''"
| "status_code RollingBack = ''RollingBack''"
| "status_code RollbackSuccess = ''RollbackSuccess''"
| "status_code RollbackFailure = ''RollbackFailure''"

text \<open>\<open>None\<close> is the panic on an unknown status.\<close>

definition status_from_str :: "string \<Rightarrow> migration_status option" where
  "status_from_str s =
     (if s = ''Pending'' then Some Pending
      else if s = ''MigrationInProgress'' then Some MigrationInProgress
      else if s = ''MigrationSuccess'' then Some MigrationSuccess
      else if s = ''MigrationFailure'' then Some MigrationFailure
      else if s = ''RollingBack'' then Some RollingBack
      else if s = ''RollbackSuccess'' then Some RollbackSuccess
      else if s = ''RollbackFailure'' then Some RollbackFailure
      else None)"

fun status_is_success :: "migration_status \<Rightarrow> bool" where
  "status_is_success MigrationSuccess = True"
| "status_is_success _ = False"

fun status_is_pending :: "migration_status \<Rightarrow> bool" where
  "status_is_pending Pending = True"
| "status_is_pending _ = False"

lemma status_from_str_code [simp]: "status_from_str (status_code s) = Some s"
  by (cases s) (simp_all add: status_from_str_def)

lemma status_code_inj [simp]: "status_code s = status_code t \<longleftrightarrow> s = t"
  by (metis option.inject status_from_str_code)

section \<open>Time stamps\<close>

text \<open>
  A UTC date-time as seconds and nanoseconds. Rust's \<open>/\<close> and \<open>%\<close> truncate towards zero, and
  \<open>as u32\<close> wraps; the constructor of the chrono crate panics (\<open>None\<close>) from two seconds of
  nanoseconds on.
\<close>

record datetime =
  dt_secs :: int
  dt_nsecs :: int

definition timestamp_millis :: "datetime \<Rightarrow> int" where
  "timestamp_millis d = dt_secs d * 1000 + dt_nsecs d div 1000000"

definition from_timestamp :: "int \<Rightarrow> int \<Rightarrow> datetime option" where
  "from_timestamp secs nsecs = (if nsecs < 2000000000 then Some \<lparr>dt_secs = secs, dt_nsecs = nsecs\<rparr> else None)"

definition timestamp_to_datetime :: "int \<Rightarrow> datetime option" where
  "timestamp_to_datetime timestamp =
     (let nsecs = ((timestamp smod 1000) * 1000000) mod 2 ^ 32;
          secs = timestamp sdiv 1000
      in from_timestamp secs nsecs)"

definition timestamp_without_nanos :: "datetime \<Rightarrow> datetime option" where
  "timestamp_without_nanos now = timestamp_to_datetime (timestamp_millis now)"

definition whole_millis :: "datetime \<Rightarrow> bool" where
  "whole_millis d \<longleftrightarrow> 0 \<le> dt_secs d \<and> 0 \<le> dt_nsecs d \<and> dt_nsecs d < 1000000000 \<and> dt_nsecs d mod 1000000 = 0"

lemma timestamp_to_datetime_nonneg:
  assumes "0 \<le> t"
  shows "timestamp_to_datetime t = Some \<lparr>dt_secs = t div 1000, dt_nsecs = (t mod 1000) * 1000000\<rparr>"
proof -
  have "t smod 1000 = t mod 1000" "t sdiv 1000 = t div 1000"
    using assms by (simp_all add: signed_divide_int_def signed_modulo_int_def sgn_if minus_div_mult_eq_mod)
  moreover have "0 \<le> (t mod 1000) * 1000000" "(t mod 1000) * 1000000 < 1000000000"
    using pos_mod_bound [of 1000 t] pos_mod_sign [of 1000 t] by auto
  ultimately show ?thesis
    by (simp add: timestamp_to_datetime_def from_timestamp_def mod_pos_pos_trivial)
qed

lemma timestamp_roundtrip:
  assumes "whole_millis d"
  shows "timestamp_to_datetime (timestamp_millis d) = Some d"
proof -
  have d: "0 \<le> dt_secs d" "0 \<le> dt_nsecs d" "dt_nsecs d < 1000000000" "dt_nsecs d mod 1000000 = 0"
    using assms by (auto simp: whole_millis_def)
  define ms where "ms = dt_nsecs d div 1000000"
  have ms: "dt_nsecs d = ms * 1000000" "0 \<le> ms" "ms < 1000"
    using d by (auto simp: ms_def minus_mod_eq_div_mult [symmetric])
  have "timestamp_millis d = dt_secs d * 1000 + ms"
    by (simp add: timestamp_millis_def ms_def)
  moreover have "(dt_secs d * 1000 + ms) div 1000 = dt_secs d" "(dt_secs d * 1000 + ms) mod 1000 = ms"
    using ms(2,3) by simp_all
  ultimately show ?thesis
    using d ms by (cases d) (simp add: timestamp_to_datetime_nonneg)
qed

lemma timestamp_without_nanos_whole:
  assumes "0 \<le> dt_secs now" and "0 \<le> dt_nsecs now"
  obtains d where "timestamp_without_nanos now = Some d" and "whole_millis d"
proof -
  let ?t = "timestamp_millis now"
  have "0 \<le> ?t" using assms by (simp add: timestamp_millis_def pos_imp_zdiv_nonneg_iff)
  then have "timestamp_without_nanos now = Some \<lparr>dt_secs = ?t div 1000, dt_nsecs = (?t mod 1000) * 1000000\<rparr>"
    by (simp add: timestamp_without_nanos_def timestamp_to_datetime_nonneg)
  moreover have "whole_millis \<lparr>dt_secs = ?t div 1000, dt_nsecs = (?t mod 1000) * 1000000\<rparr>"
    using \<open>0 \<le> ?t\<close> pos_mod_bound [of 1000 ?t] pos_mod_sign [of 1000 ?t]
    by (auto simp: whole_millis_def pos_imp_zdiv_nonneg_iff)
  ultimately show thesis by (rule that)
qed

section \<open>Migrations\<close>

text \<open>\<open>'j\<close> is the type of JSON values, in which the connector serializes its database migration.\<close>

record 'j migration =
  mg_name :: string
  mg_revision :: nat
  mg_status :: migration_status
  mg_applied :: nat
  mg_rolled_back :: nat
  mg_datamodel_string :: string
  mg_datamodel_steps :: "migration_step list"
  mg_database_migration :: 'j
  mg_errors :: "string list"
  mg_started_at :: datetime
  mg_finished_at :: "datetime option"

record migration_update_params =
  up_name :: string
  up_new_name :: string
  up_revision :: nat
  up_status :: migration_status
  up_applied :: nat
  up_rolled_back :: nat
  up_errors :: "string list"
  up_finished_at :: "datetime option"

definition mark_as_finished :: "datetime \<Rightarrow> migration_update_params \<Rightarrow> migration_update_params" where
  "mark_as_finished timestamp p = p\<lparr>up_status := MigrationSuccess, up_finished_at := Some timestamp\<rparr>"

definition migration_new :: "'j \<Rightarrow> datetime \<Rightarrow> string \<Rightarrow> 'j migration" where
  "migration_new empty_json timestamp name =
     \<lparr>mg_name = name, mg_revision = 0, mg_status = Pending, mg_applied = 0, mg_rolled_back = 0,
      mg_datamodel_string = [], mg_datamodel_steps = [], mg_database_migration = empty_json,
      mg_errors = [], mg_started_at = timestamp, mg_finished_at = None\<rparr>"

definition update_params :: "'j migration \<Rightarrow> migration_update_params" where
  "update_params m =
     \<lparr>up_name = mg_name m, up_new_name = mg_name m, up_revision = mg_revision m, up_status = mg_status m,
      up_applied = mg_applied m, up_rolled_back = mg_rolled_back m, up_errors = mg_errors m,
      up_finished_at = mg_finished_at m\<rparr>"

definition is_watch_name :: "string \<Rightarrow> bool" where
  "is_watch_name nm \<longleftrightarrow> take 5 nm = ''watch''"

definition is_watch_migration :: "'j migration \<Rightarrow> bool" where
  "is_watch_migration m \<longleftrightarrow> is_watch_name (mg_name m)"

section \<open>Rows of the migration table\<close>

datatype db_value = DbNull | DbInteger int | DbDateTime datetime

record migration_row =
  r_revision :: int
  r_name :: string
  r_datamodel :: string
  r_status :: string
  r_applied :: int
  r_rolled_back :: int
  r_datamodel_steps :: string
  r_database_migration :: string
  r_errors :: string
  r_started_at :: db_value
  r_finished_at :: db_value

text \<open>The serde_json encoders and decoders of the stored texts; \<open>None\<close> is a decoding error.\<close>

record 'j codec =
  enc_steps :: "migration_step list \<Rightarrow> string"
  dec_steps :: "string \<Rightarrow> migration_step list option"
  enc_json :: "'j \<Rightarrow> string"
  dec_json :: "string \<Rightarrow> 'j option"
  enc_errors :: "string list \<Rightarrow> string"
  dec_errors :: "string \<Rightarrow> string list option"

definition codec_ok :: "'j codec \<Rightarrow> bool" where
  "codec_ok c \<longleftrightarrow> (\<forall>x. dec_steps c (enc_steps c x) = Some x) \<and> (\<forall>x. dec_json c (enc_json c x) = Some x)
     \<and> (\<forall>x. dec_errors c (enc_errors c x) = Some x)"

definition convert_datetime :: "sql_family \<Rightarrow> datetime \<Rightarrow> db_value" where
  "convert_datetime family d =
     (case family of
        Sqlite \<Rightarrow> DbInteger (timestamp_millis d)
      | Postgres \<Rightarrow> DbDateTime d
      | Mysql \<Rightarrow> DbDateTime d)"

definition convert_parameterized_date_value :: "db_value \<Rightarrow> datetime option" where
  "convert_parameterized_date_value v =
     (case v of
        DbInteger x \<Rightarrow> timestamp_to_datetime x
      | DbDateTime x \<Rightarrow> Some x
      | DbNull \<Rightarrow> None)"

definition convert_finished_at :: "sql_family \<Rightarrow> datetime option \<Rightarrow> db_value" where
  "convert_finished_at family f = (case f of None \<Rightarrow> DbNull | Some x \<Rightarrow> convert_datetime family x)"

definition parse_finished_at :: "db_value \<Rightarrow> datetime option option" where
  "parse_finished_at v =
     (case v of DbNull \<Rightarrow> Some None | x \<Rightarrow> map_option Some (convert_parameterized_date_value x))"

definition parse_row :: "'j codec \<Rightarrow> migration_row \<Rightarrow> 'j migration option" where
  "parse_row c row =
     Option.bind (parse_finished_at (r_finished_at row)) (\<lambda>finished_at.
     Option.bind (dec_steps c (r_datamodel_steps row)) (\<lambda>datamodel_steps.
     Option.bind (dec_json c (r_database_migration row)) (\<lambda>database_migration.
     Option.bind (dec_errors c (r_errors row)) (\<lambda>errors.
     Option.bind (status_from_str (r_status row)) (\<lambda>status.
     Option.bind (convert_parameterized_date_value (r_started_at row)) (\<lambda>started_at.
       Some \<lparr>mg_name = r_name row, mg_revision = nat (r_revision row), mg_status = status,
             mg_applied = nat (r_applied row), mg_rolled_back = nat (r_rolled_back row),
             mg_datamodel_string = r_datamodel row, mg_datamodel_steps = datamodel_steps,
             mg_database_migration = database_migration, mg_errors = errors,
             mg_started_at = started_at, mg_finished_at = finished_at\<rparr>))))))"

definition parse_rows_new :: "'j codec \<Rightarrow> migration_row list \<Rightarrow> 'j migration list option" where
  "parse_rows_new c rows = collect_opt (map (parse_row c) rows)"

section \<open>The database\<close>

record 'q world =
  w_rows :: "migration_row list option"
  w_next :: nat
  w_faults :: "bool list"
  w_schema :: 'q

datatype connector_error =
    QueryError
  | ConnectorPanic
  | StatusAssertion migration_status
  | GenericError string

type_synonym ('q, 'a) op = "('q world, connector_error, 'a) eff"

text \<open>A statement sent to the database either fails without effect or runs.\<close>

definition run_query :: "('q world \<Rightarrow> connector_error + 'a \<times> 'q world) \<Rightarrow> ('q, 'a) op" where
  "run_query f w =
     (let w1 = w\<lparr>w_faults := tl (w_faults w)\<rparr> in
      if w_faults w \<noteq> [] \<and> hd (w_faults w) then (Inl QueryError, w1)
      else case f w1 of Inl e \<Rightarrow> (Inl e, w1) | Inr (a, w2) \<Rightarrow> (Inr a, w2))"

definition on_table :: "(migration_row list \<Rightarrow> 'a \<times> migration_row list) \<Rightarrow> 'q world \<Rightarrow> connector_error + 'a \<times> 'q world" where
  "on_table g w =
     (case w_rows w of
        None \<Rightarrow> Inl QueryError
      | Some rows \<Rightarrow> (let (a, rows') = g rows in Inr (a, w\<lparr>w_rows := Some rows'\<rparr>)))"

definition select_ascending :: "(migration_row \<Rightarrow> bool) \<Rightarrow> ('q, migration_row list) op" where
  "select_ascending P = run_query (on_table (\<lambda>rows. (sort_key r_revision (filter P rows), rows)))"

definition select_descending :: "(migration_row \<Rightarrow> bool) \<Rightarrow> ('q, migration_row list) op" where
  "select_descending P = run_query (on_table (\<lambda>rows. (rev (sort_key r_revision (filter P rows)), rows)))"

definition first_migration :: "'j codec \<Rightarrow> migration_row list \<Rightarrow> ('q, 'j migration option) op" where
  "first_migration c rows =
     lift_eff (map_res (\<lambda>ms. case ms of [] \<Rightarrow> None | m # _ \<Rightarrow> Some m) (ok_or ConnectorPanic (parse_rows_new c rows)))"

text \<open>A failing \<open>CREATE TABLE\<close> is ignored: the table may exist already.\<close>

definition persistence_init :: "('q, unit) op" where
  "persistence_init w =
     (let (r, w') = run_query (\<lambda>w. case w_rows w of
            None \<Rightarrow> Inr ((), w\<lparr>w_rows := Some [], w_next := 1\<rparr>)
          | Some _ \<Rightarrow> Inl QueryError) w
      in (Inr (), w'))"

definition persistence_reset :: "('q, unit) op" where
  "persistence_reset w = (let (r, w') = run_query (on_table (\<lambda>_. ((), []))) w in (Inr (), w'))"

definition persistence_last :: "'j codec \<Rightarrow> ('q, 'j migration option) op" where
  "persistence_last c =
     bind_eff (select_descending (\<lambda>r. r_status r = status_code MigrationSuccess)) (first_migration c)"

definition load_all :: "'j codec \<Rightarrow> ('q, 'j migration list) op" where
  "load_all c = bind_eff (select_ascending (\<lambda>_. True)) (\<lambda>rows. lift_eff (ok_or ConnectorPanic (parse_rows_new c rows)))"

definition by_name :: "'j codec \<Rightarrow> string \<Rightarrow> ('q, 'j migration option) op" where
  "by_name c name = bind_eff (select_descending (\<lambda>r. r_name r = name)) (first_migration c)"

definition insert_row :: "'j codec \<Rightarrow> sql_family \<Rightarrow> 'j migration \<Rightarrow> int \<Rightarrow> migration_row" where
  "insert_row c family m revision =
     \<lparr>r_revision = revision, r_name = mg_name m, r_datamodel = mg_datamodel_string m,
      r_status = status_code (mg_status m), r_applied = int (mg_applied m), r_rolled_back = int (mg_rolled_back m),
      r_datamodel_steps = enc_steps c (mg_datamodel_steps m),
      r_database_migration = enc_json c (mg_database_migration m),
      r_errors = enc_errors c (mg_errors m),
      r_started_at = convert_datetime family (mg_started_at m), r_finished_at = DbNull\<rparr>"

text \<open>The insert is unwrapped: a failing statement is a panic.\<close>

definition persistence_create :: "'j codec \<Rightarrow> sql_family \<Rightarrow> 'j migration \<Rightarrow> ('q, 'j migration) op" where
  "persistence_create c family m w =
     (case run_query (\<lambda>w. case w_rows w of
          None \<Rightarrow> Inl QueryError
        | Some rows \<Rightarrow> Inr (w_next w, w\<lparr>w_rows := Some (rows @ [insert_row c family m (int (w_next w))]), w_next := w_next w + 1\<rparr>)) w of
        (Inl _, w') \<Rightarrow> (Inl ConnectorPanic, w')
      | (Inr revision, w') \<Rightarrow> (Inr (m\<lparr>mg_revision := revision\<rparr>), w'))"

definition update_row :: "'j codec \<Rightarrow> sql_family \<Rightarrow> migration_update_params \<Rightarrow> migration_row \<Rightarrow> migration_row" where
  "update_row c family p row =
     (if r_name row = up_name p \<and> r_revision row = int (up_revision p)
      then row\<lparr>r_name := up_new_name p, r_status := status_code (up_status p), r_applied := int (up_applied p),
               r_rolled_back := int (up_rolled_back p), r_errors := enc_errors c (up_errors p),
               r_finished_at := convert_finished_at family (up_finished_at p)\<rparr>
      else row)"

definition persistence_update :: "'j codec \<Rightarrow> sql_family \<Rightarrow> migration_update_params \<Rightarrow> ('q, unit) op" where
  "persistence_update c family p = run_query (on_table (\<lambda>rows. ((), map (update_row c family p) rows)))"

section \<open>Default methods of the trait\<close>

definition last_non_watch_applied_migration :: "'j codec \<Rightarrow> ('q, 'j migration option) op" where
  "last_non_watch_applied_migration c =
     bind_eff (load_all c) (\<lambda>ms. return_eff
       (find (\<lambda>m. \<not> is_watch_migration m \<and> mg_status m = MigrationSuccess) (rev ms)))"

definition last_non_watch_migration :: "'j codec \<Rightarrow> ('q, 'j migration option) op" where
  "last_non_watch_migration c =
     bind_eff (load_all c) (\<lambda>ms. return_eff (find (\<lambda>m. \<not> is_watch_migration m) (rev ms)))"

definition migration_is_already_applied :: "'j codec \<Rightarrow> string \<Rightarrow> ('q, bool) op" where
  "migration_is_already_applied c migration_id =
     bind_eff (load_all c) (\<lambda>ms. return_eff
       (list_ex (\<lambda>m. mg_status m = MigrationSuccess \<and> mg_name m = migration_id) ms))"

end
