(* ===== verification/Destructive_Changes.thy ===== *)
theory Destructive_Changes
  imports Migration_Persistence Sql_Migration_Inferrer
begin

text \<open>
  The destructive changes checker: the diagnostics of
  \<open>migration-connector/src/destructive_changes_checker.rs\<close> and the checker of the SQL connector
  (\<open>sql_destructive_changes_checker.rs\<close> and its sub-module). The two counting queries it sends are
  the parameter \<open>counts\<close>: what the database with a given schema and content answers, as a list of
  rows of values, or \<open>None\<close> for a query error.
\<close>

section \<open>Diagnostics\<close>

record migration_error =
  me_tpe :: string
  me_description :: string
  me_field :: "string option"

record diagnostics =
  dg_errors :: "migration_error list"
  dg_warnings :: "string list"
  dg_unexecutable :: "string list"

definition diagnostics_new :: diagnostics where
  "diagnostics_new = \<lparr>dg_errors = [], dg_warnings = [], dg_unexecutable = []\<rparr>"

definition add_warning :: "string \<Rightarrow> diagnostics \<Rightarrow> diagnostics" where
  "add_warning w dg = dg\<lparr>dg_warnings := dg_warnings dg @ [w]\<rparr>"

definition has_warnings :: "diagnostics \<Rightarrow> bool" where
  "has_warnings dg \<longleftrightarrow> dg_warnings dg \<noteq> []"

definition warn_about_unexecutable_migrations :: "diagnostics \<Rightarrow> diagnostics" where
  "warn_about_unexecutable_migrations dg = dg\<lparr>dg_warnings := dg_warnings dg @ dg_unexecutable dg\<rparr>"

datatype sql_unexecutable_migration =
    AddedRequiredFieldToTable string string "nat option"
  | MadeOptionalFieldRequired string string

abbreviation tick :: "string \<Rightarrow> string" where "tick s \<equiv> [backtick] @ s @ [backtick]"

definition debug_rows_count :: "nat option \<Rightarrow> string" where
  "debug_rows_count c = (case c of None \<Rightarrow> ''None'' | Some n \<Rightarrow> ''Some('' @ show_nat n @ '')'')"

fun unexecutable_description :: "sql_unexecutable_migration \<Rightarrow> string" where
  "unexecutable_description (AddedRequiredFieldToTable t c rows_count) =
     ''Added the required column '' @ tick c @ '' to the '' @ tick t @ '' table without a default value. There are '' @
     debug_rows_count rows_count @ '' rows in this table, it is not possible.''"
| "unexecutable_description (MadeOptionalFieldRequired t c) =
     ''Made the column '' @ tick c @ '' on table '' @ tick t @ '' required, but there are existing NULL values.''"

definition push_unexecutable :: "sql_unexecutable_migration \<Rightarrow> diagnostics \<Rightarrow> diagnostics" where
  "push_unexecutable u dg = dg\<lparr>dg_unexecutable := dg_unexecutable dg @ [unexecutable_description u]\<rparr>"

section \<open>Counting\<close>

record 'q counts =
  cq_rows :: "'q \<Rightarrow> string \<Rightarrow> db_value list list option"
  cq_values :: "'q \<Rightarrow> string \<Rightarrow> string \<Rightarrow> db_value list list option"

definition as_i64 :: "db_value \<Rightarrow> int option" where
  "as_i64 v = (case v of DbInteger i \<Rightarrow> Some i | _ \<Rightarrow> None)"

definition select_rows :: "('q \<Rightarrow> db_value list list option) \<Rightarrow> ('q, db_value list list) op" where
  "select_rows q = run_query (\<lambda>w. case q (w_schema w) of None \<Rightarrow> Inl QueryError | Some rs \<Rightarrow> Inr (rs, w))"

definition count_rows_in_table :: "'q counts \<Rightarrow> string \<Rightarrow> ('q, int) op" where
  "count_rows_in_table c table_name =
     bind_eff (select_rows (\<lambda>q. cq_rows c q table_name)) (\<lambda>result_set.
     case result_set of
       [] \<Rightarrow> fail_eff (GenericError (''No row was returned when checking for existing rows in the '' @ tick table_name @ '' table.''))
     | row # _ \<Rightarrow>
        (case row of
           [] \<Rightarrow> fail_eff (GenericError (''No count was returned when checking for existing rows in the '' @ tick table_name @ '' table.''))
         | v # _ \<Rightarrow> lift_eff (ok_or (GenericError (''No count was returned when checking for existing rows in the '' @ tick table_name @ '' table.''))
                            (as_i64 v))))"

definition count_values_in_column :: "'q counts \<Rightarrow> string \<Rightarrow> table \<Rightarrow> ('q, int) op" where
  "count_values_in_column c column_name t =
     bind_eff (select_rows (\<lambda>q. cq_values c q (tbl_name t) column_name)) (\<lambda>result_set.
     lift_eff (ok_or (GenericError ''Unexpected result set shape when checking dropped columns.'')
       (case result_set of (v # _) # _ \<Rightarrow> as_i64 v | _ \<Rightarrow> None)))"

section \<open>Checks\<close>

definition drop_table_warning :: "string \<Rightarrow> int \<Rightarrow> string" where
  "drop_table_warning table_name rows_count =
     ''You are about to drop the table '' @ tick table_name @ '', which is not empty ('' @ show_int rows_count @ '' rows).''"

definition drop_column_warning :: "string \<Rightarrow> string \<Rightarrow> int \<Rightarrow> string" where
  "drop_column_warning table_name column_name values_count =
     ''You are about to drop the column '' @ tick column_name @ '' on the '' @ tick table_name @
     '' table, which still contains '' @ show_int values_count @ '' non-null values.''"

definition alter_column_warning :: "string \<Rightarrow> string \<Rightarrow> int \<Rightarrow> string" where
  "alter_column_warning table_name column_name values_count =
     ''You are about to alter the column '' @ tick column_name @ '' on the '' @ tick table_name @
     '' table, which still contains '' @ show_int values_count @ '' non-null values. The data in that column will be lost.''"

definition remove_default_warning :: "string \<Rightarrow> string \<Rightarrow> string" where
  "remove_default_warning table_name column_name =
     ''The migration is about to remove a default value on the foreign key field '' @ tick (table_name @ ''.'' @ column_name) @ ''.''"

definition check_table_drop :: "'q counts \<Rightarrow> string \<Rightarrow> diagnostics \<Rightarrow> ('q, diagnostics) op" where
  "check_table_drop c table_name dg =
     bind_eff (count_rows_in_table c table_name) (\<lambda>rows_count.
     return_eff (if rows_count > 0 then add_warning (drop_table_warning table_name rows_count) dg else dg))"

definition check_column_drop :: "'q counts \<Rightarrow> string \<Rightarrow> table \<Rightarrow> diagnostics \<Rightarrow> ('q, diagnostics) op" where
  "check_column_drop c column_name t dg =
     bind_eff (count_values_in_column c column_name t) (\<lambda>values_count.
     return_eff (if values_count > 0 then add_warning (drop_column_warning (tbl_name t) column_name values_count) dg else dg))"

definition check_add_column :: "'q counts \<Rightarrow> column \<Rightarrow> table \<Rightarrow> diagnostics \<Rightarrow> ('q, diagnostics) op" where
  "check_add_column c col t dg =
     (let column_is_required_without_default = (arity_is_required (ct_arity (col_tpe col)) \<and> col_default col = None) in
      if \<not> column_is_required_without_default then return_eff dg
      else bind_eff (count_rows_in_table c (tbl_name t)) (\<lambda>rows_count.
        if rows_count = 0 then return_eff dg
        else return_eff (push_unexecutable
               (AddedRequiredFieldToTable (tbl_name t) (col_name col) (Some (nat (rows_count mod 2 ^ 64)))) dg)))"

definition check_for_column_arity_change ::
    "'q counts \<Rightarrow> diffing_options \<Rightarrow> string \<Rightarrow> column \<Rightarrow> column \<Rightarrow> diagnostics \<Rightarrow> ('q, diagnostics) op" where
  "check_for_column_arity_change c opts table_name p n dg =
     bind_eff (count_rows_in_table c table_name) (\<lambda>rows_count.
     if \<not> arity_changed (all_changes opts p n) \<or> \<not> arity_is_required (ct_arity (col_tpe n)) \<or> rows_count = 0
        \<or> col_default n \<noteq> None
     then return_eff dg
     else return_eff (push_unexecutable (MadeOptionalFieldRequired table_name (col_name p)) dg))"

text \<open>\<open>None\<close> is the panic on list columns of SQLite and on renamed columns of PostgreSQL.\<close>

definition alter_column_is_safe :: "diffing_options \<Rightarrow> sql_family \<Rightarrow> column \<Rightarrow> column \<Rightarrow> bool option" where
  "alter_column_is_safe opts family p n =
     (case family of
        Sqlite \<Rightarrow>
          map_option (\<lambda>arity_change_is_safe. \<not> type_changed (all_changes opts p n) \<and> arity_change_is_safe)
            (case (ct_arity (col_tpe p), ct_arity (col_tpe n)) of
               (ANullable, ARequired) \<Rightarrow> Some False
             | (ARequired, ANullable) \<Rightarrow> Some True
             | (ARequired, ARequired) \<Rightarrow> Some True
             | (ANullable, ANullable) \<Rightarrow> Some True
             | (AList, _) \<Rightarrow> None
             | (_, AList) \<Rightarrow> None)
      | Postgres \<Rightarrow>
          (case expand_postgres_alter_column opts p n of
             Inl _ \<Rightarrow> None
           | Inr None \<Rightarrow> Some False
           | Inr (Some steps) \<Rightarrow> Some (list_all (\<lambda>s. case s of PgSetType _ \<Rightarrow> False | _ \<Rightarrow> True) steps))
      | Mysql \<Rightarrow> Some (expand_mysql_alter_column opts p n \<noteq> None))"

definition check_alter_column ::
    "'q counts \<Rightarrow> database_info \<Rightarrow> alter_column \<Rightarrow> table \<Rightarrow> diagnostics \<Rightarrow> ('q, diagnostics) op" where
  "check_alter_column c info ac t dg =
     bind_eff (lift_eff (ok_or ConnectorPanic (table_column t (ac_name ac)))) (\<lambda>previous_column.
     let opts = from_database_info info in
     bind_eff (lift_eff (ok_or ConnectorPanic (alter_column_is_safe opts (db_family info) previous_column (ac_column ac)))) (\<lambda>safe.
     if safe then return_eff dg
     else
       bind_eff (check_for_column_arity_change c opts (tbl_name t) previous_column (ac_column ac) dg) (\<lambda>dg1.
       bind_eff (count_values_in_column c (ac_name ac) t) (\<lambda>values_count.
       return_eff (
         if values_count > 0 then add_warning (alter_column_warning (tbl_name t) (ac_name ac) values_count) dg1
         else if is_part_of_foreign_key t (col_name (ac_column ac)) \<and> col_default (ac_column ac) = None
              \<and> col_default previous_column \<noteq> None
         then add_warning (remove_default_warning (tbl_name t) (ac_name ac)) dg1
         else dg1)))))"

definition check_table_change ::
    "'q counts \<Rightarrow> database_info \<Rightarrow> table \<Rightarrow> table_change \<Rightarrow> diagnostics \<Rightarrow> ('q, diagnostics) op" where
  "check_table_change c info before_table change dg =
     (case change of
        DropColumn name \<Rightarrow> check_column_drop c name before_table dg
      | AlterColumn ac \<Rightarrow> check_alter_column c info ac before_table dg
      | AddColumn col \<Rightarrow> check_add_column c col before_table dg
      | DropForeignKey _ \<Rightarrow> return_eff dg)"

definition check_step ::
    "'q counts \<Rightarrow> database_info \<Rightarrow> sql_schema \<Rightarrow> sql_migration_step \<Rightarrow> diagnostics \<Rightarrow> ('q, diagnostics) op" where
  "check_step c info before step dg =
     (case step of
        AlterTable a \<Rightarrow>
          (case get_table before (tbl_name (at_table a)) of
             Some before_table \<Rightarrow> fold_eff (check_table_change c info before_table) (at_changes a) dg
           | None \<Rightarrow> return_eff dg)
      | DropTable name \<Rightarrow> check_table_drop c name dg
      | DropTables names \<Rightarrow> fold_eff (check_table_drop c) names dg
      | _ \<Rightarrow> return_eff dg)"

definition check_impl ::
    "'q counts \<Rightarrow> database_info \<Rightarrow> sql_migration_step list \<Rightarrow> sql_schema \<Rightarrow> ('q, diagnostics) op" where
  "check_impl c info steps before =
     bind_eff (fold_eff (check_step c info before) steps diagnostics_new) (\<lambda>dg.
     return_eff (warn_about_unexecutable_migrations dg))"

definition check :: "'q counts \<Rightarrow> database_info \<Rightarrow> sql_migration \<Rightarrow> ('q, diagnostics) op" where
  "check c info m = check_impl c info (sm_original_steps m) (sm_before m)"

definition check_unapply :: "'q counts \<Rightarrow> database_info \<Rightarrow> sql_migration \<Rightarrow> ('q, diagnostics) op" where
  "check_unapply c info m = check_impl c info (sm_rollback m) (sm_after m)"

section \<open>The checker only reads\<close>

definition content :: "'q world \<Rightarrow> migration_row list option \<times> nat \<times> 'q" where
  "content w = (w_rows w, w_next w, w_schema w)"

lemma keeps_run_query [keeps_intros]:
  assumes "\<And>w a w'. f w = Inr (a, w') \<Longrightarrow> content w' = content w"
  shows "keeps content (run_query f)"
  unfolding keeps_def
proof
  fix w :: "'a world"
  let ?w1 = "w\<lparr>w_faults := tl (w_faults w)\<rparr>"
  have "content ?w1 = content w" by (simp add: content_def)
  then show "content (snd (run_query f w)) = content w"
    using assms [of ?w1] by (cases "f ?w1") (auto simp: run_query_def Let_def)
qed

lemma keeps_select_rows [keeps_intros]: "keeps content (select_rows q)"
  unfolding select_rows_def by (rule keeps_run_query) (auto split: option.splits)

lemma keeps_count_rows [keeps_intros]: "keeps content (count_rows_in_table c name)"
  unfolding count_rows_in_table_def
  by (intro keeps_bind keeps_select_rows) (auto split: list.split)

lemma keeps_count_values [keeps_intros]: "keeps content (count_values_in_column c name t)"
  unfolding count_values_in_column_def by (intro keeps_bind keeps_select_rows keeps_lift)

lemma keeps_check_table_drop [keeps_intros]: "keeps content (check_table_drop c name dg)"
  unfolding check_table_drop_def by (intro keeps_bind keeps_count_rows keeps_return)

lemma keeps_check_table_change [keeps_intros]: "keeps content (check_table_change c info t ch dg)"
  unfolding check_table_change_def check_column_drop_def check_add_column_def check_alter_column_def
    check_for_column_arity_change_def Let_def
  by (auto split: table_change.split intro!: keeps_intros)

lemma keeps_check_step [keeps_intros]: "keeps content (check_step c info before step dg)"
  unfolding check_step_def
  by (auto split: sql_migration_step.split option.split intro!: keeps_fold keeps_check_table_change keeps_check_table_drop)

lemma keeps_check_impl: "keeps content (check_impl c info steps before)"
  unfolding check_impl_def by (intro keeps_bind keeps_fold keeps_check_step keeps_return)

end
