(* ===== verification/Destructive_Laws.thy ===== *)
theory Destructive_Laws
  imports Destructive_Changes Sql_Differ_Laws
begin

text \<open>
  What the destructive changes checker warns about, as an inductive relation between a step, the
  content of the database and a message, and the proof that a check that returns reports exactly
  the related messages.
\<close>

section \<open>Counts\<close>

definition first_cell :: "db_value list list option \<Rightarrow> int option" where
  "first_cell rs = (case rs of Some ((v # _) # _) \<Rightarrow> as_i64 v | _ \<Rightarrow> None)"

definition row_count :: "'q counts \<Rightarrow> 'q \<Rightarrow> string \<Rightarrow> int option" where
  "row_count c q name = first_cell (cq_rows c q name)"

definition value_count :: "'q counts \<Rightarrow> 'q \<Rightarrow> string \<Rightarrow> string \<Rightarrow> int option" where
  "value_count c q table_name column_name = first_cell (cq_values c q table_name column_name)"

lemma select_rows_Inr:
  assumes "select_rows f w = (Inr rs, w')"
  shows "f (w_schema w) = Some rs"
  using assms by (auto simp: select_rows_def run_query_def Let_def split: if_splits option.splits)

lemma count_rows_Inr:
  assumes "count_rows_in_table c name w = (Inr k, w')"
  shows "row_count c (w_schema w) name = Some k"
proof -
  obtain rs w1 where rs: "cq_rows c (w_schema w) name = Some rs"
    and k: "(case rs of [] \<Rightarrow> fail_eff (GenericError (''No row was returned when checking for existing rows in the '' @ tick name @ '' table.''))
       | row # _ \<Rightarrow> (case row of
           [] \<Rightarrow> fail_eff (GenericError (''No count was returned when checking for existing rows in the '' @ tick name @ '' table.''))
         | v # _ \<Rightarrow> lift_eff (ok_or (GenericError (''No count was returned when checking for existing rows in the '' @ tick name @ '' table.'')) (as_i64 v)))) w1
       = (Inr k, w')"
    using assms unfolding count_rows_in_table_def bind_eff_eq by (auto dest: select_rows_Inr)
  show ?thesis
    using k by (auto simp: row_count_def first_cell_def rs ok_or_def split: list.splits option.splits)
qed

lemma count_values_Inr:
  assumes "count_values_in_column c column_name t w = (Inr k, w')"
  shows "value_count c (w_schema w) (tbl_name t) column_name = Some k"
proof -
  obtain rs where "cq_values c (w_schema w) (tbl_name t) column_name = Some rs"
    and "(case rs of (v # _) # _ \<Rightarrow> as_i64 v | _ \<Rightarrow> None) = Some k"
    using assms unfolding count_values_in_column_def bind_eff_eq
    by (auto simp: ok_or_def dest!: select_rows_Inr split: option.splits)
  then show ?thesis by (auto simp: value_count_def first_cell_def split: list.splits)
qed

section \<open>Messages\<close>

declare unexecutable_description.simps [simp del]

inductive change_warns :: "'q counts \<Rightarrow> database_info \<Rightarrow> 'q \<Rightarrow> table \<Rightarrow> table_change \<Rightarrow> string \<Rightarrow> bool"
  for c info q t where
  dropped_column: "value_count c q (tbl_name t) name = Some k \<Longrightarrow> k > 0 \<Longrightarrow>
    change_warns c info q t (DropColumn name) (drop_column_warning (tbl_name t) name k)"
| added_required: "arity_is_required (ct_arity (col_tpe col)) \<Longrightarrow> col_default col = None \<Longrightarrow>
    row_count c q (tbl_name t) = Some k \<Longrightarrow> k \<noteq> 0 \<Longrightarrow>
    change_warns c info q t (AddColumn col)
      (unexecutable_description (AddedRequiredFieldToTable (tbl_name t) (col_name col) (Some (nat (k mod 2 ^ 64)))))"
| made_required: "table_column t (ac_name ac) = Some p \<Longrightarrow>
    alter_column_is_safe (from_database_info info) (db_family info) p (ac_column ac) = Some False \<Longrightarrow>
    ct_arity (col_tpe p) \<noteq> ct_arity (col_tpe (ac_column ac)) \<Longrightarrow> arity_is_required (ct_arity (col_tpe (ac_column ac))) \<Longrightarrow>
    col_default (ac_column ac) = None \<Longrightarrow> row_count c q (tbl_name t) = Some k \<Longrightarrow> k \<noteq> 0 \<Longrightarrow>
    change_warns c info q t (AlterColumn ac) (unexecutable_description (MadeOptionalFieldRequired (tbl_name t) (col_name p)))"
| altered_values: "table_column t (ac_name ac) = Some p \<Longrightarrow>
    alter_column_is_safe (from_database_info info) (db_family info) p (ac_column ac) = Some False \<Longrightarrow>
    value_count c q (tbl_name t) (ac_name ac) = Some k \<Longrightarrow> k > 0 \<Longrightarrow>
    change_warns c info q t (AlterColumn ac) (alter_column_warning (tbl_name t) (ac_name ac) k)"
| removed_default: "table_column t (ac_name ac) = Some p \<Longrightarrow>
    alter_column_is_safe (from_database_info info) (db_family info) p (ac_column ac) = Some False \<Longrightarrow>
    value_count c q (tbl_name t) (ac_name ac) = Some k \<Longrightarrow> k \<le> 0 \<Longrightarrow>
    is_part_of_foreign_key t (col_name (ac_column ac)) \<Longrightarrow> col_default (ac_column ac) = None \<Longrightarrow> col_default p \<noteq> None \<Longrightarrow>
    change_warns c info q t (AlterColumn ac) (remove_default_warning (tbl_name t) (ac_name ac))"

inductive step_warns :: "'q counts \<Rightarrow> database_info \<Rightarrow> 'q \<Rightarrow> sql_schema \<Rightarrow> sql_migration_step \<Rightarrow> string \<Rightarrow> bool"
  for c info q before where
  dropped_table: "row_count c q name = Some k \<Longrightarrow> k > 0 \<Longrightarrow>
    step_warns c info q before (DropTable name) (drop_table_warning name k)"
| dropped_tables: "name \<in> set names \<Longrightarrow> row_count c q name = Some k \<Longrightarrow> k > 0 \<Longrightarrow>
    step_warns c info q before (DropTables names) (drop_table_warning name k)"
| altered_table: "get_table before (tbl_name (at_table a)) = Some t \<Longrightarrow> change \<in> set (at_changes a) \<Longrightarrow>
    change_warns c info q t change msg \<Longrightarrow> step_warns c info q before (AlterTable a) msg"

inductive_simps change_warns_simps:
  "change_warns c info q t (DropColumn name) msg"
  "change_warns c info q t (AddColumn col) msg"
  "change_warns c info q t (AlterColumn ac) msg"
  "change_warns c info q t (DropForeignKey fk) msg"

inductive_simps step_warns_simps:
  "step_warns c info q before (DropTable name) msg"
  "step_warns c info q before (DropTables names) msg"
  "step_warns c info q before (AlterTable a) msg"
  "step_warns c info q before (CreateTable tb) msg"
  "step_warns c info q before (RenameTable n1 n2) msg"
  "step_warns c info q before (AddForeignKey afk) msg"
  "step_warns c info q before (RawSql raw) msg"
  "step_warns c info q before (CreateIndex ci) msg"
  "step_warns c info q before (DropIndex di) msg"
  "step_warns c info q before (AlterIndex ai) msg"
  "step_warns c info q before (CreateSqlEnum ce) msg"
  "step_warns c info q before (DropSqlEnum de) msg"
  "step_warns c info q before (AlterSqlEnum ae) msg"

section \<open>The checker reports exactly these messages\<close>

definition messages :: "diagnostics \<Rightarrow> string set" where
  "messages dg = set (dg_warnings dg) \<union> set (dg_unexecutable dg)"

lemma messages_simps [simp]:
  "messages diagnostics_new = {}"
  "messages (add_warning w dg) = insert w (messages dg)"
  "messages (push_unexecutable u dg) = insert (unexecutable_description u) (messages dg)"
  "set (dg_warnings (warn_about_unexecutable_migrations dg)) = messages dg"
  by (auto simp: messages_def diagnostics_new_def add_warning_def push_unexecutable_def warn_about_unexecutable_migrations_def)

text \<open>An operation that reports the messages \<open>E v\<close> when the database shows \<open>v\<close>.\<close>

definition reports :: "(diagnostics \<Rightarrow> ('q, diagnostics) op) \<Rightarrow> ('q \<Rightarrow> string set) \<Rightarrow> bool" where
  "reports f E \<longleftrightarrow> (\<forall>dg w dg' w'. f dg w = (Inr dg', w') \<longrightarrow> messages dg' = messages dg \<union> E (w_schema w))"

lemma reportsI:
  assumes "\<And>dg w dg' w'. f dg w = (Inr dg', w') \<Longrightarrow> messages dg' = messages dg \<union> E (w_schema w)"
  shows "reports f E"
  using assms by (simp add: reports_def)

lemma reportsD: "reports f E \<Longrightarrow> f dg w = (Inr dg', w') \<Longrightarrow> messages dg' = messages dg \<union> E (w_schema w)"
  by (simp add: reports_def)

lemma reports_return: "(\<And>v. E v = {}) \<Longrightarrow> reports return_eff E"
  by (simp add: reports_def return_eff_def)

lemma schema_kept: "keeps content m \<Longrightarrow> m w = (r, w') \<Longrightarrow> w_schema w' = w_schema w"
  by (drule (1) keepsD) (simp add: content_def)

lemma reports_fold:
  assumes "\<And>x. x \<in> set xs \<Longrightarrow> reports (f x) (E x)" and "\<And>x dg. keeps content (f x dg)"
  shows "reports (fold_eff f xs) (\<lambda>v. \<Union>x \<in> set xs. E x v)"
  using assms(1)
proof (induction xs)
  case Nil
  then show ?case by (simp add: reports_def)
next
  case (Cons x xs)
  show ?case
  proof (rule reportsI)
    fix dg w dg' w'
    assume "fold_eff f (x # xs) dg w = (Inr dg', w')"
    then obtain dg1 w1 where first: "f x dg w = (Inr dg1, w1)" and rest: "fold_eff f xs dg1 w1 = (Inr dg', w')"
      by (auto simp: bind_eff_eq)
    have "messages dg1 = messages dg \<union> E x (w_schema w)" using Cons.prems first by (auto dest: reportsD)
    moreover have "messages dg' = messages dg1 \<union> (\<Union>x \<in> set xs. E x (w_schema w1))"
      using Cons rest by (auto dest: reportsD)
    moreover have "w_schema w1 = w_schema w" using assms(2) first by (rule schema_kept)
    ultimately show "messages dg' = messages dg \<union> (\<Union>y \<in> set (x # xs). E y (w_schema w))" by auto
  qed
qed

lemma reports_table_drop:
  "reports (check_table_drop c name) (\<lambda>q. {msg. \<exists>k. row_count c q name = Some k \<and> k > 0 \<and> msg = drop_table_warning name k})"
proof (rule reportsI)
  fix dg w dg' w'
  assume "check_table_drop c name dg w = (Inr dg', w')"
  then obtain k where "row_count c (w_schema w) name = Some k"
    and "dg' = (if k > 0 then add_warning (drop_table_warning name k) dg else dg)"
    by (auto simp: check_table_drop_def bind_eff_eq dest!: count_rows_Inr)
  then show "messages dg' = messages dg \<union>
      {msg. \<exists>k. row_count c (w_schema w) name = Some k \<and> k > 0 \<and> msg = drop_table_warning name k}" by simp
qed

lemma reports_column_drop:
  "reports (check_column_drop c name t) (\<lambda>q. {msg. change_warns c info q t (DropColumn name) msg})"
proof (rule reportsI)
  fix dg w dg' w'
  assume "check_column_drop c name t dg w = (Inr dg', w')"
  then obtain k where "value_count c (w_schema w) (tbl_name t) name = Some k"
    and "dg' = (if k > 0 then add_warning (drop_column_warning (tbl_name t) name k) dg else dg)"
    by (auto simp: check_column_drop_def bind_eff_eq dest!: count_values_Inr)
  then show "messages dg' = messages dg \<union> {msg. change_warns c info (w_schema w) t (DropColumn name) msg}"
    by (simp add: change_warns_simps)
qed

lemma reports_add_column:
  "reports (check_add_column c col t) (\<lambda>q. {msg. change_warns c info q t (AddColumn col) msg})"
proof (rule reportsI)
  fix dg w dg' w'
  assume run: "check_add_column c col t dg w = (Inr dg', w')"
  show "messages dg' = messages dg \<union> {msg. change_warns c info (w_schema w) t (AddColumn col) msg}"
  proof (cases "arity_is_required (ct_arity (col_tpe col)) \<and> col_default col = None")
    case True
    then show ?thesis
      using run by (auto simp: check_add_column_def bind_eff_eq change_warns_simps dest!: count_rows_Inr split: if_splits)
  next
    case False
    then show ?thesis using run by (auto simp: check_add_column_def change_warns_simps)
  qed
qed

text \<open>The two messages of an altered column, each with the count it depends on.\<close>

lemma arity_change_Inr:
  assumes "check_for_column_arity_change c opts name p n dg w = (Inr dg', w')"
  shows "\<exists>k. row_count c (w_schema w) name = Some k \<and>
    dg' = (if ct_arity (col_tpe p) \<noteq> ct_arity (col_tpe n) \<and> arity_is_required (ct_arity (col_tpe n)) \<and> k \<noteq> 0 \<and> col_default n = None
           then push_unexecutable (MadeOptionalFieldRequired name (col_name p)) dg else dg)"
  using assms by (auto simp: check_for_column_arity_change_def bind_eff_eq dest!: count_rows_Inr split: if_splits)

lemma alter_column_Inr:
  assumes "check_alter_column c info ac t dg w = (Inr dg', w')"
  obtains p where "table_column t (ac_name ac) = Some p"
      and "alter_column_is_safe (from_database_info info) (db_family info) p (ac_column ac) = Some True" and "dg' = dg"
  | p dg1 w1 k where "table_column t (ac_name ac) = Some p"
      and "alter_column_is_safe (from_database_info info) (db_family info) p (ac_column ac) = Some False"
      and "check_for_column_arity_change c (from_database_info info) (tbl_name t) p (ac_column ac) dg w = (Inr dg1, w1)"
      and "value_count c (w_schema w) (tbl_name t) (ac_name ac) = Some k"
      and "dg' = (if k > 0 then add_warning (alter_column_warning (tbl_name t) (ac_name ac) k) dg1
         else if is_part_of_foreign_key t (col_name (ac_column ac)) \<and> col_default (ac_column ac) = None \<and> col_default p \<noteq> None
         then add_warning (remove_default_warning (tbl_name t) (ac_name ac)) dg1 else dg1)"
proof -
  let ?opts = "from_database_info info"
  obtain p where p: "table_column t (ac_name ac) = Some p"
    using assms by (cases "table_column t (ac_name ac)") (auto simp: check_alter_column_def bind_eff_eq)
  obtain safe where safe: "alter_column_is_safe ?opts (db_family info) p (ac_column ac) = Some safe"
    using assms p
    by (cases "alter_column_is_safe ?opts (db_family info) p (ac_column ac)") (auto simp: check_alter_column_def bind_eff_eq Let_def)
  show thesis
  proof (cases safe)
    case True
    with assms p safe that(1) show thesis by (auto simp: check_alter_column_def bind_eff_eq Let_def)
  next
    case False
    from assms obtain dg1 w1 w2 k where
      arity: "check_for_column_arity_change c ?opts (tbl_name t) p (ac_column ac) dg w = (Inr dg1, w1)"
      and count: "count_values_in_column c (ac_name ac) t w1 = (Inr k, w2)"
      and dg': "dg' = (if k > 0 then add_warning (alter_column_warning (tbl_name t) (ac_name ac) k) dg1
         else if is_part_of_foreign_key t (col_name (ac_column ac)) \<and> col_default (ac_column ac) = None \<and> col_default p \<noteq> None
         then add_warning (remove_default_warning (tbl_name t) (ac_name ac)) dg1 else dg1)"
      by (auto simp: check_alter_column_def bind_eff_eq Let_def p safe False)
    have "keeps content (check_for_column_arity_change c ?opts (tbl_name t) p (ac_column ac) dg :: ('a, diagnostics) op)"
      unfolding check_for_column_arity_change_def by (auto intro!: keeps_intros)
    then have "w_schema w1 = w_schema w" using arity by (rule schema_kept)
    then show thesis using that(2) p safe False arity count_values_Inr [OF count] dg' by simp
  qed
qed

lemma reports_alter_column:
  "reports (check_alter_column c info ac t) (\<lambda>q. {msg. change_warns c info q t (AlterColumn ac) msg})"
proof (rule reportsI)
  fix dg w dg' w'
  assume "check_alter_column c info ac t dg w = (Inr dg', w')"
  then show "messages dg' = messages dg \<union> {msg. change_warns c info (w_schema w) t (AlterColumn ac) msg}"
  proof (cases rule: alter_column_Inr)
    case (1 p)
    then show ?thesis by (simp add: change_warns_simps)
  next
    case (2 p dg1 w1 k)
    obtain n where n: "row_count c (w_schema w) (tbl_name t) = Some n"
      and dg1: "dg1 = (if ct_arity (col_tpe p) \<noteq> ct_arity (col_tpe (ac_column ac)) \<and> arity_is_required (ct_arity (col_tpe (ac_column ac)))
           \<and> n \<noteq> 0 \<and> col_default (ac_column ac) = None
         then push_unexecutable (MadeOptionalFieldRequired (tbl_name t) (col_name p)) dg else dg)"
      using arity_change_Inr [OF 2(3)] by blast
    have "change_warns c info (w_schema w) t (AlterColumn ac) msg \<longleftrightarrow>
        (ct_arity (col_tpe p) \<noteq> ct_arity (col_tpe (ac_column ac)) \<and> arity_is_required (ct_arity (col_tpe (ac_column ac)))
           \<and> n \<noteq> 0 \<and> col_default (ac_column ac) = None
           \<and> msg = unexecutable_description (MadeOptionalFieldRequired (tbl_name t) (col_name p)))
        \<or> (k > 0 \<and> msg = alter_column_warning (tbl_name t) (ac_name ac) k)
        \<or> (k \<le> 0 \<and> is_part_of_foreign_key t (col_name (ac_column ac)) \<and> col_default (ac_column ac) = None
             \<and> col_default p \<noteq> None \<and> msg = remove_default_warning (tbl_name t) (ac_name ac))" for msg
      by (auto simp: change_warns_simps 2(1,2,4) n)
    then show ?thesis
      unfolding 2(5) dg1 by (intro set_eqI) (simp, fastforce)
  qed
qed

lemma reports_table_change:
  "reports (check_table_change c info t change) (\<lambda>q. {msg. change_warns c info q t change msg})"
proof (cases change)
  case (AddColumn col)
  then show ?thesis using reports_add_column by (simp add: check_table_change_def reports_def)
next
  case (DropColumn name)
  then show ?thesis using reports_column_drop by (simp add: check_table_change_def reports_def)
next
  case (AlterColumn ac)
  then show ?thesis using reports_alter_column by (simp add: check_table_change_def reports_def)
next
  case (DropForeignKey fk)
  then show ?thesis by (simp add: check_table_change_def reports_def change_warns_simps)
qed

lemma reports_step:
  "reports (check_step c info before step) (\<lambda>q. {msg. step_warns c info q before step msg})"
proof (cases step)
  case (AlterTable a)
  show ?thesis
  proof (cases "get_table before (tbl_name (at_table a))")
    case None
    with AlterTable show ?thesis by (simp add: check_step_def reports_def step_warns_simps)
  next
    case (Some t)
    have "reports (fold_eff (check_table_change c info t) (at_changes a))
        (\<lambda>q. \<Union>ch \<in> set (at_changes a). {msg. change_warns c info q t ch msg})"
      by (rule reports_fold [OF reports_table_change keeps_check_table_change])
    then show ?thesis using AlterTable Some by (auto simp: check_step_def reports_def step_warns_simps)
  qed
next
  case (DropTable name)
  then have "{msg. step_warns c info q before step msg} = {msg. \<exists>k. row_count c q name = Some k \<and> k > 0 \<and> msg = drop_table_warning name k}" for q
    by (auto simp: step_warns_simps)
  then show ?thesis using DropTable reports_table_drop [of c name] by (simp add: check_step_def reports_def)
next
  case (DropTables names)
  have "reports (fold_eff (check_table_drop c) names)
      (\<lambda>q. \<Union>name \<in> set names. {msg. \<exists>k. row_count c q name = Some k \<and> k > 0 \<and> msg = drop_table_warning name k})"
    by (rule reports_fold [OF reports_table_drop keeps_check_table_drop])
  then show ?thesis using DropTables by (auto simp: check_step_def reports_def step_warns_simps)
qed (simp_all add: check_step_def reports_def step_warns_simps)

lemma check_impl_warnings:
  assumes "check_impl c info steps before w = (Inr dg, w')"
  shows "set (dg_warnings dg) = {msg. \<exists>step \<in> set steps. step_warns c info (w_schema w) before step msg}"
proof -
  obtain dg1 where run: "fold_eff (check_step c info before) steps diagnostics_new w = (Inr dg1, w')"
    and dg: "dg = warn_about_unexecutable_migrations dg1"
    using assms by (auto simp: check_impl_def bind_eff_eq)
  have "reports (fold_eff (check_step c info before) steps)
      (\<lambda>q. \<Union>step \<in> set steps. {msg. step_warns c info q before step msg})"
    by (rule reports_fold [OF reports_step keeps_check_step])
  from reportsD [OF this run] show ?thesis unfolding dg by auto
qed

end
