(* ===== verification/Persistence_Laws.thy ===== *)
theory Persistence_Laws
  imports Migration_Persistence
begin

text \<open>
  What the migration persistence promises its clients: the locale \<open>migration_store\<close> states the
  contract of the trait \<open>MigrationPersistence\<close> over the list of stored migrations, and the
  interpretation \<open>sql_store\<close> discharges it for the SQL table, its texts and its faults.
\<close>

section \<open>Rows and migrations\<close>

definition apply_update :: "migration_update_params \<Rightarrow> 'j migration \<Rightarrow> 'j migration" where
  "apply_update p m =
     (if mg_name m = up_name p \<and> mg_revision m = up_revision p
      then m\<lparr>mg_name := up_new_name p, mg_status := up_status p, mg_applied := up_applied p,
             mg_rolled_back := up_rolled_back p, mg_errors := up_errors p, mg_finished_at := up_finished_at p\<rparr>
      else m)"

definition params_ok :: "migration_update_params \<Rightarrow> bool" where
  "params_ok p \<longleftrightarrow> (case up_finished_at p of None \<Rightarrow> True | Some d \<Rightarrow> whole_millis d)"

definition new_ok :: "'j migration \<Rightarrow> bool" where
  "new_ok m \<longleftrightarrow> whole_millis (mg_started_at m) \<and> mg_finished_at m = None"

lemma datetime_roundtrip:
  "whole_millis d \<Longrightarrow> convert_parameterized_date_value (convert_datetime family d) = Some d"
  by (cases family) (simp_all add: convert_datetime_def convert_parameterized_date_value_def timestamp_roundtrip)

lemma finished_at_roundtrip:
  assumes "case f of None \<Rightarrow> True | Some d \<Rightarrow> whole_millis d"
  shows "parse_finished_at (convert_finished_at family f) = Some f"
proof (cases f)
  case None
  then show ?thesis by (simp add: convert_finished_at_def parse_finished_at_def)
next
  case (Some d)
  then have "convert_parameterized_date_value (convert_datetime family d) = Some d"
    using assms by (simp add: datetime_roundtrip)
  moreover have "convert_datetime family d \<noteq> DbNull" by (cases family) (simp_all add: convert_datetime_def)
  ultimately show ?thesis
    using Some by (cases "convert_datetime family d") (simp_all add: convert_finished_at_def parse_finished_at_def)
qed

lemma parse_insert_row:
  assumes "codec_ok c" and "new_ok m"
  shows "parse_row c (insert_row c family m (int revision)) = Some (m\<lparr>mg_revision := revision\<rparr>)"
  using assms by (simp add: parse_row_def insert_row_def parse_finished_at_def codec_ok_def new_ok_def datetime_roundtrip)

lemma parse_update_row:
  assumes "codec_ok c" and "params_ok p" and "parse_row c row = Some m" and "0 \<le> r_revision row"
  shows "parse_row c (update_row c family p row) = Some (apply_update p m)"
proof -
  have m: "mg_name m = r_name row" "mg_revision m = nat (r_revision row)"
    using assms(3) by (auto simp: parse_row_def bind_eq_Some_conv)
  have "r_revision row = int (up_revision p) \<longleftrightarrow> mg_revision m = up_revision p"
    using assms(4) m(2) by auto
  moreover have "parse_finished_at (convert_finished_at family (up_finished_at p)) = Some (up_finished_at p)"
    using assms(2) by (simp add: params_ok_def finished_at_roundtrip)
  ultimately show ?thesis
    using assms(1,3) m by (auto simp: update_row_def apply_update_def parse_row_def codec_ok_def bind_eq_Some_conv)
qed

lemma collect_opt_Some: "collect_opt (map f xs) = Some ys \<longleftrightarrow> list_all2 (\<lambda>x y. f x = Some y) xs ys"
proof (induction xs arbitrary: ys)
  case (Cons x xs)
  then show ?case by (cases "f x"; cases ys) auto
qed auto

lemma parse_rows_iff: "parse_rows_new c rows = Some ms \<longleftrightarrow> list_all2 (\<lambda>r m. parse_row c r = Some m) rows ms"
  by (simp add: parse_rows_new_def collect_opt_Some)

lemma list_all2_filter:
  assumes "list_all2 R xs ys" and "\<And>x y. R x y \<Longrightarrow> P x \<longleftrightarrow> Q y"
  shows "list_all2 R (filter P xs) (filter Q ys)"
  using assms by (induction rule: list_all2_induct) auto

section \<open>The state of the table\<close>

definition rows_sorted :: "'q world \<Rightarrow> migration_row list \<Rightarrow> bool" where
  "rows_sorted w rows \<longleftrightarrow> sorted_wrt (<) (map r_revision rows)
     \<and> list_all (\<lambda>r. 0 < r_revision r \<and> r_revision r < int (w_next w)) rows"

definition store_ok :: "'j codec \<Rightarrow> 'q world \<Rightarrow> bool" where
  "store_ok c w \<longleftrightarrow>
     (case w_rows w of
        None \<Rightarrow> False
      | Some rows \<Rightarrow> 0 < w_next w \<and> rows_sorted w rows \<and> parse_rows_new c rows \<noteq> None)"

definition stored :: "'j codec \<Rightarrow> 'q world \<Rightarrow> 'j migration list" where
  "stored c w = (case w_rows w of None \<Rightarrow> [] | Some rows \<Rightarrow> (case parse_rows_new c rows of None \<Rightarrow> [] | Some ms \<Rightarrow> ms))"

definition calm :: "'q world \<Rightarrow> bool" where
  "calm w \<longleftrightarrow> True \<notin> set (w_faults w)"

definition same_store :: "'q world \<Rightarrow> 'q world \<Rightarrow> bool" where
  "same_store w w' \<longleftrightarrow> w_rows w' = w_rows w \<and> w_next w' = w_next w \<and> w_schema w' = w_schema w"

lemma store_okE:
  assumes "store_ok c w"
  obtains rows ms where "w_rows w = Some rows" and "0 < w_next w" and "rows_sorted w rows"
    and "parse_rows_new c rows = Some ms" and "stored c w = ms"
  using assms by (auto simp: store_ok_def stored_def split: option.splits)

lemma store_okI:
  "w_rows w = Some rows \<Longrightarrow> 0 < w_next w \<Longrightarrow> rows_sorted w rows \<Longrightarrow> parse_rows_new c rows = Some ms \<Longrightarrow>
   store_ok c w \<and> stored c w = ms"
  by (simp add: store_ok_def stored_def)

lemma same_store_ok: "same_store w w' \<Longrightarrow> store_ok c w' = store_ok c w"
  by (simp add: same_store_def store_ok_def rows_sorted_def split: option.splits)

lemma same_store_stored: "same_store w w' \<Longrightarrow> stored c w' = stored c w"
  by (simp add: same_store_def stored_def)

lemma calm_step: "calm w \<Longrightarrow> calm (w\<lparr>w_faults := tl (w_faults w)\<rparr>)"
  by (cases "w_faults w") (auto simp: calm_def)

lemma run_query_calm:
  assumes "calm w"
  shows "run_query f w =
    (case f (w\<lparr>w_faults := tl (w_faults w)\<rparr>) of Inl e \<Rightarrow> (Inl e, w\<lparr>w_faults := tl (w_faults w)\<rparr>) | Inr (a, w2) \<Rightarrow> (Inr a, w2))"
  using assms by (cases "w_faults w") (auto simp: calm_def run_query_def Let_def split: sum.split prod.split)

lemma sort_filtered:
  assumes "rows_sorted w rows"
  shows "sort_key r_revision (filter P rows) = filter P rows"
proof (rule sort_key_id_if_sorted)
  have "sorted (map r_revision rows)"
    using assms by (simp add: rows_sorted_def strict_sorted_imp_sorted)
  then show "sorted (map r_revision (filter P rows))"
    by (simp add: sorted_map sorted_wrt_filter)
qed

lemma revisions_distinct:
  assumes "store_ok c w"
  shows "distinct (map mg_revision (stored c w))"
proof -
  obtain rows ms where w: "rows_sorted w rows" "parse_rows_new c rows = Some ms" "stored c w = ms"
    using assms by (rule store_okE)
  have "list_all2 (\<lambda>r m. parse_row c r = Some m) rows ms" using w(2) by (simp add: parse_rows_iff)
  then have "map mg_revision ms = map (\<lambda>r. nat (r_revision r)) rows"
    by (induction rule: list_all2_induct) (auto simp: parse_row_def bind_eq_Some_conv)
  moreover have "distinct (map (\<lambda>r. nat (r_revision r)) rows)"
  proof -
    have "distinct (map r_revision rows)" using w(1) strict_sorted_iff by (auto simp: rows_sorted_def)
    then have "distinct (map nat (map r_revision rows))"
      using w(1) by (auto simp: distinct_map inj_on_def rows_sorted_def list_all_iff eq_nat_nat_iff)
    then show ?thesis by (simp add: comp_def)
  qed
  ultimately show ?thesis using w(3) by simp
qed

section \<open>Operations on a table without faults\<close>

lemma same_store_step: "same_store w (w\<lparr>w_faults := fs\<rparr>)"
  by (simp add: same_store_def)

lemma select_ascending_calm:
  assumes "store_ok c w" and "calm w" and "w_rows w = Some rows"
  shows "select_ascending P w = (Inr (filter P rows), w\<lparr>w_faults := tl (w_faults w)\<rparr>)"
  using assms by (auto simp: select_ascending_def run_query_calm on_table_def sort_filtered elim: store_okE)

lemma select_descending_calm:
  assumes "store_ok c w" and "calm w" and "w_rows w = Some rows"
  shows "select_descending P w = (Inr (rev (filter P rows)), w\<lparr>w_faults := tl (w_faults w)\<rparr>)"
  using assms by (auto simp: select_descending_def run_query_calm on_table_def sort_filtered elim: store_okE)

lemma load_all_calm:
  assumes "store_ok c w" and "calm w"
  shows "load_all c w = (Inr (stored c w), w\<lparr>w_faults := tl (w_faults w)\<rparr>)"
proof -
  obtain rows ms where w: "w_rows w = Some rows" "parse_rows_new c rows = Some ms" "stored c w = ms"
    using assms(1) by (rule store_okE)
  then show ?thesis
    using select_ascending_calm [OF assms w(1)] by (simp add: load_all_def)
qed

lemma find_rev_filter: "find Q (rev xs) = (case rev (filter Q xs) of [] \<Rightarrow> None | m # _ \<Rightarrow> Some m)"
proof -
  have "find Q ys = (case filter Q ys of [] \<Rightarrow> None | m # _ \<Rightarrow> Some m)" for ys
    by (induction ys) auto
  then show ?thesis by (simp add: rev_filter)
qed

lemma first_of_filtered:
  assumes "store_ok c w" and "calm w"
    and "\<And>r m. parse_row c r = Some m \<Longrightarrow> P r \<longleftrightarrow> Q m"
  shows "bind_eff (select_descending P) (first_migration c) w = (Inr (find Q (rev (stored c w))), w\<lparr>w_faults := tl (w_faults w)\<rparr>)"
proof -
  obtain rows ms where w: "w_rows w = Some rows" "parse_rows_new c rows = Some ms" "stored c w = ms"
    using assms(1) by (rule store_okE)
  have "list_all2 (\<lambda>r m. parse_row c r = Some m) (filter P rows) (filter Q ms)"
    using w(2) assms(3) by (intro list_all2_filter) (auto simp: parse_rows_iff)
  then have "parse_rows_new c (rev (filter P rows)) = Some (rev (filter Q ms))"
    by (simp add: parse_rows_iff)
  then show ?thesis
    using select_descending_calm [OF assms(1,2) w(1), of P] w(3)
    by (simp add: first_migration_def find_rev_filter)
qed

lemma persistence_last_calm:
  assumes "store_ok c w" and "calm w"
  shows "persistence_last c w =
    (Inr (find (\<lambda>m. mg_status m = MigrationSuccess) (rev (stored c w))), w\<lparr>w_faults := tl (w_faults w)\<rparr>)"
  unfolding persistence_last_def
proof (rule first_of_filtered [OF assms])
  fix r and m :: "'a migration"
  assume "parse_row c r = Some m"
  then have "status_from_str (r_status r) = Some (mg_status m)" by (auto simp: parse_row_def bind_eq_Some_conv)
  then have "r_status r = status_code (mg_status m)" by (auto simp: status_from_str_def split: if_splits)
  then show "(r_status r = status_code MigrationSuccess) = (mg_status m = MigrationSuccess)"
    by (simp only: status_code_inj)
qed

lemma by_name_calm:
  assumes "store_ok c w" and "calm w"
  shows "by_name c name w = (Inr (find (\<lambda>m. mg_name m = name) (rev (stored c w))), w\<lparr>w_faults := tl (w_faults w)\<rparr>)"
  unfolding by_name_def by (rule first_of_filtered [OF assms]) (auto simp: parse_row_def bind_eq_Some_conv)

lemma rows_sorted_append:
  assumes "rows_sorted w rows" and "0 < w_next w"
  shows "rows_sorted (w'\<lparr>w_next := w_next w + 1\<rparr>) (rows @ [insert_row c family m (int (w_next w))])"
  using assms by (auto simp: rows_sorted_def sorted_wrt_append insert_row_def list_all_iff)

lemma persistence_create_calm:
  assumes "codec_ok c" and "store_ok c w" and "calm w" and "new_ok m"
  shows "\<exists>w'. persistence_create c family m w = (Inr (m\<lparr>mg_revision := w_next w\<rparr>), w')
    \<and> store_ok c w' \<and> calm w' \<and> stored c w' = stored c w @ [m\<lparr>mg_revision := w_next w\<rparr>] \<and> w_schema w' = w_schema w"
proof -
  obtain rows ms where w: "w_rows w = Some rows" "0 < w_next w" "rows_sorted w rows" "parse_rows_new c rows = Some ms"
    "stored c w = ms"
    using assms(2) by (rule store_okE)
  let ?row = "insert_row c family m (int (w_next w))"
  let ?w' = "w\<lparr>w_faults := tl (w_faults w), w_rows := Some (rows @ [?row]), w_next := w_next w + 1\<rparr>"
  have "persistence_create c family m w = (Inr (m\<lparr>mg_revision := w_next w\<rparr>), ?w')"
    using w(1) by (simp add: persistence_create_def run_query_calm [OF assms(3)])
  moreover have "store_ok c ?w' \<and> stored c ?w' = ms @ [m\<lparr>mg_revision := w_next w\<rparr>]"
  proof (rule store_okI)
    show "w_rows ?w' = Some (rows @ [?row])" "0 < w_next ?w'" by simp_all
    show "rows_sorted ?w' (rows @ [?row])" using rows_sorted_append [OF w(3,2), of ?w'] by (simp add: rows_sorted_def)
    show "parse_rows_new c (rows @ [?row]) = Some (ms @ [m\<lparr>mg_revision := w_next w\<rparr>])"
      using w(4) parse_insert_row [OF assms(1,4), of family "w_next w"]
      by (simp add: parse_rows_iff list_all2_appendI)
  qed
  moreover have "calm ?w'" using calm_step [OF assms(3)] by (simp add: calm_def)
  ultimately show ?thesis using w(5) by auto
qed

lemma update_rows:
  assumes "codec_ok c" and "store_ok c w" and "params_ok p" and "w_rows w = Some rows"
  shows "store_ok c (w\<lparr>w_faults := fs, w_rows := Some (map (update_row c family p) rows)\<rparr>)
    \<and> stored c (w\<lparr>w_faults := fs, w_rows := Some (map (update_row c family p) rows)\<rparr>) = map (apply_update p) (stored c w)"
proof -
  obtain ms where w: "0 < w_next w" "rows_sorted w rows" "parse_rows_new c rows = Some ms" "stored c w = ms"
    using assms(2,4) by (auto elim: store_okE)
  have rev: "r_revision (update_row c family p r) = r_revision r" for r by (simp add: update_row_def)
  have "list_all2 (\<lambda>r m. parse_row c r = Some m) rows ms" "list_all (\<lambda>r. 0 \<le> r_revision r) rows"
    using w(2,3) by (auto simp: parse_rows_iff rows_sorted_def list_all_iff)
  then have "list_all2 (\<lambda>r m. parse_row c r = Some m) (map (update_row c family p) rows) (map (apply_update p) ms)"
    by (induction rule: list_all2_induct) (auto simp: parse_update_row [OF assms(1,3)])
  then have "parse_rows_new c (map (update_row c family p) rows) = Some (map (apply_update p) ms)"
    by (simp add: parse_rows_iff)
  moreover have "rows_sorted w' (map (update_row c family p) rows)" if "w_next w' = w_next w" for w' :: "'b world"
    using w(2) that by (simp add: rows_sorted_def rev comp_def list_all_iff)
  ultimately show ?thesis
    unfolding w(4) using w(1) by (intro store_okI [of _ "map (update_row c family p) rows"]) simp_all
qed

lemma persistence_update_faulty:
  assumes "codec_ok c" and "store_ok c w" and "params_ok p" and "persistence_update c family p w = (r, w')"
  shows "store_ok c w' \<and> w_schema w' = w_schema w \<and>
    (r = Inr () \<and> stored c w' = map (apply_update p) (stored c w) \<or> (\<exists>e. r = Inl e) \<and> stored c w' = stored c w)"
proof -
  obtain rows where rows: "w_rows w = Some rows" using assms(2) by (rule store_okE)
  let ?w1 = "w\<lparr>w_faults := tl (w_faults w)\<rparr>"
  consider "r = Inl QueryError" "w' = ?w1"
    | "r = Inr ()" "w' = w\<lparr>w_faults := tl (w_faults w), w_rows := Some (map (update_row c family p) rows)\<rparr>"
    using assms(4) rows by (auto simp: persistence_update_def run_query_def on_table_def Let_def split: if_splits)
  then show ?thesis
  proof cases
    case 1
    then show ?thesis using assms(2) same_store_ok [OF same_store_step] same_store_stored [OF same_store_step] by auto
  next
    case 2
    then show ?thesis using update_rows [OF assms(1-3) rows] by simp
  qed
qed

lemma persistence_update_calm:
  assumes "codec_ok c" and "store_ok c w" and "calm w" and "params_ok p"
  shows "\<exists>w'. persistence_update c family p w = (Inr (), w')
    \<and> store_ok c w' \<and> calm w' \<and> stored c w' = map (apply_update p) (stored c w) \<and> w_schema w' = w_schema w"
proof -
  obtain rows where rows: "w_rows w = Some rows" using assms(2) by (rule store_okE)
  let ?w' = "w\<lparr>w_faults := tl (w_faults w), w_rows := Some (map (update_row c family p) rows)\<rparr>"
  have "persistence_update c family p w = (Inr (), ?w')"
    using rows by (simp add: persistence_update_def run_query_calm [OF assms(3)] on_table_def)
  moreover have "calm ?w'" using calm_step [OF assms(3)] by (simp add: calm_def)
  ultimately show ?thesis using update_rows [OF assms(1,2,4) rows] by auto
qed

section \<open>The contract of the persistence\<close>

text \<open>
  \<open>ok\<close> is the invariant of the store, \<open>quiet\<close> says that no query will fail from here on, \<open>frame\<close> is
  the part of the state the store leaves alone. The laws of \<open>update\<close> cover failing queries.
\<close>

locale migration_store =
  fixes ok :: "'w \<Rightarrow> bool"
    and quiet :: "'w \<Rightarrow> bool"
    and migrations :: "'w \<Rightarrow> 'j migration list"
    and frame :: "'w \<Rightarrow> 'q"
    and load :: "('w, 'e, 'j migration list) eff"
    and last_op :: "('w, 'e, 'j migration option) eff"
    and create :: "'j migration \<Rightarrow> ('w, 'e, 'j migration) eff"
    and update :: "migration_update_params \<Rightarrow> ('w, 'e, unit) eff"
  assumes load: "ok w \<Longrightarrow> quiet w \<Longrightarrow> \<exists>w'. load w = (Inr (migrations w), w') \<and> ok w' \<and> quiet w'
      \<and> migrations w' = migrations w \<and> frame w' = frame w"
    and last: "ok w \<Longrightarrow> quiet w \<Longrightarrow> \<exists>w'. last_op w = (Inr (find (\<lambda>m. mg_status m = MigrationSuccess) (rev (migrations w))), w')
      \<and> ok w' \<and> quiet w' \<and> migrations w' = migrations w \<and> frame w' = frame w"
    and create: "ok w \<Longrightarrow> quiet w \<Longrightarrow> new_ok m \<Longrightarrow> \<exists>r w'. create m w = (Inr (m\<lparr>mg_revision := r\<rparr>), w') \<and> ok w' \<and> quiet w'
      \<and> migrations w' = migrations w @ [m\<lparr>mg_revision := r\<rparr>] \<and> frame w' = frame w"
    and update: "ok w \<Longrightarrow> quiet w \<Longrightarrow> params_ok p \<Longrightarrow> \<exists>w'. update p w = (Inr (), w') \<and> ok w' \<and> quiet w'
      \<and> migrations w' = map (apply_update p) (migrations w) \<and> frame w' = frame w"
    and update_faulty: "ok w \<Longrightarrow> params_ok p \<Longrightarrow> update p w = (r, w') \<Longrightarrow> ok w' \<and> frame w' = frame w
      \<and> (r = Inr () \<and> migrations w' = map (apply_update p) (migrations w) \<or> (\<exists>e. r = Inl e) \<and> migrations w' = migrations w)"
    and unique_revisions: "ok w \<Longrightarrow> distinct (map mg_revision (migrations w))"
begin

lemma query_all:
  assumes "ok w" and "quiet w"
  shows "\<exists>w'. bind_eff load (\<lambda>ms. return_eff (f ms)) w = (Inr (f (migrations w)), w') \<and> ok w' \<and> quiet w'
    \<and> migrations w' = migrations w \<and> frame w' = frame w"
proof -
  obtain w' where "load w = (Inr (migrations w), w')" "ok w'" "quiet w'" "migrations w' = migrations w" "frame w' = frame w"
    using load [OF assms] by blast
  then show ?thesis by (simp add: return_eff_run)
qed

lemma created_revision_fresh:
  assumes "ok w" and "quiet w" and "new_ok m" and "create m w = (Inr m', w')"
  shows "mg_revision m' \<notin> mg_revision ` set (migrations w)"
proof -
  obtain r where "m' = m\<lparr>mg_revision := r\<rparr>" "ok w'" "migrations w' = migrations w @ [m\<lparr>mg_revision := r\<rparr>]"
    using create [OF assms(1-3)] assms(4) by auto
  then show ?thesis using unique_revisions [of w'] by auto
qed

lemma update_others:
  assumes "ok w" and "quiet w" and "params_ok p" and "update p w = (Inr (), w')"
    and "m \<in> set (migrations w)" and "mg_revision m \<noteq> up_revision p"
  shows "m \<in> set (migrations w')"
proof -
  have "migrations w' = map (apply_update p) (migrations w)" using update [OF assms(1-3)] assms(4) by auto
  then show ?thesis using assms(5,6) by (force simp: apply_update_def)
qed

end

interpretation sql_store: migration_store
  "\<lambda>w. codec_ok c \<and> store_ok c w" calm "stored c" w_schema "load_all c" "persistence_last c"
  "persistence_create c family" "persistence_update c family"
  for c :: "'j codec" and family
proof unfold_locales
  fix w :: "'q world"
  assume ok: "codec_ok c \<and> store_ok c w" and quiet: "calm w"
  let ?w' = "w\<lparr>w_faults := tl (w_faults w)\<rparr>"
  have step: "codec_ok c \<and> store_ok c ?w'" "calm ?w'" "stored c ?w' = stored c w" "w_schema ?w' = w_schema w"
    using ok calm_step [OF quiet] same_store_ok [OF same_store_step] same_store_stored [OF same_store_step] by auto
  show "\<exists>w'. load_all c w = (Inr (stored c w), w') \<and> (codec_ok c \<and> store_ok c w') \<and> calm w'
      \<and> stored c w' = stored c w \<and> w_schema w' = w_schema w"
    using load_all_calm [of c w] ok quiet step by blast
  show "\<exists>w'. persistence_last c w = (Inr (find (\<lambda>m. mg_status m = MigrationSuccess) (rev (stored c w))), w')
      \<and> (codec_ok c \<and> store_ok c w') \<and> calm w' \<and> stored c w' = stored c w \<and> w_schema w' = w_schema w"
    using persistence_last_calm [of c w] ok quiet step by blast
  show "\<exists>r w'. persistence_create c family m w = (Inr (m\<lparr>mg_revision := r\<rparr>), w') \<and> (codec_ok c \<and> store_ok c w')
      \<and> calm w' \<and> stored c w' = stored c w @ [m\<lparr>mg_revision := r\<rparr>] \<and> w_schema w' = w_schema w" if "new_ok m" for m
    using persistence_create_calm [of c w m family] ok quiet that by blast
  show "\<exists>w'. persistence_update c family p w = (Inr (), w') \<and> (codec_ok c \<and> store_ok c w') \<and> calm w'
      \<and> stored c w' = map (apply_update p) (stored c w) \<and> w_schema w' = w_schema w" if "params_ok p" for p
    using persistence_update_calm [of c w p family] ok quiet that by blast
next
  fix w w' :: "'q world" and p r
  assume "codec_ok c \<and> store_ok c w" "params_ok p" "persistence_update c family p w = (r, w')"
  then show "(codec_ok c \<and> store_ok c w') \<and> w_schema w' = w_schema w \<and>
      (r = Inr () \<and> stored c w' = map (apply_update p) (stored c w) \<or> (\<exists>e. r = Inl e) \<and> stored c w' = stored c w)"
    using persistence_update_faulty [of c w p family r w'] by blast
next
  fix w :: "'q world"
  assume "codec_ok c \<and> store_ok c w"
  then show "distinct (map mg_revision (stored c w))" using revisions_distinct by blast
qed

end
