(* ===== verification/Store_Invariant.thy ===== *)
theory Store_Invariant
  imports Persistence_Laws
begin

text \<open>
  The migration table as a state machine: every operation of the persistence, under any schedule of
  failing statements, and every statement that leaves the table alone is a step, and the store stays
  readable with increasing revisions in every reachable state.
\<close>

section \<open>Steps\<close>

inductive store_step :: "'j codec \<Rightarrow> sql_family \<Rightarrow> 'q world \<Rightarrow> 'q world \<Rightarrow> bool"
  for c family where
  init: "persistence_init w = (r, w') \<Longrightarrow> store_step c family w w'"
| reset: "persistence_reset w = (r, w') \<Longrightarrow> store_step c family w w'"
| create: "new_ok m \<Longrightarrow> persistence_create c family m w = (r, w') \<Longrightarrow> store_step c family w w'"
| update: "params_ok p \<Longrightarrow> persistence_update c family p w = (r, w') \<Longrightarrow> store_step c family w w'"
| read_last: "persistence_last c w = (r, w') \<Longrightarrow> store_step c family w w'"
| read_all: "load_all c w = (s, w') \<Longrightarrow> store_step c family w w'"
| read_by_name: "by_name c name w = (r, w') \<Longrightarrow> store_step c family w w'"
| other: "w_rows w' = w_rows w \<Longrightarrow> w_next w' = w_next w \<Longrightarrow> store_step c family w w'"

inductive reachable_store :: "'j codec \<Rightarrow> sql_family \<Rightarrow> 'q world \<Rightarrow> bool" for c family where
  fresh: "w_rows w = None \<Longrightarrow> reachable_store c family w"
| step: "reachable_store c family w \<Longrightarrow> store_step c family w w' \<Longrightarrow> reachable_store c family w'"

section \<open>The invariant\<close>

definition store_inv :: "'j codec \<Rightarrow> 'q world \<Rightarrow> bool" where
  "store_inv c w \<longleftrightarrow> w_rows w = None \<or> store_ok c w"

lemma store_inv_cong: "w_rows w' = w_rows w \<Longrightarrow> w_next w' = w_next w \<Longrightarrow> store_inv c w' = store_inv c w"
  by (simp add: store_inv_def store_ok_def rows_sorted_def cong: option.case_cong)

lemma store_inv_faults [simp]: "store_inv c (w\<lparr>w_faults := fs\<rparr>) = store_inv c w"
  by (rule store_inv_cong) simp_all

text \<open>A failing statement changes nothing; one that runs has its effect on the world with the fault consumed.\<close>

lemma run_query_cases:
  assumes "run_query f w = (r, w')"
  obtains "w' = w\<lparr>w_faults := tl (w_faults w)\<rparr>" and "isl r"
  | a where "f (w\<lparr>w_faults := tl (w_faults w)\<rparr>) = Inr (a, w')" and "r = Inr a"
  using assms by (auto simp: run_query_def Let_def split: if_splits sum.splits)

lemma run_query_inv:
  assumes "run_query f w = (r, w')" and "store_inv c w"
    and "\<And>w a w'. store_inv c w \<Longrightarrow> f w = Inr (a, w') \<Longrightarrow> store_inv c w'"
  shows "store_inv c w'"
  using assms(1)
proof (cases rule: run_query_cases)
  case 1
  then show ?thesis using assms(2) by simp
next
  case (2 a)
  then show ?thesis using assms(2) by (simp add: assms(3) [of "w\<lparr>w_faults := tl (w_faults w)\<rparr>" a w'])
qed

lemma on_table_Inr:
  assumes "on_table g w = Inr (a, w')"
  obtains rows where "w_rows w = Some rows" and "w' = w\<lparr>w_rows := Some (snd (g rows))\<rparr>"
  using assms by (auto simp: on_table_def split: option.splits prod.splits)

lemma read_inv:
  assumes "run_query (on_table g) w = (r, w')" and "\<And>rows. snd (g rows) = rows" and "store_inv c w"
  shows "store_inv c w'"
proof (rule run_query_inv [OF assms(1,3)])
  fix u :: "'b world" and a u'
  assume "store_inv c u" and "on_table g u = Inr (a, u')"
  then show "store_inv c u'"
    using assms(2) store_inv_cong [of u' u c] by (auto elim!: on_table_Inr)
qed

lemma select_inv:
  "select_descending P w = (r, w') \<Longrightarrow> store_inv c w \<Longrightarrow> store_inv c w'"
  "select_ascending P w = (r, w') \<Longrightarrow> store_inv c w \<Longrightarrow> store_inv c w'"
  unfolding select_descending_def select_ascending_def by (rule read_inv, assumption, simp, assumption)+

lemma queries_inv:
  "persistence_last c w = (r, w') \<Longrightarrow> store_inv c w \<Longrightarrow> store_inv c w'"
  "by_name c name w = (r, w') \<Longrightarrow> store_inv c w \<Longrightarrow> store_inv c w'"
  "load_all c w = (s, w') \<Longrightarrow> store_inv c w \<Longrightarrow> store_inv c w'"
  unfolding persistence_last_def by_name_def load_all_def first_migration_def bind_eff_eq
  by (auto dest: select_inv)

lemma store_ok_empty: "0 < w_next w \<Longrightarrow> w_rows w = Some [] \<Longrightarrow> store_ok c w"
  by (simp add: store_ok_def rows_sorted_def parse_rows_iff)

lemma init_inv:
  assumes "persistence_init w = (r, w')" and "store_inv c w"
  shows "store_inv c w'"
proof -
  obtain u where "run_query (\<lambda>w. case w_rows w of
        None \<Rightarrow> Inr ((), w\<lparr>w_rows := Some [], w_next := 1\<rparr>) | Some _ \<Rightarrow> Inl QueryError) w = (u, w')"
    using assms(1) by (auto simp: persistence_init_def split: prod.splits)
  then show ?thesis using assms(2)
    by (rule run_query_inv) (auto simp: store_inv_def split: option.splits intro!: store_ok_empty)
qed

lemma reset_inv:
  assumes "persistence_reset w = (r, w')" and "store_inv c w"
  shows "store_inv c w'"
proof -
  obtain u where "run_query (on_table (\<lambda>_. ((), []))) w = (u, w')"
    using assms(1) by (auto simp: persistence_reset_def split: prod.splits)
  then show ?thesis
  proof (rule run_query_inv [OF _ assms(2)])
    fix v :: "'a world" and a v'
    assume "store_inv c v" and "on_table (\<lambda>_. ((), [])) v = Inr (a, v')"
    then obtain rows where "store_ok c v" and v': "v' = v\<lparr>w_rows := Some []\<rparr>"
      by (auto simp: store_inv_def elim!: on_table_Inr)
    then have "0 < w_next v" by (auto elim: store_okE)
    then show "store_inv c v'" by (simp add: v' store_inv_def store_ok_empty)
  qed
qed

lemma update_inv:
  assumes "codec_ok c" and "params_ok p" and "persistence_update c family p w = (r, w')" and "store_inv c w"
  shows "store_inv c w'"
proof (cases "w_rows w")
  case None
  then have "w' = w\<lparr>w_faults := tl (w_faults w)\<rparr>"
    using assms(3) unfolding persistence_update_def by (auto elim!: run_query_cases on_table_Inr)
  then show ?thesis using assms(4) by simp
next
  case (Some rows)
  then have "store_ok c w" using assms(4) by (simp add: store_inv_def)
  then show ?thesis using persistence_update_faulty [OF assms(1) _ assms(2,3)] by (simp add: store_inv_def)
qed

lemma create_inv:
  assumes "codec_ok c" and "new_ok m" and "persistence_create c family m w = (r, w')" and "store_inv c w"
  shows "store_inv c w'"
proof -
  let ?insert = "\<lambda>w. case w_rows w of
          None \<Rightarrow> Inl QueryError
        | Some rows \<Rightarrow> Inr (w_next w, w\<lparr>w_rows := Some (rows @ [insert_row c family m (int (w_next w))]), w_next := w_next w + 1\<rparr>)"
  obtain u where "run_query ?insert w = (u, w')"
    using assms(3) by (auto simp: persistence_create_def split: prod.splits sum.splits)
  then show ?thesis
  proof (rule run_query_inv [OF _ assms(4)])
    fix v :: "'b world" and a v'
    assume inv: "store_inv c v" and ins: "?insert v = Inr (a, v')"
    then obtain rows where rows: "w_rows v = Some rows"
      and v': "v' = v\<lparr>w_rows := Some (rows @ [insert_row c family m (int (w_next v))]), w_next := w_next v + 1\<rparr>"
      by (auto split: option.splits)
    let ?v0 = "v\<lparr>w_faults := []\<rparr>"
    have "store_inv c ?v0" using inv by simp
    then have ok: "store_ok c ?v0" using rows by (simp add: store_inv_def)
    have calm: "calm ?v0" by (simp add: calm_def)
    from persistence_create_calm [OF assms(1) ok calm assms(2), of family]
    have "store_ok c (v\<lparr>w_faults := [], w_rows := w_rows v', w_next := w_next v'\<rparr>)"
      using rows by (auto simp: persistence_create_def run_query_def v')
    then have "store_inv c (v\<lparr>w_faults := [], w_rows := w_rows v', w_next := w_next v'\<rparr>)" by (simp add: store_inv_def)
    moreover have "store_inv c v' = store_inv c (v\<lparr>w_faults := [], w_rows := w_rows v', w_next := w_next v'\<rparr>)"
      by (rule store_inv_cong) simp_all
    ultimately show "store_inv c v'" by blast
  qed
qed

lemma store_step_inv:
  assumes "codec_ok c" and "store_step c family w w'" and "store_inv c w"
  shows "store_inv c w'"
  using assms(2)
proof (cases rule: store_step.cases)
  case (init r)
  then show ?thesis using assms(3) by (rule init_inv)
next
  case (reset r)
  then show ?thesis using assms(3) by (rule reset_inv)
next
  case (create m r)
  then show ?thesis using assms(3) by (rule create_inv [OF assms(1)])
next
  case (update p r)
  then show ?thesis using assms(3) by (rule update_inv [OF assms(1)])
next
  case (other)
  then show ?thesis using assms(3) by (rule store_inv_cong [THEN iffD2])
next
  case (read_last r)
  then show ?thesis using assms(3) by (rule queries_inv(1))
next
  case (read_all s)
  then show ?thesis using assms(3) by (rule queries_inv(3))
next
  case (read_by_name name r)
  then show ?thesis using assms(3) by (rule queries_inv(2))
qed

lemma reachable_inv:
  assumes "codec_ok c" and "reachable_store c family w"
  shows "store_inv c w"
  using assms(2)
proof induction
  case (fresh w)
  then show ?case by (simp add: store_inv_def)
next
  case (step w w')
  then show ?case by (simp add: store_step_inv [OF assms(1), of family w w'])
qed

end
