(* ===== verification/Migration_Applier.thy ===== *)
theory Migration_Applier
  imports Persistence_Laws Destructive_Changes
begin

text \<open>
  Applying and rolling back a migration: \<open>migration-connector/src/migration_applier.rs\<close> over a
  persistence and a step applier (its two trait objects are the arguments \<open>update\<close> and \<open>step\<close>),
  and the step applier of the SQL connector (\<open>apply_next_step\<close> of
  \<open>sql_database_step_applier.rs\<close>). The loops ask the step applier whether to go on and need not
  end, so they are partial functions: \<open>None\<close> is a loop that never returns. What a statement does to
  the database is the parameter \<open>exec\<close>; \<open>None\<close> is an error of the database.
\<close>

section \<open>Steps of the SQL connector\<close>

definition exec_statement :: "(string \<Rightarrow> 'q \<Rightarrow> 'q option) \<Rightarrow> string \<Rightarrow> unit \<Rightarrow> ('q, unit) op" where
  "exec_statement exec sql _ = run_query (\<lambda>w. case exec sql (w_schema w) of
     None \<Rightarrow> Inl QueryError
   | Some q \<Rightarrow> Inr ((), w\<lparr>w_schema := q\<rparr>))"

text \<open>The texts of rendering errors are not modelled, only that they are generic errors.\<close>

definition sql_error :: "render_error \<Rightarrow> connector_error" where
  "sql_error e = (case e of RenderPanic _ \<Rightarrow> ConnectorPanic | _ \<Rightarrow> GenericError ''rendering'')"

definition map_err :: "('e \<Rightarrow> 'f) \<Rightarrow> ('e, 'a) res \<Rightarrow> ('f, 'a) res" where
  "map_err f r = (case r of Inl e \<Rightarrow> Inl (f e) | Inr a \<Rightarrow> Inr a)"

definition apply_next_step ::
    "(string \<Rightarrow> 'q \<Rightarrow> 'q option) \<Rightarrow> displays \<Rightarrow> database_info \<Rightarrow> sql_schema \<Rightarrow> sql_schema \<Rightarrow>
     sql_migration_step list \<Rightarrow> nat \<Rightarrow> ('q, bool) op" where
  "apply_next_step exec d info current_schema next_schema steps index =
     (if \<not> index < length steps then return_eff False
      else
        bind_eff (lift_eff (map_err sql_error (render_raw_sql d info current_schema next_schema (steps ! index)))) (\<lambda>sqls.
        bind_eff (fold_eff (exec_statement exec) sqls ()) (\<lambda>_.
        return_eff (index + 1 < length steps))))"

definition apply_sql_step ::
    "(string \<Rightarrow> 'q \<Rightarrow> 'q option) \<Rightarrow> displays \<Rightarrow> database_info \<Rightarrow> sql_migration \<Rightarrow> nat \<Rightarrow> ('q, bool) op" where
  "apply_sql_step exec d info m = apply_next_step exec d info (sm_before m) (sm_after m) (sm_corrected_steps m)"

definition unapply_sql_step ::
    "(string \<Rightarrow> 'q \<Rightarrow> 'q option) \<Rightarrow> displays \<Rightarrow> database_info \<Rightarrow> sql_migration \<Rightarrow> nat \<Rightarrow> ('q, bool) op" where
  "unapply_sql_step exec d info m = apply_next_step exec d info (sm_after m) (sm_before m) (sm_rollback m)"

section \<open>The loops\<close>

type_synonym ('w, 'e, 'a) run = "'w \<Rightarrow> (('e, 'a) res \<times> 'w) option"

text \<open>
  \<open>go_forward\<close> and \<open>go_backward\<close> are the same loop over different counters; \<open>bump\<close> is the increment.
\<close>

partial_function (option) go_steps ::
    "(migration_update_params \<Rightarrow> migration_update_params) \<Rightarrow> (migration_update_params \<Rightarrow> ('w, 'e, unit) eff) \<Rightarrow>
     (nat \<Rightarrow> ('w, 'e, bool) eff) \<Rightarrow> nat \<Rightarrow> migration_update_params \<Rightarrow>
     'w \<Rightarrow> ((('e, unit) res \<times> migration_update_params) \<times> 'w) option" where
  "go_steps bump update step i p w =
     (case step i w of
        (Inl e, w1) \<Rightarrow> Some ((Inl e, p), w1)
      | (Inr has_more, w1) \<Rightarrow>
          (if has_more then
             (case update (bump p) w1 of
                (Inl e, w2) \<Rightarrow> Some ((Inl e, bump p), w2)
              | (Inr _, w2) \<Rightarrow> go_steps bump update step (i + 1) (bump p) w2)
           else Some ((Inr (), p), w1)))"

definition bump_applied :: "migration_update_params \<Rightarrow> migration_update_params" where
  "bump_applied p = p\<lparr>up_applied := up_applied p + 1\<rparr>"

definition bump_rolled_back :: "migration_update_params \<Rightarrow> migration_update_params" where
  "bump_rolled_back p = p\<lparr>up_rolled_back := up_rolled_back p + 1\<rparr>"

definition go_forward ::
    "(migration_update_params \<Rightarrow> ('w, 'e, unit) eff) \<Rightarrow> (nat \<Rightarrow> ('w, 'e, bool) eff) \<Rightarrow> migration_update_params \<Rightarrow>
     'w \<Rightarrow> ((('e, unit) res \<times> migration_update_params) \<times> 'w) option" where
  "go_forward update step = go_steps bump_applied update step 0"

definition go_backward ::
    "(migration_update_params \<Rightarrow> ('w, 'e, unit) eff) \<Rightarrow> (nat \<Rightarrow> ('w, 'e, bool) eff) \<Rightarrow> migration_update_params \<Rightarrow>
     'w \<Rightarrow> ((('e, unit) res \<times> migration_update_params) \<times> 'w) option" where
  "go_backward update step = go_steps bump_rolled_back update step 0"

section \<open>Applying and rolling back\<close>

text \<open>
  The shared course of \<open>apply\<close> and \<open>unapply\<close>: store the starting status, run the loop, store what
  came of it. The result of the loop decides the status that is stored; an error of the loop is
  returned unless storing it fails as well. \<open>now\<close> is the clock, \<open>debug\<close> the debug text of an error.
\<close>

definition finish ::
    "(migration_update_params \<Rightarrow> migration_update_params) \<Rightarrow> migration_status \<Rightarrow> ('e \<Rightarrow> string) \<Rightarrow>
     (migration_update_params \<Rightarrow> ('w, 'e, unit) eff) \<Rightarrow> ('e, unit) res \<Rightarrow> migration_update_params \<Rightarrow> ('w, 'e, unit) eff" where
  "finish succeed failure debug update r p =
     (case r of
        Inr _ \<Rightarrow> update (succeed p)
      | Inl err \<Rightarrow> bind_eff (update (p\<lparr>up_status := failure, up_errors := [debug err]\<rparr>)) (\<lambda>_. fail_eff err))"

definition run_migration ::
    "migration_status \<Rightarrow> (migration_update_params \<Rightarrow> ('w, 'e, unit) eff) \<Rightarrow>
     (migration_update_params \<Rightarrow> 'w \<Rightarrow> ((('e, unit) res \<times> migration_update_params) \<times> 'w) option) \<Rightarrow>
     (('e, unit) res \<Rightarrow> migration_update_params \<Rightarrow> ('w, 'e, unit) eff) \<Rightarrow> 'j migration \<Rightarrow> ('w, 'e, unit) run" where
  "run_migration start update loop conclude m w =
     (let p = (update_params m)\<lparr>up_status := start\<rparr> in
      case update p w of
        (Inl e, w1) \<Rightarrow> Some (Inl e, w1)
      | (Inr _, w1) \<Rightarrow> map_option (\<lambda>((r, p1), w2). conclude r p1 w2) (loop p w1))"

definition apply_impl ::
    "datetime \<Rightarrow> (connector_error \<Rightarrow> string) \<Rightarrow> (migration_update_params \<Rightarrow> ('w, connector_error, unit) eff) \<Rightarrow>
     (nat \<Rightarrow> ('w, connector_error, bool) eff) \<Rightarrow> 'j migration \<Rightarrow> ('w, connector_error, unit) run" where
  "apply_impl now debug update step m w =
     (if mg_status m \<noteq> Pending then Some (Inl (StatusAssertion (mg_status m)), w)
      else run_migration MigrationInProgress update (go_forward update step)
             (finish (mark_as_finished now) MigrationFailure debug update) m w)"

definition unapply_impl ::
    "(connector_error \<Rightarrow> string) \<Rightarrow> (migration_update_params \<Rightarrow> ('w, connector_error, unit) eff) \<Rightarrow>
     (nat \<Rightarrow> ('w, connector_error, bool) eff) \<Rightarrow> 'j migration \<Rightarrow> ('w, connector_error, unit) run" where
  "unapply_impl debug update step m w =
     (if mg_status m \<noteq> MigrationSuccess then Some (Inl (StatusAssertion (mg_status m)), w)
      else run_migration RollingBack update (go_backward update step)
             (finish (\<lambda>p. p\<lparr>up_status := RollbackSuccess\<rparr>) RollbackFailure debug update) m w)"

end
