(* ===== verification/Migration_Commands.thy ===== *)
theory Migration_Commands
  imports Migration_Applier Datamodel_Calculator Datamodel_Differ
begin

text \<open>
  The commands of the migration engine (\<open>migration-engine/core/src/commands\<close> and
  \<open>migration_engine.rs\<close>), one definition per RPC method. The record \<open>engine\<close> holds what a command
  reaches: the persistence of the SQL connector by its codec and SQL family, and as parameters the
  parser, validator and renderer of datamodels, the database inferrer, the checker, the step applier
  and the serialization of a database migration. A command runs in the world of the persistence; one
  that applies or rolls back a migration contains the loop of the applier and is a partial run.
\<close>

section \<open>Engine and errors\<close>

text \<open>
  \<open>InputUnparsable\<close> is the input error that carries the pretty text of parser errors; the errors of
  the calculator are generic errors of the source.
\<close>

datatype 'x command_error =
    DatabaseMigrationFormatChanged
  | ReceivedBadDatamodel 'x
  | ProducedBadDatamodel 'x
  | InvalidPersistedDatamodel 'x string
  | ConnectorFailed connector_error
  | CalculatorFailed calculator_error
  | InputError string
  | InputUnparsable 'x
  | CommandPanic

record ('q, 'j, 'm, 'd, 'x) engine =
  en_codec :: "'j codec"
  en_family :: sql_family
  en_now :: datetime
  en_debug :: "connector_error \<Rightarrow> string"
  en_empty_json :: 'j
  en_parse_expr :: expr_parser
  en_parse_ast :: "string \<Rightarrow> 'x + schema_ast"
  en_parse_datamodel :: "string \<Rightarrow> 'x + 'm"
  en_lift_ast :: "schema_ast \<Rightarrow> 'x + 'm"
  en_render_ast :: "schema_ast \<Rightarrow> 'x + string"
  en_render_datamodel :: "'m \<Rightarrow> string option"
  en_empty_datamodel :: 'm
  en_infer :: "'m \<Rightarrow> 'm \<Rightarrow> migration_step list \<Rightarrow> ('q, 'd) op"
  en_infer_from_datamodels :: "'m \<Rightarrow> 'm \<Rightarrow> migration_step list \<Rightarrow> ('q, 'd) op"
  en_check :: "'d \<Rightarrow> ('q, diagnostics) op"
  en_check_unapply :: "'d \<Rightarrow> ('q, diagnostics) op"
  en_apply_step :: "'d \<Rightarrow> nat \<Rightarrow> ('q, bool) op"
  en_unapply_step :: "'d \<Rightarrow> nat \<Rightarrow> ('q, bool) op"
  en_render_pretty :: "'d \<Rightarrow> connector_error + string list"
  en_serialize :: "'d \<Rightarrow> 'j"
  en_deserialize :: "'j \<Rightarrow> 'd option"
  en_version_check :: "'m \<Rightarrow> migration_error list"
  en_initialize :: "('q, unit) op"
  en_reset :: "('q, unit) op"

type_synonym ('q, 'x, 'a) command = "('q world, 'x command_error, 'a) eff"
type_synonym ('q, 'x, 'a) command_run = "('q world, 'x command_error, 'a) run"

definition connector_op :: "('q, 'a) op \<Rightarrow> ('q, 'x, 'a) command" where
  "connector_op m w = (case m w of (r, w') \<Rightarrow> (map_err ConnectorFailed r, w'))"

definition connector_run :: "('q world, connector_error, 'a) run \<Rightarrow> ('q, 'x, 'a) command_run" where
  "connector_run m w = map_option (\<lambda>(r, w'). (map_err ConnectorFailed r, w')) (m w)"

definition then_run :: "('w, 'e, 'a) eff \<Rightarrow> ('a \<Rightarrow> ('w, 'e, 'b) run) \<Rightarrow> ('w, 'e, 'b) run" where
  "then_run m f w = (case m w of (Inl e, w') \<Rightarrow> Some (Inl e, w') | (Inr a, w') \<Rightarrow> f a w')"

definition run_then :: "('w, 'e, 'a) run \<Rightarrow> ('a \<Rightarrow> ('w, 'e, 'b) eff) \<Rightarrow> ('w, 'e, 'b) run" where
  "run_then m f w = map_option (\<lambda>(r, w'). case r of Inl e \<Rightarrow> (Inl e, w') | Inr a \<Rightarrow> f a w') (m w)"

definition run_eff :: "('w, 'e, 'a) eff \<Rightarrow> ('w, 'e, 'a) run" where
  "run_eff m w = Some (m w)"

record migration_steps_result_output =
  out_datamodel :: string
  out_datamodel_steps :: "migration_step list"
  out_database_steps :: "string list"
  out_errors :: "migration_error list"
  out_warnings :: "string list"
  out_general_errors :: "string list"
  out_unexecutable :: "string list"

section \<open>Datamodels of stored migrations\<close>

definition persisted_ast :: "('q, 'j, 'm, 'd, 'x) engine \<Rightarrow> 'j migration option \<Rightarrow> 'x command_error + schema_ast" where
  "persisted_ast en m =
     (case m of
        None \<Rightarrow> Inr schema_empty
      | Some mg \<Rightarrow> map_err (\<lambda>x. InvalidPersistedDatamodel x (mg_datamodel_string mg)) (en_parse_ast en (mg_datamodel_string mg)))"

definition persisted_datamodel :: "('q, 'j, 'm, 'd, 'x) engine \<Rightarrow> 'j migration option \<Rightarrow> 'x command_error + 'm" where
  "persisted_datamodel en m =
     (case m of
        None \<Rightarrow> Inr (en_empty_datamodel en)
      | Some mg \<Rightarrow> map_err (\<lambda>x. InvalidPersistedDatamodel x (mg_datamodel_string mg)) (en_parse_datamodel en (mg_datamodel_string mg)))"

definition calculate :: "('q, 'j, 'm, 'd, 'x) engine \<Rightarrow> schema_ast \<Rightarrow> migration_step list \<Rightarrow> 'x command_error + schema_ast" where
  "calculate en ast steps = map_err CalculatorFailed (calculator_infer (en_parse_expr en) ast steps)"

definition lift_ast :: "('q, 'j, 'm, 'd, 'x) engine \<Rightarrow> schema_ast \<Rightarrow> 'x command_error + 'm" where
  "lift_ast en ast = map_err ProducedBadDatamodel (en_lift_ast en ast)"

definition infer_steps :: "schema_ast \<Rightarrow> schema_ast \<Rightarrow> 'x command_error + migration_step list" where
  "infer_steps p n = map_err (\<lambda>_. CommandPanic) (inferrer_infer p n)"

definition rendered_datamodel :: "('q, 'j, 'm, 'd, 'x) engine \<Rightarrow> 'm \<Rightarrow> 'x command_error + string" where
  "rendered_datamodel en m = ok_or CommandPanic (en_render_datamodel en m)"

section \<open>ApplyMigration\<close>

record apply_migration_input =
  am_migration_id :: string
  am_steps :: "migration_step list"
  am_force :: "bool option"

text \<open>The applier of the connector: its persistence and its step applier.\<close>

definition engine_apply :: "('q, 'j, 'm, 'd, 'x) engine \<Rightarrow> datetime \<Rightarrow> 'j migration \<Rightarrow> 'd \<Rightarrow> ('q, 'x, unit) command_run" where
  "engine_apply en timestamp m d =
     connector_run (apply_impl timestamp (en_debug en) (persistence_update (en_codec en) (en_family en)) (en_apply_step en d) m)"

definition engine_unapply :: "('q, 'j, 'm, 'd, 'x) engine \<Rightarrow> 'j migration \<Rightarrow> 'd \<Rightarrow> ('q, 'x, unit) command_run" where
  "engine_unapply en m d =
     connector_run (unapply_impl (en_debug en) (persistence_update (en_codec en) (en_family en)) (en_unapply_step en d) m)"

text \<open>Everything before the migration is saved: inference, rendering and the check.\<close>

definition prepare_migration ::
    "('q, 'j, 'm, 'd, 'x) engine \<Rightarrow> apply_migration_input \<Rightarrow> 'm \<Rightarrow> schema_ast \<Rightarrow>
     ('q, 'x, 'm \<times> 'd \<times> string list \<times> datetime \<times> 'j migration \<times> diagnostics) command" where
  "prepare_migration en input current_datamodel next_ast =
     bind_eff (lift_eff (lift_ast en next_ast)) (\<lambda>next_datamodel.
     bind_eff (connector_op (en_infer en current_datamodel next_datamodel (am_steps input))) (\<lambda>database_migration.
     bind_eff (lift_eff (map_err ConnectorFailed (en_render_pretty en database_migration))) (\<lambda>pretty.
     bind_eff (lift_eff (ok_or CommandPanic (timestamp_without_nanos (en_now en)))) (\<lambda>timestamp.
     let migration = (migration_new (en_empty_json en) timestamp (am_migration_id input))
           \<lparr>mg_datamodel_steps := am_steps input, mg_database_migration := en_serialize en database_migration\<rparr> in
     bind_eff (lift_eff (map_err ProducedBadDatamodel (en_render_ast en next_ast))) (\<lambda>datamodel_string.
     bind_eff (connector_op (en_check en database_migration)) (\<lambda>diagnostics.
     return_eff (next_datamodel, database_migration, pretty, timestamp,
       migration\<lparr>mg_datamodel_string := datamodel_string\<rparr>, diagnostics)))))))"

text \<open>With warnings and without the force flag nothing is saved or applied.\<close>

definition execute_migration ::
    "('q, 'j, 'm, 'd, 'x) engine \<Rightarrow> apply_migration_input \<Rightarrow> 'd \<Rightarrow> datetime \<Rightarrow> 'j migration \<Rightarrow> diagnostics \<Rightarrow>
     ('q, 'x, unit) command_run" where
  "execute_migration en input database_migration timestamp migration diagnostics =
     (if has_warnings diagnostics \<and> \<not> (case am_force input of Some b \<Rightarrow> b | None \<Rightarrow> False)
      then run_eff (return_eff ())
      else then_run (connector_op (persistence_create (en_codec en) (en_family en) migration)) (\<lambda>saved_migration.
             engine_apply en timestamp saved_migration database_migration))"

definition migration_output ::
    "('q, 'j, 'm, 'd, 'x) engine \<Rightarrow> apply_migration_input \<Rightarrow> 'm \<Rightarrow> string list \<Rightarrow> diagnostics \<Rightarrow>
     ('q, 'x, migration_steps_result_output) command" where
  "migration_output en input next_datamodel pretty diagnostics =
     bind_eff (lift_eff (rendered_datamodel en next_datamodel)) (\<lambda>datamodel.
     return_eff
       \<lparr>out_datamodel = datamodel, out_datamodel_steps = am_steps input, out_database_steps = pretty,
        out_errors = dg_errors diagnostics, out_warnings = dg_warnings diagnostics, out_general_errors = [],
        out_unexecutable = dg_unexecutable diagnostics\<rparr>)"

definition handle_migration ::
    "('q, 'j, 'm, 'd, 'x) engine \<Rightarrow> apply_migration_input \<Rightarrow> 'm \<Rightarrow> schema_ast \<Rightarrow> ('q, 'x, migration_steps_result_output) command_run" where
  "handle_migration en input current_datamodel next_ast =
     then_run (prepare_migration en input current_datamodel next_ast)
       (\<lambda>(next_datamodel, database_migration, pretty, timestamp, migration, diagnostics).
     run_then (execute_migration en input database_migration timestamp migration diagnostics)
       (\<lambda>_. migration_output en input next_datamodel pretty diagnostics))"

definition handle_normal_migration ::
    "('q, 'j, 'm, 'd, 'x) engine \<Rightarrow> apply_migration_input \<Rightarrow> ('q, 'x, migration_steps_result_output) command_run" where
  "handle_normal_migration en input =
     then_run
       (bind_eff (connector_op (migration_is_already_applied (en_codec en) (am_migration_id input))) (\<lambda>applied.
        if applied then fail_eff (InputError
          (''Invariant violation: the migration with id '' @ tick (am_migration_id input) @ '' has already been applied.''))
        else
          bind_eff (connector_op (persistence_last (en_codec en))) (\<lambda>last_migration.
          bind_eff (lift_eff (persisted_ast en last_migration)) (\<lambda>current_ast.
          bind_eff (lift_eff (persisted_datamodel en last_migration)) (\<lambda>current_datamodel.
          bind_eff (lift_eff (calculate en current_ast (am_steps input))) (\<lambda>next_ast.
          return_eff (current_datamodel, next_ast)))))))
       (\<lambda>(current_datamodel, next_ast). handle_migration en input current_datamodel next_ast)"

definition handle_transition_out_of_watch_mode ::
    "('q, 'j, 'm, 'd, 'x) engine \<Rightarrow> apply_migration_input \<Rightarrow> ('q, 'x, migration_steps_result_output) command_run" where
  "handle_transition_out_of_watch_mode en input =
     then_run
       (bind_eff (connector_op (persistence_last (en_codec en))) (\<lambda>last_migration.
        bind_eff (lift_eff (persisted_datamodel en last_migration)) (\<lambda>current_datamodel.
        bind_eff (connector_op (last_non_watch_migration (en_codec en))) (\<lambda>last_non_watch.
        bind_eff (lift_eff (persisted_ast en last_non_watch)) (\<lambda>last_non_watch_ast.
        bind_eff (lift_eff (calculate en last_non_watch_ast (am_steps input))) (\<lambda>next_ast.
        return_eff (current_datamodel, next_ast)))))))
       (\<lambda>(current_datamodel, next_ast). handle_migration en input current_datamodel next_ast)"

definition apply_migration ::
    "('q, 'j, 'm, 'd, 'x) engine \<Rightarrow> apply_migration_input \<Rightarrow> ('q, 'x, migration_steps_result_output) command_run" where
  "apply_migration en input =
     then_run (connector_op (persistence_last (en_codec en))) (\<lambda>last_migration.
       case last_migration of
         Some m \<Rightarrow> (if is_watch_migration m \<and> \<not> is_watch_name (am_migration_id input)
                    then handle_transition_out_of_watch_mode en input
                    else handle_normal_migration en input)
       | None \<Rightarrow> handle_normal_migration en input)"

section \<open>UnapplyMigration\<close>

record unapply_migration_output =
  uo_rolled_back :: string
  uo_active :: "string option"
  uo_errors :: "string list"
  uo_warnings :: "string list"

definition unapply_migration ::
    "('q, 'j, 'm, 'd, 'x) engine \<Rightarrow> bool option \<Rightarrow> ('q, 'x, unapply_migration_output) command_run" where
  "unapply_migration en force =
     then_run (connector_op (persistence_last (en_codec en))) (\<lambda>last_migration.
       case last_migration of
         None \<Rightarrow> run_eff (return_eff
           \<lparr>uo_rolled_back = ''not-applicable'', uo_active = None,
            uo_errors = [''There is no last migration that can be rolled back.''], uo_warnings = []\<rparr>)
       | Some m \<Rightarrow>
           then_run
             (bind_eff (lift_eff (ok_or DatabaseMigrationFormatChanged (en_deserialize en (mg_database_migration m)))) (\<lambda>d.
              bind_eff (connector_op (en_check_unapply en d)) (\<lambda>warnings.
              return_eff (d, warnings))))
             (\<lambda>(d, warnings).
           run_then
             (if has_warnings warnings \<and> force = Some False then run_eff (return_eff ()) else engine_unapply en m d)
             (\<lambda>_. bind_eff (connector_op (persistence_last (en_codec en))) (\<lambda>active.
              return_eff
                \<lparr>uo_rolled_back = mg_name m, uo_active = map_option mg_name active, uo_errors = [],
                 uo_warnings = dg_warnings warnings\<rparr>))))"

section \<open>InferMigrationSteps\<close>

record applied_migration =
  apm_migration_id :: string
  apm_datamodel_steps :: "migration_step list"

record infer_migration_steps_input =
  im_migration_id :: string
  im_datamodel :: string
  im_assume_to_be_applied :: "migration_step list option"
  im_assume_applied_migrations :: "applied_migration list option"

definition assume_to_be_applied :: "infer_migration_steps_input \<Rightarrow> migration_step list" where
  "assume_to_be_applied input =
     (case im_assume_to_be_applied input of
        Some steps \<Rightarrow> steps
      | None \<Rightarrow> (case im_assume_applied_migrations input of
          Some ms \<Rightarrow> concat (map apm_datamodel_steps ms)
        | None \<Rightarrow> []))"

definition validate_assumed_migrations_are_not_applied ::
    "('q, 'j, 'm, 'd, 'x) engine \<Rightarrow> infer_migration_steps_input \<Rightarrow> ('q, 'x, unit) command" where
  "validate_assumed_migrations_are_not_applied en input =
     (case im_assume_applied_migrations input of
        None \<Rightarrow> return_eff ()
      | Some ms \<Rightarrow> fold_eff (\<lambda>m _.
          bind_eff (connector_op (migration_is_already_applied (en_codec en) (apm_migration_id m))) (\<lambda>applied.
          if applied then fail_eff (ConnectorFailed (GenericError
            (''Input is invalid. Migration '' @ apm_migration_id m @ '' is already applied.'')))
          else return_eff ())) ms ())"

definition infer_migration_steps ::
    "('q, 'j, 'm, 'd, 'x) engine \<Rightarrow> infer_migration_steps_input \<Rightarrow> ('q, 'x, migration_steps_result_output) command" where
  "infer_migration_steps en input =
     bind_eff (validate_assumed_migrations_are_not_applied en input) (\<lambda>_.
     bind_eff (connector_op (persistence_last (en_codec en))) (\<lambda>last_migration.
     bind_eff (lift_eff (persisted_ast en last_migration)) (\<lambda>current_ast.
     bind_eff (lift_eff (calculate en current_ast (assume_to_be_applied input))) (\<lambda>assumed_ast.
     bind_eff (lift_eff (lift_ast en assumed_ast)) (\<lambda>assumed_datamodel.
     bind_eff (lift_eff (map_err ReceivedBadDatamodel (en_parse_datamodel en (im_datamodel input)))) (\<lambda>next_datamodel.
     let version_check_errors = en_version_check en next_datamodel in
     bind_eff (lift_eff (map_err InputUnparsable (en_parse_ast en (im_datamodel input)))) (\<lambda>next_ast.
     bind_eff (lift_eff (infer_steps assumed_ast next_ast)) (\<lambda>model_migration_steps.
     bind_eff (connector_op (en_infer en assumed_datamodel next_datamodel model_migration_steps)) (\<lambda>database_migration.
     bind_eff (connector_op (en_check en database_migration)) (\<lambda>diagnostics.
     bind_eff
       (if \<not> is_watch_name (im_migration_id input)
           \<and> (case last_migration of Some m \<Rightarrow> is_watch_migration m | None \<Rightarrow> False) then
          bind_eff (connector_op (last_non_watch_applied_migration (en_codec en))) (\<lambda>last_non_watch.
          bind_eff (lift_eff (persisted_ast en last_non_watch)) (\<lambda>last_non_watch_ast.
          bind_eff (lift_eff (persisted_datamodel en last_non_watch)) (\<lambda>last_non_watch_datamodel.
          bind_eff (lift_eff (infer_steps last_non_watch_ast next_ast)) (\<lambda>datamodel_steps.
          bind_eff (connector_op (en_infer_from_datamodels en last_non_watch_datamodel next_datamodel datamodel_steps)) (\<lambda>full.
          return_eff (datamodel_steps, full))))))
        else return_eff (model_migration_steps, database_migration)) (\<lambda>(returned_steps, returned_migration).
     bind_eff (lift_eff (map_err ConnectorFailed (en_render_pretty en returned_migration))) (\<lambda>database_steps.
     bind_eff (lift_eff (rendered_datamodel en next_datamodel)) (\<lambda>datamodel.
     return_eff
       \<lparr>out_datamodel = datamodel, out_datamodel_steps = returned_steps, out_database_steps = database_steps,
        out_errors = version_check_errors, out_warnings = dg_warnings diagnostics, out_general_errors = [],
        out_unexecutable = dg_unexecutable diagnostics\<rparr>)))))))))))))"

section \<open>CalculateDatabaseSteps and CalculateDatamodel\<close>

record calculate_database_steps_input =
  cd_steps_to_apply :: "migration_step list"
  cd_assume_to_be_applied :: "migration_step list option"

definition applicable_steps :: "calculate_database_steps_input \<Rightarrow> migration_step list" where
  "applicable_steps input =
     (case cd_assume_to_be_applied input of
        Some all_steps \<Rightarrow>
          (let steps_to_apply = cd_steps_to_apply input in
           if length steps_to_apply \<ge> length all_steps then all_steps
           else (let start_idx = length all_steps - length steps_to_apply in
                 if drop start_idx all_steps = steps_to_apply then take start_idx all_steps
                 else all_steps))
      | None \<Rightarrow> [])"

definition calculate_database_steps ::
    "('q, 'j, 'm, 'd, 'x) engine \<Rightarrow> calculate_database_steps_input \<Rightarrow> ('q, 'x, migration_steps_result_output) command" where
  "calculate_database_steps en input =
     bind_eff (lift_eff (calculate en schema_empty (applicable_steps input))) (\<lambda>assumed_ast.
     bind_eff (lift_eff (lift_ast en assumed_ast)) (\<lambda>assumed_datamodel.
     bind_eff (lift_eff (calculate en assumed_ast (cd_steps_to_apply input))) (\<lambda>next_ast.
     bind_eff (lift_eff (lift_ast en next_ast)) (\<lambda>next_datamodel.
     bind_eff (connector_op (en_infer en assumed_datamodel next_datamodel (cd_steps_to_apply input))) (\<lambda>database_migration.
     bind_eff (connector_op (en_check en database_migration)) (\<lambda>diagnostics.
     bind_eff (lift_eff (map_err ConnectorFailed (en_render_pretty en database_migration))) (\<lambda>database_steps.
     bind_eff (lift_eff (map_err (\<lambda>_. CommandPanic) (en_render_ast en next_ast))) (\<lambda>datamodel.
     return_eff
       \<lparr>out_datamodel = datamodel, out_datamodel_steps = cd_steps_to_apply input, out_database_steps = database_steps,
        out_errors = [], out_warnings = dg_warnings diagnostics, out_general_errors = [],
        out_unexecutable = dg_unexecutable diagnostics\<rparr>))))))))"

definition calculate_datamodel :: "('q, 'j, 'm, 'd, 'x) engine \<Rightarrow> migration_step list \<Rightarrow> 'x command_error + string" where
  "calculate_datamodel en steps =
     bind_res (calculate en schema_empty steps) (\<lambda>datamodel. map_err (\<lambda>_. CommandPanic) (en_render_ast en datamodel))"

section \<open>ListMigrations, MigrationProgress and Reset\<close>

record list_migrations_output =
  lm_id :: string
  lm_datamodel_steps :: "migration_step list"
  lm_database_steps :: "string list"
  lm_status :: migration_status
  lm_datamodel :: string

definition convert_migration_to_list_migration_steps_output ::
    "('q, 'j, 'm, 'd, 'x) engine \<Rightarrow> 'j migration \<Rightarrow> 'x command_error + list_migrations_output" where
  "convert_migration_to_list_migration_steps_output en m =
     bind_res (ok_or DatabaseMigrationFormatChanged (en_deserialize en (mg_database_migration m))) (\<lambda>d.
     bind_res (map_err ConnectorFailed (en_render_pretty en d)) (\<lambda>database_steps.
     Inr \<lparr>lm_id = mg_name m, lm_datamodel_steps = mg_datamodel_steps m, lm_database_steps = database_steps,
          lm_status = mg_status m, lm_datamodel = mg_datamodel_string m\<rparr>))"

definition list_migrations :: "('q, 'j, 'm, 'd, 'x) engine \<Rightarrow> ('q, 'x, list_migrations_output list) command" where
  "list_migrations en =
     bind_eff (connector_op (load_all (en_codec en))) (\<lambda>ms.
     lift_eff (collect_res (convert_migration_to_list_migration_steps_output en) ms))"

record migration_progress_output =
  mp_status :: migration_status
  mp_steps :: nat
  mp_applied :: nat
  mp_rolled_back :: nat
  mp_errors :: "string list"
  mp_started_at :: datetime
  mp_finished_at :: "datetime option"

definition migration_progress :: "('q, 'j, 'm, 'd, 'x) engine \<Rightarrow> string \<Rightarrow> ('q, 'x, migration_progress_output) command" where
  "migration_progress en migration_id =
     bind_eff (connector_op (by_name (en_codec en) migration_id)) (\<lambda>found.
     bind_eff (lift_eff (ok_or (InputError (''Could not load migration from database. Migration name was: '' @ migration_id)) found)) (\<lambda>m.
     return_eff
       \<lparr>mp_status = mg_status m, mp_steps = length (mg_datamodel_steps m), mp_applied = mg_applied m,
        mp_rolled_back = mg_rolled_back m, mp_errors = mg_errors m, mp_started_at = mg_started_at m,
        mp_finished_at = mg_finished_at m\<rparr>))"

definition reset_command :: "('q, 'j, 'm, 'd, 'x) engine \<Rightarrow> ('q, 'x, unit) command" where
  "reset_command en = bind_eff (connector_op (en_reset en)) (\<lambda>_. connector_op (en_initialize en))"

end
