(* ===== verification/Applier_Laws.thy ===== *)
theory Applier_Laws
  imports Migration_Applier
begin

text \<open>
  Laws of the migration applier. The locale \<open>step_runner\<close> adds to the contract of the persistence
  the contract of a step applier: which step is the last one, and what a step does to the database.
  Its lemmas show that the loops end, what a run without faults stores, and that a stored success
  implies that every step ran, whatever fails on the way. The interpretation \<open>sql_steps\<close> is the
  step applier of the SQL connector, forwards and backwards.
\<close>

section \<open>Updates of one migration\<close>

definition same_target :: "migration_update_params \<Rightarrow> migration_update_params \<Rightarrow> bool" where
  "same_target p q \<longleftrightarrow> up_name q = up_name p \<and> up_revision q = up_revision p \<and> up_new_name q = up_new_name p"

definition targets :: "migration_update_params \<Rightarrow> 'j migration \<Rightarrow> bool" where
  "targets p m \<longleftrightarrow> mg_name m = up_name p \<and> mg_revision m = up_revision p"

lemma apply_update_absorb:
  "same_target p q \<Longrightarrow> up_new_name p = up_name p \<Longrightarrow> apply_update q (apply_update p m) = apply_update q m"
  by (simp add: apply_update_def same_target_def)

lemma map_update_absorb:
  "same_target p q \<Longrightarrow> up_new_name p = up_name p \<Longrightarrow>
   map (apply_update q) (map (apply_update p) ms) = map (apply_update q) ms"
  by (simp add: apply_update_absorb comp_def)

lemma same_target_refl [simp]: "same_target p p"
  by (simp add: same_target_def)

lemma same_target_trans: "same_target p q \<Longrightarrow> same_target p r \<Longrightarrow> same_target q r"
  by (simp add: same_target_def)

text \<open>
  The stored migrations moved along by updates like \<open>p\<close>: a later update of the same target does not
  see the difference, and a migration either stayed or has the status of \<open>p\<close> now.
\<close>

definition progress :: "migration_update_params \<Rightarrow> 'j migration list \<Rightarrow> 'j migration list \<Rightarrow> bool" where
  "progress p ms ms' \<longleftrightarrow> (\<forall>q. same_target p q \<longrightarrow> map (apply_update q) ms' = map (apply_update q) ms)
     \<and> (\<forall>m' \<in> set ms'. m' \<in> set ms \<or> targets p m' \<and> mg_status m' = up_status p)"

lemma progress_refl [simp]: "progress p ms ms"
  by (simp add: progress_def)

lemma progress_trans: "progress p ms1 ms2 \<Longrightarrow> progress p ms2 ms3 \<Longrightarrow> progress p ms1 ms3"
  unfolding progress_def by metis

lemma progress_cong: "same_target p q \<Longrightarrow> up_status q = up_status p \<Longrightarrow> progress q = progress p"
  by (intro ext) (simp add: progress_def same_target_def targets_def)

lemma progress_update:
  assumes "up_new_name p = up_name p"
  shows "progress p ms (map (apply_update p) ms)"
  unfolding progress_def
proof (intro conjI allI impI ballI)
  fix q assume "same_target p q"
  then show "map (apply_update q) (map (apply_update p) ms) = map (apply_update q) ms"
    using assms by (rule map_update_absorb)
next
  fix m' assume "m' \<in> set (map (apply_update p) ms)"
  then obtain m where m: "m \<in> set ms" "m' = apply_update p m" by auto
  show "m' \<in> set ms \<or> targets p m' \<and> mg_status m' = up_status p"
  proof (cases "targets p m")
    case True
    then show ?thesis using m(2) assms by (simp add: targets_def apply_update_def)
  next
    case False
    then have "apply_update p m = m" unfolding targets_def apply_update_def by (rule if_not_P)
    with m show ?thesis by simp
  qed
qed

text \<open>A counter is bumped: target, status and end of the migration stay.\<close>

definition counter_bump :: "(migration_update_params \<Rightarrow> migration_update_params) \<Rightarrow> bool" where
  "counter_bump bump \<longleftrightarrow> (\<forall>p. same_target p (bump p) \<and> up_status (bump p) = up_status p
     \<and> up_finished_at (bump p) = up_finished_at p)"

lemma counter_bump_applied: "counter_bump bump_applied"
  by (simp add: counter_bump_def bump_applied_def same_target_def)

lemma counter_bump_rolled_back: "counter_bump bump_rolled_back"
  by (simp add: counter_bump_def bump_rolled_back_def same_target_def)

lemma bump_applied_iter: "(bump_applied ^^ n) p = p\<lparr>up_applied := up_applied p + n\<rparr>"
  by (induction n) (simp_all add: bump_applied_def)

lemma bump_rolled_back_iter: "(bump_rolled_back ^^ n) p = p\<lparr>up_rolled_back := up_rolled_back p + n\<rparr>"
  by (induction n) (simp_all add: bump_rolled_back_def)

text \<open>The parameters stored at the end: the target stays, the status is the given one.\<close>

definition good_end :: "(migration_update_params \<Rightarrow> migration_update_params) \<Rightarrow> migration_status \<Rightarrow> bool" where
  "good_end succeed status \<longleftrightarrow> (\<forall>p. same_target p (succeed p) \<and> up_status (succeed p) = status
     \<and> (params_ok p \<longrightarrow> params_ok (succeed p)))"

fun run_effects :: "(nat \<Rightarrow> 'q \<Rightarrow> 'q option) \<Rightarrow> nat list \<Rightarrow> 'q \<Rightarrow> 'q option" where
  "run_effects effect [] q = Some q"
| "run_effects effect (i # is) q = Option.bind (effect i q) (run_effects effect is)"

section \<open>The contract of a step applier\<close>

locale step_runner =
  migration_store ok quiet migrations frame load last_op create update
  for ok :: "'w \<Rightarrow> bool"
    and quiet :: "'w \<Rightarrow> bool"
    and migrations :: "'w \<Rightarrow> 'j migration list"
    and frame :: "'w \<Rightarrow> 'q"
    and load :: "('w, 'e, 'j migration list) eff"
    and last_op :: "('w, 'e, 'j migration option) eff"
    and create :: "'j migration \<Rightarrow> ('w, 'e, 'j migration) eff"
    and update :: "migration_update_params \<Rightarrow> ('w, 'e, unit) eff" +
  fixes step :: "nat \<Rightarrow> ('w, 'e, bool) eff"
    and count :: nat
    and effect :: "nat \<Rightarrow> 'q \<Rightarrow> 'q option"
  assumes step_end: "count \<le> i \<Longrightarrow> step i w = (Inr False, w)"
    and step_Inr: "i < count \<Longrightarrow> step i w = (Inr b, w') \<Longrightarrow> b = (i + 1 < count) \<and> effect i (frame w) = Some (frame w')"
    and step_ok: "ok w \<Longrightarrow> step i w = (r, w') \<Longrightarrow> ok w' \<and> migrations w' = migrations w"
    and step_quiet: "i < count \<Longrightarrow> quiet w \<Longrightarrow> effect i (frame w) = Some q \<Longrightarrow>
      \<exists>w'. step i w = (Inr (i + 1 < count), w') \<and> quiet w' \<and> frame w' = q"
    and step_quiet_fails: "i < count \<Longrightarrow> quiet w \<Longrightarrow> effect i (frame w) = None \<Longrightarrow>
      \<exists>e w'. step i w = (Inl e, w') \<and> quiet w'"
begin

lemma loop_returns: "\<exists>x. go_steps bump update step i p w = Some x"
proof (induction "count - i" arbitrary: i p w rule: less_induct)
  case less
  obtain r w1 where s: "step i w = (r, w1)" by (cases "step i w")
  show ?case
  proof (cases r)
    case (Inl e)
    then show ?thesis by (subst go_steps.simps) (simp add: s)
  next
    case (Inr b)
    show ?thesis
    proof (cases b)
      case False
      then show ?thesis using Inr by (subst go_steps.simps) (simp add: s)
    next
      case True
      then have "i + 1 < count" using step_Inr [of i w b w1] step_end [of i w] s Inr by (cases "i < count") auto
      then have "\<exists>x. go_steps bump update step (i + 1) (bump p) w2 = Some x" for w2
        by (intro less) simp
      then show ?thesis using Inr True s
        by (subst go_steps.simps) (auto split: prod.split sum.split)
    qed
  qed
qed

text \<open>One bump and its update.\<close>

lemma bump_update:
  assumes "counter_bump bump" and "ok w" and "params_ok p" and "up_new_name p = up_name p"
    and "update (bump p) w = (u, w')"
  shows "ok w' \<and> frame w' = frame w \<and> progress p (migrations w) (migrations w') \<and> same_target p (bump p)
    \<and> up_status (bump p) = up_status p \<and> params_ok (bump p) \<and> up_new_name (bump p) = up_name (bump p)"
proof -
  have bump: "same_target p (bump p)" "up_status (bump p) = up_status p" "params_ok (bump p)"
    "up_new_name (bump p) = up_name (bump p)"
    using assms(1,3,4) by (auto simp: counter_bump_def params_ok_def same_target_def)
  have "progress (bump p) (migrations w) (migrations w')"
    using update_faulty [OF assms(2) bump(3) assms(5)] progress_update [OF bump(4)] by auto
  then have "progress p (migrations w) (migrations w')" unfolding progress_cong [OF bump(1,2)] .
  then show ?thesis using update_faulty [OF assms(2) bump(3) assms(5)] bump by simp
qed

lemma funpow_bump:
  assumes "i + 1 < count"
  shows "(bump ^^ (count - 1 - (i + 1))) (bump p) = (bump ^^ (count - 1 - i)) p"
proof -
  have "count - 1 - i = Suc (count - 1 - (i + 1))" using assms by simp
  then show ?thesis by (simp add: funpow_swap1)
qed

text \<open>What a run of the loop leaves behind, whatever fails.\<close>

lemma loop_result:
  assumes "counter_bump bump" and "ok w" and "params_ok p" and "up_new_name p = up_name p" and "i < count"
    and "go_steps bump update step i p w = Some ((r, p'), w')"
  shows "ok w' \<and> same_target p p' \<and> params_ok p' \<and> up_status p' = up_status p \<and> progress p (migrations w) (migrations w') \<and>
    (r = Inr () \<longrightarrow> p' = (bump ^^ (count - 1 - i)) p \<and> run_effects effect [i..<count] (frame w) = Some (frame w'))"
  using assms(2-)
proof (induction "count - i" arbitrary: i p w rule: less_induct)
  case less
  have upt: "[i..<count] = i # [i + 1..<count]" using less.prems(4) by (simp add: upt_conv_Cons)
  obtain s w1 where s: "step i w = (s, w1)" by (cases "step i w")
  have w1: "ok w1" "migrations w1 = migrations w" using step_ok [OF less.prems(1) s] by auto
  note run = less.prems(5) [unfolded go_steps.simps [of bump update step i] s]
  consider (error) e where "s = Inl e" | (last) "s = Inr False" | (more) "s = Inr True" by (cases s) auto
  then show ?case
  proof cases
    case error
    then show ?thesis using run w1 less.prems(2) by auto
  next
    case last
    then have "count = i + 1" "effect i (frame w) = Some (frame w1)"
      using step_Inr [OF less.prems(4), of w False w1] s less.prems(4) by auto
    then show ?thesis using run last w1 less.prems(2) by auto
  next
    case more
    then have i1: "i + 1 < count" and eff: "effect i (frame w) = Some (frame w1)"
      using step_Inr [OF less.prems(4), of w True w1] s by auto
    obtain u w2 where u: "update (bump p) w1 = (u, w2)" by (cases "update (bump p) w1")
    note bu = bump_update [OF assms(1) w1(1) less.prems(2,3) u, unfolded w1(2)]
    show ?thesis
    proof (cases u)
      case (Inl e)
      then show ?thesis using run more u bu by auto
    next
      case (Inr x)
      have rec: "go_steps bump update step (i + 1) (bump p) w2 = Some ((r, p'), w')"
        using run more u Inr by simp
      have "count - (i + 1) < count - i" using i1 by simp
      from less.hyps [OF this _ _ _ i1 rec] bu
      have IH: "ok w'" "same_target (bump p) p'" "params_ok p'" "up_status p' = up_status p"
        "progress (bump p) (migrations w2) (migrations w')"
        "r = Inr () \<longrightarrow> p' = (bump ^^ (count - 1 - (i + 1))) (bump p) \<and> run_effects effect [i + 1..<count] (frame w2) = Some (frame w')"
        by metis+
      have cong: "same_target p (bump p)" "up_status (bump p) = up_status p" using bu by simp_all
      have "progress p (migrations w) (migrations w')"
        using bu progress_trans [OF _ IH(5) [unfolded progress_cong [OF cong]]] by blast
      moreover have "same_target p p'" using IH(2) bu by (auto simp: same_target_def)
      ultimately show ?thesis using IH eff bu upt funpow_bump [OF i1, of bump p] by simp
    qed
  qed
qed

lemma loop_from_start:
  assumes "counter_bump bump" and "ok w" and "params_ok p" and "up_new_name p = up_name p"
    and "go_steps bump update step 0 p w = Some ((r, p'), w')"
  shows "ok w' \<and> same_target p p' \<and> params_ok p' \<and> up_status p' = up_status p \<and> progress p (migrations w) (migrations w') \<and>
    (r = Inr () \<longrightarrow> p' = (bump ^^ (count - 1)) p \<and> run_effects effect [0..<count] (frame w) = Some (frame w'))"
proof (cases "0 < count")
  case True
  from loop_result [OF assms(1-4) True assms(5)] show ?thesis by simp
next
  case False
  then have "step 0 w = (Inr False, w)" by (simp add: step_end)
  then have "r = Inr ()" "p' = p" "w' = w" using assms(5) by (auto simp: go_steps.simps [of bump update step 0])
  then show ?thesis using assms False by simp
qed

lemma loop_quiet:
  assumes "counter_bump bump" and "ok w" and "quiet w" and "params_ok p" and "up_new_name p = up_name p" and "i < count"
  shows "\<exists>r p' w'. go_steps bump update step i p w = Some ((r, p'), w') \<and> quiet w'
    \<and> (r = Inr () \<longleftrightarrow> run_effects effect [i..<count] (frame w) \<noteq> None)"
  using assms(2-)
proof (induction "count - i" arbitrary: i p w rule: less_induct)
  case less
  have upt: "[i..<count] = i # [i + 1..<count]" using less.prems(5) by (simp add: upt_conv_Cons)
  show ?case
  proof (cases "effect i (frame w)")
    case None
    then obtain e w1 where "step i w = (Inl e, w1)" "quiet w1" using step_quiet_fails [OF less.prems(5,2)] by blast
    then show ?thesis using None upt by (subst go_steps.simps) simp
  next
    case (Some q)
    then obtain w1 where w1: "step i w = (Inr (i + 1 < count), w1)" "quiet w1" "frame w1 = q"
      using step_quiet [OF less.prems(5,2)] by blast
    have ok1: "ok w1" using step_ok [OF less.prems(1) w1(1)] by simp
    show ?thesis
    proof (cases "i + 1 < count")
      case False
      then have "[i + 1..<count] = []" by simp
      then show ?thesis using False w1 Some upt by (subst go_steps.simps) simp
    next
      case True
      have "params_ok (bump p)" using assms(1) less.prems(3) by (simp add: counter_bump_def params_ok_def)
      from update [OF ok1 w1(2) this] obtain w2 where
        w2: "update (bump p) w1 = (Inr (), w2)" "quiet w2" "frame w2 = frame w1" by blast
      have ok2: "ok w2" "params_ok (bump p)" "up_new_name (bump p) = up_name (bump p)"
        using bump_update [OF assms(1) ok1 less.prems(3,4) w2(1)] by simp_all
      have "count - (i + 1) < count - i" using True by simp
      from less.hyps [OF this ok2(1) w2(2) ok2(2,3) True] obtain r p' w' where
        "go_steps bump update step (i + 1) (bump p) w2 = Some ((r, p'), w')" "quiet w'"
        "r = Inr () \<longleftrightarrow> run_effects effect [i + 1..<count] (frame w2) \<noteq> None" by blast
      then show ?thesis using True w1 w2 Some upt
        by (subst go_steps.simps) simp
    qed
  qed
qed

lemma loop_quiet_start:
  assumes "counter_bump bump" and "ok w" and "quiet w" and "params_ok p" and "up_new_name p = up_name p"
  shows "\<exists>r p' w'. go_steps bump update step 0 p w = Some ((r, p'), w') \<and> quiet w'
    \<and> (r = Inr () \<longleftrightarrow> run_effects effect [0..<count] (frame w) \<noteq> None)"
proof (cases "0 < count")
  case True
  from loop_quiet [OF assms True] show ?thesis by simp
next
  case False
  then have "step 0 w = (Inr False, w)" by (simp add: step_end)
  then show ?thesis using assms(3) False by (subst go_steps.simps) simp
qed

text \<open>Whole runs: the loop between the first and the last update.\<close>

lemma run_returns: "\<exists>x. run_migration start update (go_steps bump update step 0) conclude m w = Some x"
proof -
  obtain u w1 where u: "update ((update_params m)\<lparr>up_status := start\<rparr>) w = (u, w1)"
    by (cases "update ((update_params m)\<lparr>up_status := start\<rparr>) w")
  obtain x where "go_steps bump update step 0 ((update_params m)\<lparr>up_status := start\<rparr>) w1 = Some x"
    using loop_returns by blast
  with u show ?thesis by (cases u) (simp_all add: run_migration_def)
qed

lemma run_quiet:
  assumes "counter_bump bump" and "good_end succeed status" and "ok w" and "quiet w" and "params_ok (update_params m)"
    and "run_effects effect [0..<count] (frame w) = Some q"
  shows "\<exists>w'. run_migration start update (go_steps bump update step 0) (finish succeed failure debug update) m w = Some (Inr (), w')
    \<and> ok w' \<and> quiet w' \<and> frame w' = q
    \<and> migrations w' = map (apply_update (succeed ((bump ^^ (count - 1)) ((update_params m)\<lparr>up_status := start\<rparr>)))) (migrations w)"
proof -
  let ?p = "(update_params m)\<lparr>up_status := start\<rparr>"
  have p: "params_ok ?p" "up_new_name ?p = up_name ?p" using assms(5) by (simp_all add: params_ok_def update_params_def)
  obtain w1 where w1: "update ?p w = (Inr (), w1)" "ok w1" "quiet w1" "frame w1 = frame w"
    "migrations w1 = map (apply_update ?p) (migrations w)"
    using update [OF assms(3,4) p(1)] by blast
  obtain r p1 w2 where go: "go_steps bump update step 0 ?p w1 = Some ((r, p1), w2)" "quiet w2" "r = Inr ()"
    using loop_quiet_start [OF assms(1) w1(2,3) p] assms(6) w1(4) by auto
  note res = loop_from_start [OF assms(1) w1(2) p go(1)]
  have p1: "p1 = (bump ^^ (count - 1)) ?p" "frame w2 = q" using res go(3) assms(6) w1(4) by auto
  have "params_ok (succeed p1)" using res assms(2) by (simp add: good_end_def)
  from update [OF _ go(2) this] res obtain w3 where w3: "update (succeed p1) w2 = (Inr (), w3)" "ok w3" "quiet w3"
    "frame w3 = frame w2" "migrations w3 = map (apply_update (succeed p1)) (migrations w2)" by blast
  have "same_target ?p (succeed p1)" using res assms(2) by (auto simp: good_end_def same_target_def)
  then have "migrations w3 = map (apply_update (succeed p1)) (migrations w)"
    using w3(5) res w1(5) map_update_absorb [OF _ p(2)] by (simp add: progress_def)
  then show ?thesis using w1(1) go w3 p1 by (simp add: run_migration_def finish_def)
qed

lemma run_quiet_failure:
  assumes "counter_bump bump" and "ok w" and "quiet w" and "params_ok (update_params m)"
    and "run_effects effect [0..<count] (frame w) = None"
  shows "\<exists>e p' w'. run_migration start update (go_steps bump update step 0) (finish succeed failure debug update) m w = Some (Inl e, w')
    \<and> ok w' \<and> quiet w' \<and> same_target (update_params m) p' \<and> up_status p' = failure \<and> up_errors p' = [debug e]
    \<and> migrations w' = map (apply_update p') (migrations w)"
proof -
  let ?p = "(update_params m)\<lparr>up_status := start\<rparr>"
  have p: "params_ok ?p" "up_new_name ?p = up_name ?p" using assms(4) by (simp_all add: params_ok_def update_params_def)
  obtain w1 where w1: "update ?p w = (Inr (), w1)" "ok w1" "quiet w1" "frame w1 = frame w"
    "migrations w1 = map (apply_update ?p) (migrations w)"
    using update [OF assms(2,3) p(1)] by blast
  obtain r p1 w2 where go: "go_steps bump update step 0 ?p w1 = Some ((r, p1), w2)" "quiet w2" "r \<noteq> Inr ()"
    using loop_quiet_start [OF assms(1) w1(2,3) p] assms(5) w1(4) by auto
  then obtain e where e: "r = Inl e" by (cases r) auto
  note res = loop_from_start [OF assms(1) w1(2) p go(1)]
  let ?f = "p1\<lparr>up_status := failure, up_errors := [debug e]\<rparr>"
  have "params_ok ?f" using res by (simp add: params_ok_def)
  from update [OF _ go(2) this] res obtain w3 where w3: "update ?f w2 = (Inr (), w3)" "ok w3" "quiet w3"
    "migrations w3 = map (apply_update ?f) (migrations w2)" by blast
  have st: "same_target ?p ?f" using res by (simp add: same_target_def)
  then have "migrations w3 = map (apply_update ?f) (migrations w)"
    using w3(4) res w1(5) map_update_absorb [OF _ p(2)] by (simp add: progress_def)
  moreover have "same_target (update_params m) ?f" using st by (simp add: same_target_def)
  ultimately have "run_migration start update (go_steps bump update step 0) (finish succeed failure debug update) m w = Some (Inl e, w3)
    \<and> ok w3 \<and> quiet w3 \<and> same_target (update_params m) ?f \<and> up_status ?f = failure \<and> up_errors ?f = [debug e]
    \<and> migrations w3 = map (apply_update ?f) (migrations w)"
    using w1(1) go(1) w3 e by (simp add: run_migration_def finish_def)
  then show ?thesis by blast
qed

text \<open>Whatever fails: a stored success means that all steps ran.\<close>

lemma run_success_complete:
  assumes "counter_bump bump" and "good_end succeed status" and "ok w" and "params_ok (update_params m)"
    and "start \<noteq> status" and "failure \<noteq> status"
    and before: "\<And>x. x \<in> set (migrations w) \<Longrightarrow> targets (update_params m) x \<Longrightarrow> mg_status x \<noteq> status"
    and run: "run_migration start update (go_steps bump update step 0) (finish succeed failure debug update) m w = Some (r, w')"
    and x: "x \<in> set (migrations w')" "targets (update_params m) x" "mg_status x = status"
  shows "r = Inr () \<and> run_effects effect [0..<count] (frame w) = Some (frame w')"
proof -
  let ?p = "(update_params m)\<lparr>up_status := start\<rparr>"
  have p: "params_ok ?p" "up_new_name ?p = up_name ?p" using assms(4) by (simp_all add: params_ok_def update_params_def)
  have stay: "x \<notin> set ms" if "progress q (migrations w) ms" "up_status q \<noteq> status" for q ms
  proof
    assume "x \<in> set ms"
    then have "x \<in> set (migrations w) \<or> mg_status x = up_status q" using that(1) unfolding progress_def by blast
    then show False using before [of x] x(2,3) that(2) by metis
  qed
  obtain u w1 where u: "update ?p w = (u, w1)" by (cases "update ?p w")
  note uf = update_faulty [OF assms(3) p(1) u]
  have pr1: "progress ?p (migrations w) (migrations w1)" using uf progress_update [OF p(2), of "migrations w"] by auto
  have "u = Inr ()" using uf run u stay [of ?p] pr1 assms(5) x(1) by (auto simp: run_migration_def)
  obtain s p1 w2 where go: "go_steps bump update step 0 ?p w1 = Some ((s, p1), w2)"
    using loop_returns [of bump 0 ?p w1] by (metis surj_pair)
  have ok1: "ok w1" using uf by simp
  note res = loop_from_start [OF assms(1) ok1 p go]
  have fin: "finish succeed failure debug update s p1 w2 = (r, w')"
    using run u \<open>u = Inr ()\<close> go by (simp add: run_migration_def)
  have pr2: "progress ?p (migrations w) (migrations w2)" using progress_trans [OF pr1] res by blast
  show ?thesis
  proof (cases s)
    case (Inr y)
    have sp1: "params_ok (succeed p1)" using res assms(2) unfolding good_end_def by blast
    have sp2: "update (succeed p1) w2 = (r, w')" using fin Inr by (simp add: finish_def)
    have uf2: "ok w2" using res by simp
    note uf3 = update_faulty [OF uf2 sp1 sp2]
    have "r = Inr ()" using uf3 stay [OF pr2] assms(5) x(1) by auto
    then show ?thesis using uf uf3 res Inr by auto
  next
    case (Inl e)
    let ?f = "p1\<lparr>up_status := failure, up_errors := [debug e]\<rparr>"
    obtain v w3 where v: "update ?f w2 = (v, w3)" by (cases "update ?f w2")
    then have "w' = w3" using fin Inl by (cases v) (simp_all add: finish_def)
    have "params_ok ?f" "ok w2" using res by (simp_all add: params_ok_def)
    note uf3 = update_faulty [OF this(2,1) v]
    have tgt: "same_target ?p ?f" "up_new_name ?f = up_name ?f" using res p(2) by (auto simp: same_target_def)
    have "progress ?f (migrations w2) (migrations w3)" using uf3 progress_update [OF tgt(2), of "migrations w2"] by auto
    then have "x \<in> set (migrations w2) \<or> mg_status x = failure" using x(1) \<open>w' = w3\<close> by (auto simp: progress_def)
    then show ?thesis using stay [OF pr2] assms(5,6) x(3) by auto
  qed
qed

end

section \<open>The step applier of the SQL connector\<close>

fun exec_all :: "(string \<Rightarrow> 'q \<Rightarrow> 'q option) \<Rightarrow> string list \<Rightarrow> 'q \<Rightarrow> 'q option" where
  "exec_all exec [] q = Some q"
| "exec_all exec (s # ss) q = Option.bind (exec s q) (exec_all exec ss)"

definition step_effect ::
    "(string \<Rightarrow> 'q \<Rightarrow> 'q option) \<Rightarrow> displays \<Rightarrow> database_info \<Rightarrow> sql_schema \<Rightarrow> sql_schema \<Rightarrow> sql_migration_step list \<Rightarrow>
     nat \<Rightarrow> 'q \<Rightarrow> 'q option" where
  "step_effect exec d info current_schema next_schema steps i q =
     (case render_raw_sql d info current_schema next_schema (steps ! i) of
        Inl _ \<Rightarrow> None
      | Inr sqls \<Rightarrow> exec_all exec sqls q)"

lemma exec_statement_run:
  assumes "exec_statement exec s u w = (r, w')"
  shows "w_rows w' = w_rows w \<and> w_next w' = w_next w \<and> (r = Inr () \<longrightarrow> exec s (w_schema w) = Some (w_schema w'))"
  using assms by (auto simp: exec_statement_def run_query_def Let_def split: if_splits option.splits)

lemma exec_statement_calm:
  assumes "calm w"
  shows "\<exists>w'. calm w' \<and> (case exec s (w_schema w) of
      None \<Rightarrow> exec_statement exec s u w = (Inl QueryError, w')
    | Some q \<Rightarrow> exec_statement exec s u w = (Inr (), w') \<and> w_schema w' = q)"
proof (cases "exec s (w_schema w)")
  case None
  then show ?thesis using calm_step [OF assms] by (simp add: exec_statement_def run_query_calm [OF assms])
next
  case (Some q)
  let ?w' = "w\<lparr>w_faults := tl (w_faults w), w_schema := q\<rparr>"
  have "calm ?w'" using calm_step [OF assms] by (simp add: calm_def)
  moreover have "exec_statement exec s u w = (Inr (), ?w')"
    using Some by (simp add: exec_statement_def run_query_calm [OF assms])
  ultimately show ?thesis using Some by (intro exI [of _ ?w']) simp
qed

lemma exec_statements_run:
  "fold_eff (exec_statement exec) ss u w = (r, w') \<Longrightarrow>
   w_rows w' = w_rows w \<and> w_next w' = w_next w \<and> (r = Inr () \<longrightarrow> exec_all exec ss (w_schema w) = Some (w_schema w'))"
proof (induction ss arbitrary: u w)
  case (Cons s ss)
  obtain r1 w1 where s: "exec_statement exec s u w = (r1, w1)" by (cases "exec_statement exec s u w")
  note one = exec_statement_run [OF s]
  show ?case
  proof (cases r1)
    case (Inl e)
    then show ?thesis using Cons.prems s one by (auto simp: bind_eff_Inl)
  next
    case (Inr x)
    then have "fold_eff (exec_statement exec) ss x w1 = (r, w')" using Cons.prems s by simp
    from Cons.IH [OF this] one Inr show ?thesis by auto
  qed
qed simp

lemma exec_statements_calm:
  "calm w \<Longrightarrow> \<exists>w'. calm w' \<and> (case exec_all exec ss (w_schema w) of
      None \<Rightarrow> fold_eff (exec_statement exec) ss u w = (Inl QueryError, w')
    | Some q \<Rightarrow> fold_eff (exec_statement exec) ss u w = (Inr (), w') \<and> w_schema w' = q)"
proof (induction ss arbitrary: u w)
  case (Cons s ss)
  obtain w1 where w1: "calm w1" and one: "case exec s (w_schema w) of
      None \<Rightarrow> exec_statement exec s u w = (Inl QueryError, w1)
    | Some q \<Rightarrow> exec_statement exec s u w = (Inr (), w1) \<and> w_schema w1 = q"
    using exec_statement_calm [OF Cons.prems, of exec s u] by blast
  show ?case
  proof (cases "exec s (w_schema w)")
    case None
    then show ?thesis using one w1 by auto
  next
    case (Some q)
    then have eqs: "fold_eff (exec_statement exec) (s # ss) u w = fold_eff (exec_statement exec) ss () w1"
      "exec_all exec (s # ss) (w_schema w) = exec_all exec ss (w_schema w1)"
      using one by simp_all
    show ?thesis unfolding eqs by (rule Cons.IH [OF w1])
  qed
qed auto

interpretation sql_steps: step_runner
  "\<lambda>w. codec_ok c \<and> store_ok c w" calm "stored c" w_schema "load_all c" "persistence_last c"
  "persistence_create c family" "persistence_update c family"
  "apply_next_step exec d info cur nxt steps" "length steps" "step_effect exec d info cur nxt steps"
  for c :: "'j codec" and family and exec :: "string \<Rightarrow> 'q \<Rightarrow> 'q option" and d info cur nxt steps
proof unfold_locales
  fix i and w :: "'q world"
  assume "length steps \<le> i"
  then show "apply_next_step exec d info cur nxt steps i w = (Inr False, w)" by (simp add: apply_next_step_def)
next
  fix i b and w w' :: "'q world"
  assume i: "i < length steps" and run: "apply_next_step exec d info cur nxt steps i w = (Inr b, w')"
  then obtain sqls where sqls: "render_raw_sql d info cur nxt (steps ! i) = Inr sqls"
    by (cases "render_raw_sql d info cur nxt (steps ! i)") (auto simp: apply_next_step_def map_err_def)
  with run i obtain u w1 where "fold_eff (exec_statement exec) sqls () w = (Inr u, w1)" "b = (i + 1 < length steps)" "w' = w1"
    by (auto simp: apply_next_step_def map_err_def bind_eff_eq)
  then show "b = (i + 1 < length steps) \<and> step_effect exec d info cur nxt steps i (w_schema w) = Some (w_schema w')"
    using exec_statements_run sqls by (fastforce simp: step_effect_def)
next
  fix i r and w w' :: "'q world"
  assume ok: "codec_ok c \<and> store_ok c w" and run: "apply_next_step exec d info cur nxt steps i w = (r, w')"
  have "w_rows w' = w_rows w \<and> w_next w' = w_next w"
    using run by (auto simp: apply_next_step_def bind_eff_eq dest!: exec_statements_run split: if_splits)
  then show "(codec_ok c \<and> store_ok c w') \<and> stored c w' = stored c w"
    using ok by (simp add: store_ok_def stored_def rows_sorted_def split: option.splits)
next
  fix i q and w :: "'q world"
  assume i: "i < length steps" and calm: "calm w" and eff: "step_effect exec d info cur nxt steps i (w_schema w) = Some q"
  then obtain sqls where sqls: "render_raw_sql d info cur nxt (steps ! i) = Inr sqls" "exec_all exec sqls (w_schema w) = Some q"
    by (auto simp: step_effect_def split: sum.splits)
  obtain w' where "calm w'" "fold_eff (exec_statement exec) sqls () w = (Inr (), w')" "w_schema w' = q"
    using exec_statements_calm [OF calm, of exec sqls "()"] sqls(2) by auto
  then show "\<exists>w'. apply_next_step exec d info cur nxt steps i w = (Inr (i + 1 < length steps), w') \<and> calm w' \<and> w_schema w' = q"
    using i sqls(1) by (simp add: apply_next_step_def map_err_def)
next
  fix i and w :: "'q world"
  assume i: "i < length steps" and calm: "calm w" and eff: "step_effect exec d info cur nxt steps i (w_schema w) = None"
  show "\<exists>e w'. apply_next_step exec d info cur nxt steps i w = (Inl e, w') \<and> calm w'"
  proof (cases "render_raw_sql d info cur nxt (steps ! i)")
    case (Inl e)
    then show ?thesis using i calm by (simp add: apply_next_step_def map_err_def)
  next
    case (Inr sqls)
    then have "exec_all exec sqls (w_schema w) = None" using eff by (simp add: step_effect_def)
    then obtain w' where "calm w'" "fold_eff (exec_statement exec) sqls () w = (Inl QueryError, w')"
      using exec_statements_calm [OF calm, of exec sqls "()"] by auto
    then show ?thesis using i Inr by (simp add: apply_next_step_def map_err_def)
  qed
qed

lemma good_end_finished: "whole_millis now \<Longrightarrow> good_end (mark_as_finished now) MigrationSuccess"
  by (simp add: good_end_def mark_as_finished_def same_target_def params_ok_def)

lemma good_end_rolled_back: "good_end (\<lambda>p. p\<lparr>up_status := RollbackSuccess\<rparr>) RollbackSuccess"
  by (simp add: good_end_def same_target_def params_ok_def)

section \<open>Applying and rolling back with the SQL connector\<close>

lemma apply_impl_quiet:
  assumes "codec_ok c" and "store_ok c w" and "calm w" and "mg_status m = Pending" and "params_ok (update_params m)"
    and "whole_millis now"
    and "run_effects (step_effect exec d info (sm_before dbm) (sm_after dbm) (sm_corrected_steps dbm))
           [0..<length (sm_corrected_steps dbm)] (w_schema w) = Some q"
  shows "\<exists>w'. apply_impl now debug (persistence_update c family) (apply_sql_step exec d info dbm) m w = Some (Inr (), w')
    \<and> store_ok c w' \<and> calm w' \<and> w_schema w' = q
    \<and> stored c w' = map (apply_update ((update_params m)\<lparr>up_status := MigrationSuccess,
         up_applied := mg_applied m + (length (sm_corrected_steps dbm) - 1), up_finished_at := Some now\<rparr>)) (stored c w)"
proof -
  let ?p = "mark_as_finished now ((bump_applied ^^ (length (sm_corrected_steps dbm) - 1)) ((update_params m)\<lparr>up_status := MigrationInProgress\<rparr>))"
  have ok: "codec_ok c \<and> store_ok c w" using assms(1,2) by simp
  have "?p = (update_params m)\<lparr>up_status := MigrationSuccess,
      up_applied := mg_applied m + (length (sm_corrected_steps dbm) - 1), up_finished_at := Some now\<rparr>"
    by (simp add: bump_applied_iter mark_as_finished_def update_params_def)
  then show ?thesis
    using sql_steps.run_quiet [OF counter_bump_applied good_end_finished [OF assms(6)] ok assms(3,5,7), of MigrationInProgress family MigrationFailure debug]
    by (auto simp: apply_impl_def assms(4) go_forward_def apply_sql_step_def)
qed

lemma unapply_impl_quiet:
  assumes "codec_ok c" and "store_ok c w" and "calm w" and "mg_status m = MigrationSuccess" and "params_ok (update_params m)"
    and "run_effects (step_effect exec d info (sm_after dbm) (sm_before dbm) (sm_rollback dbm))
           [0..<length (sm_rollback dbm)] (w_schema w) = Some q"
  shows "\<exists>w'. unapply_impl debug (persistence_update c family) (unapply_sql_step exec d info dbm) m w = Some (Inr (), w')
    \<and> store_ok c w' \<and> calm w' \<and> w_schema w' = q
    \<and> stored c w' = map (apply_update ((update_params m)\<lparr>up_status := RollbackSuccess,
         up_rolled_back := mg_rolled_back m + (length (sm_rollback dbm) - 1)\<rparr>)) (stored c w)"
proof -
  let ?p = "((bump_rolled_back ^^ (length (sm_rollback dbm) - 1)) ((update_params m)\<lparr>up_status := RollingBack\<rparr>))\<lparr>up_status := RollbackSuccess\<rparr>"
  have ok: "codec_ok c \<and> store_ok c w" using assms(1,2) by simp
  have "?p = (update_params m)\<lparr>up_status := RollbackSuccess, up_rolled_back := mg_rolled_back m + (length (sm_rollback dbm) - 1)\<rparr>"
    by (simp add: bump_rolled_back_iter update_params_def)
  then show ?thesis
    using sql_steps.run_quiet [OF counter_bump_rolled_back good_end_rolled_back ok assms(3,5,6), of RollingBack family RollbackFailure debug]
    by (auto simp: unapply_impl_def assms(4) go_backward_def unapply_sql_step_def)
qed

end
