(* ===== verification/Commands_Laws.thy ===== *)
theory Commands_Laws
  imports Migration_Commands Applier_Laws Diff_Fixpoint
begin

text \<open>
  Laws of the commands: frames of what only reads, the run of an applied migration over the SQL step
  applier, and the composition of inference and application of datamodel steps.
\<close>

lemma map_err_eq_Inr [simp]: "map_err f r = Inr a \<longleftrightarrow> r = Inr a"
  by (cases r) (simp_all add: map_err_def)

lemma connector_op_eq_Inr [simp]: "connector_op m w = (Inr a, w') \<longleftrightarrow> m w = (Inr a, w')"
  by (cases "m w") (simp add: connector_op_def)

section \<open>Reading operations\<close>

lemma keeps_connector_op [keeps_intros]: "keeps view m \<Longrightarrow> keeps view (connector_op m)"
  by (simp add: keeps_def connector_op_def case_prod_unfold)

lemma keeps_on_table_read:
  assumes "\<And>rows. snd (g rows) = rows"
  shows "keeps content (run_query (on_table g))"
proof (rule keeps_run_query)
  fix w a w'
  assume "on_table g w = Inr (a, w')"
  then obtain rows where "w_rows w = Some rows" "w' = w\<lparr>w_rows := Some (snd (g rows))\<rparr>"
    by (auto simp: on_table_def split: option.splits prod.splits)
  then show "content w' = content w" using assms by (simp add: content_def)
qed

lemma keeps_first_migration [keeps_intros]: "keeps view (first_migration c rows)"
  by (simp add: first_migration_def)

lemma keeps_select [keeps_intros]: "keeps content (select_descending P)" "keeps content (select_ascending P)"
  unfolding select_descending_def select_ascending_def by (simp_all add: keeps_on_table_read)

lemma keeps_queries [keeps_intros]:
  "keeps content (persistence_last c)" "keeps content (load_all c)" "keeps content (by_name c name)"
  "keeps content (migration_is_already_applied c name)" "keeps content (last_non_watch_migration c)"
  "keeps content (last_non_watch_applied_migration c)"
  unfolding persistence_last_def load_all_def by_name_def migration_is_already_applied_def
    last_non_watch_migration_def last_non_watch_applied_migration_def
  by (intro keeps_intros)+

text \<open>The database inferrer and the checker of an engine only read.\<close>

definition engine_reads :: "('q, 'j, 'm, 'd, 'x) engine \<Rightarrow> bool" where
  "engine_reads en \<longleftrightarrow> (\<forall>a b s. keeps content (en_infer en a b s)) \<and> (\<forall>d. keeps content (en_check en d))"

lemma keeps_prepare_migration [keeps_intros]:
  assumes "engine_reads en"
  shows "keeps content (prepare_migration en input dm ast)"
  using assms unfolding prepare_migration_def engine_reads_def Let_def
  by (intro keeps_intros) blast+

section \<open>Runs\<close>

definition returns :: "('w, 'e, 'a) run \<Rightarrow> bool" where
  "returns r \<longleftrightarrow> (\<forall>w. r w \<noteq> None)"

named_theorems returns_intros

lemma returns_then_run [returns_intros]:
  assumes "\<And>a. returns (f a)"
  shows "returns (then_run m f)"
  unfolding returns_def
proof
  fix w
  show "then_run m f w \<noteq> None"
    using assms by (cases "m w"; cases "fst (m w)") (auto simp: then_run_def returns_def)
qed

lemma returns_run_then [returns_intros]: "returns m \<Longrightarrow> returns (run_then m f)"
  by (simp add: returns_def run_then_def)

lemma returns_run_eff [returns_intros, simp]: "returns (run_eff m)"
  by (simp add: returns_def run_eff_def)

lemma returns_connector_run [returns_intros]: "returns m \<Longrightarrow> returns (connector_run m)"
  by (simp add: returns_def connector_run_def)

lemma returns_apply_impl:
  "returns (apply_impl now debug (persistence_update c family) (apply_next_step exec d info cur nxt steps) m)"
  unfolding returns_def apply_impl_def go_forward_def by (simp add: sql_steps.run_returns del: not_None_eq)
    (metis option.distinct(1) sql_steps.run_returns)

lemma returns_unapply_impl:
  "returns (unapply_impl debug (persistence_update c family) (apply_next_step exec d info cur nxt steps) m)"
  unfolding returns_def unapply_impl_def go_backward_def by (simp add: sql_steps.run_returns del: not_None_eq)
    (metis option.distinct(1) sql_steps.run_returns)

text \<open>The engine runs its steps with the step applier of the SQL connector.\<close>

definition sql_applier ::
    "(string \<Rightarrow> 'q \<Rightarrow> 'q option) \<Rightarrow> displays \<Rightarrow> database_info \<Rightarrow> ('q, 'j, 'm, sql_migration, 'x) engine \<Rightarrow> bool" where
  "sql_applier exec d info en \<longleftrightarrow> en_apply_step en = apply_sql_step exec d info \<and> en_unapply_step en = unapply_sql_step exec d info"

lemma returns_engine_apply [returns_intros]:
  assumes "sql_applier exec d info en"
  shows "returns (engine_apply en timestamp m dbm)" "returns (engine_unapply en m dbm)"
  using assms returns_connector_run [OF returns_apply_impl] returns_connector_run [OF returns_unapply_impl]
  unfolding engine_apply_def engine_unapply_def sql_applier_def apply_sql_step_def unapply_sql_step_def by simp_all

lemma returns_handle_migration [returns_intros]:
  assumes "sql_applier exec d info en"
  shows "returns (handle_migration en input dm ast)"
  unfolding handle_migration_def execute_migration_def
  by (auto intro!: returns_then_run returns_run_then returns_engine_apply [OF assms] split: prod.split)

lemma returns_apply_migration:
  assumes "sql_applier exec d info en"
  shows "returns (apply_migration en input)"
  unfolding apply_migration_def handle_normal_migration_def handle_transition_out_of_watch_mode_def
  by (auto intro!: returns_then_run returns_handle_migration [OF assms] split: prod.split option.split)

lemma returns_unapply_migration:
  assumes "sql_applier exec d info en"
  shows "returns (unapply_migration en force)"
  unfolding unapply_migration_def
  by (auto intro!: returns_then_run returns_run_then returns_engine_apply [OF assms] split: prod.split option.split)

section \<open>Warnings\<close>

lemma then_run_frame:
  assumes "keeps view m" and "then_run m f w = Some (Inr x, w')"
    and "\<And>a w1. f a w1 = Some (Inr x, w') \<Longrightarrow> view w' = view w1"
  shows "view w' = view w"
proof -
  obtain r w1 where m: "m w = (r, w1)" by (cases "m w")
  with assms(2) obtain a where "r = Inr a" "f a w1 = Some (Inr x, w')" by (cases r) (auto simp: then_run_def)
  with assms(3) keepsD [OF assms(1) m] show ?thesis by simp
qed

lemma execution_warned:
  assumes "run_then (execute_migration en input dbm ts mg dg) (\<lambda>_. migration_output en input ndm pretty dg) w = Some (Inr out, w')"
    and "out_warnings out \<noteq> []" and "am_force input \<noteq> Some True"
  shows "w' = w"
proof -
  obtain r w2 where ex: "execute_migration en input dbm ts mg dg w = Some (r, w2)"
    using assms(1) by (auto simp: run_then_def)
  then obtain u where run: "execute_migration en input dbm ts mg dg w = Some (Inr u, w2)"
    and out: "migration_output en input ndm pretty dg w2 = (Inr out, w')"
    using assms(1) by (cases r) (auto simp: run_then_def)
  have "out_warnings out = dg_warnings dg" "w' = w2" using out by (auto simp: migration_output_def bind_eff_eq)
  moreover have "\<not> (case am_force input of Some b \<Rightarrow> b | None \<Rightarrow> False)" using assms(3) by (auto split: option.split)
  ultimately show ?thesis
    using run assms(2) by (simp add: execute_migration_def has_warnings_def run_eff_def)
qed

lemma handle_migration_warned:
  assumes "engine_reads en" and "handle_migration en input dm ast w = Some (Inr out, w')"
    and "out_warnings out \<noteq> []" and "am_force input \<noteq> Some True"
  shows "content w' = content w"
  by (rule then_run_frame [OF keeps_prepare_migration [OF assms(1)] assms(2) [unfolded handle_migration_def]])
    (auto dest: execution_warned [OF _ assms(3,4)] split: prod.splits)

lemma apply_migration_warned_content:
  assumes "engine_reads en" and "apply_migration en input w = Some (Inr out, w')"
    and "out_warnings out \<noteq> []" and "am_force input \<noteq> Some True"
  shows "content w' = content w"
proof -
  note handle = handle_migration_warned [OF assms(1) _ assms(3,4)]
  have normal: "content w' = content w1" if "handle_normal_migration en input w1 = Some (Inr out, w')" for w1
    using that unfolding handle_normal_migration_def
    by (rule then_run_frame [rotated]) (auto intro!: keeps_intros dest: handle)
  have watch: "content w' = content w1" if "handle_transition_out_of_watch_mode en input w1 = Some (Inr out, w')" for w1
    using that unfolding handle_transition_out_of_watch_mode_def
    by (rule then_run_frame [rotated]) (auto intro!: keeps_intros dest: handle)
  show ?thesis
    using assms(2) unfolding apply_migration_def
    by (rule then_run_frame [rotated])
      (auto intro!: keeps_intros dest: normal watch split: option.splits if_splits)
qed

section \<open>Queries on a quiet store\<close>

lemma already_applied_quiet:
  assumes "codec_ok c" and "store_ok c w" and "calm w"
  shows "\<exists>w'. migration_is_already_applied c name w =
      (Inr (list_ex (\<lambda>m. mg_status m = MigrationSuccess \<and> mg_name m = name) (stored c w)), w')
    \<and> store_ok c w' \<and> calm w' \<and> stored c w' = stored c w \<and> w_schema w' = w_schema w"
  using sql_store.query_all [of c w "\<lambda>ms. list_ex (\<lambda>m. mg_status m = MigrationSuccess \<and> mg_name m = name) ms"] assms
  unfolding migration_is_already_applied_def by auto

lemma last_quiet:
  assumes "codec_ok c" and "store_ok c w" and "calm w"
  shows "\<exists>w'. persistence_last c w = (Inr (find (\<lambda>m. mg_status m = MigrationSuccess) (rev (stored c w))), w')
    \<and> store_ok c w' \<and> calm w' \<and> stored c w' = stored c w \<and> w_schema w' = w_schema w"
  using sql_store.last [of c w] assms by auto

section \<open>Inference and application\<close>

lemma infer_then_calculate:
  assumes "infer_steps p n = Inr steps" and "schema_wf p" and "schema_wf n" and "schema_renders p"
    and "schema_parses (en_parse_expr en) n" and "supported_change p n"
  shows "\<exists>s. calculate en p steps = Inr s \<and> schema_view s = schema_view n \<and> schema_generators s = schema_generators p"
proof -
  have "diff p n = Inr (diff_steps p n)" by (rule diff_eq_steps [OF assms(4) schema_parses_renders [OF assms(5)]])
  then have "steps = diff_steps p n" using assms(1) by (simp add: infer_steps_def inferrer_infer_def map_err_def)
  with steps_roundtrip [OF assms(2-6)] show ?thesis by (auto simp: calculate_def map_err_def)
qed

lemma infer_command_steps:
  fixes en :: "('q, 'j, 'm, 'd, 'x) engine"
  assumes "infer_migration_steps en input w = (Inr out, w')"
    and "im_assume_to_be_applied input = None" and "im_assume_applied_migrations input = None"
    and "is_watch_name (im_migration_id input)"
  shows "\<exists>last_migration w1 p n. persistence_last (en_codec en) w = (Inr last_migration, w1)
    \<and> persisted_ast en last_migration = Inr p \<and> en_parse_ast en (im_datamodel input) = Inr n
    \<and> infer_steps p n = (Inr (out_datamodel_steps out) :: 'x command_error + migration_step list)"
  using assms
  by (auto simp: infer_migration_steps_def validate_assumed_migrations_are_not_applied_def assume_to_be_applied_def
      bind_eff_eq Let_def calculate_def calculator_infer_def apply_steps_def)

end
