(* ===== verification/Step_Encoding.thy ===== *)
theory Step_Encoding
  imports Migration_Steps "HOL-Library.Countable"
begin

text \<open>
  Migration steps are countable, so there are encodings of lists of steps as texts that can be read
  back. The connector stores steps with serde_json; the properties of the store assume of it only
  that what it writes it reads back, and this theory provides an instance of that assumption.
\<close>

instance step_arity :: countable
  by countable_datatype

instance migration_expression :: countable
  by countable_datatype

instance step_argument_ext :: (countable) countable
  by (rule countable_classI [of "\<lambda>r. to_nat (sa_name r, sa_value r, step_argument.more r)"]) (auto intro: step_argument.equality)

instance directive_path :: countable
  by countable_datatype

instance directive_location_ext :: (countable) countable
  by (rule countable_classI [of "\<lambda>r. to_nat (dl_path r, dl_directive r, directive_location.more r)"]) (auto intro: directive_location.equality)

instance argument_location :: countable
  by countable_datatype

instance update_model_ext :: (countable) countable
  by (rule countable_classI [of "\<lambda>r. to_nat (um_model r, um_new_name r, update_model.more r)"]) (auto intro: update_model.equality)

instance create_field_ext :: (countable) countable
  by (rule countable_classI [of "\<lambda>r. to_nat (cf_model r, cf_field r, cf_tpe r, cf_arity r, create_field.more r)"]) (auto intro: create_field.equality)

instance update_field_ext :: (countable) countable
  by (rule countable_classI [of "\<lambda>r. to_nat (uf_model r, uf_field r, uf_new_name r, uf_tpe r, uf_arity r, update_field.more r)"]) (auto intro: update_field.equality)

instance delete_field_ext :: (countable) countable
  by (rule countable_classI [of "\<lambda>r. to_nat (df_model r, df_field r, delete_field.more r)"]) (auto intro: delete_field.equality)

instance create_enum_ext :: (countable) countable
  by (rule countable_classI [of "\<lambda>r. to_nat (ce_enum r, ce_values r, create_enum.more r)"]) (auto intro: create_enum.equality)

instance update_enum_ext :: (countable) countable
  by (rule countable_classI [of "\<lambda>r. to_nat (ue_enum r, ue_new_name r, ue_created_values r, ue_deleted_values r, update_enum.more r)"]) (auto intro: update_enum.equality)

instance create_argument_ext :: (countable) countable
  by (rule countable_classI [of "\<lambda>r. to_nat (ca_location r, ca_argument r, ca_value r, create_argument.more r)"]) (auto intro: create_argument.equality)

instance delete_argument_ext :: (countable) countable
  by (rule countable_classI [of "\<lambda>r. to_nat (da_location r, da_argument r, delete_argument.more r)"]) (auto intro: delete_argument.equality)

instance update_argument_ext :: (countable) countable
  by (rule countable_classI [of "\<lambda>r. to_nat (ua_location r, ua_argument r, ua_new_value r, update_argument.more r)"]) (auto intro: update_argument.equality)

instance create_type_alias_ext :: (countable) countable
  by (rule countable_classI [of "\<lambda>r. to_nat (ct_type_alias r, ct_type r, ct_arity r, create_type_alias.more r)"]) (auto intro: create_type_alias.equality)

instance update_type_alias_ext :: (countable) countable
  by (rule countable_classI [of "\<lambda>r. to_nat (ut_type_alias r, ut_type r, update_type_alias.more r)"]) (auto intro: update_type_alias.equality)

instance migration_step :: countable
  by countable_datatype

definition text_of :: "'a :: countable \<Rightarrow> string" where
  "text_of x = replicate (to_nat x) CHR ''x''"

definition of_text :: "string \<Rightarrow> 'a :: countable option" where
  "of_text s = Some (from_nat (length s))"

lemma of_text_of [simp]: "of_text (text_of x) = Some x"
  by (simp add: text_of_def of_text_def)

end
