(* ===== verification/Run_Properties.thy ===== *)
theory Run_Properties
  imports Sql_Properties Destructive_Laws Store_Invariant Commands_Laws Step_Encoding
begin

text \<open>
  The properties of running a migration: the destructive changes checker, the migration table, the
  applier of steps and the commands of the engine.
\<close>

section \<open>Examples\<close>

definition ex_codec :: "unit codec" where
  "ex_codec = \<lparr>enc_steps = text_of, dec_steps = of_text, enc_json = text_of, dec_json = of_text,
     enc_errors = text_of, dec_errors = of_text\<rparr>"

lemma ex_codec_ok: "codec_ok ex_codec"
  by (simp add: codec_ok_def ex_codec_def)

text \<open>A database whose tables are the names in a list; a statement that is not empty runs.\<close>

definition ex_world :: "string list \<Rightarrow> string list world" where
  "ex_world names = \<lparr>w_rows = Some [], w_next = 1, w_faults = [], w_schema = names\<rparr>"

definition ex_time :: datetime where
  "ex_time = \<lparr>dt_secs = 5, dt_nsecs = 7000000\<rparr>"

definition ex_migration :: "unit migration" where
  "ex_migration = migration_new () ex_time ''m1''"

lemma ex_store_ok: "store_ok c (ex_world names)" "calm (ex_world names)" "stored c (ex_world names) = []"
  by (simp_all add: ex_world_def calm_def stored_def parse_rows_new_def store_ok_empty)

lemma ex_time_whole: "whole_millis ex_time"
  by (simp add: ex_time_def whole_millis_def)

lemma ex_migration_new: "new_ok ex_migration"
  by (simp add: new_ok_def ex_migration_def migration_new_def ex_time_whole)

section \<open>Destructive changes\<close>

text \<open>
  C4. A check of a migration that returns warns of exactly the data the original steps would lose or
  cannot carry over, given what is in the database: dropped tables with rows, dropped columns with
  values, unsafe changes of columns with values, new required columns without default on tables with
  rows, and so on. Messages about unexecutable steps are among the warnings. The check changes
  nothing in the database.
\<close>
theorem check_warns_exactly:
  assumes "check c info m w = (Inr dg, w')"
  shows "set (dg_warnings dg) = {msg. \<exists>step \<in> set (sm_original_steps m). step_warns c info (w_schema w) (sm_before m) step msg}
    \<and> content w' = content w"
  using assms check_impl_warnings keepsD [OF keeps_check_impl] unfolding check_def by blast

definition ex_counts :: "string list counts" where
  "ex_counts = \<lparr>cq_rows = (\<lambda>q t. Some [[DbInteger (if t \<in> set q then 3 else 0)]]),
     cq_values = (\<lambda>q t c. Some [[DbInteger (if t \<in> set q then 2 else 0)]])\<rparr>"

definition ex_sql_migration :: sql_migration where
  "ex_sql_migration = \<lparr>sm_before = ex_shop None, sm_after = ex_blog None, sm_original_steps = [DropTable ''User''],
     sm_corrected_steps = [DropTable ''User''], sm_rollback = []\<rparr>"

theorem check_warns_exactly_witness:
  "\<exists>dg w'. check ex_counts (ex_info Postgres) ex_sql_migration (ex_world [''User'']) = (Inr dg, w')
     \<and> set (dg_warnings dg) = {msg. \<exists>step \<in> set (sm_original_steps ex_sql_migration).
         step_warns ex_counts (ex_info Postgres) (w_schema (ex_world [''User''])) (sm_before ex_sql_migration) step msg}
     \<and> content w' = content (ex_world [''User'']) \<and> dg_warnings dg \<noteq> []"
proof -
  let ?r = "check ex_counts (ex_info Postgres) ex_sql_migration (ex_world [''User''])"
  have "(case ?r of (Inr dg, _) \<Rightarrow> dg_warnings dg \<noteq> [] | _ \<Rightarrow> False)" by code_simp
  then obtain dg w' where "?r = (Inr dg, w')" and "dg_warnings dg \<noteq> []"
    by (auto split: prod.splits sum.splits)
  with check_warns_exactly [OF this(1)] show ?thesis by blast
qed


section \<open>The migration table\<close>

text \<open>
  C21. A migration that is created can be read back: the insert returns it with the next revision, and
  loading all migrations afterwards gives the earlier ones followed by it, with the same name, steps,
  datamodel and timestamps. The table is sound, no statement fails, and timestamps are in whole
  milliseconds, as the constructor makes them.
\<close>
theorem create_then_load:
  assumes "codec_ok c" and "store_ok c w" and "calm w" and "new_ok m"
  shows "\<exists>r w' w''. persistence_create c family m w = (Inr (m\<lparr>mg_revision := r\<rparr>), w')
    \<and> load_all c w' = (Inr (stored c w @ [m\<lparr>mg_revision := r\<rparr>]), w'')
    \<and> r \<notin> mg_revision ` set (stored c w) \<and> w_schema w'' = w_schema w"
proof -
  obtain r w' where create: "persistence_create c family m w = (Inr (m\<lparr>mg_revision := r\<rparr>), w')"
    and w': "store_ok c w'" "calm w'" "stored c w' = stored c w @ [m\<lparr>mg_revision := r\<rparr>]" "w_schema w' = w_schema w"
    using persistence_create_calm [OF assms] by blast
  have "distinct (map mg_revision (stored c w'))" using w'(1) by (rule revisions_distinct)
  then have "r \<notin> mg_revision ` set (stored c w)" by (simp add: w'(3))
  with create w' load_all_calm [OF w'(1,2)] show ?thesis by auto
qed

theorem create_then_load_witness:
  "\<exists>r w' w''. persistence_create ex_codec Sqlite ex_migration (ex_world []) = (Inr (ex_migration\<lparr>mg_revision := r\<rparr>), w')
    \<and> load_all ex_codec w' = (Inr (stored ex_codec (ex_world []) @ [ex_migration\<lparr>mg_revision := r\<rparr>]), w'')
    \<and> r \<notin> mg_revision ` set (stored ex_codec (ex_world [])) \<and> w_schema w'' = w_schema (ex_world [])"
  by (rule create_then_load [OF ex_codec_ok ex_store_ok(1,2) ex_migration_new])

text \<open>
  C8. In every reachable state of the migration table, whatever sequence of operations led there and
  whichever statements failed on the way, all stored rows can be read back, so that no operation
  panics on them, and their revisions increase and are distinct.
\<close>
theorem reachable_store_readable:
  assumes "codec_ok c" and "reachable_store c family w" and "w_rows w = Some rows"
  shows "\<exists>ms. parse_rows_new c rows = Some ms \<and> distinct (map mg_revision ms) \<and> sorted_wrt (<) (map r_revision rows)"
proof -
  have ok: "store_ok c w" using reachable_inv [OF assms(1,2)] assms(3) by (simp add: store_inv_def)
  then obtain ms where "parse_rows_new c rows = Some ms" "stored c w = ms" "rows_sorted w rows"
    using assms(3) by (auto elim: store_okE)
  with revisions_distinct [OF ok] show ?thesis by (simp add: rows_sorted_def)
qed

theorem reachable_store_readable_witness:
  "\<exists>rows ms. parse_rows_new ex_codec rows = Some ms \<and> length rows = 1 \<and> distinct (map mg_revision ms)
     \<and> sorted_wrt (<) (map r_revision rows)"
proof -
  let ?w0 = "(ex_world [])\<lparr>w_rows := None\<rparr>" and ?w1 = "ex_world []"
  let ?w2 = "snd (persistence_create ex_codec Sqlite ex_migration ?w1)"
  let ?rows = "[insert_row ex_codec Sqlite ex_migration 1]"
  have "reachable_store ex_codec Sqlite ?w0" by (rule reachable_store.fresh) (simp add: ex_world_def)
  moreover have "persistence_init ?w0 = (Inr (), ?w1)" by (simp add: persistence_init_def run_query_def ex_world_def)
  ultimately have "reachable_store ex_codec Sqlite ?w1" by (blast intro: reachable_store.step store_step.init)
  moreover have "persistence_create ex_codec Sqlite ex_migration ?w1 = (fst (persistence_create ex_codec Sqlite ex_migration ?w1), ?w2)" by simp
  ultimately have "reachable_store ex_codec Sqlite ?w2"
    by (blast intro: reachable_store.step store_step.create ex_migration_new)
  moreover have "w_rows ?w2 = Some ?rows" by (simp add: persistence_create_def run_query_def ex_world_def)
  ultimately obtain ms where "parse_rows_new ex_codec ?rows = Some ms \<and> distinct (map mg_revision ms) \<and> sorted_wrt (<) (map r_revision ?rows)"
    using reachable_store_readable [OF ex_codec_ok] by blast
  moreover have "length ?rows = 1" by simp
  ultimately show ?thesis by blast
qed



section \<open>The applier\<close>

definition ex_exec :: "string \<Rightarrow> string list \<Rightarrow> string list option" where
  "ex_exec sql q = (if q = [] then None else Some (tl q))"

definition ex_two_drops :: sql_migration where
  "ex_two_drops = \<lparr>sm_before = ex_shop None, sm_after = ex_blog None, sm_original_steps = [],
     sm_corrected_steps = [DropTable ''User'', DropTable ''Post''], sm_rollback = [DropTable ''Author'']\<rparr>"

lemmas ex_run_defs = ex_exec_def ex_two_drops_def ex_world_def ex_info_def

definition ex_saved :: "unit migration" where
  "ex_saved = ex_migration\<lparr>mg_revision := 1\<rparr>"

definition ex_saved_world :: "string list \<Rightarrow> string list world" where
  "ex_saved_world names = snd (persistence_create ex_codec Postgres ex_migration (ex_world names))"

lemma ex_saved_ok:
  "store_ok ex_codec (ex_saved_world names)" "calm (ex_saved_world names)"
  "stored ex_codec (ex_saved_world names) = [ex_saved]" "w_schema (ex_saved_world names) = names"
  "params_ok (update_params ex_saved)" "mg_status ex_saved = Pending"
proof -
  have next_1: "w_next (ex_world names) = 1" "w_schema (ex_world names) = names" by (simp_all add: ex_world_def)
  from persistence_create_calm [OF ex_codec_ok ex_store_ok(1,2) ex_migration_new, of Postgres names]
  show "store_ok ex_codec (ex_saved_world names)" "calm (ex_saved_world names)"
    "stored ex_codec (ex_saved_world names) = [ex_saved]" "w_schema (ex_saved_world names) = names"
    by (auto simp: ex_saved_world_def ex_saved_def ex_store_ok(3) next_1)
  show "params_ok (update_params ex_saved)" "mg_status ex_saved = Pending"
    by (simp_all add: params_ok_def update_params_def ex_saved_def ex_migration_def migration_new_def)
qed

lemma ex_drop_rendered:
  "render_raw_sql ex_displays (ex_info Postgres) a b (DropTable nm) =
     Inr [''DROP TABLE '' @ quote_with_schema Postgres ''prisma'' nm @ '';'']"
  by (simp add: render_raw_sql_def render_drop_table_def ex_info_def Let_def)

lemma ex_two_drops_effect:
  "run_effects (step_effect ex_exec ex_displays (ex_info Postgres) (sm_before ex_two_drops) (sm_after ex_two_drops)
     (sm_corrected_steps ex_two_drops)) [0..<length (sm_corrected_steps ex_two_drops)] q =
   (if length q < 2 then None else Some (drop 2 q))"
  by (cases q; cases "tl q") (simp_all add: upt_rec step_effect_def ex_two_drops_def ex_exec_def ex_drop_rendered)

text \<open>
  C26. Applying and rolling back a migration always end: with the steps of the SQL connector the loops
  over the steps return a result for every migration, every database and every schedule of failing
  statements.
\<close>
theorem applier_ends:
  "(\<exists>r w'. apply_impl now debug (persistence_update c family) (apply_sql_step exec d info dbm) m w = Some (r, w')) \<and>
   (\<exists>r w'. unapply_impl debug (persistence_update c family) (unapply_sql_step exec d info dbm) m w = Some (r, w'))"
  using returns_apply_impl [of now debug c family exec d info "sm_before dbm" "sm_after dbm" "sm_corrected_steps dbm" m]
    returns_unapply_impl [of debug c family exec d info "sm_after dbm" "sm_before dbm" "sm_rollback dbm" m]
  by (auto simp: returns_def apply_sql_step_def unapply_sql_step_def)

text \<open>
  C23. A pending migration whose corrected steps all run is applied: the database has the effect of all
  its steps in order, and the stored migration is successful, finished at the given time. Its counter
  of applied steps is one less than the number of steps, because the loop counts a step only when
  another one follows.
\<close>
theorem apply_quiet_success:
  assumes "codec_ok c" and "store_ok c w" and "calm w" and "mg_status m = Pending" and "params_ok (update_params m)"
    and "whole_millis now"
    and "run_effects (step_effect exec d info (sm_before dbm) (sm_after dbm) (sm_corrected_steps dbm))
           [0..<length (sm_corrected_steps dbm)] (w_schema w) = Some q"
  shows "\<exists>w'. apply_impl now debug (persistence_update c family) (apply_sql_step exec d info dbm) m w = Some (Inr (), w')
    \<and> w_schema w' = q
    \<and> stored c w' = map (apply_update ((update_params m)\<lparr>up_status := MigrationSuccess,
         up_applied := mg_applied m + (length (sm_corrected_steps dbm) - 1), up_finished_at := Some now\<rparr>)) (stored c w)"
  using apply_impl_quiet [OF assms, of debug family] by blast

theorem apply_quiet_success_witness:
  "\<exists>w'. apply_impl ex_time (\<lambda>_. ''boom'') (persistence_update ex_codec Postgres)
       (apply_sql_step ex_exec ex_displays (ex_info Postgres) ex_two_drops) ex_saved (ex_saved_world [''a'', ''b'', ''c'']) = Some (Inr (), w')
    \<and> w_schema w' = [''c'']
    \<and> stored ex_codec w' = [ex_saved\<lparr>mg_status := MigrationSuccess, mg_applied := 1, mg_finished_at := Some ex_time\<rparr>]"
proof -
  have "run_effects (step_effect ex_exec ex_displays (ex_info Postgres) (sm_before ex_two_drops) (sm_after ex_two_drops)
      (sm_corrected_steps ex_two_drops)) [0..<length (sm_corrected_steps ex_two_drops)] (w_schema (ex_saved_world [''a'', ''b'', ''c''])) = Some [''c'']"
    unfolding ex_two_drops_effect by (simp add: ex_saved_ok)
  from apply_quiet_success [OF ex_codec_ok ex_saved_ok(1,2,6,5) ex_time_whole this, of "\<lambda>_. ''boom''" Postgres]
  show ?thesis
    by (auto simp: ex_saved_ok(3) apply_update_def update_params_def ex_saved_def ex_migration_def migration_new_def ex_two_drops_def)
qed



text \<open>
  C5. A migration is never recorded as applied unless it was: whichever statements fail, if after an
  attempt the migration is stored with the status of success, then the attempt succeeded and the
  database has gone through the effects of all corrected steps in order.
\<close>
theorem stored_success_means_applied:
  assumes "codec_ok c" and "store_ok c w" and "mg_status m = Pending" and "params_ok (update_params m)" and "whole_millis now"
    and "\<forall>x \<in> set (stored c w). mg_name x = mg_name m \<and> mg_revision x = mg_revision m \<longrightarrow> mg_status x \<noteq> MigrationSuccess"
    and "apply_impl now debug (persistence_update c family) (apply_sql_step exec d info dbm) m w = Some (r, w')"
    and "x \<in> set (stored c w')" and "mg_name x = mg_name m" and "mg_revision x = mg_revision m" and "mg_status x = MigrationSuccess"
  shows "r = Inr () \<and> run_effects (step_effect exec d info (sm_before dbm) (sm_after dbm) (sm_corrected_steps dbm))
           [0..<length (sm_corrected_steps dbm)] (w_schema w) = Some (w_schema w')"
proof (rule sql_steps.run_success_complete [OF counter_bump_applied good_end_finished [OF assms(5)] _ assms(4)])
  show "codec_ok c \<and> store_ok c w" using assms(1,2) by simp
  show "run_migration MigrationInProgress (persistence_update c family)
      (go_steps bump_applied (persistence_update c family)
        (apply_next_step exec d info (sm_before dbm) (sm_after dbm) (sm_corrected_steps dbm)) 0)
      (finish (mark_as_finished now) MigrationFailure debug (persistence_update c family)) m w = Some (r, w')"
    using assms(7) by (simp add: apply_impl_def assms(3) go_forward_def apply_sql_step_def)
  show "targets (update_params m) x" using assms(9,10) by (simp add: targets_def update_params_def)
qed (use assms(6,8,11) in \<open>auto simp: targets_def update_params_def\<close>)

lemma ex_apply_run:
  "\<exists>w'. apply_impl ex_time (\<lambda>_. ''boom'') (persistence_update ex_codec Postgres)
       (apply_sql_step ex_exec ex_displays (ex_info Postgres) ex_two_drops) ex_saved (ex_saved_world [''a'', ''b'', ''c'']) = Some (Inr (), w')
    \<and> store_ok ex_codec w' \<and> calm w' \<and> w_schema w' = [''c'']
    \<and> stored ex_codec w' = [ex_saved\<lparr>mg_status := MigrationSuccess, mg_applied := 1, mg_finished_at := Some ex_time\<rparr>]"
proof -
  have "run_effects (step_effect ex_exec ex_displays (ex_info Postgres) (sm_before ex_two_drops) (sm_after ex_two_drops)
      (sm_corrected_steps ex_two_drops)) [0..<length (sm_corrected_steps ex_two_drops)] (w_schema (ex_saved_world [''a'', ''b'', ''c''])) = Some [''c'']"
    unfolding ex_two_drops_effect by (simp add: ex_saved_ok)
  from apply_impl_quiet [OF ex_codec_ok ex_saved_ok(1,2,6,5) ex_time_whole this, of "\<lambda>_. ''boom''" Postgres]
  show ?thesis
    by (auto simp: ex_saved_ok(3) apply_update_def update_params_def ex_saved_def ex_migration_def migration_new_def ex_two_drops_def)
qed

theorem stored_success_means_applied_witness:
  "\<exists>x r w'. apply_impl ex_time (\<lambda>_. ''boom'') (persistence_update ex_codec Postgres)
       (apply_sql_step ex_exec ex_displays (ex_info Postgres) ex_two_drops) ex_saved (ex_saved_world [''a'', ''b'', ''c'']) = Some (r, w')
     \<and> x \<in> set (stored ex_codec w') \<and> mg_status x = MigrationSuccess
     \<and> r = Inr () \<and> run_effects (step_effect ex_exec ex_displays (ex_info Postgres) (sm_before ex_two_drops) (sm_after ex_two_drops)
           (sm_corrected_steps ex_two_drops)) [0..<length (sm_corrected_steps ex_two_drops)] (w_schema (ex_saved_world [''a'', ''b'', ''c'']))
         = Some (w_schema w')"
proof -
  obtain r w' where run: "apply_impl ex_time (\<lambda>_. ''boom'') (persistence_update ex_codec Postgres)
       (apply_sql_step ex_exec ex_displays (ex_info Postgres) ex_two_drops) ex_saved (ex_saved_world [''a'', ''b'', ''c'']) = Some (r, w')"
    and st: "stored ex_codec w' = [ex_saved\<lparr>mg_status := MigrationSuccess, mg_applied := 1, mg_finished_at := Some ex_time\<rparr>]"
    using ex_apply_run by blast
  let ?x = "ex_saved\<lparr>mg_status := MigrationSuccess, mg_applied := 1, mg_finished_at := Some ex_time\<rparr>"
  have x: "?x \<in> set (stored ex_codec w')" "mg_name ?x = mg_name ex_saved" "mg_revision ?x = mg_revision ex_saved" "mg_status ?x = MigrationSuccess"
    by (simp_all add: st)
  have "\<forall>y \<in> set (stored ex_codec (ex_saved_world [''a'', ''b'', ''c''])). mg_name y = mg_name ex_saved \<and> mg_revision y = mg_revision ex_saved
      \<longrightarrow> mg_status y \<noteq> MigrationSuccess"
    by (simp add: ex_saved_ok)
  from stored_success_means_applied [OF ex_codec_ok ex_saved_ok(1,6,5) ex_time_whole this run x] run x(1,4)
  show ?thesis by blast
qed

text \<open>
  C25. A successful migration whose rollback steps all run is rolled back: the database has the effect
  of the rollback steps in order and the stored migration has the status of a finished rollback, so
  that it is no longer the last applied migration.
\<close>
theorem unapply_quiet_success:
  assumes "codec_ok c" and "store_ok c w" and "calm w" and "mg_status m = MigrationSuccess" and "params_ok (update_params m)"
    and "run_effects (step_effect exec d info (sm_after dbm) (sm_before dbm) (sm_rollback dbm))
           [0..<length (sm_rollback dbm)] (w_schema w) = Some q"
    and "m \<in> set (stored c w)"
  shows "\<exists>w' w'' last. unapply_impl debug (persistence_update c family) (unapply_sql_step exec d info dbm) m w = Some (Inr (), w')
    \<and> w_schema w' = q
    \<and> m\<lparr>mg_status := RollbackSuccess, mg_rolled_back := mg_rolled_back m + (length (sm_rollback dbm) - 1)\<rparr> \<in> set (stored c w')
    \<and> persistence_last c w' = (Inr last, w'') \<and> map_option mg_revision last \<noteq> Some (mg_revision m)"
proof -
  let ?p = "(update_params m)\<lparr>up_status := RollbackSuccess, up_rolled_back := mg_rolled_back m + (length (sm_rollback dbm) - 1)\<rparr>"
  obtain w' where run: "unapply_impl debug (persistence_update c family) (unapply_sql_step exec d info dbm) m w = Some (Inr (), w')"
    and w': "store_ok c w'" "calm w'" "w_schema w' = q" "stored c w' = map (apply_update ?p) (stored c w)"
    using unapply_impl_quiet [OF assms(1-6), of debug family] by blast
  let ?m' = "m\<lparr>mg_status := RollbackSuccess, mg_rolled_back := mg_rolled_back m + (length (sm_rollback dbm) - 1)\<rparr>"
  have "apply_update ?p m = ?m'" by (simp add: apply_update_def update_params_def)
  then have m': "?m' \<in> set (stored c w')" unfolding w'(4) using assms(7) by (metis image_eqI set_map)
  have "x = ?m'" if "x \<in> set (stored c w')" "mg_revision x = mg_revision m" for x
    using key_unique [OF revisions_distinct [OF w'(1)] that(1) m'] that(2) by simp
  then have only: "x = ?m'" if "x \<in> set (stored c w')" "mg_revision x = mg_revision m" for x using that by blast
  have "map_option mg_revision (find (\<lambda>m. mg_status m = MigrationSuccess) (rev (stored c w'))) \<noteq> Some (mg_revision m)"
  proof
    assume "map_option mg_revision (find (\<lambda>m. mg_status m = MigrationSuccess) (rev (stored c w'))) = Some (mg_revision m)"
    then obtain x where found: "find (\<lambda>m. mg_status m = MigrationSuccess) (rev (stored c w')) = Some x"
      and rev: "mg_revision x = mg_revision m" by auto
    then have "x \<in> set (stored c w')" "mg_status x = MigrationSuccess" 
      by (metis find_Some_iff nth_mem set_rev, metis (mono_tags, lifting) find_Some_iff)
    with only rev have "mg_status ?m' = MigrationSuccess" by metis
    then show False by simp
  qed
  with run w'(3) m' persistence_last_calm [OF w'(1,2)] show ?thesis by blast
qed

theorem unapply_quiet_success_witness:
  "\<exists>m w w' w'' last. unapply_impl (\<lambda>_. ''boom'') (persistence_update ex_codec Postgres)
        (unapply_sql_step ex_exec ex_displays (ex_info Postgres) ex_two_drops) m w = Some (Inr (), w')
    \<and> w_schema w = [''c''] \<and> w_schema w' = []
    \<and> m\<lparr>mg_status := RollbackSuccess, mg_rolled_back := mg_rolled_back m + (length (sm_rollback ex_two_drops) - 1)\<rparr> \<in> set (stored ex_codec w')
    \<and> persistence_last ex_codec w' = (Inr last, w'') \<and> map_option mg_revision last \<noteq> Some (mg_revision m)"
proof -
  let ?m = "ex_saved\<lparr>mg_status := MigrationSuccess, mg_applied := 1, mg_finished_at := Some ex_time\<rparr>"
  obtain w where w: "store_ok ex_codec w" "calm w" "w_schema w = [''c'']" "stored ex_codec w = [?m]"
    using ex_apply_run by blast
  have "mg_status ?m = MigrationSuccess" "params_ok (update_params ?m)" "?m \<in> set (stored ex_codec w)"
    by (simp_all add: w(4) params_ok_def update_params_def ex_time_whole)
  moreover have "run_effects (step_effect ex_exec ex_displays (ex_info Postgres) (sm_after ex_two_drops) (sm_before ex_two_drops)
      (sm_rollback ex_two_drops)) [0..<length (sm_rollback ex_two_drops)] (w_schema w) = Some []"
    unfolding w(3) by (simp add: step_effect_def ex_two_drops_def ex_drop_rendered ex_exec_def)
  ultimately show ?thesis
    using unapply_quiet_success [OF ex_codec_ok w(1,2), of ?m ex_exec ex_displays "ex_info Postgres" ex_two_drops "[]" "\<lambda>_. ''boom''" Postgres] w(3)
    by blast
qed

end
