(* ===== verification/Apply_Command.thy ===== *)
theory Apply_Command
  imports Commands_Laws
begin

text \<open>
  The course of the ApplyMigration command in a database where no statement fails: what each part
  answers, and what the whole command leaves behind.
\<close>

section \<open>Operations that answer without changing the database\<close>

type_synonym 'q content = "migration_row list option \<times> nat \<times> 'q"

definition answers :: "('q world, 'e, 'a) eff \<Rightarrow> 'a \<Rightarrow> 'q content \<Rightarrow> bool" where
  "answers m a k \<longleftrightarrow> (\<forall>w. calm w \<and> content w = k \<longrightarrow> (\<exists>w'. m w = (Inr a, w') \<and> calm w' \<and> content w' = k))"

named_theorems answers_intros

lemma answersE:
  assumes "answers m a k" and "calm w" and "content w = k"
  obtains w' where "m w = (Inr a, w')" and "calm w'" and "content w' = k"
  using assms by (auto simp: answers_def)

lemma answers_return [answers_intros, simp]: "answers (return_eff a) a k"
  by (simp add: answers_def)

lemma answers_lift [answers_intros]: "r = Inr a \<Longrightarrow> answers (lift_eff r) a k"
  by (simp add: answers_def)

lemma answers_bind [answers_intros]:
  assumes "answers m a k" and "answers (f a) b k"
  shows "answers (bind_eff m f) b k"
  unfolding answers_def
proof (intro allI impI)
  fix w assume "calm w \<and> content w = k"
  then obtain w1 where "m w = (Inr a, w1)" "calm w1" "content w1 = k" using assms(1) by (auto elim: answersE)
  moreover then obtain w2 where "f a w1 = (Inr b, w2)" "calm w2" "content w2 = k" using assms(2) by (auto elim: answersE)
  ultimately show "\<exists>w'. bind_eff m f w = (Inr b, w') \<and> calm w' \<and> content w' = k" by auto
qed

lemma answers_connector_op [answers_intros]: "answers m a k \<Longrightarrow> answers (connector_op m) a k"
  by (auto simp: answers_def)

text \<open>The content decides what is stored.\<close>

lemma content_store:
  assumes "content w' = content w"
  shows "store_ok c w' = store_ok c w" "stored c w' = stored c w" "w_schema w' = w_schema w" "w_next w' = w_next w"
proof -
  have "same_store w w'" using assms by (simp add: content_def same_store_def)
  then show "store_ok c w' = store_ok c w" "stored c w' = stored c w"
    by (rule same_store_ok, rule same_store_stored)
  show "w_schema w' = w_schema w" "w_next w' = w_next w" using assms by (simp_all add: content_def)
qed

lemma content_faults [simp]: "content (w\<lparr>w_faults := fs\<rparr>) = content w"
  by (simp add: content_def)

lemma answers_last:
  assumes "store_ok c w"
  shows "answers (persistence_last c) (find (\<lambda>m. mg_status m = MigrationSuccess) (rev (stored c w))) (content w)"
  unfolding answers_def
proof (intro allI impI)
  fix v :: "'b world"
  assume v: "calm v \<and> content v = content w"
  then have "store_ok c v" "stored c v = stored c w" using content_store(1,2) [of v w c] assms by simp_all
  with v persistence_last_calm [of c v] show "\<exists>w'. persistence_last c v =
      (Inr (find (\<lambda>m. mg_status m = MigrationSuccess) (rev (stored c w))), w') \<and> calm w' \<and> content w' = content w"
    by (simp add: calm_step)
qed

lemma answers_already_applied:
  assumes "codec_ok c" and "store_ok c w"
  shows "answers (migration_is_already_applied c name)
    (list_ex (\<lambda>m. mg_status m = MigrationSuccess \<and> mg_name m = name) (stored c w)) (content w)"
  unfolding answers_def
proof (intro allI impI)
  fix v :: "'b world"
  assume v: "calm v \<and> content v = content w"
  then have st: "store_ok c v" "stored c v = stored c w" using content_store(1,2) [of v w c] assms by simp_all
  obtain w' where run: "migration_is_already_applied c name v =
      (Inr (list_ex (\<lambda>m. mg_status m = MigrationSuccess \<and> mg_name m = name) (stored c w)), w')" and "calm w'"
    using already_applied_quiet [OF assms(1) st(1), of name] v st(2) by auto
  moreover have "content w' = content v"
    using keeps_queries(4) run by (rule keepsD)
  ultimately show "\<exists>w'. migration_is_already_applied c name v =
      (Inr (list_ex (\<lambda>m. mg_status m = MigrationSuccess \<and> mg_name m = name) (stored c w)), w') \<and> calm w' \<and> content w' = content w"
    using v by simp
qed

section \<open>Before the migration is saved\<close>

text \<open>
  What the environment of the command gives for an input: the datamodels of the last migration, the
  next datamodel, the database migration and its check. \<open>k\<close> is the content of the database.
\<close>

record ('m, 'd) course =
  cs_current_ast :: schema_ast
  cs_current :: 'm
  cs_next_ast :: schema_ast
  cs_next :: 'm
  cs_database :: 'd
  cs_pretty :: "string list"
  cs_timestamp :: datetime
  cs_text :: string
  cs_rendered :: string
  cs_diagnostics :: diagnostics

definition takes_course ::
    "('q, 'j, 'm, 'd, 'x) engine \<Rightarrow> apply_migration_input \<Rightarrow> 'j migration option \<Rightarrow> 'q content \<Rightarrow> ('m, 'd) course \<Rightarrow> bool" where
  "takes_course en input last_migration k s \<longleftrightarrow>
     persisted_ast en last_migration = (Inr (cs_current_ast s) :: 'x command_error + schema_ast)
   \<and> persisted_datamodel en last_migration = (Inr (cs_current s) :: 'x command_error + 'm)
   \<and> calculate en (cs_current_ast s) (am_steps input) = (Inr (cs_next_ast s) :: 'x command_error + schema_ast)
   \<and> en_lift_ast en (cs_next_ast s) = Inr (cs_next s)
   \<and> answers (en_infer en (cs_current s) (cs_next s) (am_steps input)) (cs_database s) k
   \<and> en_render_pretty en (cs_database s) = Inr (cs_pretty s)
   \<and> timestamp_without_nanos (en_now en) = Some (cs_timestamp s)
   \<and> en_render_ast en (cs_next_ast s) = Inr (cs_text s)
   \<and> answers (en_check en (cs_database s)) (cs_diagnostics s) k
   \<and> en_render_datamodel en (cs_next s) = Some (cs_rendered s)"

definition course_migration :: "('q, 'j, 'm, 'd, 'x) engine \<Rightarrow> apply_migration_input \<Rightarrow> ('m, 'd) course \<Rightarrow> 'j migration" where
  "course_migration en input s =
     (migration_new (en_empty_json en) (cs_timestamp s) (am_migration_id input))
       \<lparr>mg_datamodel_steps := am_steps input, mg_database_migration := en_serialize en (cs_database s),
        mg_datamodel_string := cs_text s\<rparr>"

definition course_output :: "apply_migration_input \<Rightarrow> ('m, 'd) course \<Rightarrow> migration_steps_result_output" where
  "course_output input s =
     \<lparr>out_datamodel = cs_rendered s, out_datamodel_steps = am_steps input, out_database_steps = cs_pretty s,
      out_errors = dg_errors (cs_diagnostics s), out_warnings = dg_warnings (cs_diagnostics s), out_general_errors = [],
      out_unexecutable = dg_unexecutable (cs_diagnostics s)\<rparr>"

lemma answers_prepare:
  assumes "takes_course en input last_migration k s"
  shows "answers (prepare_migration en input (cs_current s) (cs_next_ast s))
    (cs_next s, cs_database s, cs_pretty s, cs_timestamp s, course_migration en input s, cs_diagnostics s) k"
  using assms unfolding prepare_migration_def takes_course_def Let_def
  by (intro answers_bind [where a = "cs_next s"] answers_bind [where a = "cs_database s"] answers_bind [where a = "cs_pretty s"]
        answers_bind [where a = "cs_timestamp s"] answers_bind [where a = "cs_text s"] answers_bind [where a = "cs_diagnostics s"]
        answers_lift answers_connector_op)
     (auto simp: lift_ast_def map_err_def course_migration_def)

lemma then_run_answers:
  assumes "answers m a k" and "calm w" and "content w = k"
  obtains w' where "then_run m f w = f a w'" and "calm w'" and "content w' = k"
  using assms by (auto elim!: answersE simp: then_run_def)

lemma apply_reaches_normal:
  fixes en :: "('q, 'j, 'm, 'd, 'x) engine"
  assumes "store_ok (en_codec en) w" and "calm w"
    and "is_watch_name (am_migration_id input) \<or> \<not> list_ex is_watch_migration (stored (en_codec en) w)"
  shows "\<exists>w'. apply_migration en input w = handle_normal_migration en input w' \<and> calm w' \<and> content w' = content w"
proof -
  let ?last = "find (\<lambda>m. mg_status m = MigrationSuccess) (rev (stored (en_codec en) w))"
  have last: "answers (connector_op (persistence_last (en_codec en))) ?last (content w)"
    using assms(1) by (intro answers_connector_op answers_last)
  have watch: "\<not> (\<exists>m. ?last = Some m \<and> is_watch_migration m \<and> \<not> is_watch_name (am_migration_id input))"
    using assms(3) by (auto simp: find_Some_iff list_ex_iff) (metis length_rev nth_mem set_rev)
  obtain w1 where "connector_op (persistence_last (en_codec en)) w = (Inr ?last :: 'x command_error + 'j migration option, w1)"
    and w1: "calm w1" "content w1 = content w"
    using last assms(2) refl by (rule answersE)
  then have "apply_migration en input w = handle_normal_migration en input w1"
    using watch by (cases ?last) (auto simp: apply_migration_def then_run_def connector_op_def map_err_def)
  then show ?thesis using w1 by blast
qed

lemma apply_reaches_handle_migration:
  fixes en :: "('q, 'j, 'm, 'd, 'x) engine"
  assumes "codec_ok (en_codec en)" and "store_ok (en_codec en) w" and "calm w"
    and "takes_course en input (find (\<lambda>m. mg_status m = MigrationSuccess) (rev (stored (en_codec en) w))) (content w) s"
    and "\<not> list_ex (\<lambda>m. mg_status m = MigrationSuccess \<and> mg_name m = am_migration_id input) (stored (en_codec en) w)"
    and "is_watch_name (am_migration_id input)
       \<or> \<not> list_ex is_watch_migration (stored (en_codec en) w)"
  shows "\<exists>w'. apply_migration en input w = handle_migration en input (cs_current s) (cs_next_ast s) w'
    \<and> calm w' \<and> content w' = content w"
proof -
  let ?last = "find (\<lambda>m. mg_status m = MigrationSuccess) (rev (stored (en_codec en) w))"
  let ?load = "bind_eff (connector_op (persistence_last (en_codec en))) (\<lambda>last_migration.
          bind_eff (lift_eff (persisted_ast en last_migration)) (\<lambda>current_ast.
          bind_eff (lift_eff (persisted_datamodel en last_migration)) (\<lambda>current_datamodel.
          bind_eff (lift_eff (calculate en current_ast (am_steps input))) (\<lambda>next_ast.
          return_eff (current_datamodel, next_ast)))))"
  have last: "answers (connector_op (persistence_last (en_codec en))) ?last (content w)"
    using assms(2) by (intro answers_connector_op answers_last)
  have load: "answers ?load (cs_current s, cs_next_ast s) (content w)"
    using assms(4) unfolding takes_course_def by (auto intro!: answers_bind [OF last] answers_bind [OF answers_lift])
  have normal: "answers (bind_eff (connector_op (migration_is_already_applied (en_codec en) (am_migration_id input)))
      (\<lambda>applied. if applied then fail_eff e else ?load)) (cs_current s, cs_next_ast s) (content w)" for e
    by (rule answers_bind [OF answers_connector_op [OF answers_already_applied [OF assms(1,2)]]]) (use load assms(5) in simp)
  obtain w1 where "apply_migration en input w = handle_normal_migration en input w1"
    and w1: "calm w1" "content w1 = content w"
    using apply_reaches_normal [OF assms(2,3,6)] by blast
  moreover obtain w2 where "handle_normal_migration en input w1 = handle_migration en input (cs_current s) (cs_next_ast s) w2"
    "calm w2" "content w2 = content w"
    unfolding handle_normal_migration_def
    by (rule then_run_answers [OF normal w1, where f = "\<lambda>(x, y). handle_migration en input x y"]) simp
  ultimately show ?thesis by auto
qed

section \<open>Saving and applying\<close>

lemma new_revision:
  assumes "store_ok c w"
  shows "list_all (\<lambda>m. mg_revision m < w_next w) (stored c w)"
proof -
  obtain rows ms where rows: "w_rows w = Some rows" "rows_sorted w rows" "parse_rows_new c rows = Some ms" "stored c w = ms"
    using assms by (auto elim: store_okE)
  have "list_all2 (\<lambda>r m. parse_row c r = Some m) rows ms" using rows(3) by (simp add: parse_rows_iff)
  then have "list_all2 (\<lambda>r m. mg_revision m = nat (r_revision r)) rows ms"
    by (rule list_all2_mono) (auto simp: parse_row_def bind_eq_Some_conv)
  moreover have "nat (r_revision (rows ! i)) < w_next w" if "i < length rows" for i
    using rows(2) nth_mem [OF that] by (auto simp: rows_sorted_def list_all_iff nat_less_iff)
  ultimately show ?thesis unfolding rows(4) by (auto simp: list_all2_conv_all_nth list_all_iff in_set_conv_nth)
qed

lemma update_newest:
  assumes "store_ok c w" and "up_revision p = w_next w"
  shows "map (apply_update p) (stored c w) = stored c w"
  using new_revision [OF assms(1)] assms(2) by (auto simp: apply_update_def list_all_iff intro!: map_idI)

lemma timestamp_whole:
  assumes "timestamp_without_nanos now = Some ts" and "0 \<le> dt_secs now" and "0 \<le> dt_nsecs now"
  shows "whole_millis ts"
  using timestamp_without_nanos_whole [OF assms(2,3)] assms(1) by force

lemma execute_migration_quiet:
  assumes "codec_ok (en_codec en)" and "store_ok (en_codec en) w" and "calm w" and "sql_applier exec d info en"
    and "new_ok m" and "mg_status m = Pending" and "mg_applied m = 0" and "whole_millis ts"
    and "has_warnings dg \<Longrightarrow> am_force input = Some True"
    and "run_effects (step_effect exec d info (sm_before dbm) (sm_after dbm) (sm_corrected_steps dbm))
           [0..<length (sm_corrected_steps dbm)] (w_schema w) = Some q"
  shows "\<exists>w'. execute_migration en input dbm ts m dg w = Some (Inr (), w') \<and> calm w' \<and> store_ok (en_codec en) w' \<and> w_schema w' = q
    \<and> stored (en_codec en) w' = stored (en_codec en) w @
        [m\<lparr>mg_revision := w_next w, mg_status := MigrationSuccess, mg_applied := length (sm_corrected_steps dbm) - 1, mg_finished_at := Some ts\<rparr>]"
proof -
  let ?c = "en_codec en" and ?m = "m\<lparr>mg_revision := w_next w\<rparr>"
  let ?p = "(update_params ?m)\<lparr>up_status := MigrationSuccess,
      up_applied := mg_applied ?m + (length (sm_corrected_steps dbm) - 1), up_finished_at := Some ts\<rparr>"
  obtain w1 where create: "persistence_create ?c (en_family en) m w = (Inr ?m, w1)"
    and w1: "store_ok ?c w1" "calm w1" "stored ?c w1 = stored ?c w @ [?m]" "w_schema w1 = w_schema w"
    using persistence_create_calm [OF assms(1,2,3,5)] by blast
  have "mg_status ?m = Pending" "params_ok (update_params ?m)"
    using assms(5,6) by (simp_all add: params_ok_def update_params_def new_ok_def)
  then obtain w2 where applied: "apply_impl ts (en_debug en) (persistence_update ?c (en_family en)) (apply_sql_step exec d info dbm) ?m w1 = Some (Inr (), w2)"
    and w2: "store_ok ?c w2" "calm w2" "w_schema w2 = q" "stored ?c w2 = map (apply_update ?p) (stored ?c w1)"
    using apply_impl_quiet [OF assms(1) w1(1,2) _ _ assms(8), of ?m exec d info dbm q "en_debug en" "en_family en"] assms(10) w1(4) by auto
  have "execute_migration en input dbm ts m dg w = Some (Inr (), w2)"
    using create applied assms(4,9)
    by (auto simp: execute_migration_def then_run_def connector_op_def map_err_def engine_apply_def connector_run_def sql_applier_def)
  moreover have "up_revision ?p = w_next w" by (simp add: update_params_def)
  then have "stored ?c w2 = stored ?c w @ [apply_update ?p ?m]"
    using update_newest [OF assms(2), of ?p] by (simp add: w2(4) w1(3))
  moreover have "apply_update ?p ?m = m\<lparr>mg_revision := w_next w, mg_status := MigrationSuccess,
      mg_applied := length (sm_corrected_steps dbm) - 1, mg_finished_at := Some ts\<rparr>"
    using assms(7) by (simp add: apply_update_def update_params_def)
  ultimately show ?thesis using w2(1-3) by simp
qed

lemma apply_migration_quiet:
  fixes en :: "('q, 'j, 'm, sql_migration, 'x) engine"
  assumes ok: "codec_ok (en_codec en)" "store_ok (en_codec en) w" "calm w"
    and "sql_applier exec d info en" and now: "0 \<le> dt_secs (en_now en)" "0 \<le> dt_nsecs (en_now en)"
    and course: "takes_course en input (find (\<lambda>m. mg_status m = MigrationSuccess) (rev (stored (en_codec en) w))) (content w) s"
    and "\<not> list_ex (\<lambda>m. mg_status m = MigrationSuccess \<and> mg_name m = am_migration_id input) (stored (en_codec en) w)"
    and "is_watch_name (am_migration_id input) \<or> \<not> list_ex is_watch_migration (stored (en_codec en) w)"
    and warned: "has_warnings (cs_diagnostics s) \<Longrightarrow> am_force input = Some True"
    and effects: "run_effects (step_effect exec d info (sm_before (cs_database s)) (sm_after (cs_database s)) (sm_corrected_steps (cs_database s)))
           [0..<length (sm_corrected_steps (cs_database s))] (w_schema w) = Some q"
  shows "\<exists>w'. apply_migration en input w = Some (Inr (course_output input s), w') \<and> calm w' \<and> store_ok (en_codec en) w' \<and> w_schema w' = q
    \<and> stored (en_codec en) w' = stored (en_codec en) w @
        [(course_migration en input s)\<lparr>mg_revision := w_next w, mg_status := MigrationSuccess,
           mg_applied := length (sm_corrected_steps (cs_database s)) - 1, mg_finished_at := Some (cs_timestamp s)\<rparr>]"
proof -
  let ?c = "en_codec en" and ?m = "course_migration en input s"
  obtain w1 where run1: "apply_migration en input w = handle_migration en input (cs_current s) (cs_next_ast s) w1"
    and w1: "calm w1" "content w1 = content w"
    using apply_reaches_handle_migration [OF ok course assms(8,9)] by blast
  obtain w2 where run2: "prepare_migration en input (cs_current s) (cs_next_ast s) w1 =
      (Inr (cs_next s, cs_database s, cs_pretty s, cs_timestamp s, ?m, cs_diagnostics s) ::
        'x command_error + ('m \<times> sql_migration \<times> string list \<times> datetime \<times> 'j migration \<times> diagnostics), w2)"
    and w2: "calm w2" "content w2 = content w"
    using answers_prepare [OF course] w1 by (rule answersE)
  have st2: "store_ok ?c w2" "stored ?c w2 = stored ?c w" "w_next w2 = w_next w" "w_schema w2 = w_schema w"
    using ok(2) by (simp_all add: content_store [OF w2(2)])
  have "timestamp_without_nanos (en_now en) = Some (cs_timestamp s)" using course by (simp add: takes_course_def)
  then have ts: "whole_millis (cs_timestamp s)" using now by (rule timestamp_whole)
  have m: "new_ok ?m" "mg_status ?m = Pending" "mg_applied ?m = 0"
    using ts by (simp_all add: new_ok_def course_migration_def migration_new_def)
  obtain w3 where run3: "execute_migration en input (cs_database s) (cs_timestamp s) ?m (cs_diagnostics s) w2 = Some (Inr (), w3)"
    and w3: "calm w3" "store_ok ?c w3" "w_schema w3 = q" "stored ?c w3 = stored ?c w2 @
        [?m\<lparr>mg_revision := w_next w2, mg_status := MigrationSuccess,
           mg_applied := length (sm_corrected_steps (cs_database s)) - 1, mg_finished_at := Some (cs_timestamp s)\<rparr>]"
    using execute_migration_quiet [OF ok(1) st2(1) w2(1) assms(4) m ts warned effects [folded st2(4)]] by blast
  have "en_render_datamodel en (cs_next s) = Some (cs_rendered s)" using course by (simp add: takes_course_def)
  then have "migration_output en input (cs_next s) (cs_pretty s) (cs_diagnostics s) w3 =
      (Inr (course_output input s) :: 'x command_error + migration_steps_result_output, w3)"
    by (simp add: migration_output_def rendered_datamodel_def course_output_def bind_eff_def)
  then have "apply_migration en input w = Some (Inr (course_output input s), w3)"
    by (simp add: run1 handle_migration_def then_run_def run2 run_then_def run3)
  then show ?thesis using w3 st2 by simp
qed

end
