(* ===== verification/Command_Properties.thy ===== *)
theory Command_Properties
  imports Migration_Properties Run_Properties Apply_Command
begin

text \<open>
  The properties of the commands of the migration engine, over the persistence, the checker, the
  applier and the datamodel calculator they are made of.
\<close>

section \<open>An example engine\<close>

text \<open>
  The engine of the SQL connector over the example database; the datamodel parser, the schema
  calculator and serde_json are small functions.
\<close>

definition ex_engine :: "sql_migration \<Rightarrow> (string list, unit, unit, sql_migration, unit) engine" where
  "ex_engine dbm =
     \<lparr>en_codec = ex_codec, en_family = Postgres, en_now = ex_time, en_debug = (\<lambda>_. ''boom''), en_empty_json = (),
      en_parse_expr = const_parse, en_parse_ast = (\<lambda>_. Inr example_prev), en_parse_datamodel = (\<lambda>_. Inr ()),
      en_lift_ast = (\<lambda>_. Inr ()), en_render_ast = (\<lambda>_. Inr ''text''), en_render_datamodel = (\<lambda>_. Some ''datamodel''),
      en_empty_datamodel = (), en_infer = (\<lambda>_ _ _. return_eff dbm), en_infer_from_datamodels = (\<lambda>_ _ _. return_eff dbm),
      en_check = check ex_counts (ex_info Postgres), en_check_unapply = check_unapply ex_counts (ex_info Postgres),
      en_apply_step = apply_sql_step ex_exec ex_displays (ex_info Postgres),
      en_unapply_step = unapply_sql_step ex_exec ex_displays (ex_info Postgres),
      en_render_pretty = (\<lambda>_. Inr []), en_serialize = (\<lambda>_. ()), en_deserialize = (\<lambda>_. Some dbm),
      en_version_check = (\<lambda>_. []), en_initialize = persistence_init, en_reset = persistence_reset\<rparr>"


lemma ex_engine_reads: "engine_reads (ex_engine dbm)"
  by (auto simp: engine_reads_def ex_engine_def check_def intro: keeps_check_impl)

lemma ex_engine_applier: "sql_applier ex_exec ex_displays (ex_info Postgres) (ex_engine dbm)"
  by (simp add: sql_applier_def ex_engine_def)

definition ex_input :: "string \<Rightarrow> bool option \<Rightarrow> apply_migration_input" where
  "ex_input name force = \<lparr>am_migration_id = name, am_steps = [CreateModel ''A''], am_force = force\<rparr>"

text \<open>The database shows three rows in the table that is dropped, or none.\<close>

definition ex_course :: "sql_migration \<Rightarrow> diagnostics \<Rightarrow> (unit, sql_migration) course" where
  "ex_course dbm dg =
     \<lparr>cs_current_ast = schema_empty, cs_current = (), cs_next_ast = \<lparr>tops = [ex_model ''A'' [] []]\<rparr>, cs_next = (),
      cs_database = dbm, cs_pretty = [], cs_timestamp = ex_time, cs_text = ''text'', cs_rendered = ''datamodel'',
      cs_diagnostics = dg\<rparr>"

lemma ex_takes_course:
  assumes "answers (check ex_counts (ex_info Postgres) dbm) dg k"
  shows "takes_course (ex_engine dbm) (ex_input name force) None k (ex_course dbm dg)"
proof -
  have "calculator_infer const_parse schema_empty [CreateModel ''A''] = Inr \<lparr>tops = [ex_model ''A'' [] []]\<rparr>" by code_simp
  moreover have "timestamp_without_nanos ex_time = Some ex_time"
    using timestamp_roundtrip [OF ex_time_whole] by (simp add: timestamp_without_nanos_def)
  ultimately show ?thesis
    using assms by (simp add: takes_course_def ex_engine_def ex_input_def ex_course_def persisted_ast_def persisted_datamodel_def
        calculate_def map_err_def)
qed

section \<open>ApplyMigration\<close>

text \<open>
  C2. ApplyMigration applies: in a database where no statement fails, for a migration that is not
  applied yet, whose steps lead to a datamodel and whose check gives no warning or is forced, the
  command returns the output of the course, the database has gone through all corrected steps, and
  the migration table has one more migration, with the given name and steps, the text of the next
  datamodel and the status of success. Earlier migrations are unchanged.
\<close>
theorem apply_command_applies:
  assumes "codec_ok (en_codec en)" and "store_ok (en_codec en) w" and "calm w"
    and "sql_applier exec d info en" and "0 \<le> dt_secs (en_now en)" and "0 \<le> dt_nsecs (en_now en)"
    and "takes_course en input (find (\<lambda>m. mg_status m = MigrationSuccess) (rev (stored (en_codec en) w))) (content w) s"
    and "\<not> list_ex (\<lambda>m. mg_status m = MigrationSuccess \<and> mg_name m = am_migration_id input) (stored (en_codec en) w)"
    and "is_watch_name (am_migration_id input) \<or> \<not> list_ex is_watch_migration (stored (en_codec en) w)"
    and "has_warnings (cs_diagnostics s) \<Longrightarrow> am_force input = Some True"
    and "run_effects (step_effect exec d info (sm_before (cs_database s)) (sm_after (cs_database s)) (sm_corrected_steps (cs_database s)))
           [0..<length (sm_corrected_steps (cs_database s))] (w_schema w) = Some q"
  shows "\<exists>w'. apply_migration en input w = Some (Inr (course_output input s), w') \<and> w_schema w' = q
    \<and> stored (en_codec en) w' = stored (en_codec en) w @
        [(course_migration en input s)\<lparr>mg_revision := w_next w, mg_status := MigrationSuccess,
           mg_applied := length (sm_corrected_steps (cs_database s)) - 1, mg_finished_at := Some (cs_timestamp s)\<rparr>]"
  using apply_migration_quiet [OF assms] by blast

lemma ex_check_two_drops:
  "answers (check ex_counts (ex_info Postgres) ex_two_drops) diagnostics_new k"
  by (simp add: answers_def check_def check_impl_def ex_two_drops_def warn_about_unexecutable_migrations_def
      diagnostics_new_def bind_eff_def)

theorem apply_command_applies_witness:
  "\<exists>w'. apply_migration (ex_engine ex_two_drops) (ex_input ''m1'' None) (ex_world [''a'', ''b'', ''c'']) =
       Some (Inr (course_output (ex_input ''m1'' None) (ex_course ex_two_drops diagnostics_new)), w')
     \<and> w_schema w' = [''c''] \<and> length (stored ex_codec w') = 1
     \<and> mg_name (stored ex_codec w' ! 0) = ''m1'' \<and> mg_datamodel_steps (stored ex_codec w' ! 0) = [CreateModel ''A'']
     \<and> mg_status (stored ex_codec w' ! 0) = MigrationSuccess \<and> mg_datamodel_string (stored ex_codec w' ! 0) = ''text''"
proof -
  let ?en = "ex_engine ex_two_drops" and ?input = "ex_input ''m1'' None" and ?w = "ex_world [''a'', ''b'', ''c'']"
  let ?s = "ex_course ex_two_drops diagnostics_new"
  have codec: "en_codec ?en = ex_codec" by (simp add: ex_engine_def)
  have "takes_course ?en ?input (find (\<lambda>m. mg_status m = MigrationSuccess) (rev (stored (en_codec ?en) ?w))) (content ?w) ?s"
    using ex_takes_course [OF ex_check_two_drops] by (simp add: codec ex_store_ok(3))
  moreover have "run_effects (step_effect ex_exec ex_displays (ex_info Postgres) (sm_before (cs_database ?s)) (sm_after (cs_database ?s))
      (sm_corrected_steps (cs_database ?s))) [0..<length (sm_corrected_steps (cs_database ?s))] (w_schema ?w) = Some [''c'']"
    using ex_two_drops_effect [of "w_schema ?w"] by (simp add: ex_course_def ex_world_def)
  ultimately have "\<exists>w'. apply_migration ?en ?input ?w = Some (Inr (course_output ?input ?s), w') \<and> w_schema w' = [''c'']
    \<and> stored (en_codec ?en) w' = stored (en_codec ?en) ?w @
        [(course_migration ?en ?input ?s)\<lparr>mg_revision := w_next ?w, mg_status := MigrationSuccess,
           mg_applied := length (sm_corrected_steps (cs_database ?s)) - 1, mg_finished_at := Some (cs_timestamp ?s)\<rparr>]"
    by (intro apply_command_applies [OF _ _ _ ex_engine_applier])
       (simp_all add: codec ex_codec_ok ex_store_ok, simp_all add: ex_engine_def ex_time_def ex_course_def has_warnings_def diagnostics_new_def)
  then show ?thesis
    by (auto simp: codec ex_store_ok(3) course_migration_def migration_new_def ex_input_def ex_course_def)
qed


text \<open>
  C6. A migration with warnings is not applied without the force flag: when ApplyMigration returns an
  output with warnings and the flag is not set, neither the migration table nor the schema of the
  database has changed. Inference and the check only read, as they do for SQL.
\<close>
theorem warned_migration_not_applied:
  assumes "engine_reads en" and "apply_migration en input w = Some (Inr out, w')"
    and "out_warnings out \<noteq> []" and "am_force input \<noteq> Some True"
  shows "w_rows w' = w_rows w \<and> w_schema w' = w_schema w"
  using apply_migration_warned_content [OF assms] by (simp add: content_def)

lemma ex_warned_apply:
  "\<exists>out w'. apply_migration (ex_engine ex_sql_migration) (ex_input ''m1'' None) (ex_world [''User'']) = Some (Inr out, w')
     \<and> out_warnings out \<noteq> []"
proof -
  let ?en = "ex_engine ex_sql_migration" and ?input = "ex_input ''m1'' None" and ?w = "ex_world [''User'']"
  let ?dg = "\<lparr>dg_errors = [], dg_warnings = [drop_table_warning ''User'' 3], dg_unexecutable = []\<rparr>"
  have check: "answers (check ex_counts (ex_info Postgres) ex_sql_migration) ?dg (content ?w)"
    unfolding answers_def
  proof (intro allI impI)
    fix w :: "string list world"
    assume w: "calm w \<and> content w = content ?w"
    then have "w_schema w = [''User'']" by (simp add: content_def ex_world_def)
    then have "check ex_counts (ex_info Postgres) ex_sql_migration w = (Inr ?dg, w\<lparr>w_faults := tl (w_faults w)\<rparr>)"
      using w by (simp add: check_def check_impl_def ex_sql_migration_def check_step_def check_table_drop_def count_rows_in_table_def
          select_rows_def run_query_calm ex_counts_def as_i64_def ok_or_def bind_eff_def add_warning_def diagnostics_new_def
          warn_about_unexecutable_migrations_def)
    then show "\<exists>w'. check ex_counts (ex_info Postgres) ex_sql_migration w = (Inr ?dg, w') \<and> calm w' \<and> content w' = content ?w"
      using w calm_step by auto
  qed
  let ?s = "ex_course ex_sql_migration ?dg"
  have codec: "en_codec ?en = ex_codec" by (simp add: ex_engine_def)
  have course: "takes_course ?en ?input (find (\<lambda>m. mg_status m = MigrationSuccess) (rev (stored (en_codec ?en) ?w))) (content ?w) ?s"
    using ex_takes_course [OF check] by (simp add: codec ex_store_ok(3))
  obtain w1 where run: "apply_migration ?en ?input ?w = handle_migration ?en ?input (cs_current ?s) (cs_next_ast ?s) w1"
    and w1: "calm w1" "content w1 = content ?w"
    using apply_reaches_handle_migration [OF _ _ _ course] by (auto simp: codec ex_codec_ok ex_store_ok)
  obtain w2 where "prepare_migration ?en ?input (cs_current ?s) (cs_next_ast ?s) w1 =
      (Inr (cs_next ?s, cs_database ?s, cs_pretty ?s, cs_timestamp ?s, course_migration ?en ?input ?s, cs_diagnostics ?s), w2)"
    using answers_prepare [OF course] w1 by (auto elim!: answersE)
  then show ?thesis
    unfolding run handle_migration_def then_run_def
    by (simp add: run_then_def execute_migration_def run_eff_def migration_output_def rendered_datamodel_def bind_eff_def
        ex_course_def ex_input_def ex_engine_def has_warnings_def ok_or_def)
qed

theorem warned_migration_not_applied_witness:
  "\<exists>out w'. apply_migration (ex_engine ex_sql_migration) (ex_input ''m1'' None) (ex_world [''User'']) = Some (Inr out, w')
     \<and> out_warnings out \<noteq> [] \<and> w_rows w' = w_rows (ex_world [''User'']) \<and> w_schema w' = w_schema (ex_world [''User''])"
proof -
  obtain out w' where run: "apply_migration (ex_engine ex_sql_migration) (ex_input ''m1'' None) (ex_world [''User'']) = Some (Inr out, w')"
    and warned: "out_warnings out \<noteq> []"
    using ex_warned_apply by blast
  have "am_force (ex_input ''m1'' None) \<noteq> Some True" by (simp add: ex_input_def)
  from warned_migration_not_applied [OF ex_engine_reads run warned this] run warned show ?thesis by blast
qed



section \<open>UnapplyMigration and CalculateDatabaseSteps\<close>

text \<open>
  A missing force flag means opposite things in the two commands: ApplyMigration treats it as
  false, UnapplyMigration as true, so that a rollback that would lose data goes ahead unless the flag
  is sent and false.
\<close>
lemma missing_force_flag:
  "apply_migration en (input\<lparr>am_force := None\<rparr>) = apply_migration en (input\<lparr>am_force := Some False\<rparr>)
   \<and> unapply_migration en None = unapply_migration en (Some True)"
proof -
  have "handle_migration en (input\<lparr>am_force := None\<rparr>) = handle_migration en (input\<lparr>am_force := Some False\<rparr>)"
    by (intro ext) (simp add: handle_migration_def prepare_migration_def execute_migration_def migration_output_def)
  then have "apply_migration en (input\<lparr>am_force := None\<rparr>) = apply_migration en (input\<lparr>am_force := Some False\<rparr>)"
    unfolding apply_migration_def handle_normal_migration_def handle_transition_out_of_watch_mode_def
    by (simp cong: if_cong)
  moreover have "unapply_migration en None = unapply_migration en (Some True)"
    by (simp add: unapply_migration_def cong: option.case_cong)
  ultimately show ?thesis ..
qed

text \<open>
  C40. A rollback that is refused because of warnings changes nothing, but the answer names the
  migration both as rolled back and as active.
\<close>
theorem refused_rollback_reported:
  assumes "store_ok (en_codec en) w" and "calm w"
    and "find (\<lambda>m. mg_status m = MigrationSuccess) (rev (stored (en_codec en) w)) = Some m"
    and "en_deserialize en (mg_database_migration m) = Some dbm"
    and "answers (en_check_unapply en dbm) dg (content w)" and "has_warnings dg"
  shows "\<exists>out w'. unapply_migration en (Some False) w = Some (Inr out, w') \<and> content w' = content w
    \<and> uo_rolled_back out = mg_name m \<and> uo_active out = Some (mg_name m) \<and> uo_errors out = []"
proof -
  have last: "answers (persistence_last (en_codec en)) (Some m) (content w)"
    using answers_last [OF assms(1)] assms(3) by simp
  let ?out = "\<lparr>uo_rolled_back = mg_name m, uo_active = Some (mg_name m), uo_errors = [], uo_warnings = dg_warnings dg\<rparr>"
  obtain w1 where w1: "persistence_last (en_codec en) w = (Inr (Some m), w1)" "calm w1" "content w1 = content w"
    using last assms(2) by (auto elim!: answersE)
  obtain w2 where w2: "en_check_unapply en dbm w1 = (Inr dg, w2)" "calm w2" "content w2 = content w"
    using assms(5) w1(2,3) by (rule answersE)
  obtain w3 where w3: "persistence_last (en_codec en) w2 = (Inr (Some m), w3)" "content w3 = content w"
    using last w2(2,3) by (auto elim!: answersE)
  have "unapply_migration en (Some False) w = Some (Inr ?out, w3)"
    using assms(4,6) w1(1) w2(1) w3(1)
    by (simp add: unapply_migration_def then_run_def run_then_def run_eff_def connector_op_def map_err_def bind_eff_def ok_or_def)
  then show ?thesis using w3(2) by auto
qed

definition ex_back :: sql_migration where
  "ex_back = ex_two_drops\<lparr>sm_rollback := [DropTable ''c'']\<rparr>"

lemma ex_check_back:
  "answers (check_unapply ex_counts (ex_info Postgres) ex_back)
     \<lparr>dg_errors = [], dg_warnings = [drop_table_warning ''c'' 3], dg_unexecutable = []\<rparr> (rs, nx, [''c''])"
  unfolding answers_def
proof (intro allI impI)
  fix w :: "string list world"
  assume w: "calm w \<and> content w = (rs, nx, [''c''])"
  let ?dg = "\<lparr>dg_errors = [], dg_warnings = [drop_table_warning ''c'' 3], dg_unexecutable = []\<rparr>"
  from w have "w_schema w = [''c'']" by (simp add: content_def)
  then have "check_unapply ex_counts (ex_info Postgres) ex_back w = (Inr ?dg, w\<lparr>w_faults := tl (w_faults w)\<rparr>)"
    using w by (simp add: check_unapply_def check_impl_def ex_back_def check_step_def check_table_drop_def count_rows_in_table_def
        select_rows_def run_query_calm ex_counts_def as_i64_def ok_or_def bind_eff_def add_warning_def diagnostics_new_def
        warn_about_unexecutable_migrations_def)
  then show "\<exists>w'. check_unapply ex_counts (ex_info Postgres) ex_back w = (Inr ?dg, w') \<and> calm w' \<and> content w' = (rs, nx, [''c''])"
    using w calm_step by auto
qed

theorem refused_rollback_reported_witness:
  "\<exists>w out w'. unapply_migration (ex_engine ex_back) (Some False) w = Some (Inr out, w') \<and> content w' = content w
     \<and> w_schema w = [''c''] \<and> uo_rolled_back out = ''m1'' \<and> uo_active out = Some ''m1'' \<and> uo_errors out = []"
proof -
  let ?m = "ex_saved\<lparr>mg_status := MigrationSuccess, mg_applied := 1, mg_finished_at := Some ex_time\<rparr>"
  obtain w where w: "store_ok ex_codec w" "calm w" "w_schema w = [''c'']" "stored ex_codec w = [?m]"
    using ex_apply_run by blast
  have codec: "en_codec (ex_engine ex_back) = ex_codec" by (simp add: ex_engine_def)
  have "content w = (w_rows w, w_next w, [''c''])" by (simp add: content_def w(3))
  moreover have "mg_name ?m = ''m1''" by (simp add: ex_saved_def ex_migration_def migration_new_def)
  moreover have "answers (en_check_unapply (ex_engine ex_back) ex_back)
      \<lparr>dg_errors = [], dg_warnings = [drop_table_warning ''c'' 3], dg_unexecutable = []\<rparr> (w_rows w, w_next w, [''c''])"
    using ex_check_back by (simp add: ex_engine_def)
  ultimately have "\<exists>out w'. unapply_migration (ex_engine ex_back) (Some False) w = Some (Inr out, w') \<and> content w' = content w
      \<and> uo_rolled_back out = mg_name ?m \<and> uo_active out = Some (mg_name ?m) \<and> uo_errors out = []"
    by (intro refused_rollback_reported) (simp_all add: codec w has_warnings_def, simp_all add: ex_engine_def)
  then show ?thesis using w(3) by (auto simp: ex_saved_def ex_migration_def migration_new_def)
qed

text \<open>
  CalculateDatabaseSteps leaves out the steps to apply when they were sent again at the end of the
  steps assumed to be applied, provided something precedes them. When the two lists are the same
  nothing is left out and the steps are applied on top of themselves, although the comment on the
  function excludes exactly the steps that were sent twice.
\<close>
lemma applicable_steps_strip:
  "applicable_steps \<lparr>cd_steps_to_apply = steps, cd_assume_to_be_applied = Some (prefix @ steps)\<rparr>
     = (if prefix = [] then steps else prefix)
   \<and> applicable_steps \<lparr>cd_steps_to_apply = steps, cd_assume_to_be_applied = None\<rparr> = []"
  by (auto simp: applicable_steps_def Let_def)

section \<open>InferMigrationSteps\<close>







section \<open>Leaving watch mode\<close>

text \<open>
  The two queries for the last migration outside watch mode differ in failed migrations: the one
  InferMigrationSteps uses skips migrations that were not applied, the one ApplyMigration uses does
  not. After a failed migration the steps are inferred from one datamodel and applied to another.
\<close>
lemma last_non_watch_queries:
  assumes "store_ok c w" and "calm w"
  shows "\<exists>w1 w2. last_non_watch_applied_migration c w =
        (Inr (find (\<lambda>m. \<not> is_watch_migration m \<and> mg_status m = MigrationSuccess) (rev (stored c w))), w1)
    \<and> last_non_watch_migration c w = (Inr (find (\<lambda>m. \<not> is_watch_migration m) (rev (stored c w))), w2)
    \<and> content w1 = content w \<and> content w2 = content w"
  using load_all_calm [OF assms]
  by (simp add: last_non_watch_applied_migration_def last_non_watch_migration_def)

lemma last_non_watch_queries_witness:
  "\<exists>w1 w2. last_non_watch_applied_migration ex_codec (ex_saved_world []) = (Inr None, w1)
    \<and> last_non_watch_migration ex_codec (ex_saved_world []) = (Inr (Some ex_saved), w2)"
proof -
  have "\<not> is_watch_migration ex_saved"
    by (simp add: is_watch_migration_def is_watch_name_def ex_saved_def ex_migration_def migration_new_def)
  then show ?thesis
    using last_non_watch_queries [OF ex_saved_ok(1,2), of "[]"] by (auto simp: ex_saved_ok)
qed

end
