(* ===== verification/Dml.thy ===== *)
theory Dml
  imports Sql_Schema "HOL-Library.List_Lexorder" "HOL-Library.Char_ord"
begin

text \<open>
  The datamodel of \<open>libs/datamodel/core/src/dml\<close>: fields, models, enums, relation information and
  default values, with the lookups and unique criteria that the validator, the standardiser and the
  SQL schema calculator use. Names are compared byte by byte, the lexicographic order on strings.
  A panicking lookup (\<open>unwrap\<close>, \<open>expect\<close>) is an error value.
\<close>

section \<open>Types of fields\<close>

datatype scalar_type = SInt | SFloat | SBoolean | SString | SDateTime | SJson

record scalar_field_type =
  sft_name :: string
  sft_prisma_type :: scalar_type
  sft_datasource_type :: string

datatype dml_arity = DmlRequired | DmlOptional | DmlList

definition is_singular :: "dml_arity \<Rightarrow> bool" where
  "is_singular a \<longleftrightarrow> a = DmlRequired \<or> a = DmlOptional"

datatype on_delete_strategy = OnDeleteCascade | OnDeleteNone

record relation_info =
  ri_to :: string
  ri_fields :: "string list"
  ri_to_fields :: "string list"
  ri_name :: string
  ri_on_delete :: on_delete_strategy

datatype field_type =
    EnumType string
  | Relation relation_info
  | ConnectorSpecific scalar_field_type
  | Unsupported string
  | Base scalar_type "string option"

fun is_relation :: "field_type \<Rightarrow> bool" where
  "is_relation (Relation _) = True"
| "is_relation _ = False"

fun is_compatible_with :: "field_type \<Rightarrow> field_type \<Rightarrow> bool" where
  "is_compatible_with (Base a _) (Base b _) = (a = b)"
| "is_compatible_with a b = (a = b)"

fun field_scalar_type :: "field_type \<Rightarrow> scalar_type option" where
  "field_scalar_type (ConnectorSpecific sft) = Some (sft_prisma_type sft)"
| "field_scalar_type (Base st _) = Some st"
| "field_scalar_type _ = None"

section \<open>Default values\<close>

datatype value_generator_fn = UUID | CUID | Now | Autoincrement | DbGenerated

definition value_generator_fn_new :: "string \<Rightarrow> (string, value_generator_fn) res" where
  "value_generator_fn_new name =
     (if name = ''cuid'' then Inr CUID
      else if name = ''uuid'' then Inr UUID
      else if name = ''now'' then Inr Now
      else if name = ''autoincrement'' then Inr Autoincrement
      else if name = ''dbgenerated'' then Inr DbGenerated
      else Inl (''The function '' @ name @ '' is not a known function.''))"

text \<open>
  The \<open>generator\<close> of a \<open>ValueGenerator\<close> is what \<open>ValueGeneratorFn::new\<close> makes of its name and takes
  no part in the equality of generators, so it is recomputed from the name.
\<close>

record value_generator =
  vg_name :: string
  vg_args :: "prisma_value list"

datatype dml_default_value = DefaultSingle prisma_value | DefaultExpression value_generator

section \<open>Fields, models, enums\<close>

record dml_field =
  fl_name :: string
  fl_type :: field_type
  fl_arity :: dml_arity
  fl_database_name :: "string option"
  fl_default_value :: "dml_default_value option"
  fl_is_unique :: bool
  fl_is_id :: bool
  fl_documentation :: "string option"
  fl_is_generated :: bool
  fl_is_updated_at :: bool
  fl_is_commented_out :: bool

definition field_new :: "string \<Rightarrow> field_type \<Rightarrow> dml_field" where
  "field_new name tpe =
     \<lparr>fl_name = name, fl_type = tpe, fl_arity = DmlRequired, fl_database_name = None, fl_default_value = None,
      fl_is_unique = False, fl_is_id = False, fl_documentation = None, fl_is_generated = False,
      fl_is_updated_at = False, fl_is_commented_out = False\<rparr>"

definition field_new_generated :: "string \<Rightarrow> field_type \<Rightarrow> dml_field" where
  "field_new_generated name tpe = (field_new name tpe)\<lparr>fl_arity := DmlOptional, fl_is_generated := True\<rparr>"

datatype dml_index_type = UniqueIndex | NormalIndex

record index_definition =
  ix_name :: "string option"
  ix_fields :: "string list"
  ix_tpe :: dml_index_type

record dml_model =
  mo_name :: string
  mo_fields :: "dml_field list"
  mo_documentation :: "string option"
  mo_database_name :: "string option"
  mo_is_embedded :: bool
  mo_indices :: "index_definition list"
  mo_id_fields :: "string list"
  mo_is_generated :: bool
  mo_is_commented_out :: bool

record dml_enum_value =
  ev_name :: string
  ev_database_name :: "string option"
  ev_documentation :: "string option"
  ev_commented_out :: bool

record dml_enum =
  dn_name :: string
  dn_values :: "dml_enum_value list"
  dn_documentation :: "string option"
  dn_database_name :: "string option"

record datamodel =
  dm_enums :: "dml_enum list"
  dm_models :: "dml_model list"

text \<open>\<open>WithDatabaseName::final_database_name\<close> of each of them.\<close>

definition field_db_name :: "dml_field \<Rightarrow> string" where
  "field_db_name f = (case fl_database_name f of Some n \<Rightarrow> n | None \<Rightarrow> fl_name f)"

definition model_db_name :: "dml_model \<Rightarrow> string" where
  "model_db_name m = (case mo_database_name m of Some n \<Rightarrow> n | None \<Rightarrow> mo_name m)"

definition enum_value_db_name :: "dml_enum_value \<Rightarrow> string" where
  "enum_value_db_name v = (case ev_database_name v of Some n \<Rightarrow> n | None \<Rightarrow> ev_name v)"

definition enum_db_name :: "dml_enum \<Rightarrow> string" where
  "enum_db_name e = (case dn_database_name e of Some n \<Rightarrow> n | None \<Rightarrow> dn_name e)"

definition database_values :: "dml_enum \<Rightarrow> string list" where
  "database_values e = map enum_value_db_name (dn_values e)"

section \<open>Lookups\<close>

definition dml_find_model :: "datamodel \<Rightarrow> string \<Rightarrow> dml_model option" where
  "dml_find_model dm name = find (\<lambda>m. mo_name m = name) (dm_models dm)"

definition dml_find_enum :: "datamodel \<Rightarrow> string \<Rightarrow> dml_enum option" where
  "dml_find_enum dm name = find (\<lambda>e. dn_name e = name) (dm_enums dm)"

definition dml_find_field :: "dml_model \<Rightarrow> string \<Rightarrow> dml_field option" where
  "dml_find_field m name = find (\<lambda>f. fl_name f = name) (mo_fields m)"

definition singular_id_fields :: "dml_model \<Rightarrow> dml_field list" where
  "singular_id_fields m = filter fl_is_id (mo_fields m)"

definition has_single_id_field :: "dml_model \<Rightarrow> bool" where
  "has_single_id_field m \<longleftrightarrow> length (singular_id_fields m) = 1"

definition related_field :: "dml_model \<Rightarrow> string \<Rightarrow> string \<Rightarrow> string \<Rightarrow> dml_field option" where
  "related_field m to relation_name exclude_field =
     find (\<lambda>f. case fl_type f of
                 Relation rel_info \<Rightarrow> ri_to rel_info = to \<and> ri_name rel_info = relation_name
                   \<and> (mo_name m \<noteq> to \<or> fl_name f \<noteq> exclude_field)
               | _ \<Rightarrow> False) (mo_fields m)"

section \<open>Unique criteria\<close>

text \<open>\<open>None\<close> is the panic of \<open>find_field(..).unwrap()\<close> on a name that is not a field.\<close>

definition resolve_fields :: "dml_model \<Rightarrow> string list \<Rightarrow> dml_field list option" where
  "resolve_fields m names = those (map (dml_find_field m) names)"

definition unique_criterias :: "bool \<Rightarrow> dml_model \<Rightarrow> dml_field list list option" where
  "unique_criterias allow_optional m =
     (let single = (case singular_id_fields m of [] \<Rightarrow> [] | x # _ \<Rightarrow> [[x]]);
          uniques = map (\<lambda>f. [f]) (filter (\<lambda>f. fl_is_unique f \<and> (fl_arity f = DmlRequired \<or> allow_optional)) (mo_fields m))
      in Option.bind (resolve_fields m (mo_id_fields m)) (\<lambda>id_fields.
         Option.bind (those (map (\<lambda>i. resolve_fields m (ix_fields i))
                             (filter (\<lambda>i. ix_tpe i = UniqueIndex) (mo_indices m)))) (\<lambda>combis.
         Some (single @ (if id_fields = [] then [] else [id_fields]) @ uniques @ combis))))"

definition dml_first_unique_criterion :: "dml_model \<Rightarrow> dml_field list option" where
  "dml_first_unique_criterion m =
     Option.bind (unique_criterias False m) (\<lambda>cs. case cs of [] \<Rightarrow> None | c # _ \<Rightarrow> Some c)"

section \<open>Laws of the lookups\<close>

lemma dml_find_modelD: "dml_find_model dm n = Some m \<Longrightarrow> m \<in> set (dm_models dm) \<and> mo_name m = n"
  by (auto simp: dml_find_model_def dest: find_SomeD)

lemma dml_find_fieldD: "dml_find_field m n = Some f \<Longrightarrow> f \<in> set (mo_fields m) \<and> fl_name f = n"
  by (auto simp: dml_find_field_def dest: find_SomeD)

lemma dml_find_enumD: "dml_find_enum dm n = Some e \<Longrightarrow> e \<in> set (dm_enums dm) \<and> dn_name e = n"
  by (auto simp: dml_find_enum_def dest: find_SomeD)

lemma is_singular_iff: "is_singular a \<longleftrightarrow> a \<noteq> DmlList"
  by (cases a) (auto simp: is_singular_def)

lemma is_relation_iff: "is_relation t \<longleftrightarrow> (\<exists>ri. t = Relation ri)"
  by (cases t) auto

lemma related_fieldD:
  assumes "related_field m to n ex = Some f"
  obtains ri where "f \<in> set (mo_fields m)" and "fl_type f = Relation ri" and "ri_to ri = to" and "ri_name ri = n"
    and "mo_name m \<noteq> to \<or> fl_name f \<noteq> ex"
proof -
  from assms have "f \<in> set (mo_fields m)" and "case fl_type f of Relation rel_info \<Rightarrow> ri_to rel_info = to
      \<and> ri_name rel_info = n \<and> (mo_name m \<noteq> to \<or> fl_name f \<noteq> ex) | _ \<Rightarrow> False"
    unfolding related_field_def by (auto dest: find_SomeD)
  then show thesis using that by (cases "fl_type f") auto
qed

lemma those_Some_iff: "those xs = Some ys \<longleftrightarrow> xs = map Some ys"
  by (induction xs arbitrary: ys) (auto split: option.splits simp: Cons_eq_map_conv)

lemma resolve_fields_Some:
  "resolve_fields m names = Some fs \<longleftrightarrow> map (dml_find_field m) names = map Some fs"
  by (simp add: resolve_fields_def those_Some_iff)

lemma resolve_fieldsD:
  assumes "resolve_fields m names = Some fs"
  shows "map fl_name fs = names" and "set fs \<subseteq> set (mo_fields m)"
proof -
  have eq: "map (dml_find_field m) names = map Some fs"
    using assms by (simp add: resolve_fields_Some)
  then show "map fl_name fs = names"
    by (induction names arbitrary: fs) (auto simp: Cons_eq_map_conv dest: dml_find_fieldD)
  from eq show "set fs \<subseteq> set (mo_fields m)"
    by (induction names arbitrary: fs) (auto simp: Cons_eq_map_conv dest: dml_find_fieldD)
qed

end
