(* ===== verification/Datamodel_Validator.thy ===== *)
theory Datamodel_Validator
  imports Dml Schema_Ast
begin

text \<open>
  The validation of a datamodel (\<open>libs/datamodel/core/src/validator/validate.rs\<close>): the checks before
  and after standardisation. A check returns the errors it pushes, in order; a panic (\<open>expect\<close>,
  \<open>unwrap\<close>) is the left side of the result. The connector of the configured source is a record of its
  capabilities. Text is ASCII, so a numeric first character is a digit.
\<close>

section \<open>Errors and capabilities\<close>

datatype datamodel_error =
    DirectiveValidationError string string span
  | ReservedScalarTypeError string span
  | DuplicateTopError string string string span
  | DuplicateConfigKeyError string string span
  | DuplicateFieldError string string span
  | ScalarListFieldsAreNotSupported string string span
  | DuplicateEnumValueError string string span
  | ModelValidationError string string span
  | FieldValidationError string string string span
  | ValidationError string span

type_synonym checked = "(string, datamodel_error list) res"

record source_connector =
  supports_scalar_lists :: bool
  supports_relations_over_non_unique_criteria :: bool
  supports_json :: bool

definition state_error :: string where
  "state_error = ''Failed lookup of model, field or optional property during internal processing. This means that the internal representation was mutated incorrectly.''"

definition unwrap_none :: string where
  "unwrap_none = ''called `Option::unwrap()` on a `None` value''"

definition relation_directive_name :: string where
  "relation_directive_name = ''@relation''"

definition ast_model_field :: "ast_model \<Rightarrow> string \<Rightarrow> ast_field option" where
  "ast_model_field ast_model name = find (\<lambda>f. fld_name f = name) (mdl_fields ast_model)"

text \<open>One loop over the fields of a model, whose body may panic and pushes errors.\<close>

definition for_fields :: "dml_model \<Rightarrow> (dml_field \<Rightarrow> checked) \<Rightarrow> checked" where
  "for_fields m body = map_res concat (collect_res body (mo_fields m))"

section \<open>Names\<close>

definition identifier_validate :: "ident \<Rightarrow> string \<Rightarrow> datamodel_error list" where
  "identifier_validate i schema_item =
     (case id_name i of
        [] \<Rightarrow> [ValidationError (''The name of a '' @ schema_item @ '' must not be empty.'') (id_span i)]
      | c # _ \<Rightarrow>
          if CHR ''0'' \<le> c \<and> c \<le> CHR ''9''
          then [ValidationError (''The name of a '' @ schema_item @ '' must not start with a number.'') (id_span i)]
          else if CHR ''-'' \<in> set (id_name i)
          then [ValidationError (''The character `-` is not allowed in '' @ schema_item @ '' names.'') (id_span i)]
          else [])"

definition validate_directives :: "directive list \<Rightarrow> datamodel_error list" where
  "validate_directives ds = concat (map (\<lambda>d. identifier_validate (dir_ident d) ''Directive'') ds)"

definition validate_names :: "schema_ast \<Rightarrow> datamodel_error list" where
  "validate_names ast =
     concat (map (\<lambda>m. identifier_validate (mdl_ident m) ''Model'' @ validate_directives (mdl_directives m) @
       concat (map (\<lambda>f. identifier_validate (fld_ident f) ''Field'' @ validate_directives (fld_directives f)) (mdl_fields m)))
       (schema_models ast)) @
     concat (map (\<lambda>e. identifier_validate (enm_ident e) ''Enum'' @ validate_directives (enm_directives e) @
       concat (map (\<lambda>v. identifier_validate (val_ident v) ''Enum Value'' @ validate_directives (val_directives v)) (enm_values e)))
       (schema_enums ast))"

definition reserved_model_names :: "string list" where
  "reserved_model_names =
    [''Query'', ''Mutation'', ''Subscription'', ''dmmf'', ''PromiseType'', ''PromiseReturnType'',
     ''Enumerable'', ''MergeTruthyValues'', ''CleanupNever'', ''Subset'', ''AtLeastOne'', ''atMostOne'',
     ''OnlyOne'', ''StringFilter'', ''IDFilter'', ''FloatFilter'', ''IntFilter'', ''BooleanFilter'',
     ''DateTimeFilter'', ''NullableStringFilter'', ''NullableIDFilter'', ''NullableFloatFilter'',
     ''NullableIntFilter'', ''NullableBooleanFilter'', ''NullableDateTimeFilter'',
     ''PrismaClientFetcher'', ''PrismaClient'', ''Engine'', ''BatchPayload'', ''Datasources'',
     ''ErrorFormat'', ''Hooks'', ''LogLevel'', ''LogDefinition'', ''GetLogType'', ''GetEvents'',
     ''QueryEvent'', ''LogEvent'', ''ModelDelegate'', ''QueryDelegate'', ''missingArg'', ''ArgError'',
     ''InvalidFieldError'', ''InvalidFieldNameError'', ''InvalidFieldTypeError'', ''EmptySelectError'',
     ''NoTrueSelectError'', ''IncludeAndSelectError'', ''EmptyIncludeError'', ''InvalidArgError'',
     ''InvalidArgNameError'', ''MissingArgError'', ''InvalidArgTypeError'', ''AtLeastOneError'',
     ''AtMostOneError'', ''PrismaClientRequestError'', ''PrismaClientOptions'',
     ''PrismaClientKnownRequestError'', ''PrismaClientUnknownRequestError'',
     ''PrismaClientInitializationError'', ''PrismaClientRustPanicError'', ''PrismaVersion'', ''await'',
     ''async'', ''break'', ''case'', ''catch'', ''class'', ''const'', ''continue'', ''debugger'',
     ''default'', ''delete'', ''do'', ''else'', ''enum'', ''export'', ''extends'', ''false'',
     ''finally'', ''for'', ''function'', ''if'', ''implements'', ''import'', ''in'', ''instanceof'',
     ''interface'', ''let'', ''new'', ''null'', ''package'', ''private'', ''protected'', ''public'',
     ''return'', ''super'', ''switch'', ''this'', ''throw'', ''true'', ''try'', ''typeof'', ''var'',
     ''void'', ''while'', ''with'', ''yield'']"

definition validate_model_name :: "ast_model \<Rightarrow> dml_model \<Rightarrow> datamodel_error list" where
  "validate_model_name ast_model m =
     (if mo_name m \<in> set reserved_model_names
      then [ModelValidationError (''The model name `'' @ mo_name m @ ''` is invalid. It is a reserved name. Please change it.'')
              (mo_name m) (mdl_span ast_model)]
      else [])"

section \<open>Fields of one model\<close>

definition validate_field_arities :: "source_connector option \<Rightarrow> ast_model \<Rightarrow> dml_model \<Rightarrow> checked" where
  "validate_field_arities src ast_model m =
     (let scalar_lists_are_supported = (case src of Some s \<Rightarrow> supports_scalar_lists s | None \<Rightarrow> False) in
      for_fields m (\<lambda>f.
        if fl_arity f = DmlList \<and> \<not> scalar_lists_are_supported \<and> \<not> is_relation (fl_type f)
        then bind_res (ok_or unwrap_none (ast_model_field ast_model (fl_name f))) (\<lambda>ast_field.
             Inr [ScalarListFieldsAreNotSupported (mo_name m) (fl_name f) (fld_span ast_field)])
        else Inr []))"

definition validate_field_types :: "source_connector option \<Rightarrow> ast_model \<Rightarrow> dml_model \<Rightarrow> checked" where
  "validate_field_types src ast_model m =
     for_fields m (\<lambda>f.
       bind_res (ok_or unwrap_none (ast_model_field ast_model (fl_name f))) (\<lambda>ast_field.
       let supports_json_type = (case src of Some s \<Rightarrow> supports_json s | None \<Rightarrow> False) in
       Inr (if field_scalar_type (fl_type f) = Some SJson \<and> \<not> supports_json_type
            then [FieldValidationError
                    (''Field `'' @ fl_name f @ ''` in model `'' @ mo_name m @ ''` can't be of type Json. The current connector does not support the Json type.'')
                    (mo_name m) (fl_name f) (fld_span ast_field)]
            else [])))"

definition validate_model_has_id :: "ast_model \<Rightarrow> dml_model \<Rightarrow> datamodel_error list" where
  "validate_model_has_id ast_model m =
     (let has_single_field_id = singular_id_fields m \<noteq> [];
          has_multi_field_id = mo_id_fields m \<noteq> [];
          has_single_field_unique = find fl_is_unique (mo_fields m) \<noteq> None;
          has_multi_field_unique = find (\<lambda>i. ix_tpe i = UniqueIndex) (mo_indices m) \<noteq> None
      in if length (singular_id_fields m) > 1
         then [ModelValidationError ''At most one field must be marked as the id field with the `@id` directive.'' (mo_name m) (mdl_span ast_model)]
         else if has_single_field_id \<and> has_multi_field_id
         then [ModelValidationError ''Each model must have at most one id criteria. You can't have `@id` and `@@id` at the same time.'' (mo_name m) (mdl_span ast_model)]
         else if has_single_field_id \<or> has_multi_field_id \<or> has_single_field_unique \<or> has_multi_field_unique
         then []
         else [ModelValidationError ''Each model must have at least one unique criteria. Either mark a single field with `@id`, `@unique` or add a multi field criterion with `@@id([])` or `@@unique([])` to the model.'' (mo_name m) (mdl_span ast_model)])"

section \<open>Relations of one model\<close>

text \<open>The first error returns; what comes before it may panic.\<close>

fun first_error :: "('a \<Rightarrow> checked) \<Rightarrow> 'a list \<Rightarrow> checked" where
  "first_error body [] = Inr []"
| "first_error body (x # xs) =
     bind_res (body x) (\<lambda>es. if es = [] then first_error body xs else Inr es)"

definition validate_embedded_types_have_no_back_relation ::
    "schema_ast \<Rightarrow> datamodel \<Rightarrow> dml_model \<Rightarrow> checked" where
  "validate_embedded_types_have_no_back_relation ast dm m =
     (if \<not> mo_is_embedded m then Inr []
      else first_error (\<lambda>f. case fl_type f of
          Relation rel \<Rightarrow>
            if fl_is_generated f then Inr []
            else bind_res (ok_or unwrap_none (dml_find_model dm (ri_to rel))) (\<lambda>related.
                 bind_res (ok_or unwrap_none (related_field related (mo_name m) (ri_name rel) (fl_name f))) (\<lambda>back.
                 if ri_to_fields rel = [] \<and> \<not> fl_is_generated back
                 then bind_res (ok_or state_error (find_field ast (mo_name m) (fl_name f))) (\<lambda>ast_field.
                      Inr [ModelValidationError ''Embedded models cannot have back relation fields.'' (mo_name m) (fld_span ast_field)])
                 else Inr []))
        | _ \<Rightarrow> Inr []) (mo_fields m))"

definition validate_base_fields_for_relation :: "ast_model \<Rightarrow> dml_model \<Rightarrow> checked" where
  "validate_base_fields_for_relation ast_model m =
     for_fields m (\<lambda>f.
       bind_res (ok_or unwrap_none (ast_model_field ast_model (fl_name f))) (\<lambda>ast_field.
       case fl_type f of
         Relation rel \<Rightarrow>
           (let unknown_fields = filter (\<lambda>b. dml_find_field m b = None) (ri_fields rel);
                referenced_relation_fields =
                  filter (\<lambda>b. case dml_find_field m b of None \<Rightarrow> False | Some g \<Rightarrow> is_relation (fl_type g)) (ri_fields rel);
                at_least_one_underlying_field_is_required =
                  list_ex (\<lambda>g. fl_arity g = DmlRequired) (List.map_filter (dml_find_field m) (ri_fields rel));
                all_underlying_fields_are_optional =
                  list_all (\<lambda>b. case dml_find_field m b of Some g \<Rightarrow> fl_arity g = DmlOptional | None \<Rightarrow> False) (ri_fields rel)
                  \<and> ri_fields rel \<noteq> []
            in Inr (
              (if unknown_fields \<noteq> []
               then [ValidationError (''The argument fields must refer only to existing fields. The following fields do not exist in this model: '' @ join_with '', '' unknown_fields) (fld_span ast_field)]
               else []) @
              (if referenced_relation_fields \<noteq> []
               then [ValidationError (''The argument fields must refer only to scalar fields. But it is referencing the following relation fields: '' @ join_with '', '' referenced_relation_fields) (fld_span ast_field)]
               else []) @
              (if at_least_one_underlying_field_is_required \<and> fl_arity f \<noteq> DmlRequired
               then [ValidationError (''The relation field `'' @ fl_name f @ ''` uses the scalar fields '' @ join_with '', '' (ri_fields rel) @ ''. At least one of those fields is required. Hence the relation field must be required as well.'') (fld_span ast_field)]
               else []) @
              (if all_underlying_fields_are_optional \<and> fl_arity f = DmlRequired
               then [ValidationError (''The relation field `'' @ fl_name f @ ''` uses the scalar fields '' @ join_with '', '' (ri_fields rel) @ ''. All those fields are optional. Hence the relation field must be optional as well.'') (fld_span ast_field)]
               else [])))
       | _ \<Rightarrow> Inr []))"

text \<open>
  In the next two checks a later error depends on whether the collection already has one, so the
  collection is the state of the loop.
\<close>

definition references_unique_criteria :: "dml_model \<Rightarrow> string list \<Rightarrow> bool option" where
  "references_unique_criteria related_model to_fields =
     map_option (\<lambda>cs. find (\<lambda>criteria. sort (map fl_name criteria) = sort to_fields) cs \<noteq> None)
       (unique_criterias True related_model)"

definition referenced_criteria_errors ::
    "source_connector option \<Rightarrow> span \<Rightarrow> dml_model \<Rightarrow> dml_field \<Rightarrow> relation_info \<Rightarrow> dml_model \<Rightarrow> checked" where
  "referenced_criteria_errors src sp m f rel related_model =
     bind_res (ok_or unwrap_none (references_unique_criteria related_model (ri_to_fields rel))) (\<lambda>references_unique.
     bind_res (case ri_to_fields rel of
                 [field_name] \<Rightarrow> map_res fl_is_id (ok_or unwrap_none (dml_find_field related_model field_name))
               | _ \<Rightarrow> Inr False) (\<lambda>references_singular_id_field.
     let is_many_to_many =
           (case related_field related_model (mo_name m) (ri_name rel) (fl_name f) of
              Some back \<Rightarrow> fl_arity f = DmlList \<and> fl_arity back = DmlList
            | None \<Rightarrow> False);
         must_reference_unique_criteria =
           (case src of Some s \<Rightarrow> \<not> supports_relations_over_non_unique_criteria s | None \<Rightarrow> True)
     in Inr (
       (if \<not> references_unique \<and> must_reference_unique_criteria
        then [ValidationError (''The argument `references` must refer to a unique criteria in the related model `'' @ mo_name related_model @ ''`. But it is referencing the following fields that are not a unique criteria: '' @ join_with '', '' (ri_to_fields rel)) sp]
        else []) @
       (if is_many_to_many \<and> \<not> references_singular_id_field
        then [ValidationError (''Many to many relations must always reference the id field of the related model. Change the argument `references` to use the id field of the related model `'' @ mo_name related_model @ ''`. But it is referencing the following fields that are not the id: '' @ join_with '', '' (ri_to_fields rel)) sp]
        else []))))"

definition wrong_type_errors :: "span \<Rightarrow> dml_model \<Rightarrow> relation_info \<Rightarrow> dml_model \<Rightarrow> datamodel_error list" where
  "wrong_type_errors sp m rel related_model =
     List.map_filter (\<lambda>(base, referenced).
       case (dml_find_field m base, dml_find_field related_model referenced) of
         (Some base_field, Some referenced_field) \<Rightarrow>
           if is_compatible_with (fl_type base_field) (fl_type referenced_field) then None
           else Some (DirectiveValidationError (''The type of the field `'' @ fl_name base_field @ ''` in the model `'' @ mo_name m @
                  ''` is not matching the type of the referenced field `'' @ fl_name referenced_field @ ''` in model `'' @ mo_name related_model @ ''`.'')
                  relation_directive_name sp)
       | _ \<Rightarrow> None) (zip (ri_fields rel) (ri_to_fields rel))"

definition validate_references ::
    "source_connector option \<Rightarrow> datamodel \<Rightarrow> ast_model \<Rightarrow> dml_model \<Rightarrow> dml_field \<Rightarrow> datamodel_error list \<Rightarrow> checked" where
  "validate_references src dm ast_model m f errors =
     bind_res (ok_or unwrap_none (ast_model_field ast_model (fl_name f))) (\<lambda>ast_field.
     case fl_type f of
       Relation rel \<Rightarrow>
         bind_res (ok_or state_error (dml_find_model dm (ri_to rel))) (\<lambda>related_model.
         let sp = fld_span ast_field;
             unknown_fields = filter (\<lambda>r. dml_find_field related_model r = None) (ri_to_fields rel);
             referenced_relation_fields =
               filter (\<lambda>r. case dml_find_field related_model r of None \<Rightarrow> False | Some g \<Rightarrow> is_relation (fl_type g)) (ri_to_fields rel);
             errors1 = errors @
               (if unknown_fields \<noteq> []
                then [ValidationError (''The argument `references` must refer only to existing fields in the related model `'' @ mo_name related_model @ ''`. The following fields do not exist in the related model: '' @ join_with '', '' unknown_fields) sp]
                else []) @
               (if referenced_relation_fields \<noteq> []
                then [ValidationError (''The argument `references` must refer only to scalar fields in the related model `'' @ mo_name related_model @ ''`. But it is referencing the following relation fields: '' @ join_with '', '' referenced_relation_fields) sp]
                else [])
         in bind_res (if ri_to_fields rel \<noteq> [] \<and> errors1 = []
                      then referenced_criteria_errors src sp m f rel related_model else Inr []) (\<lambda>criteria_errors.
            let errors2 = errors1 @ criteria_errors @
                  (if ri_fields rel \<noteq> [] \<and> ri_to_fields rel \<noteq> [] \<and> length (ri_fields rel) \<noteq> length (ri_to_fields rel)
                   then [DirectiveValidationError ''You must specify the same number of fields in `fields` and `references`.'' relation_directive_name sp]
                   else [])
            in Inr (if errors2 = [] then wrong_type_errors sp m rel related_model else errors2)))
     | _ \<Rightarrow> Inr errors)"

definition validate_referenced_fields_for_relation ::
    "source_connector option \<Rightarrow> datamodel \<Rightarrow> ast_model \<Rightarrow> dml_model \<Rightarrow> checked" where
  "validate_referenced_fields_for_relation src dm ast_model m =
     run_steps (validate_references src dm ast_model m) (mo_fields m) []"

section \<open>After standardisation\<close>

definition relation_argument_error :: "string \<Rightarrow> span \<Rightarrow> datamodel_error list" where
  "relation_argument_error message sp = [DirectiveValidationError message relation_directive_name sp]"

text \<open>The names of the two sides, as the messages on one-to-one relations begin.\<close>

definition both_sides :: "dml_model \<Rightarrow> dml_field \<Rightarrow> dml_model \<Rightarrow> dml_field \<Rightarrow> string" where
  "both_sides m f related_model back =
     ''The relation fields `'' @ fl_name f @ ''` on Model `'' @ mo_name m @ ''` and `'' @ fl_name back @ ''` on Model `'' @ mo_name related_model @ ''` ''"

definition one_to_one_errors ::
    "span \<Rightarrow> dml_model \<Rightarrow> dml_field \<Rightarrow> relation_info \<Rightarrow> dml_model \<Rightarrow> dml_field \<Rightarrow> relation_info \<Rightarrow>
     datamodel_error list \<Rightarrow> datamodel_error list" where
  "one_to_one_errors sp m f rel related_model back back_rel errors =
     (let sides = both_sides m f related_model back;
          directive = '' directive. '';
          this_field = ''The relation field `'' @ fl_name f @ ''` on Model `'' @ mo_name m @ ''` provides the `'';
          other_field = '' directive. And the related field `'' @ fl_name back @ ''` on Model `'' @ mo_name related_model @ ''` provides the `'';
          errors1 = errors @
            (if ri_fields rel = [] \<and> ri_fields back_rel = []
             then relation_argument_error (sides @ ''do not provide the `fields` argument in the '' @ relation_directive_name @ directive @ ''You have to provide it on one of the two fields.'') sp
             else []) @
            (if ri_to_fields rel = [] \<and> ri_to_fields back_rel = []
             then relation_argument_error (sides @ ''do not provide the `references` argument in the '' @ relation_directive_name @ directive @ ''You have to provide it on one of the two fields.'') sp
             else []) @
            (if ri_to_fields rel \<noteq> [] \<and> ri_to_fields back_rel \<noteq> []
             then relation_argument_error (sides @ ''both provide the `references` argument in the '' @ relation_directive_name @ directive @ ''You have to provide it only on one of the two fields.'') sp
             else []) @
            (if ri_fields rel \<noteq> [] \<and> ri_fields back_rel \<noteq> []
             then relation_argument_error (sides @ ''both provide the `fields` argument in the '' @ relation_directive_name @ directive @ ''You have to provide it only on one of the two fields.'') sp
             else [])
      in errors1 @
         (if errors1 \<noteq> [] then []
          else (if ri_fields rel \<noteq> [] \<and> ri_to_fields back_rel \<noteq> []
                then relation_argument_error (this_field @ ''fields` argument in the '' @ relation_directive_name @ other_field @ ''references` argument. You must provide both arguments on the same side.'') sp
                else []) @
               (if ri_to_fields rel \<noteq> [] \<and> ri_fields back_rel \<noteq> []
                then relation_argument_error (this_field @ ''references` argument in the '' @ relation_directive_name @ other_field @ ''fields` argument. You must provide both arguments on the same side.'') sp
                else [])))"

definition relation_argument_errors ::
    "span \<Rightarrow> dml_model \<Rightarrow> dml_field \<Rightarrow> relation_info \<Rightarrow> dml_model \<Rightarrow> dml_field \<Rightarrow> relation_info \<Rightarrow>
     datamodel_error list \<Rightarrow> datamodel_error list" where
  "relation_argument_errors sp m f rel related_model back back_rel errors =
     (let this_field = ''The relation field `'' @ fl_name f @ ''` on Model `'' @ mo_name m @ ''` '';
          errors1 = errors @
            (if is_singular (fl_arity f) \<and> fl_arity back = DmlList \<and> ri_fields rel = []
             then relation_argument_error (this_field @ ''must specify the `fields` argument in the '' @ relation_directive_name @ '' directive.'') sp
             else []) @
            (if is_singular (fl_arity f) \<and> fl_arity back = DmlList \<and> ri_to_fields rel = []
             then relation_argument_error (this_field @ ''must specify the `references` argument in the '' @ relation_directive_name @ '' directive.'') sp
             else []) @
            (if fl_arity f = DmlList \<and> is_singular (fl_arity back) \<and> (ri_fields rel \<noteq> [] \<or> ri_to_fields rel \<noteq> [])
             then relation_argument_error (this_field @ ''must not specify the `fields` or `references` argument in the '' @ relation_directive_name @
                    '' directive. You must only specify it on the opposite field `'' @ fl_name back @ ''` on model `'' @ mo_name related_model @ ''`.'') sp
             else []) @
            (if mo_name m = mo_name related_model \<and> fl_arity f = DmlRequired \<and> fl_arity back = DmlRequired
             then [FieldValidationError (''The relation fields `'' @ fl_name f @ ''` and `'' @ fl_name back @ ''` on Model `'' @ mo_name m @
                     ''` are both required. This is not allowed for a self relation because it would not be possible to create a record.'')
                     (mo_name m) (fl_name f) sp]
             else []);
          errors2 =
            (if is_singular (fl_arity f) \<and> is_singular (fl_arity back)
             then one_to_one_errors sp m f rel related_model back back_rel errors1 else errors1)
      in errors2 @
         (if fl_arity f = DmlList \<and> fl_arity back = DmlList \<and> \<not> has_single_id_field related_model
          then [FieldValidationError (this_field @ ''references `'' @ mo_name related_model @
                  ''` which does not have an `@id` field. Models without `@id` can not be part of a many to many relation. Use an explicit intermediate Model to represent this relationship.'')
                  (mo_name m) (fl_name f) sp]
          else []))"

definition validate_relation_argument ::
    "datamodel \<Rightarrow> ast_model \<Rightarrow> dml_model \<Rightarrow> dml_field \<Rightarrow> datamodel_error list \<Rightarrow> checked" where
  "validate_relation_argument dm ast_model m f errors =
     (let field_span = (case ast_model_field ast_model (fl_name f) of Some a \<Rightarrow> fld_span a | None \<Rightarrow> span_empty) in
      case fl_type f of
        Relation rel \<Rightarrow>
          bind_res (ok_or state_error (dml_find_model dm (ri_to rel))) (\<lambda>related_model.
          bind_res (ok_or unwrap_none (related_field related_model (mo_name m) (ri_name rel) (fl_name f))) (\<lambda>back.
          case fl_type back of
            Relation back_rel \<Rightarrow> Inr (relation_argument_errors field_span m f rel related_model back back_rel errors)
          | _ \<Rightarrow> Inl ''unreachable''))
      | _ \<Rightarrow> Inr errors)"

definition validate_relation_arguments_bla :: "datamodel \<Rightarrow> ast_model \<Rightarrow> dml_model \<Rightarrow> checked" where
  "validate_relation_arguments_bla dm ast_model m =
     run_steps (validate_relation_argument dm ast_model m) (mo_fields m) []"

section \<open>Ambiguous relations\<close>

text \<open>
  The errors the three nested loops can return, in the order in which the loops reach them, each with
  the name of the field it is reported on.
\<close>

definition ambiguous_self_third :: "dml_model \<Rightarrow> dml_field \<Rightarrow> relation_info \<Rightarrow> dml_field \<Rightarrow> relation_info \<Rightarrow> string list" where
  "ambiguous_self_third m a rel_a b rel_b =
     concat (map (\<lambda>c. case fl_type c of
         Relation rel_c \<Rightarrow>
           if a \<noteq> c \<and> b \<noteq> c \<and> ri_to rel_c = mo_name m \<and> ri_name rel_a = ri_name rel_b \<and> ri_name rel_a = ri_name rel_c
           then [if ri_name rel_a = ''''
                 then ''Unnamed self relation detected. The fields `'' @ fl_name a @ ''`, `'' @ fl_name b @ ''` and `'' @ fl_name c @ ''` in model `'' @ mo_name m @ ''` have no relation name. Please provide a relation name for one of them by adding `@relation(<name>).''
                 else ''Wrongly named self relation detected. The fields `'' @ fl_name a @ ''`, `'' @ fl_name b @ ''` and `'' @ fl_name c @ ''` in model `'' @ mo_name m @ ''` have the same relation name. At most two relation fields can belong to the same relation and therefore have the same name. Please assign a different relation name to one of them.'']
           else []
       | _ \<Rightarrow> []) (mo_fields m))"

definition ambiguous_pair :: "dml_model \<Rightarrow> dml_field \<Rightarrow> relation_info \<Rightarrow> dml_field \<Rightarrow> relation_info \<Rightarrow> string list" where
  "ambiguous_pair m a rel_a b rel_b =
     (if ri_to rel_a \<noteq> mo_name m \<and> ri_to rel_b \<noteq> mo_name m then
        (if ri_to rel_a = ri_to rel_b \<and> ri_name rel_a = ri_name rel_b
         then [if ri_name rel_a = ''''
               then ''Ambiguous relation detected. The fields `'' @ fl_name a @ ''` and `'' @ fl_name b @ ''` in model `'' @ mo_name m @ ''` both refer to `'' @ ri_to rel_a @ ''`. Please provide different relation names for them by adding `@relation(<name>).''
               else ''Wrongly named relation detected. The fields `'' @ fl_name a @ ''` and `'' @ fl_name b @ ''` in model `'' @ mo_name m @ ''` both use the same relation name. Please provide different relation names for them through `@relation(<name>).'']
         else [])
      else if ri_to rel_a = mo_name m \<and> ri_to rel_b = mo_name m then
        ambiguous_self_third m a rel_a b rel_b @
        (if ri_name rel_a = '''' \<and> ri_name rel_b = ''''
         then [''Ambiguous self relation detected. The fields `'' @ fl_name a @ ''` and `'' @ fl_name b @ ''` in model `'' @ mo_name m @ ''` both refer to `'' @ ri_to rel_a @ ''`. If they are part of the same relation add the same relation name for them with `@relation(<name>)`.'']
         else [])
      else [])"

definition validate_relations_not_ambiguous :: "schema_ast \<Rightarrow> dml_model \<Rightarrow> checked" where
  "validate_relations_not_ambiguous ast m =
     first_error (\<lambda>(a, b). case (fl_type a, fl_type b) of
         (Relation rel_a, Relation rel_b) \<Rightarrow>
           (case (if a \<noteq> b then ambiguous_pair m a rel_a b rel_b else []) of
              [] \<Rightarrow> Inr []
            | message # _ \<Rightarrow>
                bind_res (ok_or state_error (find_field ast (mo_name m) (fl_name a))) (\<lambda>ast_field.
                Inr [ModelValidationError message (mo_name m) (fld_span ast_field)]))
       | _ \<Rightarrow> Inr []) (List.product (mo_fields m) (mo_fields m))"

section \<open>The two validations\<close>

definition validate_model ::
    "source_connector option \<Rightarrow> schema_ast \<Rightarrow> datamodel \<Rightarrow> dml_model \<Rightarrow> checked" where
  "validate_model src ast dm m =
     bind_res (ok_or state_error (find_model ast (mo_name m))) (\<lambda>ast_model.
     bind_res (validate_relations_not_ambiguous ast m) (\<lambda>ambiguous.
     bind_res (validate_embedded_types_have_no_back_relation ast dm m) (\<lambda>embedded.
     bind_res (validate_field_arities src ast_model m) (\<lambda>arities.
     bind_res (validate_field_types src ast_model m) (\<lambda>types.
     bind_res (validate_base_fields_for_relation ast_model m) (\<lambda>base_fields.
     bind_res (validate_referenced_fields_for_relation src dm ast_model m) (\<lambda>referenced_fields.
     Inr (validate_model_has_id ast_model m @ validate_model_name ast_model m @ ambiguous @ embedded @ arities @
          types @ base_fields @ referenced_fields))))))))"

definition validate :: "source_connector option \<Rightarrow> schema_ast \<Rightarrow> datamodel \<Rightarrow> checked" where
  "validate src ast dm =
     map_res (\<lambda>errors. validate_names ast @ concat errors) (collect_res (validate_model src ast dm) (dm_models dm))"

definition post_standardisation_validate :: "schema_ast \<Rightarrow> datamodel \<Rightarrow> checked" where
  "post_standardisation_validate ast dm =
     map_res concat (collect_res (\<lambda>m.
       bind_res (ok_or state_error (find_model ast (mo_name m))) (\<lambda>ast_model.
       validate_relation_arguments_bla dm ast_model m)) (dm_models dm))"

end
