(* ===== verification/Datamodel_Standardiser.thy ===== *)
theory Datamodel_Standardiser
  imports Datamodel_Validator
begin

text \<open>
  Standardisation of a datamodel (\<open>validator/standardise.rs\<close>): names for unnamed relations, back
  relation fields, and the references of relations that give none; the duplicate checks of
  \<open>validator/precheck.rs\<close>; and the phases of \<open>validator/validation_pipeline.rs\<close> around them. The
  result of lifting the AST is an argument of the pipeline. A panic is the left side of a result; the
  inner sum is the \<open>Result\<close> of the source.
\<close>

type_synonym 'a outcome = "(string, (datamodel_error list, 'a) res) res"

section \<open>Names\<close>

definition char_to_lower :: "char \<Rightarrow> char" where
  "char_to_lower c = (if CHR ''A'' \<le> c \<and> c \<le> CHR ''Z'' then char_of (of_char c + 32 :: nat) else c)"

definition char_to_upper :: "char \<Rightarrow> char" where
  "char_to_upper c = (if CHR ''a'' \<le> c \<and> c \<le> CHR ''z'' then char_of (of_char c - 32 :: nat) else c)"

fun camel_case :: "string \<Rightarrow> string" where
  "camel_case [] = []"
| "camel_case (c # cs) = char_to_lower c # cs"

fun pascal_case :: "string \<Rightarrow> string" where
  "pascal_case [] = []"
| "pascal_case (c # cs) = char_to_upper c # cs"

definition default_relation_name :: "string \<Rightarrow> string \<Rightarrow> string" where
  "default_relation_name from_name to_name =
     (if from_name < to_name then from_name @ ''To'' @ to_name else to_name @ ''To'' @ from_name)"

definition map_relation :: "(relation_info \<Rightarrow> relation_info) \<Rightarrow> dml_field \<Rightarrow> dml_field" where
  "map_relation h f = (case fl_type f of Relation rel \<Rightarrow> f\<lparr>fl_type := Relation (h rel)\<rparr> | _ \<Rightarrow> f)"

definition dml_find_model_mut ::
    "string \<Rightarrow> (dml_model \<Rightarrow> (string, dml_model) res) \<Rightarrow> datamodel \<Rightarrow> (string, datamodel) res" where
  "dml_find_model_mut name h dm =
     map_res (\<lambda>ms. dm\<lparr>dm_models := ms\<rparr>) (modify_first state_error (\<lambda>m. mo_name m = name) h (dm_models dm))"

definition find_unnamed_relations :: "datamodel \<Rightarrow> (string \<times> string \<times> relation_info) list" where
  "find_unnamed_relations dm =
     concat (map (\<lambda>m. List.map_filter (\<lambda>f. case fl_type f of
         Relation rel \<Rightarrow> if ri_name rel = '''' then Some (mo_name m, fl_name f, rel) else None
       | _ \<Rightarrow> None) (mo_fields m)) (dm_models dm))"

definition name_unnamed_relation ::
    "string \<times> string \<times> relation_info \<Rightarrow> datamodel \<Rightarrow> (string, datamodel) res" where
  "name_unnamed_relation unnamed dm =
     (case unnamed of (model_name, field_name, rel_info) \<Rightarrow>
        dml_find_model_mut model_name (\<lambda>m.
          map_res (\<lambda>fs. m\<lparr>mo_fields := fs\<rparr>)
            (modify_first state_error (\<lambda>f. fl_name f = field_name)
               (\<lambda>f. if is_relation (fl_type f)
                    then Inr (map_relation (\<lambda>rel. rel\<lparr>ri_name := default_relation_name model_name (ri_to rel_info)\<rparr>) f)
                    else Inl ''Tried to name a non-existing relation.'') (mo_fields m))) dm)"

definition name_unnamed_relations :: "datamodel \<Rightarrow> (string, datamodel) res" where
  "name_unnamed_relations dm = run_steps name_unnamed_relation (find_unnamed_relations dm) dm"

section \<open>Missing back relations\<close>

record add_missing_back_relation_field =
  mb_model :: string
  mb_field :: dml_field
  mb_related_model :: string
  mb_related_field :: string
  mb_underlying_fields :: "dml_field list"

definition loose_unique_criteria :: "dml_model \<Rightarrow> (string, dml_field list) res" where
  "loose_unique_criteria m =
     bind_res (ok_or unwrap_none (unique_criterias True m)) (\<lambda>cs. case cs of [] \<Rightarrow> Inl unwrap_none | c # _ \<Rightarrow> Inr c)"

definition underlying_fields_for_unique_criteria :: "dml_field list \<Rightarrow> string \<Rightarrow> dml_field list" where
  "underlying_fields_for_unique_criteria criteria model_name =
     map (\<lambda>f. (field_new (camel_case model_name @ pascal_case (fl_name f)) (fl_type f))\<lparr>fl_arity := DmlOptional\<rparr>) criteria"

definition back_relation :: "dml_model \<Rightarrow> relation_info \<Rightarrow> string list \<Rightarrow> string list \<Rightarrow> relation_info" where
  "back_relation m rel base_fields to_fields =
     \<lparr>ri_to = mo_name m, ri_fields = base_fields, ri_to_fields = to_fields, ri_name = ri_name rel, ri_on_delete = OnDeleteNone\<rparr>"

definition avoid_conflict :: "dml_model \<Rightarrow> relation_info \<Rightarrow> dml_field \<Rightarrow> dml_field" where
  "avoid_conflict related_model rel f =
     (case dml_find_field related_model (fl_name f) of
        Some existing \<Rightarrow>
          if is_compatible_with (fl_type existing) (fl_type f) then f
          else f\<lparr>fl_name := fl_name f @ ''_'' @ ri_name rel\<rparr>
      | None \<Rightarrow> f)"

text \<open>The closure of \<open>filter_map\<close>: a field to add, no field, or an error.\<close>

definition underlying_field_to_add ::
    "schema_ast \<Rightarrow> dml_model \<Rightarrow> dml_field \<Rightarrow> dml_model \<Rightarrow> dml_field \<Rightarrow>
     (string, dml_field list \<times> datamodel_error list) res" where
  "underlying_field_to_add ast m field related_model f =
     (case dml_find_field related_model (fl_name f) of
        None \<Rightarrow> Inr ([f], [])
      | Some other \<Rightarrow>
          if is_compatible_with (fl_type other) (fl_type f) then Inr ([], [])
          else bind_res (ok_or ''Failed lookup of model or field during generating an error message. This often means that a generated field or model was the cause of an error.''
                          (find_model ast (mo_name related_model))) (\<lambda>ast_model.
               Inr ([], [ModelValidationError (''Automatic underlying field generation tried to add the field `'' @ fl_name f @
                 ''` in model `'' @ mo_name related_model @ ''` for the back relation field of `'' @ fl_name field @ ''` in `'' @ mo_name m @
                 ''`. A field with that name exists already and has an incompatible type for the relation. Please add the back relation manually.'')
                 (mo_name related_model) (mdl_span ast_model)])))"

definition missing_back_relation_field ::
    "schema_ast \<Rightarrow> datamodel \<Rightarrow> dml_model \<Rightarrow> dml_field \<Rightarrow>
     (string, add_missing_back_relation_field list \<times> datamodel_error list) res" where
  "missing_back_relation_field ast dm m field =
     (case fl_type field of
        Relation rel \<Rightarrow>
          bind_res (ok_or state_error (dml_find_model dm (ri_to rel))) (\<lambda>related_model.
          if related_field related_model (mo_name m) (ri_name rel) (fl_name field) \<noteq> None then Inr ([], [])
          else if is_singular (fl_arity field) then
            Inr ([\<lparr>mb_model = ri_to rel,
                   mb_field = (field_new_generated (mo_name m) (Relation (back_relation m rel [] [])))\<lparr>fl_arity := DmlList\<rparr>,
                   mb_related_model = mo_name m, mb_related_field = fl_name field, mb_underlying_fields = []\<rparr>], [])
          else
            bind_res (loose_unique_criteria m) (\<lambda>criteria.
            let underlying = map (avoid_conflict related_model rel) (underlying_fields_for_unique_criteria criteria (mo_name m)) in
            bind_res (collect_res (underlying_field_to_add ast m field related_model) underlying) (\<lambda>adds.
            Inr ([\<lparr>mb_model = ri_to rel,
                   mb_field = (field_new_generated (mo_name m)
                     (Relation (back_relation m rel (map fl_name underlying) (map fl_name criteria))))\<lparr>fl_arity := DmlOptional\<rparr>,
                   mb_related_model = mo_name m, mb_related_field = fl_name field,
                   mb_underlying_fields = concat (map fst adds)\<rparr>], concat (map snd adds)))))
      | _ \<Rightarrow> Inr ([], []))"

definition find_missing_back_relation_fields ::
    "schema_ast \<Rightarrow> datamodel \<Rightarrow> dml_model \<Rightarrow> add_missing_back_relation_field list outcome" where
  "find_missing_back_relation_fields ast dm m =
     map_res (\<lambda>rs. let errors = concat (map snd rs) in if errors = [] then Inr (concat (map fst rs)) else Inl errors)
       (collect_res (missing_back_relation_field ast dm m) (mo_fields m))"

definition add_underlying_field :: "dml_field \<Rightarrow> dml_model \<Rightarrow> dml_model" where
  "add_underlying_field f m =
     (if dml_find_field m (fl_name f) \<noteq> None then m else m\<lparr>mo_fields := mo_fields m @ [f]\<rparr>)"

text \<open>One iteration over the missing fields: the datamodel and the errors so far.\<close>

definition add_back_relation_field ::
    "schema_ast \<Rightarrow> add_missing_back_relation_field \<Rightarrow> datamodel \<times> datamodel_error list \<Rightarrow>
     (string, datamodel \<times> datamodel_error list) res" where
  "add_back_relation_field ast mb st =
     (let dm = fst st; errors = snd st in
      bind_res (ok_or state_error (dml_find_model dm (mb_model mb))) (\<lambda>model.
      if dml_find_field model (fl_name (mb_field mb)) \<noteq> None then
        bind_res (ok_or state_error (dml_find_model dm (mb_related_model mb))) (\<lambda>source_model.
        bind_res (ok_or state_error (dml_find_field source_model (mb_related_field mb))) (\<lambda>source_field.
        bind_res (ok_or state_error (find_field ast (mo_name source_model) (fl_name source_field))) (\<lambda>ast_field.
        Inr (dm, errors @ [ModelValidationError ''Automatic related field generation would cause a naming conflict. Please add an explicit opposite relation field.''
               (mo_name source_model) (fld_span ast_field)]))))
      else
        map_res (\<lambda>dm'. (dm', errors))
          (dml_find_model_mut (mb_model mb) (\<lambda>m.
             Inr (fold add_underlying_field (mb_underlying_fields mb) (m\<lparr>mo_fields := mo_fields m @ [mb_field mb]\<rparr>))) dm)))"

fun collect_outcomes :: "('x \<Rightarrow> 'a list outcome) \<Rightarrow> 'x list \<Rightarrow> 'a list outcome" where
  "collect_outcomes g [] = Inr (Inr [])"
| "collect_outcomes g (x # xs) =
     bind_res (g x) (\<lambda>r. case r of
        Inl errors \<Rightarrow> Inr (Inl errors)
      | Inr ys \<Rightarrow> map_res (map_res ((@) ys)) (collect_outcomes g xs))"

definition add_missing_back_relations :: "schema_ast \<Rightarrow> datamodel \<Rightarrow> datamodel outcome" where
  "add_missing_back_relations ast dm =
     bind_res (collect_outcomes (find_missing_back_relation_fields ast dm) (dm_models dm)) (\<lambda>r. case r of
        Inl errors \<Rightarrow> Inr (Inl errors)
      | Inr missing \<Rightarrow>
          map_res (\<lambda>(dm', errors). if errors = [] then Inr dm' else Inl errors)
            (run_steps (add_back_relation_field ast) missing (dm, [])))"

section \<open>Missing references\<close>

definition embed_here :: "dml_model \<Rightarrow> dml_field \<Rightarrow> dml_model \<Rightarrow> dml_field \<Rightarrow> bool" where
  "embed_here m f related_model back =
     (if fl_arity back = DmlList then True
      else if fl_arity f = DmlList then False
      else if mo_name m < mo_name related_model then True
      else if mo_name related_model < mo_name m then False
      else fl_name f < fl_name back)"

text \<open>
  The relation of one field after the loop body, with the underlying fields the body appends to the
  model. The lookups are made in the copy of the datamodel taken before the loop.
\<close>

definition set_to_fields ::
    "datamodel \<Rightarrow> dml_field list \<Rightarrow> dml_model \<Rightarrow> dml_field \<Rightarrow> (string, dml_field \<times> dml_field list) res" where
  "set_to_fields schema_copy criteria m f =
     (case fl_type f of
        Relation rel \<Rightarrow>
          bind_res (ok_or state_error (dml_find_model schema_copy (ri_to rel))) (\<lambda>related_model.
          bind_res (ok_or unwrap_none (related_field related_model (mo_name m) (ri_name rel) (fl_name f))) (\<lambda>back.
          case fl_type back of
            Relation back_rel \<Rightarrow>
              (let is_m2m = (fl_arity f = DmlList \<and> fl_arity back = DmlList);
                   underlying_fields = underlying_fields_for_unique_criteria criteria (mo_name m)
               in if embed_here m f related_model back then
                    bind_res (if ri_to_fields rel = [] \<and> ri_to_fields back_rel = []
                              then map_res (\<lambda>c. rel\<lparr>ri_to_fields := map fl_name c\<rparr>)
                                     (ok_or (''Could not find the first unique criteria on model '' @ mo_name related_model)
                                       (dml_first_unique_criterion related_model))
                              else Inr rel) (\<lambda>rel1.
                    if \<not> is_m2m \<and> ri_fields rel1 = [] \<and> ri_fields back_rel = [] \<and> fl_is_generated f
                    then Inr (f\<lparr>fl_type := Relation (rel1\<lparr>ri_fields := map fl_name underlying_fields\<rparr>)\<rparr>, underlying_fields)
                    else Inr (f\<lparr>fl_type := Relation rel1\<rparr>, []))
                  else Inr (f, []))
          | _ \<Rightarrow> Inl state_error))
      | _ \<Rightarrow> Inr (f, []))"

definition set_model_to_fields :: "datamodel \<Rightarrow> dml_model \<Rightarrow> (string, dml_model) res" where
  "set_model_to_fields schema_copy m =
     bind_res (loose_unique_criteria m) (\<lambda>criteria.
     map_res (\<lambda>rs. m\<lparr>mo_fields := map fst rs @ concat (map snd rs)\<rparr>)
       (collect_res (set_to_fields schema_copy criteria m) (mo_fields m)))"

definition set_relation_to_field_to_id_if_missing :: "datamodel \<Rightarrow> (string, datamodel) res" where
  "set_relation_to_field_to_id_if_missing dm =
     map_res (\<lambda>ms. dm\<lparr>dm_models := ms\<rparr>) (collect_res (set_model_to_fields dm) (dm_models dm))"

definition standardise :: "schema_ast \<Rightarrow> datamodel \<Rightarrow> datamodel outcome" where
  "standardise ast dm =
     bind_res (name_unnamed_relations dm) (\<lambda>dm1.
     bind_res (add_missing_back_relations ast dm1) (\<lambda>r. case r of
        Inl errors \<Rightarrow> Inr (Inl errors)
      | Inr dm2 \<Rightarrow> map_res Inr (set_relation_to_field_to_id_if_missing dm2)))"

section \<open>Prechecks\<close>

definition scalar_type_from_str :: "string \<Rightarrow> (string, scalar_type) res" where
  "scalar_type_from_str s =
     (if s = ''Int'' then Inr SInt
      else if s = ''Float'' then Inr SFloat
      else if s = ''Boolean'' then Inr SBoolean
      else if s = ''String'' then Inr SString
      else if s = ''DateTime'' then Inr SDateTime
      else if s = ''Json'' then Inr SJson
      else Inl (''type '' @ s @ '' is not a known scalar type.''))"

text \<open>\<open>DuplicateChecker\<close>: the elements seen so far, without repetition, and the errors.\<close>

fun duplicate_errors ::
    "('a \<Rightarrow> string) \<Rightarrow> ('a \<Rightarrow> 'a \<Rightarrow> datamodel_error) \<Rightarrow> 'a list \<Rightarrow> 'a list \<Rightarrow> datamodel_error list" where
  "duplicate_errors name error_fn seen [] = []"
| "duplicate_errors name error_fn seen (x # xs) =
     (case find (\<lambda>y. name y = name x) seen of
        Some existing \<Rightarrow> error_fn x existing # duplicate_errors name error_fn seen xs
      | None \<Rightarrow> duplicate_errors name error_fn (seen @ [x]) xs)"

definition precheck_inner :: "top_level \<Rightarrow> datamodel_error list" where
  "precheck_inner tp =
     (let config = (\<lambda>kind block props. duplicate_errors (\<lambda>a. id_name (arg_ident a))
            (\<lambda>a _. DuplicateConfigKeyError (kind @ '' configuration '' @ [CHR 0x22] @ id_name block @ [CHR 0x22])
               (id_name (arg_ident a)) (id_span (arg_ident a))) [] props)
      in case tp of
        TopEnum e \<Rightarrow> duplicate_errors (\<lambda>v. id_name (val_ident v))
          (\<lambda>v _. DuplicateEnumValueError (id_name (enm_ident e)) (id_name (val_ident v)) (val_span v)) [] (enm_values e)
      | TopModel m \<Rightarrow> duplicate_errors fld_name
          (\<lambda>f _. DuplicateFieldError (id_name (mdl_ident m)) (fld_name f) (id_span (fld_ident f))) [] (mdl_fields m)
      | TopSource s \<Rightarrow> config ''datasource'' (src_ident s) (src_properties s)
      | TopGenerator g \<Rightarrow> config ''generator'' (gen_ident g) (gen_properties g)
      | TopType _ \<Rightarrow> [])"

fun top_kind :: "top_level \<Rightarrow> nat" where
  "top_kind (TopSource _) = 1"
| "top_kind (TopGenerator _) = 2"
| "top_kind _ = 0"

definition precheck :: "schema_ast \<Rightarrow> datamodel_error list" where
  "precheck ast =
     (let check = (\<lambda>kind. duplicate_errors top_name
            (\<lambda>tp existing. DuplicateTopError (top_name tp) (top_get_type tp) (top_get_type existing) (id_span (top_identifier tp)))
            [] (filter (\<lambda>tp. top_kind tp = kind) (tops ast)))
      in concat (map (\<lambda>tp.
           (case scalar_type_from_str (top_name tp) of
              Inr _ \<Rightarrow> [ReservedScalarTypeError (top_name tp) (id_span (top_identifier tp))]
            | Inl _ \<Rightarrow> []) @ precheck_inner tp) (tops ast)) @
         check 0 @ check 1 @ check 2)"

section \<open>The pipeline\<close>

definition validation_pipeline ::
    "source_connector option \<Rightarrow> schema_ast \<Rightarrow> (datamodel_error list, datamodel) res \<Rightarrow> datamodel outcome" where
  "validation_pipeline src ast lifted =
     (case lifted of
        Inl errors \<Rightarrow> Inr (Inl (precheck ast @ errors))
      | Inr schema \<Rightarrow>
          bind_res (validate src ast schema) (\<lambda>validation_errors.
          if precheck ast @ validation_errors \<noteq> [] then Inr (Inl (precheck ast @ validation_errors))
          else bind_res (standardise ast schema) (\<lambda>r. case r of
               Inl errors \<Rightarrow> Inr (Inl errors)
             | Inr schema' \<Rightarrow>
                 map_res (\<lambda>post_errors. if post_errors \<noteq> [] then Inl post_errors else Inr schema')
                   (post_standardisation_validate ast schema'))))"

end
