(* ===== verification/Relation_Calculation.thy ===== *)
theory Relation_Calculation
  imports Dml
begin

text \<open>
  The relations of a datamodel (\<open>libs/prisma-models/src/datamodel_converter.rs\<close>,
  \<open>DatamodelConverter::calculate_relations\<close>): each relation field is paired with the field on the
  other side, the two are put in the order of their models (or, in a self relation, of their own
  names), and the relation is stored in a table of its own or in one of the two models. A panic of
  the source is an error value.
\<close>

section \<open>Relations\<close>

datatype relation_panic =
    RelatedModelNotFound string
  | RelatedFieldNotFound string string
  | BothSidesInline string string string string

datatype temp_manifestation_holder =
    Inline string dml_field "string list"
  | RelationTable

record temp_relation_holder =
  tr_name :: string
  tr_model_a :: dml_model
  tr_model_b :: dml_model
  tr_field_a :: dml_field
  tr_field_b :: dml_field
  tr_manifestation :: temp_manifestation_holder

definition relation_name :: "temp_relation_holder \<Rightarrow> string" where
  "relation_name r =
     (if tr_name r = '''' then mo_name (tr_model_a r) @ ''To'' @ mo_name (tr_model_b r) else tr_name r)"

definition relation_table_name :: "temp_relation_holder \<Rightarrow> string" where
  "relation_table_name r = ''_'' @ relation_name r"

definition dml_is_list :: "dml_field \<Rightarrow> bool" where
  "dml_is_list f \<longleftrightarrow> fl_arity f = DmlList"

section \<open>One relation field\<close>

definition find_related_field :: "dml_model \<Rightarrow> dml_model \<Rightarrow> dml_field \<Rightarrow> string \<Rightarrow> dml_field option" where
  "find_related_field model related_model field name =
     find (\<lambda>f. case fl_type f of
                 Relation rel_info \<Rightarrow>
                   (if mo_name model = mo_name related_model
                    then ri_to rel_info = mo_name model \<and> ri_name rel_info = name \<and> fl_name f \<noteq> fl_name field
                    else ri_to rel_info = mo_name model \<and> ri_name rel_info = name)
               | _ \<Rightarrow> False) (mo_fields related_model)"

definition relation_sides ::
    "dml_model \<Rightarrow> dml_model \<Rightarrow> dml_field \<Rightarrow> dml_field \<Rightarrow> string list \<Rightarrow> string list \<Rightarrow>
     dml_model \<times> dml_model \<times> dml_field \<times> dml_field \<times> string list \<times> string list" where
  "relation_sides model related_model field related to_fields related_to_fields =
     (if mo_name model < mo_name related_model
      then (model, related_model, field, related, to_fields, related_to_fields)
      else if mo_name related_model < mo_name model
      then (related_model, model, related, field, related_to_fields, to_fields)
      else (model, related_model, if fl_name field < fl_name related then field else related,
            if fl_name field < fl_name related then related else field, to_fields, related_to_fields))"

definition relation_manifestation ::
    "dml_model \<Rightarrow> dml_model \<Rightarrow> dml_field \<Rightarrow> dml_field \<Rightarrow> string list \<Rightarrow> string list \<Rightarrow>
     (relation_panic, temp_manifestation_holder) res" where
  "relation_manifestation model related_model field related to_fields related_to_fields =
     (let (model_a, model_b, field_a, field_b, referenced_fields_a, referenced_fields_b) =
            relation_sides model related_model field related to_fields related_to_fields;
          inline_on_model_a = Inline (mo_name model_a) field_a referenced_fields_a;
          inline_on_model_b = Inline (mo_name model_b) field_b referenced_fields_b;
          inline_on_this_model = Inline (mo_name model) field to_fields;
          inline_on_related_model = Inline (mo_name related_model) related related_to_fields
      in if dml_is_list field_a \<and> dml_is_list field_b then Inr RelationTable
         else if dml_is_list field_b then Inr inline_on_model_a
         else if dml_is_list field_a then Inr inline_on_model_b
         else if to_fields \<noteq> [] \<and> related_to_fields = [] then Inr inline_on_this_model
         else if to_fields = [] \<and> related_to_fields \<noteq> [] then Inr inline_on_related_model
         else if to_fields = []
         then Inr (if mo_name model_a < mo_name model_b then inline_on_model_a else inline_on_model_b)
         else Inl (BothSidesInline (fl_name field) (mo_name model) (fl_name related) (mo_name related_model)))"

text \<open>The body of the inner loop, for a field of a relation type.\<close>

definition relation_of_field ::
    "datamodel \<Rightarrow> dml_model \<Rightarrow> dml_field \<Rightarrow> relation_info \<Rightarrow> (relation_panic, temp_relation_holder) res" where
  "relation_of_field dm model field info =
     bind_res (ok_or (RelatedModelNotFound (ri_to info)) (dml_find_model dm (ri_to info))) (\<lambda>related_model.
     bind_res (ok_or (RelatedFieldNotFound (mo_name model) (fl_name field))
                 (find_related_field model related_model field (ri_name info))) (\<lambda>related.
     let related_to_fields = (case fl_type related of Relation i \<Rightarrow> ri_to_fields i | _ \<Rightarrow> []);
         (model_a, model_b, field_a, field_b, _, _) =
           relation_sides model related_model field related (ri_to_fields info) related_to_fields
     in bind_res (relation_manifestation model related_model field related (ri_to_fields info) related_to_fields)
          (\<lambda>manifestation. Inr
             \<lparr>tr_name = ri_name info, tr_model_a = model_a, tr_model_b = model_b, tr_field_a = field_a,
              tr_field_b = field_b, tr_manifestation = manifestation\<rparr>)))"

section \<open>All relations\<close>

fun unique_by :: "('a \<Rightarrow> 'k) \<Rightarrow> 'k list \<Rightarrow> 'a list \<Rightarrow> 'a list" where
  "unique_by key seen [] = []"
| "unique_by key seen (x # xs) =
     (if key x \<in> set seen then unique_by key seen xs else x # unique_by key (key x # seen) xs)"

definition relation_fields :: "datamodel \<Rightarrow> (dml_model \<times> dml_field \<times> relation_info) list" where
  "relation_fields dm =
     concat (map (\<lambda>m. List.map_filter (\<lambda>f. case fl_type f of Relation i \<Rightarrow> Some (m, f, i) | _ \<Rightarrow> None) (mo_fields m))
       (dm_models dm))"

definition calculate_relations :: "datamodel \<Rightarrow> (relation_panic, temp_relation_holder list) res" where
  "calculate_relations dm =
     map_res (unique_by relation_name []) (collect_res (\<lambda>(m, f, i). relation_of_field dm m f i) (relation_fields dm))"

section \<open>Laws\<close>

lemma unique_by_set: "set (unique_by key seen xs) \<subseteq> set xs"
  by (induction xs arbitrary: seen) auto

lemma unique_by_distinct:
  "distinct (map key (unique_by key seen xs)) \<and> key ` set (unique_by key seen xs) \<inter> set seen = {}"
  by (induction xs arbitrary: seen) force+

lemma relation_fields_iff:
  "(m, f, i) \<in> set (relation_fields dm) \<longleftrightarrow>
     m \<in> set (dm_models dm) \<and> f \<in> set (mo_fields m) \<and> fl_type f = Relation i"
proof -
  have "(case fl_type g of Relation j \<Rightarrow> Some (n, g, j) | _ \<Rightarrow> None) = Some (m, f, i) \<longleftrightarrow>
      n = m \<and> g = f \<and> fl_type f = Relation i" for n g
    by (cases "fl_type g") auto
  then show ?thesis by (auto simp: relation_fields_def in_map_filter)
qed

text \<open>The search for the other side is \<open>Model::related_field\<close> of the related model.\<close>

lemma find_related_field_eq:
  "find_related_field model related_model field name =
     related_field related_model (mo_name model) name (fl_name field)"
  unfolding find_related_field_def related_field_def
proof (rule arg_cong [where f = "\<lambda>P. find P (mo_fields related_model)"], rule ext)
  fix f
  show "(case fl_type f of
           Relation rel_info \<Rightarrow>
             (if mo_name model = mo_name related_model
              then ri_to rel_info = mo_name model \<and> ri_name rel_info = name \<and> fl_name f \<noteq> fl_name field
              else ri_to rel_info = mo_name model \<and> ri_name rel_info = name)
         | _ \<Rightarrow> False) =
        (case fl_type f of
           Relation rel_info \<Rightarrow> ri_to rel_info = mo_name model \<and> ri_name rel_info = name
             \<and> (mo_name related_model \<noteq> mo_name model \<or> fl_name f \<noteq> fl_name field)
         | _ \<Rightarrow> False)"
    by (cases "fl_type f") auto
qed

lemma collect_res_InrD:
  assumes "collect_res f xs = Inr ys"
  shows "list_all2 (\<lambda>x y. f x = Inr y) xs ys"
  using assms by (induction xs arbitrary: ys) (auto simp: bind_res_eq_Inr map_res_eq_Inr)

lemma collect_res_set:
  assumes "collect_res f xs = Inr ys" and "y \<in> set ys"
  obtains x where "x \<in> set xs" and "f x = Inr y"
proof -
  from assms(2) obtain k where k: "k < length ys" "ys ! k = y" by (auto simp: in_set_conv_nth)
  with collect_res_InrD [OF assms(1)] have "k < length xs" "f (xs ! k) = Inr y"
    by (auto simp: list_all2_conv_all_nth)
  then show thesis using that nth_mem by blast
qed

text \<open>
  A relation that has a table: both of its fields are lists, they are the two sides of the relation,
  and its models are models of the datamodel.
\<close>

lemma relation_of_field_table:
  assumes "relation_of_field dm m f i = Inr r" and "tr_manifestation r = RelationTable"
  obtains related_model related where "dml_find_model dm (ri_to i) = Some related_model"
    and "related_field related_model (mo_name m) (ri_name i) (fl_name f) = Some related"
    and "dml_is_list f" and "dml_is_list related"
    and "tr_model_a r = m \<and> tr_model_b r = related_model \<or> tr_model_a r = related_model \<and> tr_model_b r = m"
  using assms that
  by (auto simp: relation_of_field_def bind_res_eq_Inr ok_or_def relation_manifestation_def relation_sides_def
      find_related_field_eq Let_def split: option.splits if_splits)

end
