(* ===== verification/Sql_Schema_Calculator.thy ===== *)
theory Sql_Schema_Calculator
  imports Relation_Calculation Sql_Migration_Inferrer
begin

text \<open>
  The SQL schema of a datamodel (\<open>sql-migration-connector/src/sql_schema_calculator.rs\<close> and the
  wrappers of \<open>datamodel_helpers.rs\<close>): a table per model, the foreign keys of its inline relations, a
  table per many-to-many relation, the enums; and the inference of a migration from two datamodels.
  Panics and the one \<open>SqlError\<close> of the calculator are values. The columns of a table are sorted by
  name; the source sorts unstably, which is the same order when names are distinct.
\<close>

section \<open>References into a datamodel\<close>

datatype calc_error =
    CalcPanic string
  | RelationPanic relation_panic
  | NoUniqueCriterion string

datatype type_ref = TypeEnum dml_enum | TypeBase scalar_type | TypeOther

definition field_type_ref :: "datamodel \<Rightarrow> dml_field \<Rightarrow> (calc_error, type_ref) res" where
  "field_type_ref dm f =
     (case fl_type f of
        EnumType name \<Rightarrow> map_res TypeEnum (ok_or (CalcPanic ''unwrap on None'') (dml_find_enum dm name))
      | Base scalar _ \<Rightarrow> Inr (TypeBase scalar)
      | _ \<Rightarrow> Inr TypeOther)"

definition ref_id_fields :: "dml_model \<Rightarrow> dml_field list" where
  "ref_id_fields m = singular_id_fields m @ List.map_filter (dml_find_field m) (mo_id_fields m)"

definition referenced_model :: "datamodel \<Rightarrow> relation_info \<Rightarrow> (calc_error, dml_model) res" where
  "referenced_model dm info =
     ok_or (CalcPanic (''Invariant violation: could not find model '' @ ri_to info @ '' referenced in relation info.''))
       (dml_find_model dm (ri_to info))"

text \<open>\<open>iter().find(..)\<close> with a predicate that may panic.\<close>

fun find_opt_res :: "('a \<Rightarrow> ('e, bool) res) \<Rightarrow> 'a list \<Rightarrow> ('e, 'a option) res" where
  "find_opt_res P [] = Inr None"
| "find_opt_res P (x # xs) = bind_res (P x) (\<lambda>b. if b then Inr (Some x) else find_opt_res P xs)"

definition model_relation_fields :: "dml_model \<Rightarrow> (dml_field \<times> relation_info) list" where
  "model_relation_fields m =
     List.map_filter (\<lambda>f. case fl_type f of Relation i \<Rightarrow> Some (f, i) | _ \<Rightarrow> None) (mo_fields m)"

definition opposite_side ::
    "datamodel \<Rightarrow> dml_model \<Rightarrow> relation_info \<Rightarrow> (calc_error, (dml_field \<times> relation_info) option) res" where
  "opposite_side dm m info =
     bind_res (referenced_model dm info) (\<lambda>other.
     find_opt_res (\<lambda>(f, i).
       if ri_name i \<noteq> ri_name info then Inr False
       else map_res (\<lambda>back. mo_name back = mo_name m \<and> ri_to_fields i \<noteq> ri_to_fields info
                        \<and> ri_fields i \<noteq> ri_fields info) (referenced_model dm i))
       (model_relation_fields other))"

definition is_one_to_one :: "datamodel \<Rightarrow> dml_model \<Rightarrow> dml_field \<Rightarrow> relation_info \<Rightarrow> (calc_error, bool) res" where
  "is_one_to_one dm m f info =
     (if is_singular (fl_arity f)
      then map_res (\<lambda>opp. case opp of Some (g, _) \<Rightarrow> is_singular (fl_arity g) | None \<Rightarrow> False) (opposite_side dm m info)
      else Inr False)"

definition resolve_column :: "string \<Rightarrow> dml_model \<Rightarrow> string \<Rightarrow> (calc_error, string) res" where
  "resolve_column arg m name =
     map_res field_db_name (ok_or (CalcPanic (''Unable to resolve field '' @ name @ '' on '' @ mo_name m @
       '', Expected relation `'' @ arg @ ''` to point to fields on the '' @
       (if arg = ''fields'' then ''enclosing'' else ''related'') @ '' model.'')) (dml_find_field m name))"

definition referencing_columns :: "dml_model \<Rightarrow> relation_info \<Rightarrow> (calc_error, string list) res" where
  "referencing_columns m info = collect_res (resolve_column ''fields'' m) (ri_fields info)"

definition referenced_columns :: "datamodel \<Rightarrow> relation_info \<Rightarrow> (calc_error, string list) res" where
  "referenced_columns dm info =
     collect_res (\<lambda>name. bind_res (referenced_model dm info) (\<lambda>m. resolve_column ''references'' m name)) (ri_to_fields info)"

section \<open>Columns\<close>

fun column_arity_of :: "dml_arity \<Rightarrow> column_arity" where
  "column_arity_of DmlRequired = ARequired"
| "column_arity_of DmlList = AList"
| "column_arity_of DmlOptional = ANullable"

fun column_type_for_scalar_type :: "scalar_type \<Rightarrow> column_arity \<Rightarrow> column_type" where
  "column_type_for_scalar_type SInt a = column_type_pure FInt a"
| "column_type_for_scalar_type SFloat a = column_type_pure FFloat a"
| "column_type_for_scalar_type SBoolean a = column_type_pure FBoolean a"
| "column_type_for_scalar_type SString a = column_type_pure FString a"
| "column_type_for_scalar_type SDateTime a = column_type_pure FDateTime a"
| "column_type_for_scalar_type SJson a = column_type_pure FJson a"

definition scalar_type_for_field :: "datamodel \<Rightarrow> dml_field \<Rightarrow> (calc_error, scalar_type) res" where
  "scalar_type_for_field dm f =
     bind_res (field_type_ref dm f) (\<lambda>t. case t of
        TypeBase scalar \<Rightarrow> Inr scalar
      | TypeEnum _ \<Rightarrow> Inr SString
      | TypeOther \<Rightarrow> Inl (CalcPanic (''This field type is not suported here. Field type is Other on field '' @ fl_name f)))"

definition column_type_of_field :: "datamodel \<Rightarrow> dml_field \<Rightarrow> (calc_error, column_type) res" where
  "column_type_of_field dm f =
     map_res (\<lambda>s. column_type_for_scalar_type s (column_arity_of (fl_arity f))) (scalar_type_for_field dm f)"

definition enum_column_type ::
    "datamodel \<Rightarrow> database_info \<Rightarrow> dml_model \<Rightarrow> dml_field \<Rightarrow> string \<Rightarrow> (calc_error, column_type) res" where
  "enum_column_type dm info m f db_name =
     (let arity = column_arity_of (fl_arity f) in
      case db_family info of
        Postgres \<Rightarrow> Inr (column_type_pure (FEnum db_name) arity)
      | Mysql \<Rightarrow> Inr (column_type_pure (FEnum (model_db_name m @ ''_'' @ field_db_name f)) arity)
      | Sqlite \<Rightarrow> column_type_of_field dm f)"

definition migration_value_new ::
    "displays \<Rightarrow> datamodel \<Rightarrow> dml_field \<Rightarrow> (calc_error, default_value option) res" where
  "migration_value_new d dm f =
     (if fl_is_id f then Inr None
      else case fl_default_value f of
        None \<Rightarrow> Inr None
      | Some (DefaultSingle s) \<Rightarrow>
          bind_res (field_type_ref dm f) (\<lambda>t. case t of
             TypeEnum e \<Rightarrow>
               bind_res (ok_or (CalcPanic ''could not find enum value'')
                          (find (\<lambda>v. ev_name v = value_to_string d s) (dn_values e)))
                 (\<lambda>v. Inr (Some (DVALUE (PEnum (enum_value_db_name v)))))
           | _ \<Rightarrow> Inr (Some (DVALUE s)))
      | Some (DefaultExpression g) \<Rightarrow> Inr (if vg_name g = ''now'' \<and> vg_args g = [] then Some DNOW else None))"

definition is_autoincrement :: "dml_field \<Rightarrow> bool" where
  "is_autoincrement f \<longleftrightarrow>
     (case fl_default_value f of
        Some (DefaultExpression g) \<Rightarrow> value_generator_fn_new (vg_name g) = Inr Autoincrement
      | _ \<Rightarrow> False)"

definition model_column ::
    "displays \<Rightarrow> datamodel \<Rightarrow> database_info \<Rightarrow> dml_model \<Rightarrow> dml_field \<Rightarrow> (calc_error, column list) res" where
  "model_column d dm info m f =
     bind_res (field_type_ref dm f) (\<lambda>t. case t of
        TypeBase _ \<Rightarrow>
          bind_res (column_type_of_field dm f) (\<lambda>tpe.
          bind_res (migration_value_new d dm f) (\<lambda>default.
          Inr [\<lparr>col_name = field_db_name f, col_tpe = tpe, col_default = default, col_auto_increment = is_autoincrement f\<rparr>]))
      | TypeEnum e \<Rightarrow>
          bind_res (enum_column_type dm info m f (enum_db_name e)) (\<lambda>tpe.
          bind_res (migration_value_new d dm f) (\<lambda>default.
          Inr [\<lparr>col_name = field_db_name f, col_tpe = tpe, col_default = default, col_auto_increment = False\<rparr>]))
      | TypeOther \<Rightarrow> Inr [])"

section \<open>Tables of models\<close>

definition single_field_indexes :: "dml_model \<Rightarrow> index list" where
  "single_field_indexes m =
     map (\<lambda>f. \<lparr>idx_name = model_db_name m @ ''.'' @ field_db_name f, idx_columns = [field_db_name f], idx_tpe = IUnique\<rparr>)
       (filter fl_is_unique (mo_fields m))"

definition multiple_field_index :: "dml_model \<Rightarrow> index_definition \<Rightarrow> (calc_error, index) res" where
  "multiple_field_index m i =
     bind_res (ok_or (CalcPanic ''Unknown field in index directive.'') (resolve_fields m (ix_fields i))) (\<lambda>referenced_fields.
     Inr \<lparr>idx_name = (case ix_name i of
            Some name \<Rightarrow> name
          | None \<Rightarrow> model_db_name m @ ''.'' @ str_join ''_'' (map field_db_name referenced_fields)),
          idx_columns = map field_db_name referenced_fields,
          idx_tpe = (if ix_tpe i = UniqueIndex then IUnique else INormal)\<rparr>)"

definition calculate_model_table ::
    "displays \<Rightarrow> datamodel \<Rightarrow> database_info \<Rightarrow> dml_model \<Rightarrow> (calc_error, table) res" where
  "calculate_model_table d dm info m =
     bind_res (collect_res (model_column d dm info m) (mo_fields m)) (\<lambda>columns.
     bind_res (collect_res (multiple_field_index m) (mo_indices m)) (\<lambda>multiple_field_indexes.
     Inr \<lparr>tbl_name = model_db_name m, tbl_columns = concat columns,
          tbl_indices = single_field_indexes m @ multiple_field_indexes,
          tbl_primary_key = Some \<lparr>pk_columns = map field_db_name (ref_id_fields m), pk_sequence = None\<rparr>,
          tbl_foreign_keys = []\<rparr>))"

section \<open>Inline relations\<close>

definition add_one_to_one_relation_unique_index :: "string list \<Rightarrow> table \<Rightarrow> table" where
  "add_one_to_one_relation_unique_index column_names t =
     (if list_ex (\<lambda>i. idx_columns i = column_names \<and> index_is_unique i) (tbl_indices t) then t
      else t\<lparr>tbl_indices := tbl_indices t @
        [\<lparr>idx_name = tbl_name t @ ''_'' @ str_join ''_'' column_names, idx_columns = column_names, idx_tpe = IUnique\<rparr>]\<rparr>)"

definition add_inline_relation ::
    "datamodel \<Rightarrow> dml_model \<Rightarrow> dml_field \<times> relation_info \<Rightarrow> table \<Rightarrow> (calc_error, table) res" where
  "add_inline_relation dm m rf t =
     (case rf of (f, info) \<Rightarrow>
        bind_res (referencing_columns m info) (\<lambda>fk_columns.
        bind_res (is_one_to_one dm m f info) (\<lambda>one_to_one.
        let t1 = (if one_to_one then add_one_to_one_relation_unique_index fk_columns t else t) in
        bind_res (referenced_model dm info) (\<lambda>other.
        bind_res (referenced_columns dm info) (\<lambda>ref_columns.
        Inr (t1\<lparr>tbl_foreign_keys := tbl_foreign_keys t1 @
          [\<lparr>fk_constraint_name = None, fk_columns = fk_columns, fk_referenced_table = model_db_name other,
            fk_referenced_columns = ref_columns,
            fk_on_delete_action = (if column_arity_of (fl_arity f) = ARequired then Cascade else SetNull)\<rparr>]\<rparr>))))))"

definition add_inline_relations_to_model_table ::
    "datamodel \<Rightarrow> dml_model \<Rightarrow> table \<Rightarrow> (calc_error, table) res" where
  "add_inline_relations_to_model_table dm m t =
     run_steps (add_inline_relation dm m) (filter (\<lambda>(f, info). ri_fields info \<noteq> []) (model_relation_fields m)) t"

section \<open>Tables of many-to-many relations\<close>

definition relation_table_columns :: "datamodel \<Rightarrow> dml_model \<Rightarrow> string \<Rightarrow> (calc_error, column list) res" where
  "relation_table_columns dm m reference_field_name =
     (if mo_id_fields m = [] then
        (let unique_field = find fl_is_unique (mo_fields m);
             id_field = find fl_is_id (mo_fields m)
         in bind_res (ok_or (CalcPanic (''No unique criteria found in model '' @ mo_name m))
                       (case id_field of Some f \<Rightarrow> Some f | None \<Rightarrow> unique_field)) (\<lambda>f.
            bind_res (column_type_of_field dm f) (\<lambda>tpe.
            Inr [\<lparr>col_name = reference_field_name, col_tpe = tpe, col_default = None, col_auto_increment = False\<rparr>])))
      else collect_res (\<lambda>f. bind_res (column_type_of_field dm f) (\<lambda>tpe.
             Inr \<lparr>col_name = reference_field_name @ ''_'' @ field_db_name f, col_tpe = tpe, col_default = None,
                  col_auto_increment = False\<rparr>)) (ref_id_fields m))"

definition first_unique_criterion :: "dml_model \<Rightarrow> (calc_error, dml_field list) res" where
  "first_unique_criterion m =
     (if ref_id_fields m \<noteq> [] then Inr (ref_id_fields m)
      else case find (\<lambda>f. fl_is_unique f \<and> fl_arity f = DmlRequired) (mo_fields m) of
        Some f \<Rightarrow> Inr [f]
      | None \<Rightarrow>
          (case filter (\<lambda>i. ix_tpe i = UniqueIndex) (mo_indices m) of
             i # _ \<Rightarrow> ok_or (CalcPanic ''index on unknown model field'') (resolve_fields m (ix_fields i))
           | [] \<Rightarrow> Inl (NoUniqueCriterion (mo_name m))))"

definition calculate_relation_table :: "datamodel \<Rightarrow> temp_relation_holder \<Rightarrow> (calc_error, table list) res" where
  "calculate_relation_table dm r =
     (case tr_manifestation r of
        RelationTable \<Rightarrow>
          bind_res (relation_table_columns dm (tr_model_a r) ''A'') (\<lambda>a_columns.
          bind_res (relation_table_columns dm (tr_model_b r) ''B'') (\<lambda>b_columns.
          bind_res (first_unique_criterion (tr_model_a r)) (\<lambda>a_fields.
          bind_res (first_unique_criterion (tr_model_b r)) (\<lambda>b_fields.
          let key = (\<lambda>cols m fields.
                \<lparr>fk_constraint_name = None, fk_columns = map col_name cols, fk_referenced_table = model_db_name m,
                 fk_referenced_columns = map field_db_name fields, fk_on_delete_action = Cascade\<rparr>);
              columns = a_columns @ b_columns
          in Inr [\<lparr>tbl_name = relation_table_name r, tbl_columns = columns,
                   tbl_indices =
                     [\<lparr>idx_name = relation_table_name r @ ''_AB_unique'', idx_columns = map col_name columns, idx_tpe = IUnique\<rparr>,
                      \<lparr>idx_name = relation_table_name r @ ''_B_index'', idx_columns = map col_name b_columns, idx_tpe = INormal\<rparr>],
                   tbl_primary_key = None,
                   tbl_foreign_keys = [key a_columns (tr_model_a r) a_fields, key b_columns (tr_model_b r) b_fields]\<rparr>]))))
      | Inline _ _ _ \<Rightarrow> Inr [])"

definition calculate_relation_tables :: "datamodel \<Rightarrow> (calc_error, table list) res" where
  "calculate_relation_tables dm =
     (case calculate_relations dm of
        Inl e \<Rightarrow> Inl (RelationPanic e)
      | Inr rs \<Rightarrow> map_res concat (collect_res (calculate_relation_table dm) rs))"

section \<open>The schema\<close>

text \<open>The body of the loop over the enum fields, for MySQL.\<close>

definition mysql_field_enum :: "datamodel \<Rightarrow> dml_model \<times> dml_field \<Rightarrow> (calc_error, sql_enum list) res" where
  "mysql_field_enum dm mf =
     (case mf of (m, f) \<Rightarrow>
        map_res (\<lambda>t. case t of
            TypeEnum e \<Rightarrow> [\<lparr>se_name = model_db_name m @ ''_'' @ field_db_name f, se_values = database_values e\<rparr>]
          | _ \<Rightarrow> []) (field_type_ref dm f))"

definition calculate_enums :: "datamodel \<Rightarrow> database_info \<Rightarrow> (calc_error, sql_enum list) res" where
  "calculate_enums dm info =
     (case db_family info of
        Postgres \<Rightarrow> Inr (map (\<lambda>e. \<lparr>se_name = enum_db_name e, se_values = database_values e\<rparr>) (dm_enums dm))
      | Mysql \<Rightarrow>
          map_res concat (collect_res (mysql_field_enum dm) (concat (map (\<lambda>m. map (Pair m) (mo_fields m)) (dm_models dm))))
      | Sqlite \<Rightarrow> Inr [])"

definition calculate_schema :: "displays \<Rightarrow> datamodel \<Rightarrow> database_info \<Rightarrow> (calc_error, sql_schema) res" where
  "calculate_schema d dm info =
     bind_res (collect_res (\<lambda>m. bind_res (calculate_model_table d dm info m) (add_inline_relations_to_model_table dm m))
                (dm_models dm)) (\<lambda>model_tables.
     bind_res (calculate_relation_tables dm) (\<lambda>relation_tables.
     bind_res (calculate_enums dm info) (\<lambda>enums.
     Inr \<lparr>ss_tables = map (\<lambda>t. t\<lparr>tbl_columns := sort_key col_name (tbl_columns t)\<rparr>) (model_tables @ relation_tables),
          ss_enums = enums, ss_sequences = []\<rparr>)))"

section \<open>Migrations from datamodels\<close>

datatype datamodel_migration_error = CalculationFailed calc_error | InferenceFailed infer_error

definition lift_error :: "('a \<Rightarrow> 'b) \<Rightarrow> ('a, 'c) res \<Rightarrow> ('b, 'c) res" where
  "lift_error h r = (case r of Inl e \<Rightarrow> Inl (h e) | Inr a \<Rightarrow> Inr a)"

definition infer_to_datamodel ::
    "displays \<Rightarrow> database_info \<Rightarrow> sql_schema \<Rightarrow> datamodel \<Rightarrow> (datamodel_migration_error, sql_migration) res" where
  "infer_to_datamodel d info current_database_schema nxt =
     bind_res (lift_error CalculationFailed (calculate_schema d nxt info)) (\<lambda>expected_database_schema.
     lift_error InferenceFailed (infer_migration d info current_database_schema expected_database_schema))"

definition infer_from_datamodels ::
    "displays \<Rightarrow> database_info \<Rightarrow> datamodel \<Rightarrow> datamodel \<Rightarrow> (datamodel_migration_error, sql_migration) res" where
  "infer_from_datamodels d info previous nxt =
     bind_res (lift_error CalculationFailed (calculate_schema d previous info)) (\<lambda>current_database_schema.
     infer_to_datamodel d info current_database_schema nxt)"

end
