(* ===== verification/Schema_Calculator_Laws.thy ===== *)
theory Schema_Calculator_Laws
  imports Sql_Schema_Calculator Sql_Inferrer_Laws
begin

text \<open>
  What a calculated schema looks like: the columns of the table of a model, the keys and indexes that
  are added to it, the table of a many-to-many relation; when the calculation succeeds; and that the
  result is well formed.
\<close>

section \<open>Well-formed schemas and datamodels\<close>

text \<open>
  Every column that an index, a primary key or a foreign key names exists, on both sides of a key, and
  the two sides of a key have the same number of columns.
\<close>

abbreviation column_names :: "table \<Rightarrow> string set" where
  "column_names t \<equiv> col_name ` set (tbl_columns t)"

definition key_resolves :: "table list \<Rightarrow> table \<Rightarrow> foreign_key \<Rightarrow> bool" where
  "key_resolves ts t fk \<longleftrightarrow>
     set (fk_columns fk) \<subseteq> column_names t \<and> length (fk_columns fk) = length (fk_referenced_columns fk) \<and>
     list_ex (\<lambda>t'. tbl_name t' = fk_referenced_table fk \<and> set (fk_referenced_columns fk) \<subseteq> column_names t') ts"

definition table_well_formed :: "table list \<Rightarrow> table \<Rightarrow> bool" where
  "table_well_formed ts t \<longleftrightarrow>
     list_all (\<lambda>i. set (idx_columns i) \<subseteq> column_names t) (tbl_indices t) \<and>
     set (primary_key_columns t) \<subseteq> column_names t \<and> list_all (key_resolves ts t) (tbl_foreign_keys t)"

definition schema_well_formed :: "sql_schema \<Rightarrow> bool" where
  "schema_well_formed s \<longleftrightarrow> list_all (table_well_formed (ss_tables s)) (ss_tables s)"

fun has_column_type :: "dml_field \<Rightarrow> bool" where
  "has_column_type f = (case fl_type f of Base _ _ \<Rightarrow> True | EnumType _ \<Rightarrow> True | _ \<Rightarrow> False)"

declare has_column_type.simps [simp del]

definition names_column :: "dml_model \<Rightarrow> string \<Rightarrow> bool" where
  "names_column m name = (case dml_find_field m name of Some f \<Rightarrow> has_column_type f | None \<Rightarrow> False)"

definition criteria_have_columns :: "dml_model \<Rightarrow> bool" where
  "criteria_have_columns m \<longleftrightarrow>
     list_all (\<lambda>f. fl_is_id f \<or> fl_is_unique f \<longrightarrow> has_column_type f) (mo_fields m) \<and>
     list_all (names_column m) (mo_id_fields m) \<and>
     list_all (\<lambda>i. list_all (names_column m) (ix_fields i)) (mo_indices m)"

definition references_have_columns :: "datamodel \<Rightarrow> dml_model \<Rightarrow> dml_field \<times> relation_info \<Rightarrow> bool" where
  "references_have_columns dm m rf =
     (case rf of (f, info) \<Rightarrow>
        list_all (names_column m) (ri_fields info) \<and> length (ri_fields info) = length (ri_to_fields info) \<and>
        (case dml_find_model dm (ri_to info) of
           Some other \<Rightarrow> list_all (names_column other) (ri_to_fields info)
         | None \<Rightarrow> False))"

definition inline_relations :: "dml_model \<Rightarrow> (dml_field \<times> relation_info) list" where
  "inline_relations m = filter (\<lambda>(f, info). ri_fields info \<noteq> []) (model_relation_fields m)"

definition datamodel_well_formed :: "datamodel \<Rightarrow> bool" where
  "datamodel_well_formed dm \<longleftrightarrow>
     list_all (\<lambda>m. criteria_have_columns m \<and> list_all (references_have_columns dm m) (inline_relations m)) (dm_models dm)"

text \<open>The models on both sides of a many-to-many relation have one id field and no compound id.\<close>

definition single_id :: "dml_model \<Rightarrow> bool" where
  "single_id m \<longleftrightarrow> has_single_id_field m \<and> mo_id_fields m = []"

definition join_models_identified :: "datamodel \<Rightarrow> bool" where
  "join_models_identified dm \<longleftrightarrow>
     (case calculate_relations dm of
        Inr rs \<Rightarrow> list_all (\<lambda>r. tr_manifestation r = RelationTable \<longrightarrow> single_id (tr_model_a r) \<and> single_id (tr_model_b r)) rs
      | Inl _ \<Rightarrow> True)"

section \<open>Tables of models\<close>

lemma field_type_ref_cases:
  assumes "field_type_ref dm f = Inr t"
  shows "has_column_type f \<longleftrightarrow> t \<noteq> TypeOther"
  using assms by (auto simp: field_type_ref_def has_column_type.simps map_res_eq_Inr split: field_type.splits)

lemma model_column_names:
  assumes "model_column d dm info m f = Inr cols"
  shows "map col_name cols = (if has_column_type f then [field_db_name f] else [])"
proof -
  from assms obtain t where "field_type_ref dm f = Inr t" by (auto simp: model_column_def bind_res_eq_Inr)
  with assms show ?thesis
    by (cases t) (auto simp: model_column_def bind_res_eq_Inr field_type_ref_cases)
qed

lemma collected_column_names:
  assumes "list_all2 (\<lambda>f cols. model_column d dm info m f = Inr cols) fs css"
  shows "map col_name (concat css) = map field_db_name (filter has_column_type fs)"
  using assms by (induction rule: list_all2_induct) (auto simp: model_column_names)

definition column_fields :: "dml_model \<Rightarrow> dml_field list" where
  "column_fields m = filter has_column_type (mo_fields m)"

lemma calculate_model_table_columns:
  assumes "calculate_model_table d dm info m = Inr t"
  shows "tbl_name t = model_db_name m" and "map col_name (tbl_columns t) = map field_db_name (column_fields m)"
    and "tbl_foreign_keys t = []" and "primary_key_columns t = map field_db_name (ref_id_fields m)"
    and "\<exists>is. collect_res (multiple_field_index m) (mo_indices m) = Inr is \<and> tbl_indices t = single_field_indexes m @ is"
proof -
  from assms obtain css "is" where css: "collect_res (model_column d dm info m) (mo_fields m) = Inr css"
    and ix: "collect_res (multiple_field_index m) (mo_indices m) = Inr is"
    and t: "t = \<lparr>tbl_name = model_db_name m, tbl_columns = concat css, tbl_indices = single_field_indexes m @ is,
      tbl_primary_key = Some \<lparr>pk_columns = map field_db_name (ref_id_fields m), pk_sequence = None\<rparr>, tbl_foreign_keys = []\<rparr>"
    by (auto simp: calculate_model_table_def bind_res_eq_Inr)
  show "tbl_name t = model_db_name m" and "tbl_foreign_keys t = []"
    and "primary_key_columns t = map field_db_name (ref_id_fields m)" by (simp_all add: t primary_key_columns_def)
  show "map col_name (tbl_columns t) = map field_db_name (column_fields m)"
    using collected_column_names [OF collect_res_InrD [OF css]] by (simp add: t column_fields_def)
  show "\<exists>is. collect_res (multiple_field_index m) (mo_indices m) = Inr is \<and> tbl_indices t = single_field_indexes m @ is"
    using ix by (simp add: t)
qed

lemma names_column_found:
  assumes "names_column m name" and "dml_find_field m name = Some f"
  shows "f \<in> set (column_fields m)"
  using assms dml_find_fieldD [of m name f] by (simp add: names_column_def column_fields_def)

lemma names_columnE:
  assumes "names_column m name"
  obtains f where "dml_find_field m name = Some f" and "f \<in> set (column_fields m)"
  using assms names_column_found [OF assms] that by (auto simp: names_column_def split: option.splits)

lemma resolved_columns:
  assumes "list_all (names_column m) names" and "resolve_fields m names = Some fs"
  shows "field_db_name ` set fs \<subseteq> field_db_name ` set (column_fields m)"
proof
  fix x assume "x \<in> field_db_name ` set fs"
  then obtain f where f: "f \<in> set fs" "x = field_db_name f" by auto
  have "map (dml_find_field m) names = map Some fs" using assms(2) by (simp add: resolve_fields_Some)
  then have "Some f \<in> dml_find_field m ` set names" using f(1) by (metis image_eqI list.set_map)
  then obtain n where "n \<in> set names" "dml_find_field m n = Some f" by auto
  with assms(1) f(2) show "x \<in> field_db_name ` set (column_fields m)"
    by (auto simp: list_all_iff dest: names_column_found)
qed

lemma ref_id_columns:
  assumes "criteria_have_columns m"
  shows "field_db_name ` set (ref_id_fields m) \<subseteq> field_db_name ` set (column_fields m)"
proof -
  have "set (singular_id_fields m) \<subseteq> set (column_fields m)"
    using assms by (auto simp: singular_id_fields_def criteria_have_columns_def list_all_iff column_fields_def)
  moreover have "set (List.map_filter (dml_find_field m) (mo_id_fields m)) \<subseteq> set (column_fields m)"
    using assms by (auto simp: criteria_have_columns_def list_all_iff in_map_filter) (blast intro: names_column_found)
  ultimately show ?thesis by (auto simp: ref_id_fields_def)
qed

lemma model_table_indexes:
  assumes "calculate_model_table d dm info m = Inr t" and "criteria_have_columns m" and "i \<in> set (tbl_indices t)"
  shows "set (idx_columns i) \<subseteq> column_names t"
proof -
  have names: "column_names t = field_db_name ` set (column_fields m)"
    using calculate_model_table_columns(2) [OF assms(1)] by (metis list.set_map)
  obtain "is" where "is": "collect_res (multiple_field_index m) (mo_indices m) = Inr is"
    "tbl_indices t = single_field_indexes m @ is"
    using calculate_model_table_columns(5) [OF assms(1)] by blast
  then consider "i \<in> set (single_field_indexes m)" | "i \<in> set is" using assms(3) by auto
  then show ?thesis
  proof cases
    case 1
    then show ?thesis using assms(2)
      by (auto simp: names single_field_indexes_def criteria_have_columns_def list_all_iff column_fields_def)
  next
    case 2
    then obtain x where x: "x \<in> set (mo_indices m)" "multiple_field_index m x = Inr i"
      using collect_res_set [OF "is"(1)] by blast
    then obtain fs where "resolve_fields m (ix_fields x) = Some fs" "idx_columns i = map field_db_name fs"
      by (auto simp: multiple_field_index_def bind_res_eq_Inr ok_or_def split: option.splits)
    moreover have "list_all (names_column m) (ix_fields x)"
      using assms(2) x(1) by (auto simp: criteria_have_columns_def list_all_iff)
    ultimately show ?thesis using resolved_columns [of m "ix_fields x" fs] by (simp add: names)
  qed
qed

section \<open>Inline relations\<close>

lemma resolve_columnD:
  assumes "resolve_column arg m name = Inr c" and "names_column m name"
  shows "c \<in> field_db_name ` set (column_fields m)"
  using assms by (auto simp: resolve_column_def map_res_eq_Inr ok_or_def elim!: names_columnE)

lemma resolved_column_names:
  assumes "collect_res (resolve_column arg m) names = Inr cs" and "list_all (names_column m) names"
  shows "set cs \<subseteq> field_db_name ` set (column_fields m)" and "length cs = length names"
proof -
  show "set cs \<subseteq> field_db_name ` set (column_fields m)"
  proof
    fix c assume "c \<in> set cs"
    then obtain n where "n \<in> set names" "resolve_column arg m n = Inr c" using collect_res_set [OF assms(1)] by blast
    with assms(2) show "c \<in> field_db_name ` set (column_fields m)" by (auto simp: list_all_iff dest: resolve_columnD)
  qed
  show "length cs = length names" using collect_res_InrD [OF assms(1)] by (simp add: list_all2_lengthD)
qed

lemma add_unique_index:
  "tbl_name (add_one_to_one_relation_unique_index cs t) = tbl_name t"
  "tbl_columns (add_one_to_one_relation_unique_index cs t) = tbl_columns t"
  "tbl_primary_key (add_one_to_one_relation_unique_index cs t) = tbl_primary_key t"
  "tbl_foreign_keys (add_one_to_one_relation_unique_index cs t) = tbl_foreign_keys t"
  "i \<in> set (tbl_indices (add_one_to_one_relation_unique_index cs t)) \<Longrightarrow> i \<in> set (tbl_indices t) \<or> idx_columns i = cs"
  by (auto simp: add_one_to_one_relation_unique_index_def split: if_splits)

text \<open>What one relation field adds to the table of its model.\<close>

lemma add_inline_relation_shape:
  assumes "add_inline_relation dm m (f, info) t = Inr t'"
  obtains cs other rs act where "referencing_columns m info = Inr cs" and "dml_find_model dm (ri_to info) = Some other"
    and "referenced_columns dm info = Inr rs" and "tbl_name t' = tbl_name t" and "tbl_columns t' = tbl_columns t"
    and "tbl_primary_key t' = tbl_primary_key t"
    and "\<And>i. i \<in> set (tbl_indices t') \<Longrightarrow> i \<in> set (tbl_indices t) \<or> idx_columns i = cs"
    and "tbl_foreign_keys t' = tbl_foreign_keys t @
      [\<lparr>fk_constraint_name = None, fk_columns = cs, fk_referenced_table = model_db_name other,
        fk_referenced_columns = rs, fk_on_delete_action = act\<rparr>]"
proof -
  from assms obtain cs b other rs where *: "referencing_columns m info = Inr cs" "is_one_to_one dm m f info = Inr b"
      "dml_find_model dm (ri_to info) = Some other" "referenced_columns dm info = Inr rs"
    and t': "t' = (let t1 = (if b then add_one_to_one_relation_unique_index cs t else t) in
      t1\<lparr>tbl_foreign_keys := tbl_foreign_keys t1 @
        [\<lparr>fk_constraint_name = None, fk_columns = cs, fk_referenced_table = model_db_name other,
          fk_referenced_columns = rs, fk_on_delete_action = (if column_arity_of (fl_arity f) = ARequired then Cascade else SetNull)\<rparr>]\<rparr>)"
    by (auto simp: add_inline_relation_def bind_res_eq_Inr Let_def referenced_model_def ok_or_def split: option.splits)
  show thesis
    by (rule that [OF *(1,3,4), where act = "if column_arity_of (fl_arity f) = ARequired then Cascade else SetNull"])
      (auto simp: t' Let_def add_unique_index split: if_splits dest: add_unique_index(5))
qed

text \<open>The keys that resolve in a set of tables, seen through the names of tables and columns.\<close>

definition key_sound :: "datamodel \<Rightarrow> string set \<Rightarrow> foreign_key \<Rightarrow> bool" where
  "key_sound dm cols fk \<longleftrightarrow> set (fk_columns fk) \<subseteq> cols \<and> length (fk_columns fk) = length (fk_referenced_columns fk) \<and>
     fk_constraint_name fk = None \<and>
     (\<exists>other \<in> set (dm_models dm). fk_referenced_table fk = model_db_name other \<and>
        set (fk_referenced_columns fk) \<subseteq> field_db_name ` set (column_fields other))"

lemma add_inline_relation_key:
  assumes "add_inline_relation dm m (f, info) t = Inr t'" and "references_have_columns dm m (f, info)"
    and "column_names t = field_db_name ` set (column_fields m)"
    and "list_all (key_sound dm (column_names t)) (tbl_foreign_keys t)"
    and "list_all (\<lambda>i. set (idx_columns i) \<subseteq> column_names t) (tbl_indices t)"
  shows "list_all (key_sound dm (column_names t)) (tbl_foreign_keys t')"
    and "list_all (\<lambda>i. set (idx_columns i) \<subseteq> column_names t) (tbl_indices t')"
proof -
  from assms(1) obtain cs other rs act where *: "referencing_columns m info = Inr cs" "dml_find_model dm (ri_to info) = Some other"
      "referenced_columns dm info = Inr rs" "\<And>i. i \<in> set (tbl_indices t') \<Longrightarrow> i \<in> set (tbl_indices t) \<or> idx_columns i = cs"
      "tbl_foreign_keys t' = tbl_foreign_keys t @
        [\<lparr>fk_constraint_name = None, fk_columns = cs, fk_referenced_table = model_db_name other,
          fk_referenced_columns = rs, fk_on_delete_action = act\<rparr>]"
    by (rule add_inline_relation_shape) blast
  have ok: "list_all (names_column m) (ri_fields info)" "length (ri_fields info) = length (ri_to_fields info)"
    "list_all (names_column other) (ri_to_fields info)"
    using assms(2) *(2) by (simp_all add: references_have_columns_def)
  have cs: "set cs \<subseteq> field_db_name ` set (column_fields m)" "length cs = length (ri_fields info)"
    using resolved_column_names [OF *(1) [unfolded referencing_columns_def] ok(1)] by simp_all
  have "bind_res (referenced_model dm info) (\<lambda>m. resolve_column ''references'' m n) = resolve_column ''references'' other n" for n
    by (simp add: referenced_model_def *(2))
  with *(3) have "collect_res (resolve_column ''references'' other) (ri_to_fields info) = Inr rs"
    by (simp add: referenced_columns_def)
  then have rs: "set rs \<subseteq> field_db_name ` set (column_fields other)" "length rs = length (ri_to_fields info)"
    using resolved_column_names [OF _ ok(3)] by blast+
  show "list_all (key_sound dm (column_names t)) (tbl_foreign_keys t')"
    using assms(4) cs rs ok(2) dml_find_modelD [OF *(2)] by (auto simp: *(5) key_sound_def assms(3))
  show "list_all (\<lambda>i. set (idx_columns i) \<subseteq> column_names t) (tbl_indices t')"
    using assms(5) cs(1) *(4) by (auto simp: list_all_iff assms(3))
qed

definition model_table :: "displays \<Rightarrow> datamodel \<Rightarrow> database_info \<Rightarrow> dml_model \<Rightarrow> (calc_error, table) res" where
  "model_table d dm info m = bind_res (calculate_model_table d dm info m) (add_inline_relations_to_model_table dm m)"

lemma model_table_shape:
  assumes "model_table d dm info m = Inr t"
  shows "tbl_name t = model_db_name m" and "map col_name (tbl_columns t) = map field_db_name (column_fields m)"
    and "primary_key_columns t = map field_db_name (ref_id_fields m)"
    and "list_all (\<lambda>fk. fk_constraint_name fk = None \<and> fk_referenced_table fk \<in> model_db_name ` set (dm_models dm)) (tbl_foreign_keys t)"
proof -
  let ?I = "\<lambda>t. tbl_name t = model_db_name m \<and> map col_name (tbl_columns t) = map field_db_name (column_fields m)
    \<and> primary_key_columns t = map field_db_name (ref_id_fields m)
    \<and> list_all (\<lambda>fk. fk_constraint_name fk = None \<and> fk_referenced_table fk \<in> model_db_name ` set (dm_models dm)) (tbl_foreign_keys t)"
  from assms obtain t0 where t0: "calculate_model_table d dm info m = Inr t0"
    and run: "run_steps (add_inline_relation dm m) (inline_relations m) t0 = Inr t"
    by (auto simp: model_table_def bind_res_eq_Inr add_inline_relations_to_model_table_def inline_relations_def)
  have "?I t0" using calculate_model_table_columns [OF t0] by simp
  moreover have "?I y'" if "?I y" and "add_inline_relation dm m rf y = Inr y'" for rf y y'
  proof -
    obtain f i where "rf = (f, i)" by (cases rf)
    then show ?thesis using that
      by (auto elim!: add_inline_relation_shape simp: primary_key_columns_def dest!: dml_find_modelD)
  qed
  ultimately have "?I t" using run_steps_invariant [where I = ?I, OF _ _ run] by blast
  then show "tbl_name t = model_db_name m" and "map col_name (tbl_columns t) = map field_db_name (column_fields m)"
    and "primary_key_columns t = map field_db_name (ref_id_fields m)"
    and "list_all (\<lambda>fk. fk_constraint_name fk = None \<and> fk_referenced_table fk \<in> model_db_name ` set (dm_models dm)) (tbl_foreign_keys t)"
    by simp_all
qed

lemma model_table_sound:
  assumes "model_table d dm info m = Inr t" and "criteria_have_columns m"
    and "list_all (references_have_columns dm m) (inline_relations m)"
  shows "list_all (\<lambda>i. set (idx_columns i) \<subseteq> column_names t) (tbl_indices t)"
    and "list_all (key_sound dm (column_names t)) (tbl_foreign_keys t)"
proof -
  let ?C = "field_db_name ` set (column_fields m)"
  let ?I = "\<lambda>t. column_names t = ?C \<and> list_all (key_sound dm ?C) (tbl_foreign_keys t)
    \<and> list_all (\<lambda>i. set (idx_columns i) \<subseteq> ?C) (tbl_indices t)"
  from assms obtain t0 where t0: "calculate_model_table d dm info m = Inr t0"
    and run: "run_steps (add_inline_relation dm m) (inline_relations m) t0 = Inr t"
    by (auto simp: model_table_def bind_res_eq_Inr add_inline_relations_to_model_table_def inline_relations_def)
  have names: "column_names t0 = ?C" using calculate_model_table_columns(2) [OF t0] by (metis list.set_map)
  have "?I t0" using calculate_model_table_columns(3) [OF t0] model_table_indexes [OF t0 assms(2)]
    by (simp add: names list_all_iff)
  moreover have "?I y'" if "rf \<in> set (inline_relations m)" and "?I y" and step: "add_inline_relation dm m rf y = Inr y'" for rf y y'
  proof -
    obtain f i where rf: "rf = (f, i)" by (cases rf)
    have "references_have_columns dm m (f, i)" using assms(3) that(1) by (simp add: list_all_iff rf)
    moreover have "tbl_columns y' = tbl_columns y" using step by (auto simp: rf elim!: add_inline_relation_shape)
    ultimately show ?thesis using add_inline_relation_key [OF step [unfolded rf]] that(2) by simp
  qed
  ultimately have "?I t" using run_steps_invariant [where I = ?I, OF _ _ run] by blast
  then show "list_all (\<lambda>i. set (idx_columns i) \<subseteq> column_names t) (tbl_indices t)"
    and "list_all (key_sound dm (column_names t)) (tbl_foreign_keys t)" by simp_all
qed

section \<open>Tables of many-to-many relations\<close>

lemma find_filter: "find P xs = (case filter P xs of [] \<Rightarrow> None | x # _ \<Rightarrow> Some x)"
  by (induction xs) auto

lemma single_id_field:
  assumes "single_id m"
  obtains f where "singular_id_fields m = [f]" and "f \<in> set (mo_fields m)" and "fl_is_id f"
    and "ref_id_fields m = [f]" and "find fl_is_id (mo_fields m) = Some f" and "first_unique_criterion m = Inr [f]"
proof -
  obtain f where f: "singular_id_fields m = [f]" "mo_id_fields m = []"
    using assms by (auto simp: single_id_def has_single_id_field_def length_Suc_conv)
  have "find fl_is_id (mo_fields m) = Some f"
    using f(1) by (simp add: find_filter singular_id_fields_def)
  moreover have "f \<in> set (mo_fields m)" "fl_is_id f"
    using f(1) by (auto simp: singular_id_fields_def filter_eq_Cons_iff)
  ultimately show thesis
    using that [of f] f by (simp add: ref_id_fields_def first_unique_criterion_def List.map_filter_def)
qed

lemma relation_table_columns_names:
  assumes "relation_table_columns dm m p = Inr cs" and "single_id m"
  shows "map col_name cs = [p]"
  using assms by (auto simp: relation_table_columns_def single_id_def bind_res_eq_Inr)

definition relation_models :: "datamodel \<Rightarrow> temp_relation_holder \<Rightarrow> bool" where
  "relation_models dm r \<longleftrightarrow> tr_model_a r \<in> set (dm_models dm) \<and> tr_model_b r \<in> set (dm_models dm)"

lemma calculated_relation_models:
  assumes "calculate_relations dm = Inr rs" and "r \<in> set rs"
  shows "relation_models dm r"
proof -
  obtain rs0 where "collect_res (\<lambda>(m, f, i). relation_of_field dm m f i) (relation_fields dm) = Inr rs0"
    and "rs = unique_by relation_name [] rs0" using assms(1) by (auto simp: calculate_relations_def map_res_eq_Inr)
  moreover have "r \<in> set rs0" using calculation(2) assms(2) unique_by_set [of relation_name "[]" rs0] by auto
  ultimately obtain m f i where "(m, f, i) \<in> set (relation_fields dm)" "relation_of_field dm m f i = Inr r"
    by (auto elim!: collect_res_set)
  then show ?thesis
    by (auto simp: relation_models_def relation_of_field_def bind_res_eq_Inr ok_or_def relation_sides_def Let_def
        relation_fields_iff split: option.splits if_splits dest: dml_find_modelD)
qed

lemma relation_table_sound:
  assumes "calculate_relation_table dm r = Inr ts" and "t \<in> set ts" and "relation_models dm r"
    and "single_id (tr_model_a r)" and "single_id (tr_model_b r)"
    and "criteria_have_columns (tr_model_a r)" and "criteria_have_columns (tr_model_b r)"
  shows "list_all (\<lambda>i. set (idx_columns i) \<subseteq> column_names t) (tbl_indices t)" and "tbl_primary_key t = None"
    and "list_all (key_sound dm (column_names t)) (tbl_foreign_keys t)"
proof -
  obtain fa where fa: "ref_id_fields (tr_model_a r) = [fa]" "first_unique_criterion (tr_model_a r) = Inr [fa]"
    using single_id_field [OF assms(4)] by blast
  obtain fb where fb: "ref_id_fields (tr_model_b r) = [fb]" "first_unique_criterion (tr_model_b r) = Inr [fb]"
    using single_id_field [OF assms(5)] by blast
  have cols: "field_db_name fa \<in> field_db_name ` set (column_fields (tr_model_a r))"
    "field_db_name fb \<in> field_db_name ` set (column_fields (tr_model_b r))"
    using ref_id_columns [OF assms(6)] ref_id_columns [OF assms(7)] by (simp_all add: fa fb)
  have "tr_manifestation r = RelationTable"
    using assms(1,2) by (cases "tr_manifestation r") (auto simp: calculate_relation_table_def)
  with assms(1,2) obtain as bs where ab: "relation_table_columns dm (tr_model_a r) ''A'' = Inr as"
      "relation_table_columns dm (tr_model_b r) ''B'' = Inr bs"
    and t: "tbl_columns t = as @ bs" "map idx_columns (tbl_indices t) = [map col_name (as @ bs), map col_name bs]"
      "tbl_primary_key t = None" "tbl_foreign_keys t =
        [\<lparr>fk_constraint_name = None, fk_columns = map col_name as, fk_referenced_table = model_db_name (tr_model_a r),
          fk_referenced_columns = [field_db_name fa], fk_on_delete_action = Cascade\<rparr>,
         \<lparr>fk_constraint_name = None, fk_columns = map col_name bs, fk_referenced_table = model_db_name (tr_model_b r),
          fk_referenced_columns = [field_db_name fb], fk_on_delete_action = Cascade\<rparr>]"
    by (auto simp: calculate_relation_table_def bind_res_eq_Inr Let_def fa fb)
  have lens: "length as = 1" "length bs = 1"
    using relation_table_columns_names [OF ab(1) assms(4)] relation_table_columns_names [OF ab(2) assms(5)]
    by (auto simp: map_eq_Cons_conv)
  show "tbl_primary_key t = None" by (rule t(3))
  have "idx_columns i \<in> {map col_name (as @ bs), map col_name bs}" if "i \<in> set (tbl_indices t)" for i
    using that arg_cong [OF t(2), of set] by auto
  then show "list_all (\<lambda>i. set (idx_columns i) \<subseteq> column_names t) (tbl_indices t)"
    by (force simp: list_all_iff t(1))
  show "list_all (key_sound dm (column_names t)) (tbl_foreign_keys t)"
    using assms(3) cols lens by (auto simp: t(1,4) key_sound_def relation_models_def)
qed

section \<open>The whole schema\<close>

abbreviation with_sorted_columns :: "table \<Rightarrow> table" where
  "with_sorted_columns t \<equiv> t\<lparr>tbl_columns := sort_key col_name (tbl_columns t)\<rparr>"

lemma calculate_schema_parts:
  assumes "calculate_schema d dm info = Inr s"
  obtains mts rs rts where "list_all2 (\<lambda>m t. model_table d dm info m = Inr t) (dm_models dm) mts"
    and "calculate_relations dm = Inr rs" and "list_all2 (\<lambda>r ts. calculate_relation_table dm r = Inr ts) rs rts"
    and "ss_tables s = map with_sorted_columns (mts @ concat rts)" and "calculate_enums dm info = Inr (ss_enums s)"
proof -
  from assms obtain mts rt es where *: "collect_res (model_table d dm info) (dm_models dm) = Inr mts"
      "calculate_relation_tables dm = Inr rt" "calculate_enums dm info = Inr es"
      "s = \<lparr>ss_tables = map with_sorted_columns (mts @ rt), ss_enums = es, ss_sequences = []\<rparr>"
    by (auto simp: calculate_schema_def bind_res_eq_Inr model_table_def [abs_def])
  from *(2) obtain rs rts where "calculate_relations dm = Inr rs" "collect_res (calculate_relation_table dm) rs = Inr rts"
      "rt = concat rts"
    by (auto simp: calculate_relation_tables_def map_res_eq_Inr split: sum.splits)
  with that collect_res_InrD [OF *(1)] collect_res_InrD [of "calculate_relation_table dm" rs rts] *(3,4)
  show thesis by simp
qed

lemma list_all2_partner:
  assumes "list_all2 P xs ys"
  shows "x \<in> set xs \<Longrightarrow> \<exists>y \<in> set ys. P x y" and "y \<in> set ys \<Longrightarrow> \<exists>x \<in> set xs. P x y"
  using assms by (induction rule: list_all2_induct) auto

text \<open>Every table of the schema is the table of a model or of a relation.\<close>

lemma calculated_tableE:
  assumes "calculate_schema d dm info = Inr s" and "t \<in> set (ss_tables s)"
  obtains (model) m t0 where "m \<in> set (dm_models dm)" and "model_table d dm info m = Inr t0" and "t = with_sorted_columns t0"
  | (relation) rs r ts t0 where "calculate_relations dm = Inr rs" and "r \<in> set rs"
      and "calculate_relation_table dm r = Inr ts" and "t0 \<in> set ts" and "t = with_sorted_columns t0"
proof -
  from assms(1) obtain mts rs rts where p: "list_all2 (\<lambda>m t. model_table d dm info m = Inr t) (dm_models dm) mts"
      "calculate_relations dm = Inr rs" "list_all2 (\<lambda>r ts. calculate_relation_table dm r = Inr ts) rs rts"
      "ss_tables s = map with_sorted_columns (mts @ concat rts)"
    by (rule calculate_schema_parts)
  from assms(2) obtain t0 where t0: "t = with_sorted_columns t0" "t0 \<in> set mts \<or> t0 \<in> set (concat rts)"
    by (auto simp: p(4))
  from t0(2) show thesis
  proof
    assume "t0 \<in> set mts"
    then obtain m where "m \<in> set (dm_models dm)" "model_table d dm info m = Inr t0"
      using list_all2_partner(2) [OF p(1)] by blast
    then show thesis using model t0(1) by blast
  next
    assume "t0 \<in> set (concat rts)"
    then obtain ts where "ts \<in> set rts" "t0 \<in> set ts" by auto
    moreover from this obtain r where "r \<in> set rs" "calculate_relation_table dm r = Inr ts"
      using list_all2_partner(2) [OF p(3)] by blast
    ultimately show thesis using relation p(2) t0(1) by blast
  qed
qed

lemma calculated_model_table:
  assumes "calculate_schema d dm info = Inr s" and "m \<in> set (dm_models dm)"
  obtains t where "t \<in> set (ss_tables s)" and "tbl_name t = model_db_name m"
    and "column_names t = field_db_name ` set (column_fields m)"
proof -
  from assms(1) obtain mts rs rts where p: "list_all2 (\<lambda>m t. model_table d dm info m = Inr t) (dm_models dm) mts"
      "ss_tables s = map with_sorted_columns (mts @ concat rts)"
    by (rule calculate_schema_parts)
  obtain t0 where t0: "t0 \<in> set mts" "model_table d dm info m = Inr t0"
    using list_all2_partner(1) [OF p(1) assms(2)] by blast
  have "column_names t0 = field_db_name ` set (column_fields m)"
    using model_table_shape(2) [OF t0(2)] by (metis list.set_map)
  then show thesis using that [of "with_sorted_columns t0"] t0(1) model_table_shape(1) [OF t0(2)] by (simp add: p(2))
qed

lemma relation_table_keys:
  assumes "calculate_relation_table dm r = Inr ts" and "t \<in> set ts" and "relation_models dm r" and "fk \<in> set (tbl_foreign_keys t)"
  shows "fk_constraint_name fk = None \<and> fk_referenced_table fk \<in> model_db_name ` set (dm_models dm)"
  using assms
  by (cases "tr_manifestation r") (auto simp: calculate_relation_table_def bind_res_eq_Inr Let_def relation_models_def)

lemma calculated_keys:
  assumes "calculate_schema d dm info = Inr s" and "t \<in> set (ss_tables s)" and "fk \<in> set (tbl_foreign_keys t)"
  shows "fk_constraint_name fk = None" and "has_table s (fk_referenced_table fk)"
proof -
  have *: "fk_constraint_name fk = None \<and> fk_referenced_table fk \<in> model_db_name ` set (dm_models dm)"
    using assms(1,2)
  proof (cases rule: calculated_tableE)
    case (model m t0)
    then show ?thesis using model_table_shape(4) [OF model(2)] assms(3) by (auto simp: list_all_iff)
  next
    case (relation rs r ts t0)
    then show ?thesis using relation_table_keys calculated_relation_models assms(3) by simp
  qed
  then show "fk_constraint_name fk = None" ..
  from * obtain m where "m \<in> set (dm_models dm)" "fk_referenced_table fk = model_db_name m" by auto
  then show "has_table s (fk_referenced_table fk)"
    using calculated_model_table [OF assms(1)] by (metis has_table_iff image_eqI)
qed

lemma calculated_references_closed:
  assumes "calculate_schema d dm info = Inr s"
  shows "references_closed s"
  using calculated_keys [OF assms] by (simp add: references_closed_def list_all_iff)

lemma key_sound_resolves:
  assumes "calculate_schema d dm info = Inr s" and "key_sound dm (column_names t) fk"
  shows "key_resolves (ss_tables s) (with_sorted_columns t) fk"
proof -
  from assms(2) obtain other where other: "other \<in> set (dm_models dm)" "fk_referenced_table fk = model_db_name other"
      "set (fk_referenced_columns fk) \<subseteq> field_db_name ` set (column_fields other)"
    and fk: "set (fk_columns fk) \<subseteq> column_names t" "length (fk_columns fk) = length (fk_referenced_columns fk)"
    by (auto simp: key_sound_def)
  obtain t' where "t' \<in> set (ss_tables s)" "tbl_name t' = model_db_name other"
      "column_names t' = field_db_name ` set (column_fields other)"
    using calculated_model_table [OF assms(1) other(1)] by blast
  with other fk show ?thesis unfolding key_resolves_def list_ex_iff by simp metis
qed

lemma calculated_well_formed:
  assumes calc: "calculate_schema d dm info = Inr s" and wf: "datamodel_well_formed dm" and "join_models_identified dm"
  shows "schema_well_formed s"
  unfolding schema_well_formed_def list_all_iff
proof
  fix t assume "t \<in> set (ss_tables s)"
  with calc show "table_well_formed (ss_tables s) t"
  proof (cases rule: calculated_tableE)
    case (model m t0)
    have m: "criteria_have_columns m" "list_all (references_have_columns dm m) (inline_relations m)"
      using wf model(1) by (simp_all add: datamodel_well_formed_def list_all_iff)
    have names: "column_names t0 = field_db_name ` set (column_fields m)"
      using model_table_shape(2) [OF model(2)] by (metis list.set_map)
    show ?thesis
      using model_table_sound [OF model(2) m] model_table_shape(3) [OF model(2)] ref_id_columns [OF m(1)]
        key_sound_resolves [OF calc, of t0]
      by (simp add: table_well_formed_def model(3) names list_all_iff primary_key_columns_def)
  next
    case (relation rs r ts t0)
    have "tr_manifestation r = RelationTable"
      using relation(3,4) by (cases "tr_manifestation r") (auto simp: calculate_relation_table_def)
    then have ids: "single_id (tr_model_a r)" "single_id (tr_model_b r)"
      using assms(3) relation(1,2) by (simp_all add: join_models_identified_def list_all_iff)
    have ms: "relation_models dm r" using calculated_relation_models relation(1,2) by blast
    then have "criteria_have_columns (tr_model_a r)" "criteria_have_columns (tr_model_b r)"
      using wf by (simp_all add: datamodel_well_formed_def list_all_iff relation_models_def)
    note sound = relation_table_sound [OF relation(3,4) ms ids this]
    show ?thesis using sound key_sound_resolves [OF calc, of t0]
      by (simp add: table_well_formed_def relation(5) list_all_iff primary_key_columns_def)
  qed
qed

section \<open>When the calculation succeeds\<close>

definition known :: "dml_model \<Rightarrow> string \<Rightarrow> bool" where
  "known m name \<longleftrightarrow> dml_find_field m name \<noteq> None"

definition enum_resolved :: "displays \<Rightarrow> datamodel \<Rightarrow> dml_field \<Rightarrow> bool" where
  "enum_resolved d dm f =
     (case fl_type f of
        EnumType n \<Rightarrow>
          (case dml_find_enum dm n of
             None \<Rightarrow> False
           | Some e \<Rightarrow>
               (case fl_default_value f of
                  Some (DefaultSingle s) \<Rightarrow> fl_is_id f \<or> list_ex (\<lambda>v. ev_name v = value_to_string d s) (dn_values e)
                | _ \<Rightarrow> True))
      | _ \<Rightarrow> True)"

definition relation_resolved :: "datamodel \<Rightarrow> dml_model \<Rightarrow> dml_field \<times> relation_info \<Rightarrow> bool" where
  "relation_resolved dm m rf =
     (case rf of (f, rel) \<Rightarrow>
        list_all (known m) (ri_fields rel) \<and>
        (case dml_find_model dm (ri_to rel) of None \<Rightarrow> False | Some other \<Rightarrow> list_all (known other) (ri_to_fields rel)))"

definition calculable :: "displays \<Rightarrow> datamodel \<Rightarrow> bool" where
  "calculable d dm \<longleftrightarrow>
     list_all (\<lambda>m. list_all (enum_resolved d dm) (mo_fields m) \<and>
       list_all (\<lambda>f. fl_is_id f \<longrightarrow> has_column_type f) (mo_fields m) \<and>
       list_all (\<lambda>i. list_all (known m) (ix_fields i)) (mo_indices m) \<and>
       list_all (relation_resolved dm m) (model_relation_fields m)) (dm_models dm)"

lemma enum_resolved_ref:
  assumes "enum_resolved d dm f"
  shows "\<exists>t. field_type_ref dm f = Inr t \<and> (has_column_type f \<longrightarrow> t \<noteq> TypeOther)"
  using assms by (auto simp: enum_resolved_def field_type_ref_def has_column_type.simps split: field_type.splits option.splits)

lemma column_type_total:
  assumes "enum_resolved d dm f" and "has_column_type f"
  shows "\<exists>t. column_type_of_field dm f = Inr t"
proof -
  obtain t where "field_type_ref dm f = Inr t" "t \<noteq> TypeOther" using enum_resolved_ref [OF assms(1)] assms(2) by blast
  then show ?thesis by (cases t) (simp_all add: column_type_of_field_def scalar_type_for_field_def)
qed

lemma migration_value_total:
  assumes "enum_resolved d dm f"
  shows "\<exists>v. migration_value_new d dm f = Inr v"
proof (cases "fl_default_value f")
  case (Some dv)
  show ?thesis
  proof (cases dv)
    case (DefaultSingle s)
    obtain t where t: "field_type_ref dm f = Inr t" using enum_resolved_ref [OF assms] by blast
    show ?thesis
    proof (cases t)
      case (TypeEnum e)
      then have "fl_is_id f \<or> list_ex (\<lambda>v. ev_name v = value_to_string d s) (dn_values e)"
        using assms t Some DefaultSingle
        by (auto simp: enum_resolved_def field_type_ref_def map_res_eq_Inr ok_or_def split: field_type.splits option.splits)
      then have "fl_is_id f \<or> find (\<lambda>v. ev_name v = value_to_string d s) (dn_values e) \<noteq> None"
        by (auto simp: list_ex_iff find_None_iff)
      then show ?thesis using t TypeEnum Some DefaultSingle by (auto simp: migration_value_new_def)
    qed (simp_all add: migration_value_new_def Some DefaultSingle t)
  qed (simp add: migration_value_new_def Some)
qed (simp add: migration_value_new_def)

lemma model_column_total:
  assumes "enum_resolved d dm f"
  shows "\<exists>cs. model_column d dm info m f = Inr cs"
proof -
  obtain t where t: "field_type_ref dm f = Inr t" using enum_resolved_ref [OF assms] by blast
  obtain v where v: "migration_value_new d dm f = Inr v" using migration_value_total [OF assms] by blast
  have ct: "\<exists>c. column_type_of_field dm f = Inr c" if "t \<noteq> TypeOther"
    using column_type_total [OF assms] field_type_ref_cases [OF t] that by blast
  show ?thesis
  proof (cases t)
    case (TypeEnum e)
    then have "\<exists>c. enum_column_type dm info m f (enum_db_name e) = Inr c"
      using ct by (auto simp: enum_column_type_def Let_def split: sql_family.splits)
    then show ?thesis using t v TypeEnum by (auto simp: model_column_def)
  qed (use t v ct in \<open>auto simp: model_column_def\<close>)
qed

lemma resolve_known:
  assumes "list_all (known m) names"
  shows "\<exists>fs. resolve_fields m names = Some fs" and "\<exists>cs. collect_res (resolve_column arg m) names = Inr cs"
proof -
  show "\<exists>fs. resolve_fields m names = Some fs"
    using assms unfolding resolve_fields_Some by (induction names) (auto simp: known_def Cons_eq_map_conv)
  show "\<exists>cs. collect_res (resolve_column arg m) names = Inr cs"
    using assms by (intro collect_res_total) (auto simp: known_def list_all_iff resolve_column_def)
qed

lemma calculate_model_table_total:
  assumes "calculable d dm" and "m \<in> set (dm_models dm)"
  shows "\<exists>t. calculate_model_table d dm info m = Inr t"
proof -
  have "\<exists>css. collect_res (model_column d dm info m) (mo_fields m) = Inr css"
    using assms by (intro collect_res_total model_column_total) (simp add: calculable_def list_all_iff)
  moreover have "\<exists>is. collect_res (multiple_field_index m) (mo_indices m) = Inr is"
  proof (intro collect_res_total)
    fix i assume "i \<in> set (mo_indices m)"
    then have "list_all (known m) (ix_fields i)" using assms by (simp add: calculable_def list_all_iff)
    then show "\<exists>y. multiple_field_index m i = Inr y" using resolve_known(1) by (fastforce simp: multiple_field_index_def)
  qed
  ultimately show ?thesis by (auto simp: calculate_model_table_def)
qed

lemma find_opt_res_total:
  assumes "\<And>x. x \<in> set xs \<Longrightarrow> \<exists>b. P x = Inr b"
  shows "\<exists>r. find_opt_res P xs = Inr r"
  using assms
proof (induction xs)
  case (Cons x xs)
  then obtain b r where "P x = Inr b" "find_opt_res P xs = Inr r" by fastforce
  then show ?case by (cases b) auto
qed simp

lemma is_one_to_one_total:
  assumes "calculable d dm" and "m \<in> set (dm_models dm)" and "(f, info) \<in> set (model_relation_fields m)"
  shows "\<exists>b. is_one_to_one dm m f info = Inr b"
proof -
  have rm: "\<exists>other. referenced_model dm i = Inr other" if "n \<in> set (dm_models dm)" and "(g, i) \<in> set (model_relation_fields n)" for n g i
  proof -
    have "relation_resolved dm n (g, i)" using assms(1) that by (auto simp: calculable_def list_all_iff)
    then show ?thesis by (auto simp: relation_resolved_def referenced_model_def split: option.splits)
  qed
  obtain other where other: "referenced_model dm info = Inr other" using rm [OF assms(2,3)] by blast
  then have "other \<in> set (dm_models dm)"
    by (auto simp: referenced_model_def ok_or_def split: option.splits dest: dml_find_modelD)
  then have "\<exists>b. (case rf of (g, i) \<Rightarrow> if ri_name i \<noteq> ri_name info then Inr False
      else map_res (\<lambda>back. mo_name back = mo_name m \<and> ri_to_fields i \<noteq> ri_to_fields info \<and> ri_fields i \<noteq> ri_fields info)
        (referenced_model dm i)) = Inr b" if "rf \<in> set (model_relation_fields other)" for rf
    using that rm [of other "fst rf" "snd rf"] by (cases rf) auto
  then have "\<exists>r. opposite_side dm m info = Inr r"
    unfolding opposite_side_def other bind_res_Inr by (intro find_opt_res_total) blast
  then show ?thesis by (auto simp: is_one_to_one_def)
qed

lemma add_inline_relation_total:
  assumes "calculable d dm" and "m \<in> set (dm_models dm)" and "(f, info) \<in> set (model_relation_fields m)"
  shows "\<exists>t'. add_inline_relation dm m (f, info) t = Inr t'"
proof -
  have "relation_resolved dm m (f, info)" using assms by (auto simp: calculable_def list_all_iff)
  then obtain other where other: "dml_find_model dm (ri_to info) = Some other"
    and known: "list_all (known m) (ri_fields info)" "list_all (known other) (ri_to_fields info)"
    by (auto simp: relation_resolved_def split: option.splits)
  have "referenced_columns dm info = collect_res (resolve_column ''references'' other) (ri_to_fields info)"
    by (simp add: referenced_columns_def referenced_model_def other)
  then show ?thesis
    using is_one_to_one_total [OF assms] resolve_known(2) [OF known(1), of "''fields''"]
      resolve_known(2) [OF known(2), of "''references''"]
    by (auto simp: add_inline_relation_def referencing_columns_def referenced_model_def other Let_def)
qed

lemma model_table_total:
  assumes "calculable d dm" and "m \<in> set (dm_models dm)"
  shows "\<exists>t. model_table d dm info m = Inr t"
proof -
  obtain t0 where "calculate_model_table d dm info m = Inr t0" using calculate_model_table_total [OF assms] by blast
  moreover have "\<exists>t. run_steps (add_inline_relation dm m) (inline_relations m) t0 = Inr t"
    using add_inline_relation_total [OF assms] by (intro run_steps_total) (auto simp: inline_relations_def)
  ultimately show ?thesis
    by (simp add: model_table_def add_inline_relations_to_model_table_def inline_relations_def)
qed

lemma relation_table_total:
  assumes "calculable d dm" and "relation_models dm r"
    and "tr_manifestation r = RelationTable \<longrightarrow> single_id (tr_model_a r) \<and> single_id (tr_model_b r)"
  shows "\<exists>ts. calculate_relation_table dm r = Inr ts"
proof (cases "tr_manifestation r")
  case RelationTable
  have cols: "\<exists>cs. relation_table_columns dm m p = Inr cs" if "m \<in> set (dm_models dm)" and "single_id m" for m p
  proof -
    obtain f where f: "f \<in> set (mo_fields m)" "fl_is_id f" "find fl_is_id (mo_fields m) = Some f"
      using single_id_field [OF \<open>single_id m\<close>] by blast
    then have "enum_resolved d dm f" "has_column_type f" using assms(1) that(1) by (simp_all add: calculable_def list_all_iff)
    then obtain tpe where "column_type_of_field dm f = Inr tpe" using column_type_total by blast
    with f(3) that(2) show ?thesis by (simp add: relation_table_columns_def single_id_def)
  qed
  have ids: "single_id (tr_model_a r)" "single_id (tr_model_b r)" using assms(3) RelationTable by simp_all
  obtain as bs where "relation_table_columns dm (tr_model_a r) ''A'' = Inr as" "relation_table_columns dm (tr_model_b r) ''B'' = Inr bs"
    using cols [of "tr_model_a r" "''A''"] cols [of "tr_model_b r" "''B''"] ids assms(2) by (auto simp: relation_models_def)
  moreover obtain fa where "first_unique_criterion (tr_model_a r) = Inr [fa]" using single_id_field [OF ids(1)] by blast
  moreover obtain fb where "first_unique_criterion (tr_model_b r) = Inr [fb]" using single_id_field [OF ids(2)] by blast
  ultimately show ?thesis by (simp add: calculate_relation_table_def RelationTable Let_def)
qed (simp add: calculate_relation_table_def)

lemma calculate_enums_total:
  assumes "calculable d dm"
  shows "\<exists>es. calculate_enums dm info = Inr es"
proof (cases "db_family info")
  case Mysql
  let ?fields = "concat (map (\<lambda>m. map (Pair m) (mo_fields m)) (dm_models dm))"
  have "\<exists>es. mysql_field_enum dm mf = Inr es" if "mf \<in> set ?fields" for mf
  proof -
    obtain m f where mf: "mf = (m, f)" by (cases mf)
    then have "enum_resolved d dm f" using that assms by (auto simp: calculable_def list_all_iff)
    then obtain t where "field_type_ref dm f = Inr t" using enum_resolved_ref by blast
    then show ?thesis by (simp add: mysql_field_enum_def mf)
  qed
  then obtain ess where "collect_res (mysql_field_enum dm) ?fields = Inr ess"
    using collect_res_total [of ?fields "mysql_field_enum dm"] by blast
  then show ?thesis by (simp add: calculate_enums_def Mysql)
qed (simp_all add: calculate_enums_def)

lemma calculate_schema_total:
  assumes "calculable d dm" and "calculate_relations dm = Inr rs" and "join_models_identified dm"
  shows "\<exists>s. calculate_schema d dm info = Inr s"
proof -
  obtain mts where mts: "collect_res (model_table d dm info) (dm_models dm) = Inr mts"
    using collect_res_total [of "dm_models dm" "model_table d dm info"] model_table_total [OF assms(1)] by blast
  have "\<exists>ts. calculate_relation_table dm r = Inr ts" if "r \<in> set rs" for r
    using relation_table_total [OF assms(1)] calculated_relation_models [OF assms(2) that] assms(2,3) that
    by (simp add: join_models_identified_def list_all_iff)
  then obtain rts where "collect_res (calculate_relation_table dm) rs = Inr rts" using collect_res_total [of rs "calculate_relation_table dm"] by blast
  moreover obtain es where "calculate_enums dm info = Inr es" using calculate_enums_total [OF assms(1)] by blast
  ultimately show ?thesis
    using mts by (simp add: calculate_schema_def calculate_relation_tables_def assms(2) model_table_def [abs_def])
qed

section \<open>Names\<close>

text \<open>
  Names as the database sees them: tables, columns and enums of a datamodel are told apart. The enums
  of MySQL are named after their columns.
\<close>

definition relation_table_names :: "datamodel \<Rightarrow> string list" where
  "relation_table_names dm =
     (case calculate_relations dm of
        Inr rs \<Rightarrow> map relation_table_name (filter (\<lambda>r. tr_manifestation r = RelationTable) rs)
      | Inl _ \<Rightarrow> [])"

definition database_names_distinct :: "datamodel \<Rightarrow> database_info \<Rightarrow> bool" where
  "database_names_distinct dm info \<longleftrightarrow>
     distinct (map model_db_name (dm_models dm) @ relation_table_names dm) \<and>
     list_all (\<lambda>m. distinct (map field_db_name (column_fields m))) (dm_models dm) \<and>
     (case calculate_enums dm info of Inr es \<Rightarrow> distinct (map se_name es) | Inl _ \<Rightarrow> True)"

lemma list_all2_map_eq:
  assumes "list_all2 P xs ys" and "\<And>x y. P x y \<Longrightarrow> g y = f x"
  shows "map g ys = map f xs"
  using assms by (induction rule: list_all2_induct) auto

lemma relation_table_list:
  assumes "calculate_relation_table dm r = Inr ts"
  shows "map tbl_name ts = (if tr_manifestation r = RelationTable then [relation_table_name r] else [])"
  using assms by (cases "tr_manifestation r") (auto simp: calculate_relation_table_def bind_res_eq_Inr Let_def)

lemma relation_tables_names:
  assumes "list_all2 (\<lambda>r ts. calculate_relation_table dm r = Inr ts) rs rts"
  shows "map tbl_name (concat rts) = map relation_table_name (filter (\<lambda>r. tr_manifestation r = RelationTable) rs)"
  using assms by (induction rule: list_all2_induct) (auto simp: relation_table_list)

lemma relation_table_columns_distinct:
  assumes "calculate_relation_table dm r = Inr ts" and "t \<in> set ts"
    and "tr_manifestation r = RelationTable \<longrightarrow> single_id (tr_model_a r) \<and> single_id (tr_model_b r)"
  shows "distinct (map col_name (tbl_columns t))"
proof -
  have m: "tr_manifestation r = RelationTable"
    using assms(1,2) by (cases "tr_manifestation r") (auto simp: calculate_relation_table_def)
  with assms(1,2) obtain as bs where "relation_table_columns dm (tr_model_a r) ''A'' = Inr as"
      "relation_table_columns dm (tr_model_b r) ''B'' = Inr bs" "tbl_columns t = as @ bs"
    by (auto simp: calculate_relation_table_def bind_res_eq_Inr Let_def)
  then have "map col_name (tbl_columns t) = [''A'', ''B'']"
    using relation_table_columns_names [of dm "tr_model_a r"] relation_table_columns_names [of dm "tr_model_b r"] assms(3) m
    by simp
  then show ?thesis by simp
qed

lemma sorted_names_distinct:
  "distinct (map col_name (sort_key col_name cs)) \<longleftrightarrow> distinct (map col_name cs)"
  by (simp add: distinct_map)

lemma calculated_names_distinct:
  assumes calc: "calculate_schema d dm info = Inr s" and "database_names_distinct dm info" and "join_models_identified dm"
  shows "names_distinct s"
proof -
  from calc obtain mts rs rts where p: "list_all2 (\<lambda>m t. model_table d dm info m = Inr t) (dm_models dm) mts"
      "calculate_relations dm = Inr rs" "list_all2 (\<lambda>r ts. calculate_relation_table dm r = Inr ts) rs rts"
      "ss_tables s = map with_sorted_columns (mts @ concat rts)" "calculate_enums dm info = Inr (ss_enums s)"
    by (rule calculate_schema_parts)
  have "map tbl_name mts = map model_db_name (dm_models dm)"
    by (rule list_all2_map_eq [OF p(1)]) (rule model_table_shape(1))
  then have "map tbl_name (ss_tables s) = map model_db_name (dm_models dm) @ relation_table_names dm"
    using relation_tables_names [OF p(3)] by (simp add: p(2,4) relation_table_names_def comp_def)
  moreover have "distinct (map col_name (tbl_columns t))" if "t \<in> set (ss_tables s)" for t
    using calc that
  proof (cases rule: calculated_tableE)
    case (model m t0)
    then show ?thesis using model_table_shape(2) [OF model(2)] assms(2)
      by (simp add: database_names_distinct_def list_all_iff sorted_names_distinct)
  next
    case (relation rs r ts t0)
    have "tr_manifestation r = RelationTable \<longrightarrow> single_id (tr_model_a r) \<and> single_id (tr_model_b r)"
      using assms(3) relation(1,2) by (simp add: join_models_identified_def list_all_iff)
    then show ?thesis using relation_table_columns_distinct [OF relation(3,4)] by (simp add: relation(5) sorted_names_distinct)
  qed
  ultimately show ?thesis using assms(2) by (simp add: names_distinct_def database_names_distinct_def p(5) list_all_iff)
qed

section \<open>Defaults\<close>

text \<open>The function \<open>now()\<close> is the default of date-time fields only.\<close>

definition now_fits :: "dml_field \<Rightarrow> bool" where
  "now_fits f =
     (case fl_default_value f of
        Some (DefaultExpression g) \<Rightarrow>
          vg_name g = ''now'' \<and> vg_args g = [] \<longrightarrow> (case fl_type f of Base st _ \<Rightarrow> st = SDateTime | _ \<Rightarrow> False)
      | _ \<Rightarrow> True)"

definition now_defaults_fit :: "datamodel \<Rightarrow> bool" where
  "now_defaults_fit dm \<longleftrightarrow> list_all (\<lambda>m. list_all now_fits (mo_fields m)) (dm_models dm)"

lemma value_default_renders:
  "col_default c = Some (DVALUE v) \<Longrightarrow> default_renders d c"
  "col_default c = None \<Longrightarrow> default_renders d c"
  "col_default c = Some DNOW \<Longrightarrow> ct_family (col_tpe c) = FDateTime \<Longrightarrow> default_renders d c"
  by (simp_all add: default_renders_def render_default_def string_like_default_def split: option.split)

lemma migration_value_kind:
  assumes "migration_value_new d dm f = Inr dv"
  shows "dv = None \<or> (\<exists>v. dv = Some (DVALUE v)) \<or>
    dv = Some DNOW \<and> (\<exists>g. fl_default_value f = Some (DefaultExpression g) \<and> vg_name g = ''now'' \<and> vg_args g = [])"
proof (cases "field_type_ref dm f")
  case (Inl e)
  with assms show ?thesis
    by (auto simp: migration_value_new_def split: if_splits option.splits dml_default_value.splits)
next
  case (Inr t)
  with assms show ?thesis
    by (cases t) (auto simp: migration_value_new_def bind_res_eq_Inr split: if_splits option.splits dml_default_value.splits)
qed

lemma model_column_renders:
  assumes "model_column d dm info m f = Inr cs" and "c \<in> set cs" and "now_fits f"
  shows "default_renders d c"
proof -
  obtain t where "field_type_ref dm f = Inr t" using assms(1) by (auto simp: model_column_def bind_res_eq_Inr)
  then obtain dv where dv: "migration_value_new d dm f = Inr dv" "col_default c = dv"
    using assms(1,2) by (cases t) (auto simp: model_column_def bind_res_eq_Inr)
  consider "dv = None" | v where "dv = Some (DVALUE v)"
    | g where "dv = Some DNOW" "fl_default_value f = Some (DefaultExpression g)" "vg_name g = ''now''" "vg_args g = []"
    using migration_value_kind [OF dv(1)] by blast
  then show ?thesis
  proof cases
    case (3 g)
    then obtain x where "fl_type f = Base SDateTime x"
      using assms(3) by (auto simp: now_fits_def split: field_type.splits)
    then have "ct_family (col_tpe c) = FDateTime"
      using assms(1,2)
      by (auto simp: model_column_def field_type_ref_def column_type_of_field_def scalar_type_for_field_def bind_res_eq_Inr
          column_type_pure_def)
    then show ?thesis using value_default_renders(3) dv(2) 3(1) by simp
  qed (use value_default_renders dv(2) in auto)
qed

lemma model_table_columns:
  assumes "model_table d dm info m = Inr t"
  obtains t0 where "calculate_model_table d dm info m = Inr t0" and "tbl_columns t = tbl_columns t0"
proof -
  from assms obtain t0 where t0: "calculate_model_table d dm info m = Inr t0"
    and run: "run_steps (add_inline_relation dm m) (inline_relations m) t0 = Inr t"
    by (auto simp: model_table_def bind_res_eq_Inr add_inline_relations_to_model_table_def inline_relations_def)
  have "tbl_columns t = tbl_columns t0"
    by (rule run_steps_invariant [where I = "\<lambda>t. tbl_columns t = tbl_columns t0", OF _ _ run])
      (auto elim!: add_inline_relation_shape)
  with t0 show thesis by (rule that)
qed

lemma relation_table_defaults:
  assumes "calculate_relation_table dm r = Inr ts" and "t \<in> set ts" and "c \<in> set (tbl_columns t)"
  shows "col_default c = None"
proof -
  have cols: "col_default c = None" if "relation_table_columns dm m p = Inr cs" "c \<in> set cs" for m p cs
    using that by (auto simp: relation_table_columns_def Let_def bind_res_eq_Inr split: if_splits elim!: collect_res_set)
  from assms obtain as bs where "relation_table_columns dm (tr_model_a r) ''A'' = Inr as"
      "relation_table_columns dm (tr_model_b r) ''B'' = Inr bs" "tbl_columns t = as @ bs"
    by (cases "tr_manifestation r") (auto simp: calculate_relation_table_def bind_res_eq_Inr Let_def)
  with assms(3) cols show ?thesis by auto
qed

lemma calculated_sqlite_ok:
  assumes calc: "calculate_schema d dm info = Inr s" and "now_defaults_fit dm"
  shows "sqlite_schema_ok d s"
proof -
  have "default_renders d c" if "t \<in> set (ss_tables s)" and "c \<in> set (tbl_columns t)" for t c
    using calc that(1)
  proof (cases rule: calculated_tableE)
    case (model m t0)
    from model(2) obtain t1 where t1: "calculate_model_table d dm info m = Inr t1" "tbl_columns t0 = tbl_columns t1"
      by (rule model_table_columns)
    from t1(1) obtain css where css: "collect_res (model_column d dm info m) (mo_fields m) = Inr css" "tbl_columns t1 = concat css"
      by (auto simp: calculate_model_table_def bind_res_eq_Inr)
    from that(2) obtain cs where "cs \<in> set css" "c \<in> set cs" by (auto simp: model(3) t1(2) css(2))
    moreover from this obtain f where "f \<in> set (mo_fields m)" "model_column d dm info m f = Inr cs"
      using collect_res_set [OF css(1)] by blast
    moreover have "now_fits f" using calculation(3) assms(2) model(1) by (auto simp: now_defaults_fit_def list_all_iff)
    ultimately show ?thesis using model_column_renders by blast
  next
    case (relation rs r ts t0)
    then have "col_default c = None" using that(2) relation_table_defaults [OF relation(3,4)] by simp
    then show ?thesis by (rule value_default_renders(2))
  qed
  then show ?thesis using calculated_keys(1) [OF calc] by (auto simp: sqlite_schema_ok_def list_all_iff)
qed

lemma infer_from_calculated:
  assumes s1: "calculate_schema d dm1 info = Inr s1" and s2: "calculate_schema d dm2 info = Inr s2"
    and "database_names_distinct dm1 info" and "database_names_distinct dm2 info"
    and "join_models_identified dm1" and "join_models_identified dm2" and "now_defaults_fit dm1" and "now_defaults_fit dm2"
  shows "\<exists>m. infer_from_datamodels d info dm1 dm2 = Inr m \<and> sm_before m = s1 \<and> sm_after m = s2
    \<and> sm_original_steps m = into_steps (sql_diff (from_database_info info) (db_family info) s1 s2)"
proof -
  obtain m where "infer_migration d info s1 s2 = Inr m" "sm_before m = s1" "sm_after m = s2"
      "sm_original_steps m = into_steps (sql_diff (from_database_info info) (db_family info) s1 s2)"
    using infer_migration_total [OF calculated_names_distinct [OF s1 assms(3,5)] calculated_names_distinct [OF s2 assms(4,6)], of info d]
      calculated_sqlite_ok [OF s1 assms(7)] calculated_sqlite_ok [OF s2 assms(8)] by blast
  then show ?thesis by (simp add: infer_from_datamodels_def infer_to_datamodel_def lift_error_def s1 s2)
qed

section \<open>Unique criteria\<close>

lemma resolved_map_filter:
  assumes "map (dml_find_field m) names = map Some fs"
  shows "List.map_filter (dml_find_field m) names = fs"
  using assms by (induction names arbitrary: fs) (auto simp: Cons_eq_map_conv)

text \<open>
  The schema calculator and the datamodel choose the same criterion for a model with at most one kind
  of id.
\<close>

lemma first_unique_criterion_eq:
  assumes "length (singular_id_fields m) \<le> 1" and "singular_id_fields m = [] \<or> mo_id_fields m = []"
    and "unique_criterias False m = Some cs"
  shows "first_unique_criterion m = (case cs of c # _ \<Rightarrow> Inr c | [] \<Rightarrow> Inl (NoUniqueCriterion (mo_name m)))"
proof -
  from assms(3) obtain ids combis where ids: "resolve_fields m (mo_id_fields m) = Some ids"
    and combis: "those (map (\<lambda>i. resolve_fields m (ix_fields i)) (filter (\<lambda>i. ix_tpe i = UniqueIndex) (mo_indices m))) = Some combis"
    and cs: "cs = (case singular_id_fields m of [] \<Rightarrow> [] | x # _ \<Rightarrow> [[x]]) @ (if ids = [] then [] else [ids]) @
      map (\<lambda>f. [f]) (filter (\<lambda>f. fl_is_unique f \<and> fl_arity f = DmlRequired) (mo_fields m)) @ combis"
    by (auto simp: unique_criterias_def Let_def Option.bind_eq_Some_conv)
  have compound: "List.map_filter (dml_find_field m) (mo_id_fields m) = ids"
    using ids by (intro resolved_map_filter) (simp add: resolve_fields_Some)
  show ?thesis
  proof (cases "singular_id_fields m")
    case (Cons x xs)
    with assms(1,2) have "xs = []" "mo_id_fields m = []" by auto
    then show ?thesis by (simp add: first_unique_criterion_def ref_id_fields_def Cons cs List.map_filter_def)
  next
    case Nil
    show ?thesis
      using combis
      by (auto simp: first_unique_criterion_def ref_id_fields_def compound Nil cs find_filter those_Some_iff ok_or_def
          split: list.splits)
  qed
qed

end
