(* ===== verification/Validation_Laws.thy ===== *)
theory Validation_Laws
  imports Datamodel_Standardiser Schema_Calculator_Laws
begin

text \<open>
  What acceptance by the two validations means, and that the relations of an accepted datamodel can be
  calculated: the panics of \<open>calculate_relations\<close> are the errors of the validation after
  standardisation.
\<close>

section \<open>Loops that collect errors\<close>

lemma for_fields_accepts:
  assumes "for_fields m body = Inr []" and "f \<in> set (mo_fields m)"
  shows "body f = Inr []"
proof -
  obtain ess where ess: "collect_res body (mo_fields m) = Inr ess" "concat ess = []"
    using assms(1) by (auto simp: for_fields_def map_res_eq_Inr)
  from list_all2_partner(1) [OF collect_res_InrD [OF ess(1)] assms(2)]
  show ?thesis using ess(2) by auto
qed

lemma run_steps_accepts:
  assumes "run_steps g xs [] = Inr []" and "x \<in> set xs" and "\<And>x es. x \<in> set xs \<Longrightarrow> g x es = Inr [] \<Longrightarrow> es = []"
  shows "g x [] = Inr []"
proof -
  have start: "es = []" if "run_steps g ys es = Inr []" and "set ys \<subseteq> set xs" for ys es
    using that
  proof (induction ys arbitrary: es)
    case (Cons y ys)
    then obtain es1 where "g y es = Inr es1" "run_steps g ys es1 = Inr []" by (auto simp: bind_res_eq_Inr)
    with Cons assms(3) [of y es] show ?case by simp
  qed simp
  from assms(2) obtain pre post where xs: "xs = pre @ x # post" by (meson split_list)
  with assms(1) obtain es1 es2 where "run_steps g pre [] = Inr es1" "g x es1 = Inr es2" "run_steps g post es2 = Inr []"
    by (auto simp: run_steps_append bind_res_eq_Inr)
  moreover from this have "es2 = []" using start [of post es2] xs by auto
  moreover from calculation have "es1 = []" using assms(3) [of x es1] xs by auto
  ultimately show ?thesis by simp
qed

lemma collect_accepts:
  assumes "map_res concat (collect_res body xs) = Inr []" and "x \<in> set xs"
  shows "body x = Inr []"
proof -
  obtain ess where ess: "collect_res body xs = Inr ess" "concat ess = []"
    using assms(1) by (auto simp: map_res_eq_Inr)
  from list_all2_partner(1) [OF collect_res_InrD [OF ess(1)] assms(2)]
  show ?thesis using ess(2) by auto
qed

section \<open>Before standardisation\<close>

lemma validate_accepts_model:
  assumes "validate src ast dm = Inr []" and "m \<in> set (dm_models dm)"
  obtains ast_model where "validate_model_has_id ast_model m = []" and "validate_base_fields_for_relation ast_model m = Inr []"
    and "validate_referenced_fields_for_relation src dm ast_model m = Inr []"
proof -
  obtain ess where ess: "collect_res (validate_model src ast dm) (dm_models dm) = Inr ess" "concat ess = []"
    using assms(1) by (auto simp: validate_def map_res_eq_Inr)
  from list_all2_partner(1) [OF collect_res_InrD [OF ess(1)] assms(2)] ess(2)
  have "validate_model src ast dm m = Inr []" by auto
  then show thesis using that by (auto simp: validate_model_def bind_res_eq_Inr)
qed

lemma base_fields_accepts:
  assumes "validate_base_fields_for_relation ast_model m = Inr []" and "f \<in> set (mo_fields m)" and "fl_type f = Relation rel"
  shows "list_all (known m) (ri_fields rel)"
  using for_fields_accepts [OF assms(1) [unfolded validate_base_fields_for_relation_def] assms(2)] assms(3)
  by (auto simp: bind_res_eq_Inr Let_def filter_empty_conv list_all_iff known_def split: if_splits)

lemma validate_references_grows:
  assumes "validate_references src dm ast_model m f es = Inr []"
  shows "es = []"
proof (rule ccontr)
  assume "es \<noteq> []"
  with assms show False
    by (cases "fl_type f") (auto simp: validate_references_def bind_res_eq_Inr Let_def)
qed

lemma referenced_fields_accepts:
  assumes "validate_referenced_fields_for_relation src dm ast_model m = Inr []" and "f \<in> set (mo_fields m)"
    and "fl_type f = Relation rel"
  obtains other where "dml_find_model dm (ri_to rel) = Some other" and "list_all (known other) (ri_to_fields rel)"
proof -
  have "validate_references src dm ast_model m f [] = Inr []"
    using run_steps_accepts [OF assms(1) [unfolded validate_referenced_fields_for_relation_def] assms(2)]
      validate_references_grows by blast
  then show thesis using that assms(3)
    by (auto simp: validate_references_def bind_res_eq_Inr Let_def ok_or_def filter_empty_conv list_all_iff known_def
        split: option.splits if_splits)
qed

lemma has_id_accepts:
  assumes "validate_model_has_id ast_model m = []"
  shows "length (singular_id_fields m) \<le> 1" and "singular_id_fields m = [] \<or> mo_id_fields m = []"
  using assms by (auto simp: validate_model_has_id_def Let_def split: if_splits)

definition relations_resolved :: "datamodel \<Rightarrow> bool" where
  "relations_resolved dm \<longleftrightarrow> (\<forall>m \<in> set (dm_models dm). \<forall>f \<in> set (mo_fields m). \<forall>rel.
     fl_type f = Relation rel \<longrightarrow> relation_resolved dm m (f, rel))"

definition ids_exclusive :: "dml_model \<Rightarrow> bool" where
  "ids_exclusive m \<longleftrightarrow> singular_id_fields m = [] \<or> mo_id_fields m = []"

lemma validate_accepts:
  assumes "validate src ast dm = Inr []"
  shows "relations_resolved dm" and "\<forall>m \<in> set (dm_models dm). ids_exclusive m"
proof -
  have "relation_resolved dm m (f, rel)"
    if m: "m \<in> set (dm_models dm)" and f: "f \<in> set (mo_fields m)" and rel: "fl_type f = Relation rel" for m f rel
  proof -
    obtain ast_model where "validate_base_fields_for_relation ast_model m = Inr []"
      "validate_referenced_fields_for_relation src dm ast_model m = Inr []"
      using validate_accepts_model [OF assms m] by blast
    moreover from this obtain other where "dml_find_model dm (ri_to rel) = Some other" "list_all (known other) (ri_to_fields rel)"
      using referenced_fields_accepts [OF _ f rel] by blast
    ultimately show ?thesis using base_fields_accepts [OF _ f rel] by (simp add: relation_resolved_def)
  qed
  then show "relations_resolved dm" by (simp add: relations_resolved_def)
  show "\<forall>m \<in> set (dm_models dm). ids_exclusive m"
    using validate_accepts_model [OF assms] has_id_accepts(2) unfolding ids_exclusive_def by blast
qed

section \<open>After standardisation\<close>

lemma one_to_one_grows:
  assumes "one_to_one_errors sp m f rel related_model opp back_rel es = []"
  shows "es = []" and "ri_to_fields rel = [] \<or> ri_to_fields back_rel = []"
  using assms by (auto simp: one_to_one_errors_def relation_argument_error_def Let_def split: if_splits)

lemma relation_argument_accepts:
  assumes "relation_argument_errors sp m f rel related_model opp back_rel es = []"
  shows "es = []"
    and "\<not> dml_is_list f \<Longrightarrow> \<not> dml_is_list opp \<Longrightarrow> ri_to_fields rel = [] \<or> ri_to_fields back_rel = []"
    and "dml_is_list f \<Longrightarrow> dml_is_list opp \<Longrightarrow> has_single_id_field related_model"
proof -
  have *: "es = [] \<and> (is_singular (fl_arity f) \<and> is_singular (fl_arity opp) \<longrightarrow> ri_to_fields rel = [] \<or> ri_to_fields back_rel = [])
    \<and> (fl_arity f = DmlList \<and> fl_arity opp = DmlList \<longrightarrow> has_single_id_field related_model)"
    using assms
    by (auto simp: relation_argument_errors_def relation_argument_error_def Let_def split: if_splits dest: one_to_one_grows)
  then show "es = []" and "\<not> dml_is_list f \<Longrightarrow> \<not> dml_is_list opp \<Longrightarrow> ri_to_fields rel = [] \<or> ri_to_fields back_rel = []"
    and "dml_is_list f \<Longrightarrow> dml_is_list opp \<Longrightarrow> has_single_id_field related_model"
    by (auto simp: dml_is_list_def is_singular_iff)
qed

lemma validate_relation_argumentE:
  assumes "validate_relation_argument dm am m f es = Inr es'" and "fl_type f = Relation rel"
  obtains other opp back_rel sp where "dml_find_model dm (ri_to rel) = Some other"
    and "related_field other (mo_name m) (ri_name rel) (fl_name f) = Some opp" and "fl_type opp = Relation back_rel"
    and "relation_argument_errors sp m f rel other opp back_rel es = es'"
proof -
  from assms obtain other opp where found: "dml_find_model dm (ri_to rel) = Some other"
      "related_field other (mo_name m) (ri_name rel) (fl_name f) = Some opp"
    by (auto simp: validate_relation_argument_def bind_res_eq_Inr ok_or_def Let_def split: option.splits)
  then obtain back_rel where "fl_type opp = Relation back_rel" by (auto elim: related_fieldD)
  with found assms that show thesis by (auto simp: validate_relation_argument_def Let_def)
qed

lemma post_validation_accepts:
  assumes "post_standardisation_validate ast dm = Inr []" and "m \<in> set (dm_models dm)" and "f \<in> set (mo_fields m)"
    and "fl_type f = Relation rel"
  shows "\<exists>other opp back_rel. dml_find_model dm (ri_to rel) = Some other \<and>
    related_field other (mo_name m) (ri_name rel) (fl_name f) = Some opp \<and> fl_type opp = Relation back_rel \<and>
    (\<not> dml_is_list f \<and> \<not> dml_is_list opp \<longrightarrow> ri_to_fields rel = [] \<or> ri_to_fields back_rel = []) \<and>
    (dml_is_list f \<and> dml_is_list opp \<longrightarrow> has_single_id_field other)"
proof -
  obtain am where "validate_relation_arguments_bla dm am m = Inr []"
    using collect_accepts [OF assms(1) [unfolded post_standardisation_validate_def] assms(2)]
    by (auto simp: bind_res_eq_Inr)
  then have "run_steps (validate_relation_argument dm am m) (mo_fields m) [] = Inr []"
    by (simp add: validate_relation_arguments_bla_def)
  moreover have "es = []" if "validate_relation_argument dm am m g es = Inr []" for g es
  proof (cases "is_relation (fl_type g)")
    case True
    with that show ?thesis by (auto simp: is_relation_iff elim!: validate_relation_argumentE dest: relation_argument_accepts(1))
  next
    case False
    with that show ?thesis by (cases "fl_type g") (simp_all add: validate_relation_argument_def)
  qed
  ultimately have accepted: "validate_relation_argument dm am m f [] = Inr []"
    using run_steps_accepts [OF _ assms(3)] by blast
  obtain other opp back_rel sp where found: "dml_find_model dm (ri_to rel) = Some other"
      "related_field other (mo_name m) (ri_name rel) (fl_name f) = Some opp" "fl_type opp = Relation back_rel"
    and errors: "relation_argument_errors sp m f rel other opp back_rel [] = []"
    using validate_relation_argumentE [OF accepted assms(4)] by blast
  show ?thesis using found relation_argument_accepts(2,3) [OF errors] by blast
qed

section \<open>Relations of an accepted datamodel\<close>

lemma relation_manifestation_total:
  assumes "\<not> dml_is_list field \<Longrightarrow> \<not> dml_is_list related \<Longrightarrow> to_fields = [] \<or> related_to_fields = []"
  shows "\<exists>r. relation_manifestation model related_model field related to_fields related_to_fields = Inr r"
proof -
  obtain a b fa fb ra rb where sides: "relation_sides model related_model field related to_fields related_to_fields = (a, b, fa, fb, ra, rb)"
    by (metis prod_cases6)
  then have "fa = field \<and> fb = related \<or> fa = related \<and> fb = field"
    by (auto simp: relation_sides_def split: if_splits)
  with assms show ?thesis by (auto simp: relation_manifestation_def sides Let_def)
qed

lemma relation_of_field_total:
  assumes "post_standardisation_validate ast dm = Inr []" and "(m, f, rel) \<in> set (relation_fields dm)"
  shows "\<exists>r. relation_of_field dm m f rel = Inr r"
proof -
  from assms(2) have f: "m \<in> set (dm_models dm)" "f \<in> set (mo_fields m)" "fl_type f = Relation rel"
    by (simp_all add: relation_fields_iff)
  obtain other opp back_rel where found: "dml_find_model dm (ri_to rel) = Some other"
      "related_field other (mo_name m) (ri_name rel) (fl_name f) = Some opp" "fl_type opp = Relation back_rel"
    and one: "\<not> dml_is_list f \<Longrightarrow> \<not> dml_is_list opp \<Longrightarrow> ri_to_fields rel = [] \<or> ri_to_fields back_rel = []"
    using post_validation_accepts [OF assms(1) f] by blast
  obtain r where "relation_manifestation m other f opp (ri_to_fields rel) (ri_to_fields back_rel) = Inr r"
    using relation_manifestation_total [OF one] by blast
  then show ?thesis
    by (simp add: relation_of_field_def found find_related_field_eq Let_def split: prod.split)
qed

lemma accepted_relations_calculated:
  assumes "post_standardisation_validate ast dm = Inr []"
  shows "\<exists>rs. calculate_relations dm = Inr rs"
proof -
  have "\<exists>r. (case x of (m, f, i) \<Rightarrow> relation_of_field dm m f i) = Inr r" if "x \<in> set (relation_fields dm)" for x
  proof -
    obtain m f i where "x = (m, f, i)" by (rule prod_cases3)
    then show ?thesis using that relation_of_field_total [OF assms] by simp
  qed
  then obtain rs where "collect_res (\<lambda>(m, f, i). relation_of_field dm m f i) (relation_fields dm) = Inr rs"
    using collect_res_total [of "relation_fields dm" "\<lambda>(m, f, i). relation_of_field dm m f i"] by blast
  then show ?thesis by (simp add: calculate_relations_def)
qed

text \<open>
  Two relation fields of one model that point to the same other model have different relation names.
\<close>

definition relation_names_apart :: "dml_model \<Rightarrow> bool" where
  "relation_names_apart m \<longleftrightarrow>
     list_all (\<lambda>(f, rel). list_all (\<lambda>(g, rel').
       ri_to rel = ri_to rel' \<and> ri_to rel \<noteq> mo_name m \<and> ri_name rel = ri_name rel' \<longrightarrow> f = g)
       (model_relation_fields m)) (model_relation_fields m)"

lemma model_relation_fields_iff: "(f, rel) \<in> set (model_relation_fields m) \<longleftrightarrow> f \<in> set (mo_fields m) \<and> fl_type f = Relation rel"
proof -
  have "(case fl_type g of Relation i \<Rightarrow> Some (g, i) | _ \<Rightarrow> None) = Some (f, rel) \<longleftrightarrow> g = f \<and> fl_type f = Relation rel" for g
    by (cases "fl_type g") auto
  then show ?thesis by (auto simp: model_relation_fields_def in_map_filter)
qed

lemma relation_names_apartD:
  assumes "relation_names_apart m" and "f \<in> set (mo_fields m)" and "fl_type f = Relation rel"
    and "g \<in> set (mo_fields m)" and "fl_type g = Relation rel'"
    and "ri_to rel = ri_to rel'" and "ri_to rel \<noteq> mo_name m" and "ri_name rel = ri_name rel'"
  shows "f = g"
proof -
  have "(f, rel) \<in> set (model_relation_fields m)" "(g, rel') \<in> set (model_relation_fields m)"
    using assms by (simp_all add: model_relation_fields_iff)
  from bspec [OF bspec [OF assms(1) [unfolded relation_names_apart_def list_all_iff] this(1), unfolded case_prod_conv] this(2)]
  show ?thesis using assms(6-) by simp
qed

lemma find_model_self:
  assumes "distinct (map mo_name (dm_models dm))" and "m \<in> set (dm_models dm)"
  shows "dml_find_model dm (mo_name m) = Some m"
  using find_key_distinct [OF assms] by (simp add: dml_find_model_def)

lemma post_validation_lists:
  assumes "post_standardisation_validate ast dm = Inr []" and "m \<in> set (dm_models dm)" and "f \<in> set (mo_fields m)"
    and "fl_type f = Relation rel" and "dml_find_model dm (ri_to rel) = Some other"
    and "related_field other (mo_name m) (ri_name rel) (fl_name f) = Some opp" and "dml_is_list f" and "dml_is_list opp"
  shows "has_single_id_field other"
  using post_validation_accepts [OF assms(1-4)] assms(5-) by auto

text \<open>Both models of a many-to-many relation between lists have an id field.\<close>

lemma many_to_many_ids:
  assumes post: "post_standardisation_validate ast dm = Inr []" and "distinct (map mo_name (dm_models dm))"
    and "relation_names_apart m" and m: "m \<in> set (dm_models dm)" and f: "f \<in> set (mo_fields m)" "fl_type f = Relation rel"
    and other: "dml_find_model dm (ri_to rel) = Some other"
    and opp: "related_field other (mo_name m) (ri_name rel) (fl_name f) = Some opp"
    and lists: "dml_is_list f" "dml_is_list opp"
  shows "has_single_id_field other" and "has_single_id_field m"
proof -
  show "has_single_id_field other"
    using post m f other opp lists by (rule post_validation_lists)
  show "has_single_id_field m"
  proof (cases "mo_name other = mo_name m")
    case True
    then have "ri_to rel = mo_name m" using dml_find_modelD [OF other] by metis
    with find_model_self [OF assms(2) m] other have "other = m" by (metis option.inject)
    with \<open>has_single_id_field other\<close> show ?thesis by simp
  next
    case False
    obtain back_rel where o: "opp \<in> set (mo_fields other)" "fl_type opp = Relation back_rel" "ri_to back_rel = mo_name m"
        "ri_name back_rel = ri_name rel"
      using related_fieldD [OF opp] by blast
    have om: "other \<in> set (dm_models dm)" and back_to: "dml_find_model dm (ri_to back_rel) = Some m"
      using dml_find_modelD [OF other] find_model_self [OF assms(2) m] by (simp_all add: o(3))
    obtain g where g: "related_field m (mo_name other) (ri_name back_rel) (fl_name opp) = Some g"
      using post_validation_accepts [OF post om o(1,2)] back_to by auto
    obtain rel' where "g \<in> set (mo_fields m)" "fl_type g = Relation rel'" "ri_to rel' = mo_name other" "ri_name rel' = ri_name back_rel"
      using related_fieldD [OF g] by blast
    moreover have "ri_to rel = mo_name other" using dml_find_modelD [OF other] by metis
    ultimately have "f = g"
      using relation_names_apartD [OF assms(3) f, of g rel'] False o(4) by metis
    with post_validation_lists [OF post om o(1,2) back_to g] lists show ?thesis by simp
  qed
qed

lemma accepted_join_models:
  assumes post: "post_standardisation_validate ast dm = Inr []" and d: "distinct (map mo_name (dm_models dm))"
    and "\<forall>m \<in> set (dm_models dm). ids_exclusive m \<and> relation_names_apart m"
  shows "join_models_identified dm"
proof -
  have single: "single_id m" if "m \<in> set (dm_models dm)" and "has_single_id_field m" for m
    using assms(3) that by (auto simp: single_id_def ids_exclusive_def has_single_id_field_def)
  have "single_id (tr_model_a r) \<and> single_id (tr_model_b r)"
    if rs: "calculate_relations dm = Inr rs" and r: "r \<in> set rs" and table: "tr_manifestation r = RelationTable" for rs r
  proof -
    obtain rs0 where rs0: "collect_res (\<lambda>(m, f, i). relation_of_field dm m f i) (relation_fields dm) = Inr rs0"
      and "rs = unique_by relation_name [] rs0" using rs by (auto simp: calculate_relations_def map_res_eq_Inr)
    then have "r \<in> set rs0" using r unique_by_set [of relation_name "[]" rs0] by auto
    then obtain x where "x \<in> set (relation_fields dm)" "(case x of (m, f, i) \<Rightarrow> relation_of_field dm m f i) = Inr r"
      using collect_res_set [OF rs0] by blast
    moreover obtain m f i where "x = (m, f, i)" by (rule prod_cases3)
    ultimately have "(m, f, i) \<in> set (relation_fields dm)" and of: "relation_of_field dm m f i = Inr r" by simp_all
    then have m: "m \<in> set (dm_models dm)" "f \<in> set (mo_fields m)" "fl_type f = Relation i"
      by (simp_all add: relation_fields_iff)
    obtain other opp where o: "dml_find_model dm (ri_to i) = Some other"
        "related_field other (mo_name m) (ri_name i) (fl_name f) = Some opp" "dml_is_list f" "dml_is_list opp"
      and ab: "tr_model_a r = m \<and> tr_model_b r = other \<or> tr_model_a r = other \<and> tr_model_b r = m"
      using relation_of_field_table [OF of table] by blast
    have "relation_names_apart m" using assms(3) m(1) by blast
    note ids = many_to_many_ids [OF post d this m o]
    have "single_id other" "single_id m" using single dml_find_modelD [OF o(1)] m(1) ids by simp_all
    with ab show ?thesis by auto
  qed
  then show ?thesis by (auto simp: join_models_identified_def list_all_iff split: sum.splits)
qed

end
