(* ===== verification/Standardiser_Laws.thy ===== *)
theory Standardiser_Laws
  imports Validation_Laws
begin

text \<open>
  What standardisation keeps of a lifted and validated datamodel: each of its three passes only adds
  fields to models and fills in the arguments of relations, so names that resolved still resolve, and
  the arguments it fills in resolve as well.
\<close>

section \<open>Lifted datamodels\<close>

text \<open>
  What lifting the AST guarantees (\<open>lift.rs\<close> and the directives \<open>@id\<close>, \<open>@unique\<close>, \<open>@@id\<close>, \<open>@@unique\<close>,
  \<open>@@index\<close>): names of models are distinct, a field of an enum type has an enum, ids, unique fields
  and the fields of indexes are not relations. The default of an enum field is one of its values,
  which lifting does not check.
\<close>

definition lifted_field :: "displays \<Rightarrow> datamodel \<Rightarrow> dml_field \<Rightarrow> bool" where
  "lifted_field d dm f \<longleftrightarrow> enum_resolved d dm f \<and> (fl_is_id f \<longrightarrow> has_column_type f) \<and>
     (fl_is_unique f \<longrightarrow> \<not> is_relation (fl_type f))"

definition scalar_name :: "dml_model \<Rightarrow> string \<Rightarrow> bool" where
  "scalar_name m n = (case dml_find_field m n of Some f \<Rightarrow> \<not> is_relation (fl_type f) | None \<Rightarrow> False)"

definition lifted_model :: "displays \<Rightarrow> datamodel \<Rightarrow> dml_model \<Rightarrow> bool" where
  "lifted_model d dm m \<longleftrightarrow> list_all (lifted_field d dm) (mo_fields m) \<and> list_all (scalar_name m) (mo_id_fields m) \<and>
     list_all (\<lambda>i. list_all (scalar_name m) (ix_fields i)) (mo_indices m)"

definition lifted_ok :: "displays \<Rightarrow> datamodel \<Rightarrow> bool" where
  "lifted_ok d dm \<longleftrightarrow> distinct (map mo_name (dm_models dm)) \<and> list_all (lifted_model d dm) (dm_models dm)"

definition sound :: "displays \<Rightarrow> datamodel \<Rightarrow> bool" where
  "sound d dm \<longleftrightarrow> lifted_ok d dm \<and> relations_resolved dm"

lemma sound_calculable:
  assumes "sound d dm"
  shows "calculable d dm"
proof -
  have *: "known m n" if "scalar_name m n" for m n
    using that by (auto simp: scalar_name_def known_def split: option.splits)
  show ?thesis
    using assms *
    by (auto simp: calculable_def sound_def lifted_ok_def lifted_model_def lifted_field_def relations_resolved_def
        list_all_iff model_relation_fields_iff)
qed

section \<open>Extensions\<close>

definition same_shape :: "dml_field \<Rightarrow> dml_field \<Rightarrow> bool" where
  "same_shape f f' \<longleftrightarrow> fl_name f' = fl_name f \<and> is_relation (fl_type f') = is_relation (fl_type f) \<and> fl_is_id f' = fl_is_id f"

definition model_extends :: "dml_model \<Rightarrow> dml_model \<Rightarrow> bool" where
  "model_extends m m' \<longleftrightarrow> mo_name m' = mo_name m \<and> mo_indices m' = mo_indices m \<and> mo_id_fields m' = mo_id_fields m \<and>
     (\<exists>fs extra. mo_fields m' = fs @ extra \<and> list_all2 same_shape (mo_fields m) fs \<and> list_all (\<lambda>f. \<not> fl_is_id f) extra)"

definition extends :: "datamodel \<Rightarrow> datamodel \<Rightarrow> bool" where
  "extends dm dm' \<longleftrightarrow> dm_enums dm' = dm_enums dm \<and> list_all2 model_extends (dm_models dm) (dm_models dm')"

lemma same_shape_refl [simp]: "same_shape f f"
  by (simp add: same_shape_def)

lemma same_shape_list_refl [simp]: "list_all2 same_shape fs fs"
  by (simp add: list_all2_refl)

lemma same_shape_trans: "same_shape f g \<Longrightarrow> same_shape g h \<Longrightarrow> same_shape f h"
  by (simp add: same_shape_def)

lemma model_extendsI:
  assumes "mo_name m' = mo_name m" and "mo_indices m' = mo_indices m" and "mo_id_fields m' = mo_id_fields m"
    and "mo_fields m' = fs @ extra" and "list_all2 same_shape (mo_fields m) fs" and "list_all (\<lambda>f. \<not> fl_is_id f) extra"
  shows "model_extends m m'"
  using assms by (auto simp: model_extends_def)

lemma model_extends_refl [simp]: "model_extends m m"
  by (rule model_extendsI [of m m "mo_fields m" "[]"]) simp_all

lemma model_extends_trans:
  assumes "model_extends a b" and "model_extends b c"
  shows "model_extends a c"
proof -
  obtain fs ex gs ey where *: "mo_fields b = fs @ ex" "list_all2 same_shape (mo_fields a) fs" "list_all (\<lambda>f. \<not> fl_is_id f) ex"
      "mo_fields c = gs @ ey" "list_all2 same_shape (mo_fields b) gs" "list_all (\<lambda>f. \<not> fl_is_id f) ey"
    using assms by (auto simp: model_extends_def)
  obtain g1 g2 where g: "gs = g1 @ g2" "list_all2 same_shape fs g1" "list_all2 same_shape ex g2"
    using *(1,5) by (auto simp: list_all2_append1)
  have "list_all (\<lambda>f. \<not> fl_is_id f) g2"
    using list_all2_partner(2) [OF g(3)] *(3) by (fastforce simp: list_all_iff same_shape_def)
  moreover have "list_all2 same_shape (mo_fields a) g1"
    using list_all2_trans [OF same_shape_trans *(2) g(2)] .
  moreover have "mo_fields c = g1 @ g2 @ ey" using *(4) g(1) by simp
  ultimately show ?thesis
    using assms *(6) by (intro model_extendsI [of c a g1 "g2 @ ey"]) (simp_all add: model_extends_def)
qed

lemma extends_refl [simp]: "extends dm dm"
  by (simp add: extends_def list_all2_refl)

lemma extends_trans: "extends a b \<Longrightarrow> extends b c \<Longrightarrow> extends a c"
  unfolding extends_def using list_all2_trans [of model_extends model_extends model_extends] model_extends_trans by metis

lemma find_extended:
  assumes "list_all2 same_shape fs gs" and "find (\<lambda>f. fl_name f = n) fs = Some f"
  shows "\<exists>f'. find (\<lambda>f. fl_name f = n) (gs @ extra) = Some f' \<and> same_shape f f'"
  using assms by (induction rule: list_all2_induct) (auto simp: same_shape_def split: if_splits)

lemma model_extends_find:
  assumes "model_extends m m'" and "dml_find_field m n = Some f"
  shows "\<exists>f'. dml_find_field m' n = Some f' \<and> same_shape f f'"
  using assms find_extended by (fastforce simp: model_extends_def dml_find_field_def)

lemma model_extends_known: "model_extends m m' \<Longrightarrow> known m n \<Longrightarrow> known m' n"
  using model_extends_find by (fastforce simp: known_def)

lemma model_extends_scalar: "model_extends m m' \<Longrightarrow> scalar_name m n \<Longrightarrow> scalar_name m' n"
  using model_extends_find by (fastforce simp: scalar_name_def same_shape_def split: option.splits)

lemma model_extends_ids:
  assumes "model_extends m m'" and "ids_exclusive m"
  shows "ids_exclusive m'"
proof -
  have "singular_id_fields m' = []" if "singular_id_fields m = []"
  proof -
    obtain fs ex where *: "mo_fields m' = fs @ ex" "list_all2 same_shape (mo_fields m) fs" "list_all (\<lambda>f. \<not> fl_is_id f) ex"
      using assms(1) by (auto simp: model_extends_def)
    have "\<not> fl_is_id f" if "f \<in> set fs" for f
      using list_all2_partner(2) [OF *(2) that] \<open>singular_id_fields m = []\<close>
      by (auto simp: singular_id_fields_def filter_empty_conv same_shape_def)
    then show ?thesis using *(1,3) by (auto simp: singular_id_fields_def filter_empty_conv list_all_iff)
  qed
  then show ?thesis using assms by (auto simp: ids_exclusive_def model_extends_def)
qed

lemma extends_names:
  assumes "extends dm dm'"
  shows "map mo_name (dm_models dm') = map mo_name (dm_models dm)"
  by (rule list_all2_map_eq [of model_extends]) (use assms in \<open>auto simp: extends_def model_extends_def\<close>)

lemma extends_find_model:
  assumes "extends dm dm'" and "dml_find_model dm n = Some m"
  shows "\<exists>m'. dml_find_model dm' n = Some m' \<and> model_extends m m'"
proof -
  have "list_all2 model_extends ms ms' \<Longrightarrow> find (\<lambda>m. mo_name m = n) ms = Some m \<Longrightarrow>
      \<exists>m'. find (\<lambda>m. mo_name m = n) ms' = Some m' \<and> model_extends m m'" for ms ms'
    by (induction rule: list_all2_induct) (auto simp: model_extends_def split: if_splits)
  from this [of "dm_models dm" "dm_models dm'"] show ?thesis using assms by (simp add: extends_def dml_find_model_def)
qed

lemma extends_relation_resolved:
  assumes "extends dm dm'" and "model_extends m m'" and "relation_resolved dm m (f, rel)"
    and "ri_to rel' = ri_to rel" and "ri_fields rel' = ri_fields rel" and "ri_to_fields rel' = ri_to_fields rel"
  shows "relation_resolved dm' m' (f', rel')"
proof -
  obtain other where other: "dml_find_model dm (ri_to rel) = Some other" "list_all (known other) (ri_to_fields rel)"
    "list_all (known m) (ri_fields rel)"
    using assms(3) by (auto simp: relation_resolved_def split: option.splits)
  obtain other' where "dml_find_model dm' (ri_to rel) = Some other'" "model_extends other other'"
    using extends_find_model [OF assms(1) other(1)] by blast
  then show ?thesis using other(2,3) model_extends_known assms(2,4-)
    by (auto simp: relation_resolved_def list_all_iff)
qed

lemma enum_resolved_enums:
  "dm_enums dm' = dm_enums dm \<Longrightarrow> enum_resolved d dm' f = enum_resolved d dm f"
  by (simp add: enum_resolved_def dml_find_enum_def cong: field_type.case_cong)

lemma sound_extends:
  assumes "sound d dm" and "extends dm dm'"
    and "\<And>m f. m \<in> set (dm_models dm') \<Longrightarrow> f \<in> set (mo_fields m) \<Longrightarrow> lifted_field d dm f"
    and "\<And>m f rel. m \<in> set (dm_models dm') \<Longrightarrow> f \<in> set (mo_fields m) \<Longrightarrow> fl_type f = Relation rel \<Longrightarrow> relation_resolved dm' m (f, rel)"
  shows "sound d dm'"
proof -
  have enums: "dm_enums dm' = dm_enums dm" using assms(2) by (simp add: extends_def)
  have "lifted_model d dm' m'" if m': "m' \<in> set (dm_models dm')" for m'
  proof -
    obtain m where m: "m \<in> set (dm_models dm)" "model_extends m m'"
      using list_all2_partner(2) [of model_extends "dm_models dm" "dm_models dm'" m'] assms(2) m' by (auto simp: extends_def)
    have "lifted_model d dm m" using assms(1) m(1) by (auto simp: sound_def lifted_ok_def list_all_iff)
    moreover have "mo_id_fields m' = mo_id_fields m" "mo_indices m' = mo_indices m" using m(2) by (simp_all add: model_extends_def)
    ultimately show ?thesis
      using assms(3) [OF m'] model_extends_scalar [OF m(2)]
      by (auto simp: lifted_model_def list_all_iff lifted_field_def enum_resolved_enums [OF enums])
  qed
  then show ?thesis
    using assms(1,4) extends_names [OF assms(2)] by (auto simp: sound_def lifted_ok_def list_all_iff relations_resolved_def)
qed

section \<open>Replacing one model\<close>

lemma find_model_mutE:
  assumes "dml_find_model_mut n h dm = Inr dm'"
  obtains pre m m' post where "dm_models dm = pre @ m # post" and "dm_models dm' = pre @ m' # post"
    and "dm_enums dm' = dm_enums dm" and "mo_name m = n" and "h m = Inr m'" and "dml_find_model dm n = Some m"
proof -
  from assms obtain ms where ms: "modify_first state_error (\<lambda>m. mo_name m = n) h (dm_models dm) = Inr ms"
    and dm': "dm' = dm\<lparr>dm_models := ms\<rparr>" by (auto simp: dml_find_model_mut_def map_res_eq_Inr)
  from ms obtain pre m m' post where *: "dm_models dm = pre @ m # post" "ms = pre @ m' # post" "mo_name m = n" "h m = Inr m'"
      "\<And>a. a \<in> set pre \<Longrightarrow> mo_name a \<noteq> n"
    by (rule modify_first_Inr) blast
  moreover have "find (\<lambda>m. mo_name m = n) (pre @ m # post) = Some m"
    using *(5,3) by (induction pre) auto
  then have "dml_find_model dm n = Some m" using *(1) by (simp add: dml_find_model_def)
  ultimately show thesis using that by (simp add: dm')
qed

lemma sound_replace:
  assumes "sound d dm" and "dm_models dm = pre @ m # post" and "dm_models dm' = pre @ m' # post"
    and "dm_enums dm' = dm_enums dm" and "model_extends m m'"
    and "\<And>f. f \<in> set (mo_fields m') \<Longrightarrow> lifted_field d dm f"
    and "\<And>f rel. extends dm dm' \<Longrightarrow> f \<in> set (mo_fields m') \<Longrightarrow> fl_type f = Relation rel \<Longrightarrow> relation_resolved dm' m' (f, rel)"
  shows "sound d dm'" and "extends dm dm'"
proof -
  show ext: "extends dm dm'"
    using assms(2-5) by (auto simp: extends_def list_all2_refl intro!: list_all2_appendI)
  show "sound d dm'"
  proof (rule sound_extends [OF assms(1) ext])
    fix n f assume "n \<in> set (dm_models dm')" and f: "f \<in> set (mo_fields n)"
    then consider "n = m'" | "n \<in> set (dm_models dm)" using assms(2,3) by auto
    then show "lifted_field d dm f"
      using f assms(1,6) by cases (auto simp: sound_def lifted_ok_def lifted_model_def list_all_iff)
  next
    fix n f rel assume "n \<in> set (dm_models dm')" and f: "f \<in> set (mo_fields n)" "fl_type f = Relation rel"
    then consider "n = m'" | "n \<in> set (dm_models dm)" using assms(2,3) by auto
    then show "relation_resolved dm' n (f, rel)"
    proof cases
      case 2
      then have "relation_resolved dm n (f, rel)" using assms(1) f by (auto simp: sound_def relations_resolved_def)
      then show ?thesis by (rule extends_relation_resolved [OF ext model_extends_refl]) simp_all
    qed (use assms(7) [OF ext] f in simp)
  qed
qed

section \<open>Naming relations\<close>

lemma map_relation_shape:
  "fl_name (map_relation h f) = fl_name f" "fl_is_id (map_relation h f) = fl_is_id f"
  "is_relation (fl_type (map_relation h f)) = is_relation (fl_type f)"
  by (simp_all add: map_relation_def split: field_type.splits)

lemma lifted_relation:
  assumes "lifted_field d dm f" and "fl_type f = Relation rel" and "fl_type f' = Relation rel'"
    and "fl_is_id f' = fl_is_id f" and "fl_is_unique f' = fl_is_unique f"
  shows "lifted_field d dm f'"
  using assms by (simp add: lifted_field_def enum_resolved_def has_column_type.simps)

lemma name_unnamed_relation_sound:
  assumes "sound d dm" and "name_unnamed_relation u dm = Inr dm'"
  shows "sound d dm'" and "extends dm dm'"
proof -
  obtain mn fn info where u: "u = (mn, fn, info)" by (rule prod_cases3)
  from assms(2) obtain pre m m' post where *: "dm_models dm = pre @ m # post" "dm_models dm' = pre @ m' # post"
      "dm_enums dm' = dm_enums dm"
    and m': "map_res (\<lambda>fs. m\<lparr>mo_fields := fs\<rparr>) (modify_first state_error (\<lambda>f. fl_name f = fn)
       (\<lambda>f. if is_relation (fl_type f)
            then Inr (map_relation (\<lambda>rel. rel\<lparr>ri_name := default_relation_name mn (ri_to info)\<rparr>) f)
            else Inl ''Tried to name a non-existing relation.'') (mo_fields m)) = Inr m'"
    by (auto simp: name_unnamed_relation_def u elim: find_model_mutE)
  from m' obtain fs where fs: "modify_first state_error (\<lambda>f. fl_name f = fn)
       (\<lambda>f. if is_relation (fl_type f)
            then Inr (map_relation (\<lambda>rel. rel\<lparr>ri_name := default_relation_name mn (ri_to info)\<rparr>) f)
            else Inl ''Tried to name a non-existing relation.'') (mo_fields m) = Inr fs"
    and m'_def: "m' = m\<lparr>mo_fields := fs\<rparr>" by (auto simp: map_res_eq_Inr)
  from fs obtain pf f f' qf where f: "mo_fields m = pf @ f # qf" "fs = pf @ f' # qf" "is_relation (fl_type f)"
      "f' = map_relation (\<lambda>rel. rel\<lparr>ri_name := default_relation_name mn (ri_to info)\<rparr>) f"
    by (rule modify_first_Inr) (auto split: if_splits)
  obtain rel where rel: "fl_type f = Relation rel" using f(3) by (auto simp: is_relation_iff)
  let ?rel = "rel\<lparr>ri_name := default_relation_name mn (ri_to info)\<rparr>"
  have f'_type: "fl_type f' = Relation ?rel" "fl_is_id f' = fl_is_id f" "fl_is_unique f' = fl_is_unique f"
    by (simp_all add: f(4) map_relation_def rel)
  have shape: "same_shape f f'" by (simp add: same_shape_def f(4) map_relation_shape)
  have m: "m \<in> set (dm_models dm)" by (simp add: *(1))
  have lifted: "lifted_field d dm g" if "g \<in> set (mo_fields m)" for g
    using assms(1) m that by (auto simp: sound_def lifted_ok_def lifted_model_def list_all_iff)
  have resolved: "relation_resolved dm m (g, r)" if "g \<in> set (mo_fields m)" "fl_type g = Relation r" for g r
    using assms(1) m that by (auto simp: sound_def relations_resolved_def)
  have me: "model_extends m m'"
    by (rule model_extendsI [of m' m fs "[]"]) (use shape f(1,2) in \<open>auto simp: m'_def list_all2_refl intro!: list_all2_appendI\<close>)
  have "lifted_field d dm g" if "g \<in> set (mo_fields m')" for g
    using that lifted f(1,2) lifted_relation [OF lifted rel f'_type] by (auto simp: m'_def)
  moreover have "relation_resolved dm' m' (g, r)" if "extends dm dm'" "g \<in> set (mo_fields m')" "fl_type g = Relation r" for g r
  proof (cases "g = f'")
    case True
    then have "r = ?rel" using that(3) f'_type(1) by simp
    then show ?thesis
      using extends_relation_resolved [OF that(1) me resolved [OF _ rel], of ?rel] f(1) by simp
  next
    case False
    then show ?thesis using extends_relation_resolved [OF that(1) me resolved [OF _ that(3)]] that(2) f(1,2) by (auto simp: m'_def)
  qed
  ultimately show "sound d dm'" and "extends dm dm'" using sound_replace [OF assms(1) *(1-3) me] by blast+
qed

lemma run_sound:
  assumes "\<And>x y y'. x \<in> set xs \<Longrightarrow> sound d y \<Longrightarrow> extends dm y \<Longrightarrow> step x y = Inr y' \<Longrightarrow> sound d y' \<and> extends y y'"
    and "run_steps step xs dm = Inr dm'" and "sound d dm"
  shows "sound d dm'" and "extends dm dm'"
proof -
  have "sound d dm' \<and> extends dm dm'"
    by (rule run_steps_invariant [where I = "\<lambda>y. sound d y \<and> extends dm y", OF _ _ assms(2)])
      (use assms(1,3) extends_trans extends_refl in blast)+
  then show "sound d dm'" and "extends dm dm'" by simp_all
qed

lemma name_unnamed_relations_sound:
  assumes "sound d dm" and "name_unnamed_relations dm = Inr dm'"
  shows "sound d dm'" and "extends dm dm'"
  using run_sound [OF _ assms(2) [unfolded name_unnamed_relations_def] assms(1)] name_unnamed_relation_sound by blast+

section \<open>Unique criteria of a lifted model\<close>

lemma known_field: "f \<in> set (mo_fields m) \<Longrightarrow> known m (fl_name f)"
  by (auto simp: known_def dml_find_field_def find_None_iff)

lemma resolved_scalar:
  assumes "resolve_fields m names = Some fs" and "list_all (scalar_name m) names" and "f \<in> set fs"
  shows "f \<in> set (mo_fields m)" and "\<not> is_relation (fl_type f)"
proof -
  have "map (dml_find_field m) names = map Some fs" using assms(1) by (simp add: resolve_fields_Some)
  then have "Some f \<in> dml_find_field m ` set names" using assms(3) by (metis image_eqI list.set_map)
  then obtain n where "n \<in> set names" "dml_find_field m n = Some f" by auto
  with assms(2) show "f \<in> set (mo_fields m)" and "\<not> is_relation (fl_type f)"
    by (auto simp: list_all_iff scalar_name_def dest: dml_find_fieldD)
qed

lemma criteria_scalar:
  assumes "lifted_model d dm m" and "unique_criterias b m = Some cs" and "c \<in> set cs" and "f \<in> set c"
  shows "f \<in> set (mo_fields m) \<and> \<not> is_relation (fl_type f)"
proof -
  from assms(2) obtain ids combis where ids: "resolve_fields m (mo_id_fields m) = Some ids"
    and combis: "map (\<lambda>i. resolve_fields m (ix_fields i)) (filter (\<lambda>i. ix_tpe i = UniqueIndex) (mo_indices m)) = map Some combis"
    and cs: "cs = (case singular_id_fields m of [] \<Rightarrow> [] | x # _ \<Rightarrow> [[x]]) @ (if ids = [] then [] else [ids]) @
      map (\<lambda>f. [f]) (filter (\<lambda>f. fl_is_unique f \<and> (fl_arity f = DmlRequired \<or> b)) (mo_fields m)) @ combis"
    by (auto simp: unique_criterias_def Let_def Option.bind_eq_Some_conv those_Some_iff)
  have lifted: "lifted_field d dm g" if "g \<in> set (mo_fields m)" for g
    using assms(1) that by (simp add: lifted_model_def list_all_iff)
  have id_scalar: "\<not> is_relation (fl_type g)" if "g \<in> set (mo_fields m)" "fl_is_id g" for g
    using lifted [OF that(1)] that(2) by (auto simp: lifted_field_def has_column_type.simps is_relation_iff)
  consider "f \<in> set (singular_id_fields m)" | "f \<in> set ids"
    | "f \<in> set (mo_fields m)" "fl_is_unique f" | "c \<in> set combis"
    using assms(3,4) by (cases "singular_id_fields m") (auto simp: cs split: if_splits)
  then show ?thesis
  proof cases
    case 1
    then show ?thesis using id_scalar by (simp add: singular_id_fields_def)
  next
    case 2
    then show ?thesis using resolved_scalar [OF ids] assms(1) by (simp add: lifted_model_def)
  next
    case 3
    then show ?thesis using lifted by (simp add: lifted_field_def)
  next
    case 4
    then have "Some c \<in> set (map Some combis)" by simp
    then obtain i where "i \<in> set (mo_indices m)" "resolve_fields m (ix_fields i) = Some c"
      using combis [symmetric] by auto
    then show ?thesis using resolved_scalar [of m "ix_fields i" c f] assms(1,4) by (simp add: lifted_model_def list_all_iff)
  qed
qed

lemma loose_unique_criteria_scalar:
  assumes "lifted_model d dm m" and "loose_unique_criteria m = Inr c" and "f \<in> set c"
  shows "f \<in> set (mo_fields m) \<and> \<not> is_relation (fl_type f)"
proof -
  from assms(2) obtain cs where "unique_criterias True m = Some cs" "c \<in> set cs"
    by (auto simp: loose_unique_criteria_def bind_res_eq_Inr ok_or_def split: option.splits list.splits)
  then show ?thesis using criteria_scalar [OF assms(1)] assms(3) by blast
qed

text \<open>Fields the standardiser makes up.\<close>

definition plain_field :: "displays \<Rightarrow> datamodel \<Rightarrow> dml_field \<Rightarrow> bool" where
  "plain_field d dm f \<longleftrightarrow> lifted_field d dm f \<and> \<not> fl_is_id f \<and> \<not> is_relation (fl_type f)"

lemma underlying_plain:
  assumes "lifted_model d dm m" and "loose_unique_criteria m = Inr c"
    and "f \<in> set (underlying_fields_for_unique_criteria c n)"
  shows "plain_field d dm f"
proof -
  from assms(3) obtain g where g: "g \<in> set c"
    and f: "f = (field_new (camel_case n @ pascal_case (fl_name g)) (fl_type g))\<lparr>fl_arity := DmlOptional\<rparr>"
    by (auto simp: underlying_fields_for_unique_criteria_def)
  have "g \<in> set (mo_fields m)" "\<not> is_relation (fl_type g)" using loose_unique_criteria_scalar [OF assms(1,2) g] by simp_all
  moreover from this have "enum_resolved d dm g" using assms(1) by (simp add: lifted_model_def list_all_iff lifted_field_def)
  ultimately show ?thesis
    by (auto simp: plain_field_def f lifted_field_def field_new_def enum_resolved_def split: field_type.splits option.splits)
qed

lemma generated_relation_lifted:
  "lifted_field d dm ((field_new_generated n (Relation rel))\<lparr>fl_arity := a\<rparr>)"
  "\<not> fl_is_id ((field_new_generated n (Relation rel))\<lparr>fl_arity := a\<rparr>)"
  by (simp_all add: lifted_field_def field_new_generated_def field_new_def enum_resolved_def)

section \<open>Missing back relations\<close>

definition missing_ok :: "displays \<Rightarrow> datamodel \<Rightarrow> add_missing_back_relation_field \<Rightarrow> bool" where
  "missing_ok d dm mb \<longleftrightarrow> (\<exists>m other rel. m \<in> set (dm_models dm) \<and> dml_find_model dm (mb_model mb) = Some other \<and>
     fl_type (mb_field mb) = Relation rel \<and> lifted_field d dm (mb_field mb) \<and> \<not> fl_is_id (mb_field mb) \<and>
     ri_to rel = mo_name m \<and> list_all (known m) (ri_to_fields rel) \<and>
     list_all (\<lambda>u. known other u \<or> u \<in> fl_name ` set (mb_underlying_fields mb)) (ri_fields rel) \<and>
     list_all (plain_field d dm) (mb_underlying_fields mb))"

lemma plain_field_rename: "plain_field d dm (f\<lparr>fl_name := n\<rparr>) = plain_field d dm f"
  by (simp add: plain_field_def lifted_field_def enum_resolved_def has_column_type.simps
      cong: field_type.case_cong option.case_cong dml_default_value.case_cong)

lemma avoid_conflict_plain: "plain_field d dm f \<Longrightarrow> plain_field d dm (avoid_conflict other rel f)"
  by (simp add: avoid_conflict_def plain_field_rename split: option.split)

lemma underlying_field_added:
  assumes "underlying_field_to_add ast m field other f = Inr (fs, [])"
  shows "known other (fl_name f) \<or> f \<in> set fs" and "set fs \<subseteq> {f}"
  using assms by (auto simp: underlying_field_to_add_def known_def bind_res_eq_Inr split: option.splits if_splits)

text \<open>Without an error every underlying field is on the related model or among those to add.\<close>

lemma underlying_fields_added:
  assumes adds: "collect_res (underlying_field_to_add ast m field other) us = Inr adds" and errors: "concat (map snd adds) = []"
  shows "u \<in> set us \<Longrightarrow> known other (fl_name u) \<or> u \<in> set (concat (map fst adds))"
    and "u \<in> set (concat (map fst adds)) \<Longrightarrow> u \<in> set us"
proof -
  have pairs: "list_all2 (\<lambda>u a. underlying_field_to_add ast m field other u = Inr a) us adds"
    by (rule collect_res_InrD [OF adds])
  have no_error: "a = (fst a, [])" if "a \<in> set adds" for a
    using errors that by (cases a) auto
  show "known other (fl_name u) \<or> u \<in> set (concat (map fst adds))" if u: "u \<in> set us"
  proof -
    obtain a where "a \<in> set adds" "underlying_field_to_add ast m field other u = Inr a"
      using list_all2_partner(1) [OF pairs u] by blast
    then have "underlying_field_to_add ast m field other u = Inr (fst a, [])" using no_error by metis
    from underlying_field_added(1) [OF this] \<open>a \<in> set adds\<close> show ?thesis by auto
  qed
  show "u \<in> set us" if u: "u \<in> set (concat (map fst adds))"
  proof -
    obtain a where a: "a \<in> set adds" "u \<in> set (fst a)" using u by auto
    then obtain v where "v \<in> set us" "underlying_field_to_add ast m field other v = Inr a"
      using list_all2_partner(2) [OF pairs a(1)] by blast
    then have "underlying_field_to_add ast m field other v = Inr (fst a, [])" using no_error a(1) by metis
    from underlying_field_added(2) [OF this] a(2) \<open>v \<in> set us\<close> show ?thesis by auto
  qed
qed

lemma missing_back_relation_field_ok:
  assumes sound: "sound d dm" and m: "m \<in> set (dm_models dm)"
    and missing: "missing_back_relation_field ast dm m field = Inr (mbs, [])" and mb: "mb \<in> set mbs"
  shows "missing_ok d dm mb"
proof -
  have lm: "lifted_model d dm m" using sound m by (simp add: sound_def lifted_ok_def list_all_iff)
  obtain rel where rel: "fl_type field = Relation rel"
    using missing mb by (cases "fl_type field") (auto simp: missing_back_relation_field_def)
  obtain other where other: "dml_find_model dm (ri_to rel) = Some other"
    using missing by (auto simp: missing_back_relation_field_def rel bind_res_eq_Inr ok_or_def split: option.splits)
  show ?thesis
  proof (cases "is_singular (fl_arity field)")
    case True
    then have "mb_model mb = ri_to rel" "fl_type (mb_field mb) = Relation (back_relation m rel [] [])" "mb_underlying_fields mb = []"
        "mb_field mb = (field_new_generated (mo_name m) (Relation (back_relation m rel [] [])))\<lparr>fl_arity := DmlList\<rparr>"
      using missing mb by (auto simp: missing_back_relation_field_def rel other field_new_generated_def field_new_def split: if_splits)
    then show ?thesis using m other generated_relation_lifted by (auto simp: missing_ok_def back_relation_def)
  next
    case False
    then obtain criteria adds where crit: "loose_unique_criteria m = Inr criteria"
      and adds: "collect_res (underlying_field_to_add ast m field other)
        (map (avoid_conflict other rel) (underlying_fields_for_unique_criteria criteria (mo_name m))) = Inr adds"
      and errors: "concat (map snd adds) = []"
      and mb_def: "mb = \<lparr>mb_model = ri_to rel,
        mb_field = (field_new_generated (mo_name m) (Relation (back_relation m rel
          (map fl_name (map (avoid_conflict other rel) (underlying_fields_for_unique_criteria criteria (mo_name m))))
          (map fl_name criteria))))\<lparr>fl_arity := DmlOptional\<rparr>,
        mb_related_model = mo_name m, mb_related_field = fl_name field, mb_underlying_fields = concat (map fst adds)\<rparr>"
      using missing mb
      by (auto simp: missing_back_relation_field_def rel other bind_res_eq_Inr Let_def split: if_splits)
    let ?us = "map (avoid_conflict other rel) (underlying_fields_for_unique_criteria criteria (mo_name m))"
    have plain: "plain_field d dm u" if "u \<in> set ?us" for u
      using that underlying_plain [OF lm crit] avoid_conflict_plain by auto
    note added = underlying_fields_added [OF adds errors]
    have "plain_field d dm u" if "u \<in> set (concat (map fst adds))" for u using that added(2) plain by blast
    moreover have "list_all (known m) (map fl_name criteria)"
      using loose_unique_criteria_scalar [OF lm crit] known_field by (auto simp: list_all_iff)
    moreover have "list_all (\<lambda>n. known other n \<or> n \<in> fl_name ` set (concat (map fst adds))) (map fl_name ?us)"
      using added(1) by (simp only: list_all_iff set_map) blast
    ultimately show ?thesis
      unfolding missing_ok_def mb_def using m other generated_relation_lifted
      by (intro exI [of _ m] exI [of _ other]) (simp add: back_relation_def field_new_generated_def field_new_def list_all_iff)
  qed
qed

lemma find_missing_ok:
  assumes "sound d dm" and "m \<in> set (dm_models dm)" and "find_missing_back_relation_fields ast dm m = Inr (Inr mbs)"
    and "mb \<in> set mbs"
  shows "missing_ok d dm mb"
proof -
  obtain rs where rs: "collect_res (missing_back_relation_field ast dm m) (mo_fields m) = Inr rs"
    and none: "concat (map snd rs) = []" and mbs: "mbs = concat (map fst rs)"
    using assms(3) by (auto simp: find_missing_back_relation_fields_def map_res_eq_Inr Let_def split: if_splits)
  obtain r where r: "r \<in> set rs" "mb \<in> set (fst r)" using assms(4) by (auto simp: mbs)
  obtain field where "missing_back_relation_field ast dm m field = Inr r"
    using list_all2_partner(2) [OF collect_res_InrD [OF rs] r(1)] by blast
  moreover have "r = (fst r, [])" using none r(1) by (cases r) auto
  ultimately show ?thesis using missing_back_relation_field_ok [OF assms(1,2)] r(2) by metis
qed

lemma bind_outcome_ok:
  "bind_res r (\<lambda>x. case x of Inl e \<Rightarrow> Inr (Inl e) | Inr a \<Rightarrow> k a) = Inr (Inr b) \<longleftrightarrow> (\<exists>a. r = Inr (Inr a) \<and> k a = Inr (Inr b))"
proof (cases r)
  case (Inr x)
  then show ?thesis by (cases x) auto
qed simp

lemma Inr_eq_map_res: "Inr b = map_res f r \<longleftrightarrow> (\<exists>a. r = Inr a \<and> b = f a)"
  by (cases r) auto

lemma collect_outcomes_set:
  assumes "collect_outcomes g xs = Inr (Inr ys)" and "y \<in> set ys"
  obtains x zs where "x \<in> set xs" and "g x = Inr (Inr zs)" and "y \<in> set zs"
proof -
  have "\<exists>x zs. x \<in> set xs \<and> g x = Inr (Inr zs) \<and> y \<in> set zs"
    using assms
  proof (induction xs arbitrary: ys)
    case (Cons x xs)
    then obtain zs ws where "g x = Inr (Inr zs)" "collect_outcomes g xs = Inr (Inr ws)" "ys = zs @ ws"
      by (auto simp: bind_outcome_ok map_res_eq_Inr Inr_eq_map_res)
    with Cons.prems(2) Cons.IH [of ws] show ?case by auto
  qed simp
  then show thesis using that by blast
qed

lemma add_underlying_fields:
  "\<exists>extra. mo_fields (fold add_underlying_field us m) = mo_fields m @ extra \<and> set extra \<subseteq> set us"
  "mo_name (fold add_underlying_field us m) = mo_name m"
  "mo_indices (fold add_underlying_field us m) = mo_indices m"
  "mo_id_fields (fold add_underlying_field us m) = mo_id_fields m"
proof -
  show "\<exists>extra. mo_fields (fold add_underlying_field us m) = mo_fields m @ extra \<and> set extra \<subseteq> set us"
  proof (induction us arbitrary: m)
    case (Cons u us)
    obtain extra where "mo_fields (fold add_underlying_field us (add_underlying_field u m)) =
        mo_fields (add_underlying_field u m) @ extra" "set extra \<subseteq> set us" using Cons.IH by blast
    then have "mo_fields (fold add_underlying_field (u # us) m) = mo_fields (add_underlying_field u m) @ extra" by simp
    moreover have "\<exists>e. mo_fields (add_underlying_field u m) = mo_fields m @ e \<and> set e \<subseteq> {u}"
      by (auto simp: add_underlying_field_def)
    ultimately show ?case using \<open>set extra \<subseteq> set us\<close> by fastforce
  qed simp
qed (induction us arbitrary: m; simp add: add_underlying_field_def)+

lemma known_appended: "known m n \<Longrightarrow> mo_fields m' = mo_fields m @ extra \<Longrightarrow> known m' n"
  by (auto simp: known_def dml_find_field_def find_None_iff)

lemma add_underlying_known: "u \<in> set us \<Longrightarrow> known (fold add_underlying_field us m) (fl_name u)"
proof (induction us arbitrary: m)
  case (Cons v us)
  show ?case
  proof (cases "u \<in> set us")
    case False
    then have "known (add_underlying_field v m) (fl_name u)"
      using Cons.prems by (auto simp: add_underlying_field_def known_def dml_find_field_def find_None_iff)
    moreover obtain extra where "mo_fields (fold add_underlying_field us (add_underlying_field v m)) =
        mo_fields (add_underlying_field v m) @ extra"
      using add_underlying_fields(1) by blast
    ultimately have "known (fold add_underlying_field us (add_underlying_field v m)) (fl_name u)"
      by (rule known_appended)
    then show ?thesis by simp
  qed (use Cons.IH in simp)
qed simp

lemma lifted_field_extends: "extends dm dm' \<Longrightarrow> lifted_field d dm' f = lifted_field d dm f"
  using enum_resolved_enums [of dm' dm d f] by (simp add: lifted_field_def extends_def)

lemma added_relation_resolved:
  assumes "missing_ok d dm mb" and "fl_type (mb_field mb) = Relation r" and "extends dm y" and "extends y y'"
    and "distinct (map mo_name (dm_models y))" and n: "dml_find_model y (mb_model mb) = Some n" and me: "model_extends n n'"
    and under: "\<And>u. u \<in> set (mb_underlying_fields mb) \<Longrightarrow> known n' (fl_name u)"
  shows "relation_resolved y' n' (mb_field mb, r)"
proof -
  obtain m other where mb: "m \<in> set (dm_models dm)" "dml_find_model dm (mb_model mb) = Some other" "ri_to r = mo_name m"
      "list_all (known m) (ri_to_fields r)"
      "list_all (\<lambda>u. known other u \<or> u \<in> fl_name ` set (mb_underlying_fields mb)) (ri_fields r)"
    using assms(1,2) by (auto simp: missing_ok_def)
  have "distinct (map mo_name (dm_models dm))" using assms(5) extends_names [OF assms(3)] by simp
  then obtain m' where m': "dml_find_model y' (mo_name m) = Some m'" "model_extends m m'"
    using extends_find_model [OF extends_trans [OF assms(3,4)]] find_model_self mb(1) by blast
  obtain o' where o': "dml_find_model y (mb_model mb) = Some o'" "model_extends other o'"
    using extends_find_model [OF assms(3) mb(2)] by blast
  have "known n' u" if "known other u" for u
    using that n o' me model_extends_known by (metis option.inject)
  then show ?thesis
    using mb(3-5) m' under model_extends_known by (auto simp: relation_resolved_def list_all_iff)
qed

lemma add_back_relation_field_sound:
  assumes "sound d y" and "extends dm y" and "missing_ok d dm mb"
    and "add_back_relation_field ast mb (y, es) = Inr (y', es')"
  shows "sound d y' \<and> extends y y'"
proof (cases "y' = y")
  case True
  then show ?thesis using assms(1) by simp
next
  case False
  then have step: "dml_find_model_mut (mb_model mb) (\<lambda>m.
      Inr (fold add_underlying_field (mb_underlying_fields mb) (m\<lparr>mo_fields := mo_fields m @ [mb_field mb]\<rparr>))) y = Inr y'"
    using assms(4) by (auto simp: add_back_relation_field_def bind_res_eq_Inr map_res_eq_Inr Let_def split: if_splits)
  obtain pre n n' post where *: "dm_models y = pre @ n # post" "dm_models y' = pre @ n' # post" "dm_enums y' = dm_enums y"
    and n': "n' = fold add_underlying_field (mb_underlying_fields mb) (n\<lparr>mo_fields := mo_fields n @ [mb_field mb]\<rparr>)"
    and n: "dml_find_model y (mb_model mb) = Some n"
    using find_model_mutE [OF step] by (metis sum.inject(2))
  obtain m other rel where mb: "m \<in> set (dm_models dm)" "dml_find_model dm (mb_model mb) = Some other"
      "fl_type (mb_field mb) = Relation rel" "lifted_field d dm (mb_field mb)" "\<not> fl_is_id (mb_field mb)"
      "ri_to rel = mo_name m" "list_all (known m) (ri_to_fields rel)"
      "list_all (\<lambda>u. known other u \<or> u \<in> fl_name ` set (mb_underlying_fields mb)) (ri_fields rel)"
      "list_all (plain_field d dm) (mb_underlying_fields mb)"
    using assms(3) by (auto simp: missing_ok_def)
  obtain extra where extra: "mo_fields n' = mo_fields n @ [mb_field mb] @ extra" "set extra \<subseteq> set (mb_underlying_fields mb)"
    using add_underlying_fields(1) [of "mb_underlying_fields mb" "n\<lparr>mo_fields := mo_fields n @ [mb_field mb]\<rparr>"] by (auto simp: n')
  have plain: "plain_field d dm u" if "u \<in> set extra" for u using that extra(2) mb(9) by (auto simp: list_all_iff)
  have me: "model_extends n n'"
    by (rule model_extendsI [of n' n "mo_fields n" "mb_field mb # extra"])
      (use extra(1) mb(5) plain in \<open>auto simp: n' add_underlying_fields(2-) list_all_iff plain_field_def\<close>)
  have n_in: "n \<in> set (dm_models y)" by (simp add: *(1))
  have old: "lifted_field d y g" if "g \<in> set (mo_fields n)" for g
    using assms(1) n_in that by (auto simp: sound_def lifted_ok_def lifted_model_def list_all_iff)
  have "lifted_field d y g" if "g \<in> set (mo_fields n')" for g
    using that old mb(4) plain unfolding lifted_field_extends [OF assms(2)]
    by (auto simp: extra(1) plain_field_def)
  moreover have "relation_resolved y' n' (g, r)"
    if ext: "extends y y'" and g: "g \<in> set (mo_fields n')" and r: "fl_type g = Relation r" for g r
  proof -
    have "g \<notin> set extra" using plain [of g] r by (auto simp: plain_field_def)
    then consider "g \<in> set (mo_fields n)" | "g = mb_field mb" using g by (auto simp: extra(1))
    then show ?thesis
    proof cases
      case 1
      then have "relation_resolved y n (g, r)" using assms(1) n_in r by (auto simp: sound_def relations_resolved_def)
      then show ?thesis by (rule extends_relation_resolved [OF ext me]) simp_all
    next
      case 2
      then have "fl_type (mb_field mb) = Relation r" using r by simp
      moreover have "known n' (fl_name u)" if "u \<in> set (mb_underlying_fields mb)" for u
        using that add_underlying_known by (simp add: n')
      ultimately show ?thesis
        using added_relation_resolved [OF assms(3) _ assms(2) ext _ n me] assms(1) 2 by (simp add: sound_def lifted_ok_def)
    qed
  qed
  ultimately show ?thesis using sound_replace [OF assms(1) * me] by blast
qed

lemma add_missing_back_relations_sound:
  assumes "sound d dm" and "add_missing_back_relations ast dm = Inr (Inr dm')"
  shows "sound d dm'" and "extends dm dm'"
proof -
  obtain mbs where mbs: "collect_outcomes (find_missing_back_relation_fields ast dm) (dm_models dm) = Inr (Inr mbs)"
    and run: "run_steps (add_back_relation_field ast) mbs (dm, []) = Inr (dm', [])"
    using assms(2) by (auto simp: add_missing_back_relations_def bind_outcome_ok map_res_eq_Inr split: if_splits)
  have ok: "missing_ok d dm mb" if mb: "mb \<in> set mbs" for mb
  proof -
    obtain m zs where "m \<in> set (dm_models dm)" "find_missing_back_relation_fields ast dm m = Inr (Inr zs)" "mb \<in> set zs"
      by (rule collect_outcomes_set [OF mbs mb])
    then show ?thesis by (rule find_missing_ok [OF assms(1)])
  qed
  let ?I = "\<lambda>st. sound d (fst st) \<and> extends dm (fst st)"
  have step: "?I st'" if mb: "mb \<in> set mbs" and st: "?I st" and step: "add_back_relation_field ast mb st = Inr st'" for mb st st'
  proof -
    obtain y es y' es' where *: "st = (y, es)" "st' = (y', es')" by (cases st, cases st')
    then have y: "sound d y" "extends dm y" using st by simp_all
    have "sound d y' \<and> extends y y'"
      using add_back_relation_field_sound [OF y ok [OF mb]] step by (simp add: *)
    then show ?thesis using extends_trans [OF y(2)] by (simp add: *)
  qed
  have "?I (dm', [])"
    using run_steps_invariant [where I = ?I, OF _ _ run] step assms(1) extends_refl by (metis fst_conv)
  then show "sound d dm'" and "extends dm dm'" by simp_all
qed

section \<open>Missing references\<close>

text \<open>What one field of a model becomes: the same shape, with references that resolve.\<close>

definition referring_ok :: "displays \<Rightarrow> datamodel \<Rightarrow> dml_model \<Rightarrow> dml_field \<Rightarrow> dml_field \<times> dml_field list \<Rightarrow> bool" where
  "referring_ok d dm m f r \<longleftrightarrow> same_shape f (fst r) \<and> lifted_field d dm (fst r) \<and> list_all (plain_field d dm) (snd r) \<and>
     (\<forall>rel. fl_type (fst r) = Relation rel \<longrightarrow> (\<exists>other. dml_find_model dm (ri_to rel) = Some other \<and>
        list_all (known other) (ri_to_fields rel) \<and>
        list_all (\<lambda>n. known m n \<or> n \<in> fl_name ` set (snd r)) (ri_fields rel)))"

lemma referring_unchanged:
  assumes "sound d dm" and "m \<in> set (dm_models dm)" and "f \<in> set (mo_fields m)"
  shows "referring_ok d dm m f (f, [])"
proof -
  have "lifted_field d dm f" and "\<And>rel. fl_type f = Relation rel \<Longrightarrow> relation_resolved dm m (f, rel)"
    using assms by (auto simp: sound_def relations_resolved_def lifted_ok_def lifted_model_def list_all_iff)
  then show ?thesis by (auto simp: referring_ok_def relation_resolved_def split: option.splits)
qed

lemma first_criterion_known:
  assumes "lifted_model d dm m" and "dml_first_unique_criterion m = Some c"
  shows "list_all (known m) (map fl_name c)"
proof -
  from assms(2) obtain cs where cs: "unique_criterias False m = Some cs" "(case cs of [] \<Rightarrow> None | c # _ \<Rightarrow> Some c) = Some c"
    by (auto simp: dml_first_unique_criterion_def Option.bind_eq_Some_conv)
  then have "c \<in> set cs" by (cases cs) auto
  then show ?thesis using cs(1) criteria_scalar [OF assms(1)] known_field by (fastforce simp: list_all_iff)
qed

lemma set_to_fields_ok:
  assumes sound: "sound d dm" and m: "m \<in> set (dm_models dm)" and f: "f \<in> set (mo_fields m)"
    and crit: "loose_unique_criteria m = Inr criteria" and set: "set_to_fields dm criteria m f = Inr r"
  shows "referring_ok d dm m f r"
proof (cases "r = (f, [])")
  case True
  then show ?thesis using referring_unchanged [OF sound m f] by simp
next
  case False
  obtain rel where rel: "fl_type f = Relation rel"
    using False set by (cases "fl_type f") (auto simp: set_to_fields_def)
  obtain other where other: "dml_find_model dm (ri_to rel) = Some other"
    using set by (auto simp: set_to_fields_def rel bind_res_eq_Inr ok_or_def split: option.splits)
  let ?us = "underlying_fields_for_unique_criteria criteria (mo_name m)"
  obtain opp where opp: "related_field other (mo_name m) (ri_name rel) (fl_name f) = Some opp"
    using set by (auto simp: set_to_fields_def rel other bind_res_eq_Inr ok_or_def split: option.splits)
  obtain back_rel where back_rel: "fl_type opp = Relation back_rel"
    using set by (cases "fl_type opp") (auto simp: set_to_fields_def rel other opp)
  have here: "embed_here m f other opp" using False set by (auto simp: set_to_fields_def rel other opp back_rel Let_def split: if_splits)
  from set obtain rel1 where target: "(if ri_to_fields rel = [] \<and> ri_to_fields back_rel = []
        then map_res (\<lambda>c. rel\<lparr>ri_to_fields := map fl_name c\<rparr>)
               (ok_or (''Could not find the first unique criteria on model '' @ mo_name other) (dml_first_unique_criterion other))
        else Inr rel) = Inr rel1"
    and r: "r = (f\<lparr>fl_type := Relation (rel1\<lparr>ri_fields := map fl_name ?us\<rparr>)\<rparr>, ?us) \<or> r = (f\<lparr>fl_type := Relation rel1\<rparr>, [])"
    unfolding set_to_fields_def rel field_type.case other ok_or_Some bind_res_Inr opp back_rel Let_def if_P [OF here] bind_res_eq_Inr
    by (auto split: if_splits)
  from target have rel1: "ri_to rel1 = ri_to rel" "ri_fields rel1 = ri_fields rel"
      "ri_to_fields rel1 = ri_to_fields rel \<or> (\<exists>c. dml_first_unique_criterion other = Some c \<and> ri_to_fields rel1 = map fl_name c)"
    by (auto simp: map_res_eq_Inr ok_or_def split: if_splits option.splits)
  have lm: "lifted_model d dm m" and lo: "lifted_model d dm other" and lf: "lifted_field d dm f"
    using sound m f dml_find_modelD [OF other] by (auto simp: sound_def lifted_ok_def lifted_model_def list_all_iff)
  have "relation_resolved dm m (f, rel)" using sound m f rel by (auto simp: sound_def relations_resolved_def)
  then have old: "list_all (known m) (ri_fields rel)" "list_all (known other) (ri_to_fields rel)"
    by (simp_all add: relation_resolved_def other)
  have tos: "list_all (known other) (ri_to_fields rel1)" using rel1(3) old(2) first_criterion_known [OF lo] by auto
  have lifted: "lifted_field d dm (f\<lparr>fl_type := Relation x\<rparr>)" for x by (rule lifted_relation [OF lf rel]) simp_all
  have "list_all (plain_field d dm) ?us" using underlying_plain [OF lm crit] by (simp add: list_all_iff)
  then show ?thesis
    using r rel1(1,2) tos old(1) other lifted
    by (auto simp: referring_ok_def same_shape_def rel list_all_iff)
qed

lemma set_model_to_fields_ok:
  assumes sound: "sound d dm" and m: "m \<in> set (dm_models dm)" and set: "set_model_to_fields dm m = Inr m'"
  shows "model_extends m m'"
    and "\<And>f. f \<in> set (mo_fields m') \<Longrightarrow> lifted_field d dm f"
    and "\<And>f rel. f \<in> set (mo_fields m') \<Longrightarrow> fl_type f = Relation rel \<Longrightarrow>
      list_all (known m') (ri_fields rel) \<and>
      (\<exists>other. dml_find_model dm (ri_to rel) = Some other \<and> list_all (known other) (ri_to_fields rel))"
proof -
  obtain criteria rs where crit: "loose_unique_criteria m = Inr criteria"
    and rs: "collect_res (set_to_fields dm criteria m) (mo_fields m) = Inr rs"
    and m': "m' = m\<lparr>mo_fields := map fst rs @ concat (map snd rs)\<rparr>"
    using set by (auto simp: set_model_to_fields_def bind_res_eq_Inr map_res_eq_Inr)
  have pairs: "list_all2 (\<lambda>f r. set_to_fields dm criteria m f = Inr r) (mo_fields m) rs" by (rule collect_res_InrD [OF rs])
  have ok: "list_all2 (referring_ok d dm m) (mo_fields m) rs"
    by (rule list.rel_mono_strong [OF pairs]) (rule set_to_fields_ok [OF sound m _ crit])
  have each: "\<exists>f. referring_ok d dm m f r" if "r \<in> set rs" for r using list_all2_partner(2) [OF ok that] by blast
  have plain: "plain_field d dm u" if "u \<in> set (concat (map snd rs))" for u
    using that each by (fastforce simp: referring_ok_def list_all_iff)
  show me: "model_extends m m'"
    by (rule model_extendsI [of m' m "map fst rs" "concat (map snd rs)"])
      (use plain in \<open>auto simp: m' list_all_iff plain_field_def list_all2_map2
        intro!: list_all2_mono [OF ok] simp: referring_ok_def\<close>)
  show "lifted_field d dm f" if "f \<in> set (mo_fields m')" for f
    using that each plain by (fastforce simp: m' referring_ok_def plain_field_def)
  show "list_all (known m') (ri_fields rel) \<and>
      (\<exists>other. dml_find_model dm (ri_to rel) = Some other \<and> list_all (known other) (ri_to_fields rel))"
    if f: "f \<in> set (mo_fields m')" and rel: "fl_type f = Relation rel" for f rel
  proof -
    have "f \<notin> set (concat (map snd rs))" using plain [of f] rel by (auto simp: plain_field_def)
    then obtain r where r: "r \<in> set rs" "f = fst r" using f by (auto simp: m')
    then obtain g where "referring_ok d dm m g r" using each by blast
    then obtain other where other: "dml_find_model dm (ri_to rel) = Some other" "list_all (known other) (ri_to_fields rel)"
        "list_all (\<lambda>n. known m n \<or> n \<in> fl_name ` set (snd r)) (ri_fields rel)"
      using rel r(2) by (auto simp: referring_ok_def)
    have "known m' (fl_name u)" if "u \<in> set (snd r)" for u using that r(1) by (intro known_field) (auto simp: m')
    then have "list_all (known m') (ri_fields rel)"
      using other(3) model_extends_known [OF me] by (auto simp: list_all_iff)
    with other(1,2) show ?thesis by blast
  qed
qed

lemma set_relation_sound:
  assumes "sound d dm" and "set_relation_to_field_to_id_if_missing dm = Inr dm'"
  shows "sound d dm'" and "extends dm dm'"
proof -
  obtain ms where ms: "collect_res (set_model_to_fields dm) (dm_models dm) = Inr ms" and dm': "dm' = dm\<lparr>dm_models := ms\<rparr>"
    using assms(2) by (auto simp: set_relation_to_field_to_id_if_missing_def map_res_eq_Inr)
  have pairs: "list_all2 (\<lambda>m m'. set_model_to_fields dm m = Inr m') (dm_models dm) ms" by (rule collect_res_InrD [OF ms])
  show ext: "extends dm dm'"
    using list.rel_mono_strong [OF pairs, of model_extends] set_model_to_fields_ok(1) [OF assms(1)]
    by (simp add: extends_def dm')
  show "sound d dm'"
  proof (rule sound_extends [OF assms(1) ext])
    fix m' f assume "m' \<in> set (dm_models dm')" and f: "f \<in> set (mo_fields m')"
    then obtain m where m: "m \<in> set (dm_models dm)" "set_model_to_fields dm m = Inr m'"
      using list_all2_partner(2) [OF pairs] by (auto simp: dm')
    then show "lifted_field d dm f" using set_model_to_fields_ok(2) [OF assms(1)] f by blast
    fix rel assume "fl_type f = Relation rel"
    then have "list_all (known m') (ri_fields rel) \<and>
        (\<exists>other. dml_find_model dm (ri_to rel) = Some other \<and> list_all (known other) (ri_to_fields rel))"
      using set_model_to_fields_ok(3) [OF assms(1) m f] by blast
    then obtain other where o: "list_all (known m') (ri_fields rel)" "dml_find_model dm (ri_to rel) = Some other"
      "list_all (known other) (ri_to_fields rel)" by blast
    then obtain other' where "dml_find_model dm' (ri_to rel) = Some other'" "model_extends other other'"
      using extends_find_model [OF ext] by blast
    then show "relation_resolved dm' m' (f, rel)"
      using o model_extends_known by (auto simp: relation_resolved_def list_all_iff)
  qed
qed

section \<open>The standardiser and the pipeline\<close>

text \<open>
  The contract of a pass over the datamodel: a sound datamodel stays sound and is only added to. What
  the clients of a pass need follows from it, and passes compose.
\<close>

locale datamodel_pass =
  fixes pass :: "datamodel \<Rightarrow> datamodel outcome"
  assumes pass_sound: "sound d dm \<Longrightarrow> pass dm = Inr (Inr dm') \<Longrightarrow> sound d dm' \<and> extends dm dm'"
begin

lemma pass_ids:
  assumes "sound d dm" and "pass dm = Inr (Inr dm')" and "\<forall>m \<in> set (dm_models dm). ids_exclusive m"
  shows "\<forall>m \<in> set (dm_models dm'). ids_exclusive m"
proof
  fix m' assume "m' \<in> set (dm_models dm')"
  then obtain m where "m \<in> set (dm_models dm)" "model_extends m m'"
    using pass_sound [OF assms(1,2)] list_all2_partner(2) [of model_extends "dm_models dm" "dm_models dm'"]
    by (auto simp: extends_def)
  then show "ids_exclusive m'" using assms(3) model_extends_ids by blast
qed

end

lemma datamodel_pass_seq:
  assumes "datamodel_pass p" and "datamodel_pass q"
  shows "datamodel_pass (\<lambda>dm. bind_res (p dm) (\<lambda>r. case r of Inl errors \<Rightarrow> Inr (Inl errors) | Inr dm1 \<Rightarrow> q dm1))"
proof
  fix d dm dm'
  assume "sound d dm" and "bind_res (p dm) (\<lambda>r. case r of Inl errors \<Rightarrow> Inr (Inl errors) | Inr dm1 \<Rightarrow> q dm1) = Inr (Inr dm')"
  then obtain dm1 where "p dm = Inr (Inr dm1)" "q dm1 = Inr (Inr dm')" unfolding bind_outcome_ok by blast
  then show "sound d dm' \<and> extends dm dm'"
    using datamodel_pass.pass_sound [OF assms(1) \<open>sound d dm\<close>] datamodel_pass.pass_sound [OF assms(2)] extends_trans by blast
qed

interpretation naming: datamodel_pass "\<lambda>dm. map_res Inr (name_unnamed_relations dm)"
  by unfold_locales (use name_unnamed_relations_sound in \<open>auto simp: map_res_eq_Inr\<close>)

interpretation back_relations: datamodel_pass "add_missing_back_relations ast" for ast
  by unfold_locales (use add_missing_back_relations_sound in blast)

interpretation references: datamodel_pass "\<lambda>dm. map_res Inr (set_relation_to_field_to_id_if_missing dm)"
  by unfold_locales (use set_relation_sound in \<open>auto simp: map_res_eq_Inr\<close>)

lemma standardise_passes:
  "standardise ast dm =
     bind_res (map_res Inr (name_unnamed_relations dm)) (\<lambda>r. case r of Inl errors \<Rightarrow> Inr (Inl errors) | Inr dm1 \<Rightarrow>
     bind_res (add_missing_back_relations ast dm1) (\<lambda>r. case r of Inl errors \<Rightarrow> Inr (Inl errors) | Inr dm2 \<Rightarrow>
     map_res Inr (set_relation_to_field_to_id_if_missing dm2)))"
  by (cases "name_unnamed_relations dm") (simp_all add: standardise_def)

interpretation standardiser: datamodel_pass "standardise ast" for ast
  unfolding standardise_passes [abs_def]
  by (intro datamodel_pass_seq naming.datamodel_pass_axioms back_relations.datamodel_pass_axioms references.datamodel_pass_axioms)

lemma pipeline_accepts:
  assumes "validation_pipeline src ast (Inr dm) = Inr (Inr dm')"
  shows "precheck ast = []" and "validate src ast dm = Inr []" and "standardise ast dm = Inr (Inr dm')"
    and "post_standardisation_validate ast dm' = Inr []"
proof -
  obtain es where es: "validate src ast dm = Inr es" using assms by (auto simp: validation_pipeline_def bind_res_eq_Inr)
  then have "precheck ast = []" "es = []" using assms by (auto simp: validation_pipeline_def split: if_splits)
  then show "precheck ast = []" and "validate src ast dm = Inr []" using es by simp_all
  then have "bind_res (standardise ast dm) (\<lambda>r. case r of Inl errors \<Rightarrow> Inr (Inl errors)
      | Inr schema' \<Rightarrow> map_res (\<lambda>post_errors. if post_errors \<noteq> [] then Inl post_errors else Inr schema')
          (post_standardisation_validate ast schema')) = Inr (Inr dm')"
    using assms by (simp add: validation_pipeline_def)
  then show "standardise ast dm = Inr (Inr dm')" and "post_standardisation_validate ast dm' = Inr []"
    unfolding bind_outcome_ok by (auto simp: map_res_eq_Inr split: if_splits)
qed

lemma accepted_sound:
  assumes "lifted_ok d dm" and "validation_pipeline src ast (Inr dm) = Inr (Inr dm')"
  shows "sound d dm'" and "extends dm dm'" and "\<forall>m \<in> set (dm_models dm'). ids_exclusive m"
proof -
  note accepts = pipeline_accepts [OF assms(2)]
  have sound: "sound d dm" using assms(1) validate_accepts(1) [OF accepts(2)] by (simp add: sound_def)
  show "sound d dm'" and "extends dm dm'" using standardiser.pass_sound [OF sound accepts(3)] by simp_all
  show "\<forall>m \<in> set (dm_models dm'). ids_exclusive m"
    by (rule standardiser.pass_ids [OF sound accepts(3) validate_accepts(2) [OF accepts(2)]])
qed

lemma accepted_identified:
  assumes "lifted_ok d dm" and "validation_pipeline src ast (Inr dm) = Inr (Inr dm')"
    and "\<forall>m \<in> set (dm_models dm'). relation_names_apart m"
  shows "join_models_identified dm'"
proof -
  have "distinct (map mo_name (dm_models dm'))" using accepted_sound(1) [OF assms(1,2)] by (simp add: sound_def lifted_ok_def)
  then show ?thesis
    using accepted_join_models [OF pipeline_accepts(4) [OF assms(2)]] accepted_sound(3) [OF assms(1,2)] assms(3) by blast
qed

lemma accepted_schema_total:
  assumes "lifted_ok d dm" and "validation_pipeline src ast (Inr dm) = Inr (Inr dm')"
    and "\<forall>m \<in> set (dm_models dm'). relation_names_apart m"
  shows "\<exists>s. calculate_schema d dm' info = Inr s"
proof -
  note sound = accepted_sound [OF assms(1,2)] and post = pipeline_accepts(4) [OF assms(2)]
  have "join_models_identified dm'" by (rule accepted_identified [OF assms])
  moreover obtain rs where "calculate_relations dm' = Inr rs" using accepted_relations_calculated [OF post] by blast
  ultimately show ?thesis using calculate_schema_total [OF sound_calculable [OF sound(1)]] by blast
qed

end
