(* ===== verification/Datamodel_Properties.thy ===== *)
theory Datamodel_Properties
  imports Standardiser_Laws Sql_Properties
begin

text \<open>
  The properties of the path from a datamodel to a migration: what the validator and the standardiser
  accept has a SQL schema, the schema is well formed, and two datamodels give a migration.
\<close>

section \<open>A small blog\<close>

definition ex_dml_field :: "string \<Rightarrow> field_type \<Rightarrow> dml_field" where
  "ex_dml_field name tpe = field_new name tpe"

definition ex_int :: field_type where
  "ex_int = Base SInt None"


definition ex_dml_model :: "string \<Rightarrow> dml_field list \<Rightarrow> dml_model" where
  "ex_dml_model name fs =
     \<lparr>mo_name = name, mo_fields = fs, mo_documentation = None, mo_database_name = None, mo_is_embedded = False,
      mo_indices = [], mo_id_fields = [], mo_is_generated = False, mo_is_commented_out = False\<rparr>"




text \<open>The parsed schema of a datamodel: the names of its models and fields.\<close>

definition ex_ast_field :: "dml_field \<Rightarrow> ast_field" where
  "ex_ast_field f =
     \<lparr>fld_type = new_ident ''Int'', fld_ident = new_ident (fl_name f), fld_arity = ArityRequired, fld_default_value = None,
      fld_directives = [], fld_documentation = None, fld_span = span_empty, fld_is_commented_out = False\<rparr>"

definition ex_ast_model :: "dml_model \<Rightarrow> ast_model" where
  "ex_ast_model m =
     \<lparr>mdl_ident = new_ident (mo_name m), mdl_fields = map ex_ast_field (mo_fields m), mdl_directives = [],
      mdl_documentation = None, mdl_span = span_empty, mdl_commented_out = False\<rparr>"







section \<open>From an accepted datamodel to a SQL schema\<close>









section \<open>Unique criteria\<close>

text \<open>
  C22. The schema calculator and the datamodel library choose the same unique criterion for a model
  that passes the check of ids, although each computes it in its own way; where the library finds
  none, the calculator returns its error.
\<close>

theorem first_unique_criterion_agrees:
  assumes "validate_model_has_id ast_model m = []" and "unique_criterias False m = Some cs"
  shows "first_unique_criterion m =
    (case dml_first_unique_criterion m of Some c \<Rightarrow> Inr c | None \<Rightarrow> Inl (NoUniqueCriterion (mo_name m)))"
proof -
  have "length (singular_id_fields m) \<le> 1" and "singular_id_fields m = [] \<or> mo_id_fields m = []"
    using assms(1) by (auto simp: validate_model_has_id_def Let_def split: if_splits)
  from first_unique_criterion_eq [OF this assms(2)] show ?thesis
    by (simp add: dml_first_unique_criterion_def assms(2) split: list.split)
qed

definition ex_key_field :: dml_field where
  "ex_key_field = (ex_dml_field ''email'' (Base SString None))\<lparr>fl_is_unique := True\<rparr>"

theorem first_unique_criterion_agrees_witness:
  "first_unique_criterion (ex_dml_model ''User'' [ex_dml_field ''name'' ex_int, ex_key_field]) = Inr [ex_key_field]"
proof -
  let ?m = "ex_dml_model ''User'' [ex_dml_field ''name'' ex_int, ex_key_field]"
  have "validate_model_has_id (ex_ast_model ?m) ?m = []" by code_simp
  moreover have "unique_criterias False ?m = Some [[ex_key_field]]" "dml_first_unique_criterion ?m = Some [ex_key_field]"
    by code_simp+
  ultimately show ?thesis using first_unique_criterion_agrees [of "ex_ast_model ?m" ?m] by simp
qed

section \<open>Accepted inputs that panic\<close>






end
