(* ===== verification/Spec2Isabelle.thy ===== *)
theory Spec2Isabelle
  imports Command_Properties Datamodel_Properties
begin

text \<open>
  \<^bold>\<open>Verification of the Prisma engines: the migration engine.\<close>

  The program is the Prisma engines repository. This development covers its migration engine from the
  datamodel down to the SQL statements and the migration table. A client sends a datamodel; the
  engine infers datamodel steps against the datamodel of the last migration
  (\<open>migration-engine/core/src/migration\<close>), the SQL connector infers a database migration between two
  SQL schemas, checks it for data loss, renders it and runs it statement by statement, and the
  migration table records how far it got (\<open>migration-engine/connectors\<close>). The commands of
  \<open>migration-engine/core/src/commands\<close> tie these parts together. Before that the datamodel passes the
  validation pipeline of \<open>libs/datamodel\<close>, and the SQL schema the engine migrates to is calculated
  from it.

  \<^bold>\<open>Results and effects.\<close> \<open>Engine_Prelude\<close> has the result type with its combinators (an error is
  \<open>Inl\<close>; panics, \<open>unwrap\<close> and \<open>todo!\<close> are errors too) and the combinators for created, deleted and
  paired entries of two lists. \<open>Effects\<close> has operations that pass a world, with frames
  (\<open>keeps\<close>: an operation leaves a view of the world as it is). The world is the record \<open>world\<close> of
  \<open>Migration_Persistence\<close>: the rows of the migration table, the next revision, the database itself
  and a schedule that says which of the coming statements fail. A failing statement has no effect.
  Loops that may run forever are \<open>partial_function (option)\<close>; that they return is a theorem.

  \<^bold>\<open>Datamodel steps.\<close>
  \<^item> \<open>Schema_Ast\<close>: the AST of \<open>libs/datamodel/core/src/ast\<close>, its lookups and the rendering of expressions.
  \<^item> \<open>Migration_Steps\<close>: the steps of \<open>migration-connector/src/steps.rs\<close> and their conversions.
  \<^item> \<open>Datamodel_Calculator\<close>: \<open>datamodel_calculator.rs\<close>, which applies steps to a schema; one function per handler.
  \<^item> \<open>Datamodel_Differ\<close>: \<open>datamodel_differ.rs\<close> and its sub-modules, which push the steps between two schemas into a vector.
  \<^item> \<open>List_Sync\<close>, \<open>Differ_Spec\<close>, \<open>Step_Semantics\<close>, \<open>Entity_Sync\<close>, \<open>Schema_Sync\<close>, \<open>Diff_Roundtrip\<close>,
    \<open>Diff_Fixpoint\<close>, \<open>Calculator_Laws\<close>: the pure specification of the steps and the proofs. The locale
    \<open>list_sync\<close> is the contract of one level of the differ (create, delete and update entries of a keyed
    list); it is interpreted for arguments, directives, fields, enum values and top-level entries.
  \<^item> \<open>Migration_Properties\<close>: the steps the differ infers, applied by the calculator, give the next schema;
    no step is inferred exactly for equal contents; names stay unique; no renames; generators untouched.

  \<^bold>\<open>Datamodels and their SQL schemas.\<close>
  \<^item> \<open>Dml\<close>: the datamodel of \<open>libs/datamodel/core/src/dml\<close>: models, fields, relation information, enums, defaults,
    lookups and unique criteria.
  \<^item> \<open>Datamodel_Validator\<close>: \<open>validate.rs\<close>, every check before and after standardisation with its messages.
  \<^item> \<open>Datamodel_Standardiser\<close>: \<open>standardise.rs\<close> (names of relations, missing back relations, missing references),
    \<open>precheck.rs\<close> and \<open>validation_pipeline.rs\<close>. The datamodel that lifting makes of the AST is an argument of the pipeline.
  \<^item> \<open>Relation_Calculation\<close>: \<open>calculate_relations\<close> of \<open>libs/prisma-models/src/datamodel_converter.rs\<close>.
  \<^item> \<open>Sql_Schema_Calculator\<close>: \<open>sql_schema_calculator.rs\<close> and \<open>datamodel_helpers.rs\<close>, and the inference of a migration
    from datamodels (\<open>sql_database_migration_inferrer.rs\<close>).
  \<^item> \<open>Schema_Calculator_Laws\<close>: the schema of a well-formed datamodel is well formed, and the calculator does not panic on
    a resolved one. \<open>Validation_Laws\<close>: what acceptance by the two validations says about a datamodel. \<open>Standardiser_Laws\<close>:
    the locale \<open>datamodel_pass\<close> is the contract of a pass of the standardiser, which keeps the invariant \<open>sound\<close> and only
    adds to the datamodel (\<open>extends\<close>); it is interpreted for the three passes and for their composition.
  \<^item> \<open>Datamodel_Properties\<close>: an accepted datamodel has a SQL schema, two accepted datamodels have a migration between
    their schemas, the two computations of a unique criterion agree, and two inputs that are accepted and then panic.

  \<^bold>\<open>SQL schemas and migrations.\<close>
  \<^item> \<open>Sql_Schema\<close>: the schema of \<open>libs/sql-schema-describer/src/lib.rs\<close>, values of \<open>libs/prisma-value\<close>, the steps of \<open>sql_migration.rs\<close>.
  \<^item> \<open>Sql_Schema_Differ\<close>: \<open>sql_schema_differ.rs\<close> with \<open>column.rs\<close>, \<open>enums.rs\<close>, \<open>index.rs\<close>, \<open>table.rs\<close>. The regular
    expressions of ignored tables are predicates on names.
  \<^item> \<open>Sql_Renderer\<close>, \<open>Sql_Steps_Rendering\<close>: \<open>sql_renderer/*.rs\<close>, \<open>expanded_alter_column.rs\<close> and \<open>render_raw_sql\<close> of
    \<open>sql_database_step_applier.rs\<close>: the exact texts for MySQL, Postgres and SQLite. How decimals, dates
    and UUIDs print is the parameter \<open>displays\<close>.
  \<^item> \<open>Sql_Migration_Inferrer\<close>: \<open>sql_database_migration_inferrer.rs\<close> and \<open>sqlite.rs\<close>: the fallback for changed id
    types, the redefinition of tables on SQLite, the rollback.
  \<^item> \<open>Sql_Differ_Laws\<close>, \<open>Sql_Inferrer_Laws\<close>, \<open>Sql_Properties\<close>: table changes reach the next table, a schema has no
    difference to itself, tables are created and dropped exactly when they should, foreign keys are dropped
    before and added after their tables, inference does not fail, SQLite gets only steps it supports,
    string defaults are read back.

  \<^bold>\<open>Running migrations.\<close>
  \<^item> \<open>Migration_Persistence\<close>: \<open>migration_persistence.rs\<close> and \<open>sql_migration_persistence.rs\<close>. serde_json is the record \<open>codec\<close>
    with the hypothesis \<open>codec_ok\<close> (what it writes it reads back); \<open>Step_Encoding\<close> provides an instance.
  \<^item> \<open>Persistence_Laws\<close>, \<open>Store_Invariant\<close>: the locale \<open>migration_store\<close> is the contract of the migration table for
    its clients, interpreted as \<open>sql_store\<close>; the table as a state machine whose reachable states are readable.
  \<^item> \<open>Destructive_Changes\<close>, \<open>Destructive_Laws\<close>: \<open>sql_destructive_changes_checker.rs\<close>; the relation \<open>step_warns\<close> says which
    messages a step calls for, and a check reports exactly these.
  \<^item> \<open>Migration_Applier\<close>, \<open>Applier_Laws\<close>: \<open>migration_applier.rs\<close> and \<open>apply_next_step\<close>. The locale \<open>step_runner\<close> is the
    contract of a connector that runs steps by index, interpreted as \<open>sql_steps\<close>. The effect of a statement on
    the database is the parameter \<open>exec\<close>.
  \<^item> \<open>Migration_Commands\<close>, \<open>Commands_Laws\<close>, \<open>Apply_Command\<close>: the commands over the record \<open>engine\<close>, whose fields are the
    operations of the connector and of the datamodel library (parser, lifting, rendering).
  \<^item> \<open>Run_Properties\<close>, \<open>Command_Properties\<close>: what is stored and what has run after a migration with and without failing
    statements, rollbacks, warnings, rejected inputs, and that commands always answer.

  \<^bold>\<open>Hypotheses.\<close> Theorems about a quiet database assume \<open>calm\<close> (no coming statement fails) and \<open>store_ok\<close> (rows
  readable, revisions increasing), which every reachable table satisfies. Theorems without \<open>calm\<close> hold for every
  schedule of failures. \<open>names_distinct\<close> and \<open>references_closed\<close> say that names in a schema are distinct and foreign keys
  point to tables of the schema. \<open>lifted_ok\<close> says what lifting establishes for a datamodel (distinct models, enum defaults
  that exist, ids and indices over scalar fields; the second is not checked by the source, which is one of the
  findings), and \<open>relation_names_apart\<close> that the relations of one model to another have distinct names once
  standardisation has named them. Timestamps are in whole milliseconds, as \<open>Migration::new\<close> makes them; one reading of
  the clock serves a whole command.

  \<^bold>\<open>Bounds.\<close> No fuel is used. Counters and revisions are naturals; counts of rows pass through 64-bit
  arithmetic where the source casts them, timestamps through the 32-bit cast of nanoseconds.

  \<^bold>\<open>Not modelled.\<close> The parser is generated code and a parameter of the commands. Lifting runs boxed directive validators
  over the AST; its result, and the answers of the describers of live databases, are arguments. Connection handling,
  JSON-RPC, command lines, logging and error texts of drivers are input and output. The query engine and the
  introspection engine are separate programs of the repository that share only the data types.
\<close>

end
